(* ===== verification/Prelude.thy ===== *)
theory Prelude
  imports Main
begin

text \<open>
  The prelude of the development: Python exceptions as values, the state-and-exception monad in
  which the effectful functions of the charm are written, its control operators (sequencing,
  \<open>try\<close>/\<open>except\<close>, \<open>finally\<close>, \<open>for\<close>, the charm's "run every step and collect the errors" loop),
  and the reasoning principles the components share: simplification rules for single runs,
  inversion rules for successful runs, and the locale \<open>run_relation\<close> that lifts a reflexive and
  transitive relation between worlds from the primitive operations to whole programs.
\<close>

named_theorems io_simps \<open>unfolding of the control operators on a given world\<close>
named_theorems frame \<open>which files and which worlds an operation leaves alone\<close>

section \<open>Exceptions\<close>

text \<open>
  The exception classes the sources raise or name in an \<open>except\<close> clause. An exception value is
  its class and its text, \<open>str(exc)\<close>.
\<close>

datatype exn_kind =
    ValueError | TypeError | KeyError | IndexError | AttributeError | RuntimeError | OSError
  | FileNotFoundError | PermissionError | CalledProcessError | RequestException | MetadataValidationError | MetadataUploadError
  | ArgumentError | SystemExit
  | ConnectionError | TimeoutError | JSONDecodeError | JSONRPCError | InWarmupError | RetryError

datatype exn = Exn (exn_kind: exn_kind) (exn_str: string)

text \<open>What \<open>except OSError\<close> catches of them; \<open>requests.RequestException\<close> is a subclass of \<open>OSError\<close>.\<close>

definition is_os_error :: "exn \<Rightarrow> bool" where
  "is_os_error e \<longleftrightarrow> exn_kind e \<in> {OSError, FileNotFoundError, PermissionError, RequestException, ConnectionError, TimeoutError}"

text \<open>\<open>json.JSONDecodeError\<close> is a subclass of \<open>ValueError\<close>.\<close>

definition is_value_error :: "exn \<Rightarrow> bool" where
  "is_value_error e \<longleftrightarrow> exn_kind e \<in> {ValueError, JSONDecodeError}"

section \<open>Computations that read and change a world and may raise\<close>

type_synonym ('w, 'a) io = "'w \<Rightarrow> 'w \<times> (exn + 'a)"

definition ret :: "'a \<Rightarrow> ('w, 'a) io" where
  "ret x = (\<lambda>w. (w, Inr x))"

definition raise_exn :: "exn \<Rightarrow> ('w, 'a) io" where
  "raise_exn e = (\<lambda>w. (w, Inl e))"

definition bindIO :: "('w, 'a) io \<Rightarrow> ('a \<Rightarrow> ('w, 'b) io) \<Rightarrow> ('w, 'b) io" where
  "bindIO m k = (\<lambda>w. case m w of (w', Inl e) \<Rightarrow> (w', Inl e) | (w', Inr x) \<Rightarrow> k x w')"

definition seqIO :: "('w, 'a) io \<Rightarrow> ('w, 'b) io \<Rightarrow> ('w, 'b) io" where
  "seqIO m k = bindIO m (\<lambda>_. k)"

text \<open>\<open>try: m except BaseException as e: h e\<close>; a handler that re-raises ends in \<open>raise_exn e\<close>.\<close>

definition try_except :: "('w, 'a) io \<Rightarrow> (exn \<Rightarrow> ('w, 'a) io) \<Rightarrow> ('w, 'a) io" where
  "try_except m h = (\<lambda>w. case m w of (w', Inl e) \<Rightarrow> h e w' | (w', Inr x) \<Rightarrow> (w', Inr x))"

text \<open>\<open>with\<close> blocks: the exit action always runs; when it raises, its exception replaces the body's.\<close>

definition try_finally :: "('w, 'a) io \<Rightarrow> ('w, unit) io \<Rightarrow> ('w, 'a) io" where
  "try_finally m f = (\<lambda>w. case m w of (w', r) \<Rightarrow>
     (case f w' of (w'', Inl e) \<Rightarrow> (w'', Inl e) | (w'', Inr _) \<Rightarrow> (w'', r)))"

definition whenIO :: "bool \<Rightarrow> ('w, unit) io \<Rightarrow> ('w, unit) io" where
  "whenIO b m = (if b then m else ret ())"

definition getIO :: "('w \<Rightarrow> 'a) \<Rightarrow> ('w, 'a) io" where
  "getIO f = (\<lambda>w. (w, Inr (f w)))"

definition putIO :: "('w \<Rightarrow> 'w) \<Rightarrow> ('w, unit) io" where
  "putIO f = (\<lambda>w. (f w, Inr ()))"

primrec for_each :: "'a list \<Rightarrow> ('a \<Rightarrow> ('w, unit) io) \<Rightarrow> ('w, unit) io" where
  "for_each [] f = ret ()"
| "for_each (x # xs) f = seqIO (f x) (for_each xs f)"

text \<open>
  The clean-up loops of \<open>bitcoin._rollback\<close> and \<open>utils._rollback_config_transaction\<close>: every named
  operation is attempted, an exception becomes one more \<open>f"{name}: {exc}"\<close> entry.
\<close>

primrec collect_errors :: "(string \<times> ('w, unit) io) list \<Rightarrow> ('w, string list) io" where
  "collect_errors [] = ret []"
| "collect_errors (p # ps) = (\<lambda>w.
     (case snd p w of
        (w', Inl e) \<Rightarrow> bindIO (collect_errors ps) (\<lambda>es. ret ((fst p @ '': '' @ exn_str e) # es)) w'
      | (w', Inr _) \<Rightarrow> collect_errors ps w'))"

subsection \<open>Single runs\<close>

lemma ret_run [simp, io_simps, code]: "ret x w = (w, Inr x)"
  by (simp add: ret_def)

lemma raise_run [simp, io_simps, code]: "raise_exn e w = (w, Inl e)"
  by (simp add: raise_exn_def)

lemma getIO_run [simp, io_simps, code]: "getIO f w = (w, Inr (f w))"
  by (simp add: getIO_def)

lemma putIO_run [simp, io_simps, code]: "putIO f w = (f w, Inr ())"
  by (simp add: putIO_def)

lemma bindIO_run [io_simps, code]:
  "bindIO m k w = (case m w of (w', Inl e) \<Rightarrow> (w', Inl e) | (w', Inr x) \<Rightarrow> k x w')"
  by (simp add: bindIO_def)

lemma seqIO_run [io_simps, code]:
  "seqIO m k w = (case m w of (w', Inl e) \<Rightarrow> (w', Inl e) | (w', Inr x) \<Rightarrow> k w')"
  by (simp add: seqIO_def bindIO_def)

lemma try_except_run [io_simps, code]:
  "try_except m h w = (case m w of (w', Inl e) \<Rightarrow> h e w' | (w', Inr x) \<Rightarrow> (w', Inr x))"
  by (simp add: try_except_def)

text \<open>
  Code equations with the world as an explicit argument: evaluation unfolds an operation only when it
  is run.
\<close>

lemma try_finally_run [code]:
  "try_finally m f w = (case m w of (w', r) \<Rightarrow>
     (case f w' of (w'', Inl e) \<Rightarrow> (w'', Inl e) | (w'', Inr _) \<Rightarrow> (w'', r)))"
  by (simp add: try_finally_def)

lemma whenIO_run [code]: "whenIO b m w = (if b then m w else (w, Inr ()))"
  by (simp add: whenIO_def)

lemma for_each_run [code]:
  "for_each [] f w = (w, Inr ())"
  "for_each (x # xs) f w = (case f x w of (w', Inl e) \<Rightarrow> (w', Inl e) | (w', Inr _) \<Rightarrow> for_each xs f w')"
  by (simp_all add: seqIO_run)

lemma collect_errors_run [code]:
  "collect_errors [] w = (w, Inr [])"
  "collect_errors (p # ps) w = (case snd p w of
     (w', Inl e) \<Rightarrow> bindIO (collect_errors ps) (\<lambda>es. ret ((fst p @ '': '' @ exn_str e) # es)) w'
   | (w', Inr _) \<Rightarrow> collect_errors ps w')"
  by (simp_all only: collect_errors.simps ret_run)

lemma whenIO_simps [simp, io_simps]: "whenIO True m = m" "whenIO False m = ret ()"
  by (simp_all add: whenIO_def)

lemma bindIO_ret [simp]: "bindIO (ret x) k = k x"
  by (rule ext) (simp add: bindIO_run)

lemma bindIO_assoc: "bindIO (bindIO m f) g = bindIO m (\<lambda>x. bindIO (f x) g)"
  by (rule ext) (simp add: bindIO_run split: prod.splits sum.splits)

lemma seqIO_ret [simp]: "seqIO (ret x) m = m"
  by (simp add: seqIO_def)

subsection \<open>Inversion of a finished run\<close>

lemma bindIO_Inr_iff:
  "bindIO m k w = (w', Inr y) \<longleftrightarrow> (\<exists>x v. m w = (v, Inr x) \<and> k x v = (w', Inr y))"
  by (auto simp: bindIO_run split: prod.splits sum.splits)

lemma seqIO_Inr_iff:
  "seqIO m k w = (w', Inr y) \<longleftrightarrow> (\<exists>x v. m w = (v, Inr x) \<and> k v = (w', Inr y))"
  by (simp add: seqIO_def bindIO_Inr_iff)

lemma bindIO_Inl_iff:
  "bindIO m k w = (w', Inl e) \<longleftrightarrow>
   m w = (w', Inl e) \<or> (\<exists>x v. m w = (v, Inr x) \<and> k x v = (w', Inl e))"
  by (auto simp: bindIO_run split: prod.splits sum.splits)

lemma seqIO_Inl_iff:
  "seqIO m k w = (w', Inl e) \<longleftrightarrow>
   m w = (w', Inl e) \<or> (\<exists>x v. m w = (v, Inr x) \<and> k v = (w', Inl e))"
  by (simp add: seqIO_def bindIO_Inl_iff)

lemma try_except_Inr_iff:
  "try_except m h w = (w', Inr y) \<longleftrightarrow>
   m w = (w', Inr y) \<or> (\<exists>e v. m w = (v, Inl e) \<and> h e v = (w', Inr y))"
  by (auto simp: try_except_run split: prod.splits sum.splits)

lemma try_except_Inl_iff:
  "try_except m h w = (w', Inl e) \<longleftrightarrow> (\<exists>e' v. m w = (v, Inl e') \<and> h e' v = (w', Inl e))"
  by (auto simp: try_except_run split: prod.splits sum.splits)

lemma whenIO_Inr_iff:
  "whenIO b m w = (w', Inr y) \<longleftrightarrow> (if b then m w = (w', Inr y) else w' = w)"
  by (auto simp: whenIO_def)

lemma whenIO_Inl_iff: "whenIO b m w = (w', Inl e) \<longleftrightarrow> b \<and> m w = (w', Inl e)"
  by (auto simp: whenIO_def)

lemma try_finally_Inr_iff:
  "try_finally m f w = (w', Inr y) \<longleftrightarrow> (\<exists>v. m w = (v, Inr y) \<and> f v = (w', Inr ()))"
  by (auto simp: try_finally_def split: prod.splits sum.splits)

lemma try_finally_Inl_iff:
  "try_finally m f w = (w', Inl e) \<longleftrightarrow>
   (\<exists>r v. m w = (v, r) \<and> (f v = (w', Inl e) \<or> r = Inl e \<and> f v = (w', Inr ())))"
  by (auto simp: try_finally_def split: prod.splits sum.splits)

lemma case_sum_Inr_iff:
  "(case x of Inl e \<Rightarrow> raise_exn e | Inr y \<Rightarrow> k y) w = (w', Inr z) \<longleftrightarrow> (\<exists>y. x = Inr y \<and> k y w = (w', Inr z))"
  by (cases x) simp_all

lemma if_raise_Inr_iff:
  "(if b then raise_exn e else m) w = (w', Inr z) \<longleftrightarrow> \<not> b \<and> m w = (w', Inr z)"
  "(if b then m else raise_exn e) w = (w', Inr z) \<longleftrightarrow> b \<and> m w = (w', Inr z)"
  by simp_all

lemmas guard_inv = case_sum_Inr_iff if_raise_Inr_iff

lemmas io_inv = bindIO_Inr_iff seqIO_Inr_iff bindIO_Inl_iff seqIO_Inl_iff
  try_except_Inr_iff try_except_Inl_iff whenIO_Inr_iff whenIO_Inl_iff
  try_finally_Inr_iff try_finally_Inl_iff

subsection \<open>The error-collecting loop\<close>

text \<open>The loop itself never raises, whatever its operations do.\<close>

lemma collect_errors_total: "\<exists>es w'. collect_errors ps w = (w', Inr es)"
proof (induction ps arbitrary: w)
  case Nil
  show ?case by simp
next
  case (Cons p ps)
  obtain r v where "snd p w = (v, r)" by (cases "snd p w")
  moreover obtain es w' where "collect_errors ps v = (w', Inr es)" using Cons.IH by blast
  ultimately show ?case by (cases r) (simp_all add: bindIO_run)
qed

lemma collect_errors_not_Inl [simp]: "collect_errors ps w \<noteq> (w', Inl e)"
  using collect_errors_total [of ps w] by auto

text \<open>It reports nothing exactly when the operations, run in a row, all return.\<close>

lemma collect_errors_Nil_iff:
  "collect_errors ps w = (w', Inr []) \<longleftrightarrow> for_each ps snd w = (w', Inr ())"
proof (induction ps arbitrary: w)
  case Nil
  show ?case by simp
next
  case (Cons p ps)
  obtain r v where r: "snd p w = (v, r)" by (cases "snd p w")
  show ?case
  proof (cases r)
    case (Inl e)
    obtain es u where "collect_errors ps v = (u, Inr es)" using collect_errors_total [of ps v] by blast
    with r Inl show ?thesis by (simp add: bindIO_run seqIO_run)
  next
    case (Inr x)
    with r Cons.IH [of v] show ?thesis by (simp add: seqIO_run)
  qed
qed

lemma collect_errors_append:
  "collect_errors (ps @ qs) = bindIO (collect_errors ps) (\<lambda>es.
     bindIO (collect_errors qs) (\<lambda>fs. ret (es @ fs)))"
proof (induction ps)
  case Nil
  show ?case by (rule ext) (simp add: bindIO_run split: prod.splits sum.splits)
next
  case (Cons p ps)
  show ?case
    by (rule ext) (simp add: Cons.IH bindIO_run split: prod.splits sum.splits)
qed

lemma for_each_append: "for_each (xs @ ys) f = seqIO (for_each xs f) (for_each ys f)"
proof (induction xs)
  case Nil
  show ?case by (rule ext) (simp add: seqIO_run)
next
  case (Cons x xs)
  show ?case
    by (rule ext) (simp add: Cons.IH seqIO_run split: prod.splits sum.splits)
qed

lemma for_each_block:
  "for_each (xs @ ys @ zs) f w = (w', Inr ()) \<longleftrightarrow>
   for_each (map f xs @ for_each ys f # map f zs) (\<lambda>m. m) w = (w', Inr ())"
proof -
  have f: "for_each (map f us) (\<lambda>m. m) = for_each us f" for us
    by (induction us) simp_all
  show ?thesis by (simp add: for_each_append seqIO_Inr_iff f)
qed

lemma for_each_map: "for_each (map g xs) f = for_each xs (\<lambda>x. f (g x))"
  by (induction xs) simp_all

section \<open>Relations every run respects\<close>

definition runs_in :: "('w \<Rightarrow> 'w \<Rightarrow> bool) \<Rightarrow> ('w, 'a) io \<Rightarrow> bool" where
  "runs_in R m \<longleftrightarrow> (\<forall>w. R w (fst (m w)))"

lemma runs_inI [intro?]: "(\<And>w. R w (fst (m w))) \<Longrightarrow> runs_in R m"
  by (simp add: runs_in_def)

lemma runs_inD: "runs_in R m \<Longrightarrow> m w = (w', r) \<Longrightarrow> R w w'"
  unfolding runs_in_def by (metis fst_conv)

text \<open>
  A relation that is reflexive and transitive passes through every control operator: it holds
  between the start and the end of a program when it holds for each of its primitive steps,
  however the program ends.
\<close>

locale run_relation =
  fixes R :: "'w \<Rightarrow> 'w \<Rightarrow> bool"
  assumes R_refl: "R w w"
    and R_trans: "R u v \<Longrightarrow> R v w \<Longrightarrow> R u w"
begin

lemma resp_ret: "runs_in R (ret x)"
  by (simp add: runs_in_def R_refl)

lemma resp_raise: "runs_in R (raise_exn e)"
  by (simp add: runs_in_def R_refl)

lemma resp_get: "runs_in R (getIO f)"
  by (simp add: runs_in_def R_refl)

lemma resp_put: "(\<And>w. R w (f w)) \<Longrightarrow> runs_in R (putIO f)"
  by (simp add: runs_in_def)

lemma resp_bind: "runs_in R m \<Longrightarrow> (\<And>x. runs_in R (k x)) \<Longrightarrow> runs_in R (bindIO m k)"
  unfolding runs_in_def
proof
  fix w
  assume m: "\<forall>w. R w (fst (m w))" and k: "\<And>x. \<forall>w. R w (fst (k x w))"
  show "R w (fst (bindIO m k w))"
  proof (cases "m w")
    case (Pair v r)
    with m have v: "R w v" by (metis fst_conv)
    show ?thesis
    proof (cases r)
      case (Inl e)
      with Pair v show ?thesis by (simp add: bindIO_run)
    next
      case (Inr x)
      with Pair show ?thesis using R_trans [OF v] k by (simp add: bindIO_run)
    qed
  qed
qed

lemma resp_seq: "runs_in R m \<Longrightarrow> runs_in R k \<Longrightarrow> runs_in R (seqIO m k)"
  unfolding seqIO_def by (rule resp_bind)

lemma resp_try:
  assumes m: "runs_in R m" and h: "\<And>e. runs_in R (h e)"
  shows "runs_in R (try_except m h)"
proof
  fix w
  obtain r v where r: "m w = (v, r)" by (cases "m w")
  with m have v: "R w v" by (rule runs_inD)
  show "R w (fst (try_except m h w))"
  proof (cases r)
    case (Inl e)
    obtain s u where s: "h e v = (u, s)" by (cases "h e v")
    from runs_inD [OF h s] have "R v u" .
    with v have "R w u" by (rule R_trans)
    with r Inl s show ?thesis by (simp add: try_except_run)
  next
    case (Inr x)
    with r v show ?thesis by (simp add: try_except_run)
  qed
qed

lemma resp_finally:
  assumes m: "runs_in R m" and f: "runs_in R f"
  shows "runs_in R (try_finally m f)"
proof
  fix w
  obtain r v where r: "m w = (v, r)" by (cases "m w")
  obtain s u where s: "f v = (u, s)" by (cases "f v")
  have "R w u" using runs_inD [OF m r] runs_inD [OF f s] by (rule R_trans)
  with r s show "R w (fst (try_finally m f w))"
    by (cases s) (simp_all add: try_finally_def)
qed

lemma resp_when: "(b \<Longrightarrow> runs_in R m) \<Longrightarrow> runs_in R (whenIO b m)"
  by (cases b) (simp_all add: resp_ret)

lemma resp_if: "(b \<Longrightarrow> runs_in R m) \<Longrightarrow> (\<not> b \<Longrightarrow> runs_in R k) \<Longrightarrow> runs_in R (if b then m else k)"
  by simp

lemma resp_for_each: "(\<And>x. x \<in> set xs \<Longrightarrow> runs_in R (f x)) \<Longrightarrow> runs_in R (for_each xs f)"
  by (induction xs) (simp_all add: resp_ret resp_seq)

lemma resp_collect: "(\<And>p. p \<in> set ps \<Longrightarrow> runs_in R (snd p)) \<Longrightarrow> runs_in R (collect_errors ps)"
proof (induction ps)
  case Nil
  show ?case by (simp only: collect_errors.simps resp_ret)
next
  case (Cons p ps)
  then have ps: "runs_in R (collect_errors ps)" and p: "runs_in R (snd p)" by auto
  have "collect_errors (p # ps) = bindIO
      (try_except (bindIO (snd p) (\<lambda>_. ret [])) (\<lambda>e. ret [fst p @ '': '' @ exn_str e]))
      (\<lambda>es. bindIO (collect_errors ps) (\<lambda>fs. ret (es @ fs)))"
    by (rule ext) (simp add: bindIO_run try_except_run split: prod.splits sum.splits)
  moreover have "runs_in R (bindIO
      (try_except (bindIO (snd p) (\<lambda>_. ret [])) (\<lambda>e. ret [fst p @ '': '' @ exn_str e]))
      (\<lambda>es. bindIO (collect_errors ps) (\<lambda>fs. ret (es @ fs))))"
    by (intro resp_bind resp_try resp_ret p ps)
  ultimately show ?case by simp
qed

lemmas resp_rules = resp_ret resp_raise resp_get resp_put resp_bind resp_seq resp_try resp_finally
  resp_when resp_if resp_for_each resp_collect

end

section \<open>Rolling back\<close>

text \<open>
  The contract between a roll-back sequence and the undo step inside it. \<open>good s w\<close> says that the
  saved data \<open>s\<close> still describes how to get back from \<open>w\<close>; \<open>restored s w\<close> that one is there. The roll-back
  loops attempt steps before the undo step (stopping services) and after it (starting them); when
  no step reports an error, the state is back, provided the steps before keep the saved data good and
  the steps after do not disturb what was restored.
\<close>

locale restorable =
  fixes good :: "'s \<Rightarrow> 'w \<Rightarrow> bool"
    and undo :: "'s \<Rightarrow> ('w, unit) io"
    and restored :: "'s \<Rightarrow> 'w \<Rightarrow> bool"
  assumes undo_restores: "good s w \<Longrightarrow> undo s w = (w', Inr ()) \<Longrightarrow> restored s w'"
begin

lemma steps_keep:
  assumes "\<And>m u u' r. m \<in> set ms \<Longrightarrow> P u \<Longrightarrow> m u = (u', r) \<Longrightarrow> P u'"
    and "P w" and "for_each ms (\<lambda>m. m) w = (w', r)"
  shows "P w'"
  using assms
proof (induction ms arbitrary: w)
  case Nil
  then show ?case by simp
next
  case (Cons m ms)
  obtain v x where v: "m w = (v, x)" by (cases "m w")
  from Cons.prems(1) [OF list.set_intros(1) Cons.prems(2) v] have "P v" .
  show ?case
  proof (cases x)
    case (Inl e)
    with v \<open>P v\<close> Cons.prems(3) show ?thesis by (simp add: seqIO_run)
  next
    case (Inr y)
    with v Cons.prems(3) have "for_each ms (\<lambda>m. m) v = (w', r)" by (simp add: seqIO_run)
    then show ?thesis
      by (rule Cons.IH [OF _ \<open>P v\<close>, rotated]) (rule Cons.prems(1) [OF list.set_intros(2)])
  qed
qed

lemma rollback_restores:
  assumes good: "good s w"
    and pre: "\<And>m u u' r. m \<in> set before \<Longrightarrow> good s u \<Longrightarrow> m u = (u', r) \<Longrightarrow> good s u'"
    and post: "\<And>m u u' r. m \<in> set after \<Longrightarrow> restored s u \<Longrightarrow> m u = (u', r) \<Longrightarrow> restored s u'"
    and run: "for_each (before @ undo s # after) (\<lambda>m. m) w = (w', Inr ())"
  shows "restored s w'"
proof -
  from run obtain u v where u: "for_each before (\<lambda>m. m) w = (u, Inr ())"
    and v: "undo s u = (v, Inr ())" and w': "for_each after (\<lambda>m. m) v = (w', Inr ())"
    by (auto simp: for_each_append seqIO_Inr_iff)
  have "good s u" by (rule steps_keep [where P = "good s", OF _ good u]) (rule pre)
  with v have "restored s v" by (blast intro: undo_restores)
  then show ?thesis by (rule steps_keep [where P = "restored s", OF _ _ w', rotated]) (rule post)
qed

end

end
