(* ===== verification/Py_Text.thy ===== *)
theory Py_Text
  imports Prelude "HOL-Library.Sublist"
begin

text \<open>
  The part of Python's \<open>str\<close> the sources use, on strings of code points below 256 (one
  \<open>char\<close> per code point): character classes, stripping, splitting, joining, replacing, line
  splitting, case folding, decimal conversion, and the components of a POSIX path. The lemmas are
  the facts the components rely on: what the pieces of a split look like, and that splitting
  undoes joining.
\<close>

section \<open>Characters\<close>

abbreviation code :: "char \<Rightarrow> nat" where
  "code c \<equiv> of_char c"

text \<open>\<open>str.isspace\<close>, which \<open>str.split()\<close>, \<open>str.strip()\<close> and \<open>\\s\<close> use.\<close>

definition is_space :: "char \<Rightarrow> bool" where
  "is_space c \<longleftrightarrow> (9 \<le> code c \<and> code c \<le> 13) \<or> (28 \<le> code c \<and> code c \<le> 32)
     \<or> code c = 133 \<or> code c = 160"

definition is_digit :: "char \<Rightarrow> bool" where
  "is_digit c \<longleftrightarrow> 48 \<le> code c \<and> code c \<le> 57"

definition is_lower_ascii :: "char \<Rightarrow> bool" where
  "is_lower_ascii c \<longleftrightarrow> 97 \<le> code c \<and> code c \<le> 122"

definition is_upper_ascii :: "char \<Rightarrow> bool" where
  "is_upper_ascii c \<longleftrightarrow> 65 \<le> code c \<and> code c \<le> 90"

definition is_hex_digit :: "char \<Rightarrow> bool" where
  "is_hex_digit c \<longleftrightarrow> is_digit c \<or> (97 \<le> code c \<and> code c \<le> 102) \<or> (65 \<le> code c \<and> code c \<le> 70)"

text \<open>\<open>str.lower\<close> of one ASCII character.\<close>

definition lower_char :: "char \<Rightarrow> char" where
  "lower_char c = (if is_upper_ascii c then char_of (code c + 32) else c)"

definition py_lower :: "string \<Rightarrow> string" where
  "py_lower s = map lower_char s"

text \<open>
  \<open>str.casefold\<close>: besides ASCII, the Latin-1 capitals fold to their small letters and the sharp s
  to two letters. (The micro sign, whose folding leaves the code points below 256, is kept.)
\<close>

definition casefold_char :: "char \<Rightarrow> string" where
  "casefold_char c =
     (if is_upper_ascii c then [char_of (code c + 32)]
      else if 192 \<le> code c \<and> code c \<le> 222 \<and> code c \<noteq> 215 then [char_of (code c + 32)]
      else if code c = 223 then ''ss'' else [c])"

definition py_casefold :: "string \<Rightarrow> string" where
  "py_casefold s = concat (map casefold_char s)"

section \<open>Stripping and prefixes\<close>

definition py_lstrip :: "string \<Rightarrow> string" where
  "py_lstrip s = dropWhile is_space s"

definition py_rstrip :: "string \<Rightarrow> string" where
  "py_rstrip s = rev (dropWhile is_space (rev s))"

definition py_strip :: "string \<Rightarrow> string" where
  "py_strip s = py_rstrip (py_lstrip s)"

definition starts_with :: "string \<Rightarrow> string \<Rightarrow> bool" where
  "starts_with p s \<longleftrightarrow> take (length p) s = p"

definition remove_prefix :: "string \<Rightarrow> string \<Rightarrow> string" where
  "remove_prefix p s = (if starts_with p s then drop (length p) s else s)"

fun contains :: "string \<Rightarrow> string \<Rightarrow> bool" where
  "contains p [] = (p = [])"
| "contains p (c # s) = (starts_with p (c # s) \<or> contains p s)"

section \<open>Splitting and joining\<close>

text \<open>\<open>str.split()\<close>: runs of white space separate, no empty piece.\<close>

function py_split :: "string \<Rightarrow> string list" where
  "py_split s = (let t = dropWhile is_space s in
     if t = [] then []
     else takeWhile (\<lambda>c. \<not> is_space c) t # py_split (dropWhile (\<lambda>c. \<not> is_space c) t))"
  by pat_completeness auto
termination
proof (relation "measure length")
  fix s t :: string
  assume t: "t = dropWhile is_space s" and ne: "t \<noteq> []"
  from ne obtain c u where cu: "t = c # u" by (meson neq_Nil_conv)
  with t have "\<not> is_space c" using hd_dropWhile [of is_space s] by (metis list.sel(1) ne)
  then have "length (dropWhile (\<lambda>c. \<not> is_space c) t) \<le> length u"
    by (simp add: cu length_dropWhile_le)
  also have "\<dots> < length t" by (simp add: cu)
  also have "\<dots> \<le> length s" by (simp add: t length_dropWhile_le)
  finally show "(dropWhile (\<lambda>c. \<not> is_space c) t, s) \<in> measure length" by simp
qed simp

declare py_split.simps [simp del]

text \<open>\<open>s.split(c)\<close> for a one-character separator: every occurrence separates.\<close>

fun split_chr :: "char \<Rightarrow> string \<Rightarrow> string list" where
  "split_chr c [] = [[]]"
| "split_chr c (d # s) =
     (if d = c then [] # split_chr c s
      else (case split_chr c s of [] \<Rightarrow> [[d]] | t # ts \<Rightarrow> (d # t) # ts))"

text \<open>\<open>s.partition(c)\<close> and \<open>s.rpartition(c)\<close>: the parts around the first and the last occurrence.\<close>

definition partition_chr :: "char \<Rightarrow> string \<Rightarrow> string \<times> bool \<times> string" where
  "partition_chr c s =
     (let rest = dropWhile (\<lambda>d. d \<noteq> c) s in
      if rest = [] then (s, False, []) else (takeWhile (\<lambda>d. d \<noteq> c) s, True, tl rest))"

definition rpartition_chr :: "char \<Rightarrow> string \<Rightarrow> string \<times> bool \<times> string" where
  "rpartition_chr c s =
     (let (a, found, b) = partition_chr c (rev s) in
      if found then (rev b, True, rev a) else ([], False, s))"

text \<open>\<open>sep.join(parts)\<close>\<close>

fun py_join :: "string \<Rightarrow> string list \<Rightarrow> string" where
  "py_join sep [] = []"
| "py_join sep [x] = x"
| "py_join sep (x # y # ys) = x @ sep @ py_join sep (y # ys)"

text \<open>\<open>s.replace(old, new)\<close> for a non-empty \<open>old\<close>: leftmost occurrences, not overlapping.\<close>

function py_replace :: "string \<Rightarrow> string \<Rightarrow> string \<Rightarrow> string" where
  "py_replace old new [] = []"
| "py_replace old new (c # s) =
     (if old \<noteq> [] \<and> starts_with old (c # s)
      then new @ py_replace old new (drop (length old) (c # s))
      else c # py_replace old new s)"
  by pat_completeness auto
termination
  by (relation "measure (\<lambda>(old, new, s). length s)") (auto simp: neq_Nil_conv)

text \<open>\<open>str.splitlines()\<close>: line ends are dropped, \<open>\\r\\n\<close> is one, no piece for an empty rest.\<close>

definition is_line_end :: "char \<Rightarrow> bool" where
  "is_line_end c \<longleftrightarrow> (10 \<le> code c \<and> code c \<le> 13) \<or> (28 \<le> code c \<and> code c \<le> 30) \<or> code c = 133"

fun lines_aux :: "string \<Rightarrow> string \<Rightarrow> string list" where
  "lines_aux acc [] = (if acc = [] then [] else [rev acc])"
| "lines_aux acc (c # s) =
     (if code c = 13 \<and> s \<noteq> [] \<and> code (hd s) = 10 then rev acc # lines_aux [] (tl s)
      else if is_line_end c then rev acc # lines_aux [] s
      else lines_aux (c # acc) s)"

definition py_splitlines :: "string \<Rightarrow> string list" where
  "py_splitlines s = lines_aux [] s"

section \<open>Decimal conversion\<close>

text \<open>\<open>str(n)\<close> for a natural number and \<open>int(s)\<close> for a string of digits.\<close>

fun str_of_nat :: "nat \<Rightarrow> string" where
  "str_of_nat n = (if n < 10 then [char_of (48 + n)] else str_of_nat (n div 10) @ [char_of (48 + n mod 10)])"

declare str_of_nat.simps [simp del]

definition nat_of_digits :: "string \<Rightarrow> nat" where
  "nat_of_digits s = foldl (\<lambda>n c. 10 * n + (code c - 48)) 0 s"

section \<open>POSIX paths\<close>

text \<open>
  \<open>pathlib.PurePosixPath\<close>: the components of a path are its non-empty pieces other than \<open>.\<close>;
  \<open>name\<close> is the last of them, \<open>parent.name\<close> the one before, \<open>dir / name\<close> puts a slash between.
\<close>

definition path_parts :: "string \<Rightarrow> string list" where
  "path_parts p = filter (\<lambda>x. x \<noteq> [] \<and> x \<noteq> ''.'') (split_chr (CHR ''/'') p)"

definition path_name :: "string \<Rightarrow> string" where
  "path_name p = (case rev (path_parts p) of [] \<Rightarrow> [] | x # _ \<Rightarrow> x)"

definition path_parent_name :: "string \<Rightarrow> string" where
  "path_parent_name p = (case rev (path_parts p) of _ # x # _ \<Rightarrow> x | _ \<Rightarrow> [])"

definition path_join :: "string \<Rightarrow> string \<Rightarrow> string" where
  "path_join d n = d @ ''/'' @ n"

text \<open>\<open>str(path.parent)\<close> of an absolute path that is already in normal form.\<close>

definition path_parent :: "string \<Rightarrow> string" where
  "path_parent p = fst (rpartition_chr (CHR ''/'') p)"

section \<open>Facts about splitting and joining\<close>

definition token :: "string \<Rightarrow> bool" where
  "token t \<longleftrightarrow> t \<noteq> [] \<and> (\<forall>c \<in> set t. \<not> is_space c)"

lemma py_split_Nil [simp]: "py_split [] = []"
  by (simp add: py_split.simps)

lemma py_split_space [simp]: "is_space c \<Longrightarrow> py_split (c # s) = py_split s"
  by (simp add: py_split.simps [of "c # s"] py_split.simps [of s])

lemma py_split_step:
  "u = dropWhile is_space s \<Longrightarrow> u \<noteq> [] \<Longrightarrow>
   py_split s = takeWhile (\<lambda>c. \<not> is_space c) u # py_split (dropWhile (\<lambda>c. \<not> is_space c) u)"
  by (subst py_split.simps) (simp only: Let_def if_False)

lemma py_split_tokens: "t \<in> set (py_split s) \<Longrightarrow> token t"
proof (induction s rule: py_split.induct)
  case (1 s)
  define u where "u = dropWhile is_space s"
  show ?case
  proof (cases "u = []")
    case True
    with "1.prems" show ?thesis by (simp add: py_split.simps [of s] u_def Let_def)
  next
    case False
    then have hd: "\<not> is_space (hd u)" unfolding u_def by (rule hd_dropWhile)
    from "1.prems" have "t = takeWhile (\<lambda>c. \<not> is_space c) u
        \<or> t \<in> set (py_split (dropWhile (\<lambda>c. \<not> is_space c) u))"
      unfolding py_split_step [OF u_def False] by (simp only: list.set insert_iff)
    then show ?thesis
    proof
      assume t: "t = takeWhile (\<lambda>c. \<not> is_space c) u"
      from hd False have "t \<noteq> []" by (cases u) (simp_all add: t)
      moreover have "\<forall>c \<in> set t. \<not> is_space c" by (auto simp: t dest: set_takeWhileD)
      ultimately show ?thesis by (simp add: token_def)
    next
      assume "t \<in> set (py_split (dropWhile (\<lambda>c. \<not> is_space c) u))"
      with "1.IH" False show ?thesis by (simp add: u_def)
    qed
  qed
qed

lemma py_split_token_append:
  assumes "token t" and "s = [] \<or> is_space (hd s)"
  shows "py_split (t @ s) = t # py_split s"
proof -
  obtain c u where t: "t = c # u" and c: "\<not> is_space c"
    using assms(1) by (cases t) (auto simp: token_def)
  have all: "\<forall>x \<in> set t. \<not> is_space x" using assms(1) by (simp add: token_def)
  have drop: "dropWhile is_space (t @ s) = t @ s" using c by (simp add: t)
  have tk: "takeWhile (\<lambda>c. \<not> is_space c) (t @ s) = t"
    using assms(2) all by (cases s) (auto simp: takeWhile_append2)
  have dr: "dropWhile (\<lambda>c. \<not> is_space c) (t @ s) = s"
    using assms(2) all by (cases s) (auto simp: dropWhile_append2)
  show ?thesis
    using py_split_step [OF drop [symmetric]] tk dr t by simp
qed

lemma py_split_join [simp]:
  "(\<And>t. t \<in> set ts \<Longrightarrow> token t) \<Longrightarrow> py_split (py_join '' '' ts) = ts"
proof (induction "'' ''" ts rule: py_join.induct)
  case 1
  show ?case by simp
next
  case (2 x)
  then show ?case using py_split_token_append [of x "[]"] by simp
next
  case (3 x y ys)
  then show ?case using py_split_token_append [of x "'' '' @ py_join '' '' (y # ys)"]
    by (simp add: is_space_def)
qed

section \<open>Facts about numbers and stripping\<close>

lemma nat_of_digits_snoc: "nat_of_digits (s @ [c]) = 10 * nat_of_digits s + (code c - 48)"
  by (simp add: nat_of_digits_def)

lemma digit_char: "d < 10 \<Longrightarrow> is_digit (char_of (48 + d)) \<and> code (char_of (48 + d)) = 48 + d"
  by (simp add: is_digit_def)

lemma str_of_nat_digits: "str_of_nat n \<noteq> [] \<and> list_all is_digit (str_of_nat n) \<and> nat_of_digits (str_of_nat n) = n"
proof (induction n rule: str_of_nat.induct)
  case (1 n)
  show ?case
  proof (cases "n < 10")
    case True
    then show ?thesis using digit_char [of n] by (simp add: str_of_nat.simps [of n] nat_of_digits_def)
  next
    case False
    then show ?thesis using 1 digit_char [of "n mod 10"]
      by (simp add: str_of_nat.simps [of n] nat_of_digits_snoc)
  qed
qed

lemma py_strip_solid: "list_all (\<lambda>c. \<not> is_space c) s \<Longrightarrow> py_strip s = s"
proof -
  assume "list_all (\<lambda>c. \<not> is_space c) s"
  moreover from this have "dropWhile is_space s = s" "dropWhile is_space (rev s) = rev s"
    by (cases s, simp_all) (cases s rule: rev_cases, simp_all add: list_all_iff)
  ultimately show ?thesis by (simp add: py_strip_def py_rstrip_def py_lstrip_def)
qed

lemma digit_not_space: "is_digit c \<Longrightarrow> \<not> is_space c"
  by (simp add: is_digit_def is_space_def)

end
