(* ===== verification/Py_Value.thy ===== *)
theory Py_Value
  imports Py_Text
begin

text \<open>
  Python values as the sources handle them: configuration options, JSON documents and action
  results. The theory has their truth value, \<open>str\<close> and \<open>repr\<close>, dictionary lookup, and the
  configuration mapping with the \<open>config.get(k)\<close> and \<open>str(config.get(k) or "")\<close> idioms.
  A float is kept as its \<open>repr\<close>.
\<close>

datatype pyval =
    PNone
  | PBool bool
  | PInt int
  | PFloat string
  | PStr string
  | PList "pyval list"
  | PTuple "pyval list"
  | PDict "(pyval \<times> pyval) list"

fun truthy :: "pyval \<Rightarrow> bool" where
  "truthy PNone = False"
| "truthy (PBool b) = b"
| "truthy (PInt i) = (i \<noteq> 0)"
| "truthy (PFloat r) = (r \<noteq> ''0.0'' \<and> r \<noteq> ''-0.0'')"
| "truthy (PStr s) = (s \<noteq> [])"
| "truthy (PList vs) = (vs \<noteq> [])"
| "truthy (PTuple vs) = (vs \<noteq> [])"
| "truthy (PDict kvs) = (kvs \<noteq> [])"

definition str_of_int :: "int \<Rightarrow> string" where
  "str_of_int i = (if i < 0 then CHR ''-'' # str_of_nat (nat (- i)) else str_of_nat (nat i))"

text \<open>\<open>repr\<close> of a string: single quotes unless only they occur inside, escapes for the rest.\<close>

definition hex_digit :: "nat \<Rightarrow> char" where
  "hex_digit n = char_of (if n < 10 then 48 + n else 87 + n)"

definition repr_char :: "char \<Rightarrow> char \<Rightarrow> string" where
  "repr_char q c =
     (if c = q \<or> c = CHR 0x5C then [CHR 0x5C, c]
      else if code c = 9 then [CHR 0x5C, CHR ''t'']
      else if code c = 10 then [CHR 0x5C, CHR ''n'']
      else if code c = 13 then [CHR 0x5C, CHR ''r'']
      else if (32 \<le> code c \<and> code c < 127) \<or> (161 \<le> code c \<and> code c \<noteq> 173) then [c]
      else [CHR 0x5C, CHR ''x'', hex_digit (code c div 16), hex_digit (code c mod 16)])"

definition repr_str :: "string \<Rightarrow> string" where
  "repr_str s =
     (let q = (if CHR 0x27 \<in> set s \<and> CHR 0x22 \<notin> set s then CHR 0x22 else CHR 0x27)
      in q # concat (map (repr_char q) s) @ [q])"

fun py_repr :: "pyval \<Rightarrow> string" where
  "py_repr PNone = ''None''"
| "py_repr (PBool b) = (if b then ''True'' else ''False'')"
| "py_repr (PInt i) = str_of_int i"
| "py_repr (PFloat r) = r"
| "py_repr (PStr s) = repr_str s"
| "py_repr (PList vs) = ''['' @ py_join '', '' (map py_repr vs) @ '']''"
| "py_repr (PTuple vs) =
     (case vs of [v] \<Rightarrow> ''('' @ py_repr v @ '',)'' | _ \<Rightarrow> ''('' @ py_join '', '' (map py_repr vs) @ '')'')"
| "py_repr (PDict kvs) = ''{'' @ py_join '', '' (map (\<lambda>kv. py_repr (fst kv) @ '': '' @ py_repr (snd kv)) kvs) @ ''}''"

fun py_str :: "pyval \<Rightarrow> string" where
  "py_str (PStr s) = s"
| "py_str v = py_repr v"

text \<open>\<open>d.get(k)\<close> with a string key.\<close>

fun dict_get :: "pyval \<Rightarrow> string \<Rightarrow> pyval" where
  "dict_get (PDict kvs) k = (case map_of kvs (PStr k) of None \<Rightarrow> PNone | Some v \<Rightarrow> v)"
| "dict_get _ k = PNone"

fun is_dict :: "pyval \<Rightarrow> bool" where
  "is_dict (PDict kvs) = True"
| "is_dict _ = False"

section \<open>Charm configuration\<close>

type_synonym config = "string \<Rightarrow> pyval option"

definition cfg_get :: "config \<Rightarrow> string \<Rightarrow> pyval" where
  "cfg_get cfg k = (case cfg k of None \<Rightarrow> PNone | Some v \<Rightarrow> v)"

text \<open>\<open>str(config.get(k) or "")\<close>\<close>

definition cfg_str :: "config \<Rightarrow> string \<Rightarrow> string" where
  "cfg_str cfg k = (if truthy (cfg_get cfg k) then py_str (cfg_get cfg k) else [])"

lemma cfg_str_PStr: "cfg_get cfg k = PStr s \<Longrightarrow> cfg_str cfg k = s"
  by (auto simp: cfg_str_def)

lemma cfg_str_falsy: "\<not> truthy (cfg_get cfg k) \<Longrightarrow> cfg_str cfg k = []"
  by (simp add: cfg_str_def)

lemma cfg_str_cong: "cfg_get cfg k = cfg_get cfg' k \<Longrightarrow> cfg_str cfg k = cfg_str cfg' k"
  by (simp add: cfg_str_def)

end
