(* ===== verification/Host.thy ===== *)
theory Host
  imports Py_Value
begin

text \<open>
  The machine the charm runs on. A world is the files the charm reads and writes (path, content,
  \<open>st_mode\<close>) and an abstract host state for everything else: systemd, the network, the running
  processes, the clock. Every call that leaves the Python program (a subprocess, an HTTP request,
  a temporary name, a failing file operation) asks the environment \<open>E\<close>, which may answer anything
  and may remember what it was asked; so a theorem about all environments covers every failure
  and every interleaving of answers. Subprocesses see the files but change the host state only;
  directories are not tracked, and an operation that fails because a directory is missing is one
  more failure the environment may choose. A failing write may leave a truncated file.
\<close>

section \<open>Worlds and environments\<close>

type_synonym path = string
type_synonym bytes = string

record file_ent =
  fdata :: bytes
  st_mode :: nat

type_synonym fs = "path \<Rightarrow> file_ent option"

record 'h world =
  files :: fs
  host :: 'h

datatype fs_op =
    FsRead path | FsWrite path | FsUnlink path | FsReplace path path | FsChmod path
  | FsMkdir path | FsRmtree path

record proc =
  returncode :: int
  stdout :: string

record response =
  status_code :: nat
  body_bytes :: bytes
  body_text :: string
  body_json :: "exn + pyval"

record tar_member =
  member_name :: string
  member_isfile :: bool
  member_data :: "bytes option"

record 'h env =
  env_fault :: "fs_op \<Rightarrow> 'h \<Rightarrow> 'h \<times> (exn \<times> nat option) option"
  env_mkstemp :: "path \<Rightarrow> string \<Rightarrow> fs \<Rightarrow> 'h \<Rightarrow> 'h \<times> (exn + path)"
  env_mkdtemp :: "path \<Rightarrow> string \<Rightarrow> fs \<Rightarrow> 'h \<Rightarrow> 'h \<times> (exn + path)"
  env_run :: "string list \<Rightarrow> fs \<Rightarrow> 'h \<Rightarrow> 'h \<times> (exn + proc)"
  env_get :: "string \<Rightarrow> 'h \<Rightarrow> 'h \<times> (exn + response)"
  env_post :: "string \<Rightarrow> string \<Rightarrow> string \<Rightarrow> pyval \<Rightarrow> 'h \<Rightarrow> 'h \<times> (exn + response)"
  env_sleep :: "nat \<Rightarrow> 'h \<Rightarrow> 'h"
  env_utcnow :: "'h \<Rightarrow> 'h \<times> string"
  env_new_mode :: nat
  env_failed_cmd :: "string list \<Rightarrow> int \<Rightarrow> string"
  env_http_error :: "string \<Rightarrow> nat \<Rightarrow> string"
  env_sha256 :: "bytes \<Rightarrow> string"
  env_untar :: "bytes \<Rightarrow> exn + tar_member list"
  env_bracket_host :: "string \<Rightarrow> exn option"
  env_is_dir :: "path \<Rightarrow> 'h \<Rightarrow> bool"

text \<open>The type bits of a regular file, \<open>0o100000\<close>.\<close>

definition S_IFREG :: nat where
  "S_IFREG = 32768"

section \<open>File operations\<close>

definition no_such_file :: "path \<Rightarrow> exn" where
  "no_such_file p = Exn FileNotFoundError (''[Errno 2] No such file or directory: '' @ repr_str p)"

text \<open>Ask the environment whether a file operation fails, and raise if so.\<close>

definition fs_check :: "'h env \<Rightarrow> fs_op \<Rightarrow> ('h world, unit) io" where
  "fs_check E op = (\<lambda>w. case env_fault E op (host w) of
      (h, None) \<Rightarrow> (w\<lparr>host := h\<rparr>, Inr ())
    | (h, Some (e, _)) \<Rightarrow> (w\<lparr>host := h\<rparr>, Inl e))"

definition path_exists :: "path \<Rightarrow> ('h world, bool) io" where
  "path_exists p = getIO (\<lambda>w. files w p \<noteq> None)"

text \<open>\<open>path.exists()\<close> where the path may name a directory.\<close>

definition dir_or_file_exists :: "'h env \<Rightarrow> path \<Rightarrow> ('h world, bool) io" where
  "dir_or_file_exists E p = getIO (\<lambda>w. files w p \<noteq> None \<or> env_is_dir E p (host w))"

definition read_file :: "'h env \<Rightarrow> path \<Rightarrow> ('h world, bytes) io" where
  "read_file E p = seqIO (fs_check E (FsRead p)) (\<lambda>w.
     case files w p of None \<Rightarrow> (w, Inl (no_such_file p)) | Some f \<Rightarrow> (w, Inr (fdata f)))"

definition stat_mode :: "'h env \<Rightarrow> path \<Rightarrow> ('h world, nat) io" where
  "stat_mode E p = seqIO (fs_check E (FsRead p)) (\<lambda>w.
     case files w p of None \<Rightarrow> (w, Inl (no_such_file p)) | Some f \<Rightarrow> (w, Inr (st_mode f)))"

definition with_data :: "'h env \<Rightarrow> file_ent option \<Rightarrow> bytes \<Rightarrow> file_ent" where
  "with_data E old d = (case old of
      Some f \<Rightarrow> f\<lparr>fdata := d\<rparr>
    | None \<Rightarrow> \<lparr>fdata = d, st_mode = S_IFREG + env_new_mode E mod 4096\<rparr>)"

definition set_file :: "path \<Rightarrow> file_ent option \<Rightarrow> 'h world \<Rightarrow> 'h world" where
  "set_file p f w = w\<lparr>files := (files w)(p := f)\<rparr>"

definition write_file :: "'h env \<Rightarrow> path \<Rightarrow> bytes \<Rightarrow> ('h world, unit) io" where
  "write_file E p d = (\<lambda>w. case env_fault E (FsWrite p) (host w) of
      (h, None) \<Rightarrow> (set_file p (Some (with_data E (files w p) d)) (w\<lparr>host := h\<rparr>), Inr ())
    | (h, Some (e, None)) \<Rightarrow> (w\<lparr>host := h\<rparr>, Inl e)
    | (h, Some (e, Some n)) \<Rightarrow>
        (set_file p (Some (with_data E (files w p) (take n d))) (w\<lparr>host := h\<rparr>), Inl e))"

definition unlink_missing_ok :: "'h env \<Rightarrow> path \<Rightarrow> ('h world, unit) io" where
  "unlink_missing_ok E p = seqIO (fs_check E (FsUnlink p)) (putIO (set_file p None))"

definition os_replace :: "'h env \<Rightarrow> path \<Rightarrow> path \<Rightarrow> ('h world, unit) io" where
  "os_replace E src dst = seqIO (fs_check E (FsReplace src dst)) (\<lambda>w.
     case files w src of
       None \<Rightarrow> (w, Inl (no_such_file src))
     | Some f \<Rightarrow> (set_file dst (Some f) (set_file src None w), Inr ()))"

definition os_chmod :: "'h env \<Rightarrow> path \<Rightarrow> nat \<Rightarrow> ('h world, unit) io" where
  "os_chmod E p mode = seqIO (fs_check E (FsChmod p)) (\<lambda>w.
     case files w p of
       None \<Rightarrow> (w, Inl (no_such_file p))
     | Some f \<Rightarrow>
         (set_file p (Some (f\<lparr>st_mode := st_mode f div 4096 * 4096 + mode mod 4096\<rparr>)) w, Inr ()))"

definition mkdir_parents :: "'h env \<Rightarrow> path \<Rightarrow> ('h world, unit) io" where
  "mkdir_parents E p = fs_check E (FsMkdir p)"

text \<open>\<open>tempfile.mkstemp\<close>: a new empty file, mode \<open>0o600\<close>, under a name that was not in use.\<close>

definition mkstemp :: "'h env \<Rightarrow> path \<Rightarrow> string \<Rightarrow> ('h world, path) io" where
  "mkstemp E dir pre = (\<lambda>w. case env_mkstemp E dir pre (files w) (host w) of
      (h, Inl e) \<Rightarrow> (w\<lparr>host := h\<rparr>, Inl e)
    | (h, Inr t) \<Rightarrow>
        (set_file t (Some \<lparr>fdata = [], st_mode = S_IFREG + 384\<rparr>) (w\<lparr>host := h\<rparr>), Inr t))"

text \<open>\<open>shutil.copyfile\<close>: the content only, not the mode.\<close>

definition copyfile :: "'h env \<Rightarrow> path \<Rightarrow> path \<Rightarrow> ('h world, unit) io" where
  "copyfile E src dst = bindIO (read_file E src) (write_file E dst)"

text \<open>\<open>tempfile.TemporaryDirectory\<close>: the directory's name, and its removal with all it holds.\<close>

definition mkdtemp :: "'h env \<Rightarrow> path \<Rightarrow> string \<Rightarrow> ('h world, path) io" where
  "mkdtemp E dir pre = (\<lambda>w. case env_mkdtemp E dir pre (files w) (host w) of
      (h, r) \<Rightarrow> (w\<lparr>host := h\<rparr>, r))"

definition inside :: "path \<Rightarrow> path \<Rightarrow> bool" where
  "inside d p \<longleftrightarrow> starts_with (d @ ''/'') p"

definition rmtree :: "'h env \<Rightarrow> path \<Rightarrow> ('h world, unit) io" where
  "rmtree E d = seqIO (fs_check E (FsRmtree d))
     (putIO (\<lambda>w. w\<lparr>files := (\<lambda>p. if inside d p then None else files w p)\<rparr>))"

section \<open>Processes, requests and time\<close>

definition run_proc :: "'h env \<Rightarrow> string list \<Rightarrow> ('h world, proc) io" where
  "run_proc E cmd = (\<lambda>w. case env_run E cmd (files w) (host w) of (h, r) \<Rightarrow> (w\<lparr>host := h\<rparr>, r))"

text \<open>\<open>sp.run(cmd, check=True)\<close>\<close>

definition run_check :: "'h env \<Rightarrow> string list \<Rightarrow> ('h world, proc) io" where
  "run_check E cmd = bindIO (run_proc E cmd) (\<lambda>p.
     if returncode p = 0 then ret p
     else raise_exn (Exn CalledProcessError (env_failed_cmd E cmd (returncode p))))"

definition requests_get :: "'h env \<Rightarrow> string \<Rightarrow> ('h world, response) io" where
  "requests_get E url = (\<lambda>w. case env_get E url (host w) of (h, r) \<Rightarrow> (w\<lparr>host := h\<rparr>, r))"

definition requests_post :: "'h env \<Rightarrow> string \<Rightarrow> string \<Rightarrow> string \<Rightarrow> pyval \<Rightarrow> ('h world, response) io" where
  "requests_post E url user pw body = (\<lambda>w. case env_post E url user pw body (host w) of
      (h, r) \<Rightarrow> (w\<lparr>host := h\<rparr>, r))"

definition raise_for_status :: "'h env \<Rightarrow> string \<Rightarrow> response \<Rightarrow> ('h world, unit) io" where
  "raise_for_status E url r =
     (if 400 \<le> status_code r \<and> status_code r < 600
      then raise_exn (Exn RequestException (env_http_error E url (status_code r))) else ret ())"

definition sleep :: "'h env \<Rightarrow> nat \<Rightarrow> ('h world, unit) io" where
  "sleep E n = putIO (\<lambda>w. w\<lparr>host := env_sleep E n (host w)\<rparr>)"

definition utcnow :: "'h env \<Rightarrow> ('h world, string) io" where
  "utcnow E = (\<lambda>w. case env_utcnow E (host w) of (h, s) \<Rightarrow> (w\<lparr>host := h\<rparr>, Inr s))"

lemma requests_get_Inr: "requests_get E url w = (w', Inr r) \<Longrightarrow> \<exists>h. env_get E url (host w) = (h, Inr r)"
  by (auto simp: requests_get_def split: prod.splits)

section \<open>What the environment promises about temporary names\<close>

text \<open>
  The documented behaviour of \<open>tempfile\<close>: a name it returns was not in use, lies directly in the
  given directory and starts with the given prefix.
\<close>

definition tempfile_ok :: "'h env \<Rightarrow> bool" where
  "tempfile_ok E \<longleftrightarrow>
     (\<forall>d pre fs h h' t. env_mkstemp E d pre fs h = (h', Inr t) \<longrightarrow>
        fs t = None \<and> (\<exists>r. CHR ''/'' \<notin> set r \<and> t = path_join d (pre @ r)))
   \<and> (\<forall>d pre fs h h' t. env_mkdtemp E d pre fs h = (h', Inr t) \<longrightarrow>
        fs t = None \<and> (\<exists>r. CHR ''/'' \<notin> set r \<and> t = path_join d (pre @ r)))"

section \<open>Frames: which files an operation may change\<close>

definition same_outside :: "path set \<Rightarrow> 'h world \<Rightarrow> 'h world \<Rightarrow> bool" where
  "same_outside S w w' \<longleftrightarrow> (\<forall>p. p \<notin> S \<longrightarrow> files w' p = files w p)"

abbreviation touches :: "path set \<Rightarrow> ('h world, 'a) io \<Rightarrow> bool" where
  "touches S m \<equiv> runs_in (same_outside S) m"

interpretation fr: run_relation "same_outside S" for S
  by unfold_locales (auto simp: same_outside_def)

lemmas touches_rules [frame] = fr.resp_rules

lemma touches_mono: "touches S m \<Longrightarrow> S \<subseteq> T \<Longrightarrow> touches T m"
  unfolding runs_in_def same_outside_def by blast

lemma touchesD: "touches S m \<Longrightarrow> m w = (w', r) \<Longrightarrow> p \<notin> S \<Longrightarrow> files w' p = files w p"
  by (drule (1) runs_inD) (simp add: same_outside_def)

lemma touches_noneD: "touches {} m \<Longrightarrow> m w = (w', r) \<Longrightarrow> files w' = files w"
  by (rule ext) (auto dest: touchesD)

lemma set_file_simps [simp]:
  "files (set_file p f w) = (files w)(p := f)" "host (set_file p f w) = host w"
  by (simp_all add: set_file_def)

lemma touches_fs_check [frame]: "touches S (fs_check E op)"
  by (auto simp: runs_in_def fs_check_def same_outside_def split: prod.splits option.splits)

lemma touches_checked:
  assumes "\<And>w. same_outside S w (fst (k w))"
  shows "touches S (seqIO (fs_check E op) k)"
  by (rule fr.resp_seq [OF touches_fs_check]) (rule runs_inI, rule assms)

lemma touches_exists [frame]: "touches S (path_exists p)" "touches S (dir_or_file_exists E p)"
  unfolding path_exists_def dir_or_file_exists_def by (rule fr.resp_get)+

lemma touches_read [frame]: "touches S (read_file E p)" "touches S (stat_mode E p)"
  unfolding read_file_def stat_mode_def
  by (auto intro!: touches_checked simp: same_outside_def split: option.splits)

lemma touches_write [frame]: "p \<in> S \<Longrightarrow> touches S (write_file E p d)"
  by (auto simp: runs_in_def write_file_def same_outside_def split: prod.splits option.splits)

lemma touches_unlink [frame]: "p \<in> S \<Longrightarrow> touches S (unlink_missing_ok E p)"
  unfolding unlink_missing_ok_def
  by (auto intro!: touches_checked simp: same_outside_def)

lemma touches_replace [frame]: "src \<in> S \<Longrightarrow> dst \<in> S \<Longrightarrow> touches S (os_replace E src dst)"
  unfolding os_replace_def
  by (auto intro!: touches_checked simp: same_outside_def split: option.splits)

lemma touches_chmod [frame]: "p \<in> S \<Longrightarrow> touches S (os_chmod E p m)"
  unfolding os_chmod_def
  by (auto intro!: touches_checked simp: same_outside_def split: option.splits)

lemma touches_mkdir [frame]: "touches S (mkdir_parents E p)"
  unfolding mkdir_parents_def by (rule touches_fs_check)

lemma touches_copyfile [frame]: "dst \<in> S \<Longrightarrow> touches S (copyfile E src dst)"
  unfolding copyfile_def by (intro fr.resp_bind touches_read touches_write)

lemma touches_run [frame]: "touches S (run_proc E cmd)"
  by (auto simp: runs_in_def run_proc_def same_outside_def split: prod.splits)

lemma touches_run_check [frame]: "touches S (run_check E cmd)"
  unfolding run_check_def by (intro fr.resp_rules touches_run)

lemma touches_requests [frame]:
  "touches S (requests_get E url)" "touches S (requests_post E url user pw body)"
  "touches S (raise_for_status E url r)"
  by (auto simp: runs_in_def requests_get_def requests_post_def raise_for_status_def same_outside_def
      split: prod.splits)

lemma touches_time [frame]: "touches S (sleep E n)" "touches S (utcnow E)"
  by (auto simp: runs_in_def sleep_def utcnow_def same_outside_def split: prod.splits)

lemma touches_mkdtemp [frame]: "touches S (mkdtemp E dir pre)"
  by (auto simp: runs_in_def mkdtemp_def same_outside_def split: prod.splits)

lemma touches_rmtree [frame]: "{p. inside d p} \<subseteq> S \<Longrightarrow> touches S (rmtree E d)"
  unfolding rmtree_def
  by (auto intro!: touches_checked simp: same_outside_def)

text \<open>The names a temporary file of the given directory and prefix may have.\<close>

definition temp_names :: "path \<Rightarrow> string \<Rightarrow> path set" where
  "temp_names d pre = {path_join d (pre @ r) | r. CHR ''/'' \<notin> set r}"

lemma mkstemp_name:
  assumes "tempfile_ok E" and "mkstemp E d pre w = (w', Inr t)"
  shows "t \<in> temp_names d pre" and "files w t = None"
    and "files w' = (files w)(t \<mapsto> \<lparr>fdata = [], st_mode = S_IFREG + 384\<rparr>)"
  using assms unfolding tempfile_ok_def mkstemp_def temp_names_def
  by (fastforce split: prod.splits sum.splits)+

lemma mkdtemp_name:
  assumes "tempfile_ok E" and "mkdtemp E d pre w = (w', Inr t)"
  shows "t \<in> temp_names d pre" and "files w t = None"
    and "files w' = files w"
  using assms unfolding tempfile_ok_def mkdtemp_def temp_names_def
  by (fastforce split: prod.splits sum.splits)+

text \<open>Sequencing when the second part is framed only for the results the first part can have.\<close>

lemma touches_bind_result:
  assumes m: "touches S m" and res: "\<And>w w' x. m w = (w', Inr x) \<Longrightarrow> P x" and k: "\<And>x. P x \<Longrightarrow> touches S (k x)"
  shows "touches S (bindIO m k)"
proof
  fix w
  obtain v r where v: "m w = (v, r)" by (cases "m w")
  have wv: "same_outside S w v" by (rule runs_inD [OF m v])
  show "same_outside S w (fst (bindIO m k w))"
  proof (cases r)
    case (Inl e)
    with v wv show ?thesis by (simp add: bindIO_run)
  next
    case (Inr x)
    obtain u s where u: "k x v = (u, s)" by (cases "k x v")
    from res v Inr k have "touches S (k x)" by blast
    then have "same_outside S v u" using u by (rule runs_inD)
    with wv have "same_outside S w u" by (rule fr.R_trans)
    with v Inr u show ?thesis by (simp add: bindIO_run)
  qed
qed

lemma touches_mkstemp:
  assumes ok: "tempfile_ok E" and sub: "temp_names d pre \<subseteq> S"
  shows "touches S (mkstemp E d pre)"
proof
  fix w
  obtain v r where m: "mkstemp E d pre w = (v, r)" by (cases "mkstemp E d pre w")
  show "same_outside S w (fst (mkstemp E d pre w))"
  proof (cases r)
    case (Inl e)
    with m show ?thesis by (auto simp: same_outside_def mkstemp_def split: prod.splits sum.splits)
  next
    case (Inr t)
    with mkstemp_name [OF ok m [unfolded Inr]] m sub show ?thesis by (auto simp: same_outside_def)
  qed
qed

lemma touches_bind_mkstemp [frame]:
  assumes "tempfile_ok E" and "temp_names d pre \<subseteq> S" and "\<And>t. t \<in> temp_names d pre \<Longrightarrow> touches S (k t)"
  shows "touches S (bindIO (mkstemp E d pre) k)"
  by (rule touches_bind_result [OF touches_mkstemp [OF assms(1,2)] mkstemp_name(1) [OF assms(1)] assms(3)])

lemma touches_bind_mkdtemp:
  assumes "tempfile_ok E" and "\<And>t. t \<in> temp_names d pre \<Longrightarrow> touches S (k t)"
  shows "touches S (bindIO (mkdtemp E d pre) k)"
  by (rule touches_bind_result [OF touches_mkdtemp mkdtemp_name(1) [OF assms(1)] assms(2)])

lemma touches_case_option [frame]:
  "(x = None \<Longrightarrow> touches S m) \<Longrightarrow> (\<And>y. x = Some y \<Longrightarrow> touches S (k y)) \<Longrightarrow> touches S (case x of None \<Rightarrow> m | Some y \<Rightarrow> k y)"
  by (cases x) simp_all

lemma touches_case_sum [frame]:
  "(\<And>e. x = Inl e \<Longrightarrow> touches S (m e)) \<Longrightarrow> (\<And>y. x = Inr y \<Longrightarrow> touches S (k y)) \<Longrightarrow>
   touches S (case x of Inl e \<Rightarrow> m e | Inr y \<Rightarrow> k y)"
  by (cases x) simp_all

lemma touches_case_prod [frame]: "(\<And>a b. x = (a, b) \<Longrightarrow> touches S (k a b)) \<Longrightarrow> touches S (case x of (a, b) \<Rightarrow> k a b)"
  by (cases x) simp

lemma touches_case_list [frame]:
  "(x = [] \<Longrightarrow> touches S m) \<Longrightarrow> (\<And>y ys. x = y # ys \<Longrightarrow> touches S (k y ys)) \<Longrightarrow> touches S (case x of [] \<Rightarrow> m | y # ys \<Rightarrow> k y ys)"
  by (cases x) simp_all

lemma os_replace_files:
  assumes "os_replace E src dst w = (w', r)"
  shows "(\<exists>f. r = Inr () \<and> files w src = Some f \<and> files w' = (files w)(src := None, dst := Some f))
    \<or> (\<exists>e. r = Inl e \<and> files w' = files w)"
  using assms unfolding os_replace_def fs_check_def
  by (auto simp: seqIO_run split: prod.splits option.splits sum.splits)

lemma unlink_files:
  assumes "unlink_missing_ok E p w = (w', r)"
  shows "r = Inr () \<and> files w' = (files w)(p := None) \<or> (\<exists>e. r = Inl e \<and> files w' = files w)"
  using assms unfolding unlink_missing_ok_def fs_check_def
  by (auto simp: seqIO_run split: prod.splits option.splits sum.splits)

section \<open>Every file is a regular file\<close>

text \<open>The type bits of \<open>st_mode\<close> of every file the world holds are those of a regular file.\<close>

definition regular_ent :: "file_ent \<Rightarrow> bool" where
  "regular_ent f \<longleftrightarrow> st_mode f div 4096 * 4096 = S_IFREG"

definition regular :: "'h world \<Rightarrow> bool" where
  "regular w \<longleftrightarrow> (\<forall>p f. files w p = Some f \<longrightarrow> regular_ent f)"

definition stays_regular :: "'h world \<Rightarrow> 'h world \<Rightarrow> bool" where
  "stays_regular w w' \<longleftrightarrow> (regular w \<longrightarrow> regular w')"

interpretation reg: run_relation stays_regular
  by unfold_locales (auto simp: stays_regular_def)

text \<open>\<open>chmod\<close> to the permission bits \<open>st_mode & 0o7777\<close> of a regular file gives its \<open>st_mode\<close> back.\<close>

lemma regular_mode: "regular_ent f \<Longrightarrow> S_IFREG + st_mode f mod 4096 = st_mode f"
  unfolding regular_ent_def by (metis div_mult_mod_eq)

lemma S_IFREG_bits [simp]: "m < 4096 \<Longrightarrow> (S_IFREG + m) div 4096 * 4096 = S_IFREG"
  by (simp add: S_IFREG_def)

section \<open>Evaluation\<close>

text \<open>Code equations with the world as an argument: an operation unfolds when it runs, not before.\<close>

lemmas host_code [code] =
  fs_check_def [THEN fun_cong] path_exists_def [THEN fun_cong] dir_or_file_exists_def [THEN fun_cong] read_file_def [THEN fun_cong]
  stat_mode_def [THEN fun_cong] write_file_def [THEN fun_cong]
  unlink_missing_ok_def [THEN fun_cong] os_replace_def [THEN fun_cong] os_chmod_def [THEN fun_cong]
  mkdir_parents_def [THEN fun_cong] mkstemp_def [THEN fun_cong] copyfile_def [THEN fun_cong]
  mkdtemp_def [THEN fun_cong] rmtree_def [THEN fun_cong] run_proc_def [THEN fun_cong]
  run_check_def [THEN fun_cong] requests_get_def [THEN fun_cong] requests_post_def [THEN fun_cong]
  raise_for_status_def [THEN fun_cong] sleep_def [THEN fun_cong] utcnow_def [THEN fun_cong]

end
