(* ===== verification/Py_Regex.thy ===== *)
theory Py_Regex
  imports Py_Text
begin

text \<open>
  The regular expressions of Python's \<open>re\<close> module that the sources use, with its backtracking
  semantics: a match is tried left to right, alternatives in order, repetitions greedily, and the
  results come as a list in the order in which the engine would find them. A position is the
  reversed text before it and the text after it, so look-behind and the line and word anchors can
  be decided. The second half relates the engine to the language an assertion-free pattern denotes.
\<close>

section \<open>Patterns and the backtracking matcher\<close>

datatype rx =
    Eps
  | Cls "char \<Rightarrow> bool"
  | Cat rx rx
  | Or rx rx
  | Star rx
  | Grp nat rx
  | Bot
  | Bol
  | Eol
  | WordB
  | NotBehind "char \<Rightarrow> bool"

type_synonym pos = "string \<times> string"
type_synonym caps = "nat \<Rightarrow> string option"

text \<open>\<open>\\w\<close>: letters, digits and the underscore, over the code points below 256.\<close>

definition is_word :: "char \<Rightarrow> bool" where
  "is_word c \<longleftrightarrow> is_digit c \<or> is_lower_ascii c \<or> is_upper_ascii c \<or> c = CHR ''_''
     \<or> code c \<in> {170, 178, 179, 181, 185, 186, 188, 189, 190}
     \<or> (192 \<le> code c \<and> code c \<noteq> 215 \<and> code c \<noteq> 247)"

definition at_word :: "string \<Rightarrow> bool" where
  "at_word s \<longleftrightarrow> s \<noteq> [] \<and> is_word (hd s)"

function rx_match :: "rx \<Rightarrow> pos \<Rightarrow> caps \<Rightarrow> (pos \<times> caps) list" where
  "rx_match Eps p g = [(p, g)]"
| "rx_match (Cls P) p g =
     (case snd p of [] \<Rightarrow> [] | c # s \<Rightarrow> if P c then [((c # fst p, s), g)] else [])"
| "rx_match (Cat a b) p g = concat (map (\<lambda>q. rx_match b (fst q) (snd q)) (rx_match a p g))"
| "rx_match (Or a b) p g = rx_match a p g @ rx_match b p g"
| "rx_match (Star a) p g =
     concat (map (\<lambda>q. if length (snd (fst q)) < length (snd p)
                      then rx_match (Star a) (fst q) (snd q) else []) (rx_match a p g)) @ [(p, g)]"
| "rx_match (Grp n a) p g =
     map (\<lambda>q. (fst q, (snd q)(n \<mapsto> rev (take (length (fst (fst q)) - length (fst p)) (fst (fst q))))))
       (rx_match a p g)"
| "rx_match Bot p g = (if fst p = [] then [(p, g)] else [])"
| "rx_match Bol p g = (if fst p = [] \<or> hd (fst p) = CHR 0x0A then [(p, g)] else [])"
| "rx_match Eol p g = (if snd p = [] \<or> hd (snd p) = CHR 0x0A then [(p, g)] else [])"
| "rx_match WordB p g = (if at_word (fst p) \<noteq> at_word (snd p) then [(p, g)] else [])"
| "rx_match (NotBehind P) p g = (if fst p \<noteq> [] \<and> P (hd (fst p)) then [] else [(p, g)])"
  by pat_completeness auto
termination
  by (relation "measures [\<lambda>(r, p, g). size r, \<lambda>(r, p, g). length (snd p)]") auto

lemmas rx_match_Star = rx_match.simps(5)

declare rx_match_Star [simp del]

definition no_caps :: caps where
  "no_caps = (\<lambda>_. None)"

text \<open>\<open>re.fullmatch\<close>: the first result that uses up the whole text.\<close>

definition re_fullmatch :: "rx \<Rightarrow> string \<Rightarrow> caps option" where
  "re_fullmatch r s = map_option snd (List.find (\<lambda>q. snd (fst q) = []) (rx_match r ([], s) no_caps))"

text \<open>\<open>re.search\<close>: the first result at the leftmost position that has one, with the text before it.\<close>

fun search_from :: "rx \<Rightarrow> string \<Rightarrow> string \<Rightarrow> (string \<times> pos \<times> caps) option" where
  "search_from r l [] = (case rx_match r (l, []) no_caps of [] \<Rightarrow> None | q # _ \<Rightarrow> Some (l, q))"
| "search_from r l (c # s) =
     (case rx_match r (l, c # s) no_caps of [] \<Rightarrow> search_from r (c # l) s | q # _ \<Rightarrow> Some (l, q))"

definition re_search :: "rx \<Rightarrow> string \<Rightarrow> caps option" where
  "re_search r s = map_option (\<lambda>q. snd (snd q)) (search_from r [] s)"

section \<open>Building blocks of patterns\<close>

definition Lit :: "string \<Rightarrow> rx" where
  "Lit s = foldr (\<lambda>c r. Cat (Cls ((=) c)) r) s Eps"

definition Plus1 :: "rx \<Rightarrow> rx" where
  "Plus1 a = Cat a (Star a)"

definition Opt :: "rx \<Rightarrow> rx" where
  "Opt a = Or a Eps"

primrec Rep :: "nat \<Rightarrow> rx \<Rightarrow> rx" where
  "Rep 0 a = Eps"
| "Rep (Suc n) a = Cat a (Rep n a)"

section \<open>The language of an assertion-free pattern\<close>

primrec plain :: "rx \<Rightarrow> bool" where
  "plain Eps = True"
| "plain (Cls P) = True"
| "plain (Cat a b) = (plain a \<and> plain b)"
| "plain (Or a b) = (plain a \<and> plain b)"
| "plain (Star a) = plain a"
| "plain (Grp n a) = plain a"
| "plain Bot = False"
| "plain Bol = False"
| "plain Eol = False"
| "plain WordB = False"
| "plain (NotBehind P) = False"

inductive rx_lang :: "rx \<Rightarrow> string \<Rightarrow> bool" where
  lang_Eps: "rx_lang Eps []"
| lang_Cls: "P c \<Longrightarrow> rx_lang (Cls P) [c]"
| lang_Cat: "rx_lang a s \<Longrightarrow> rx_lang b t \<Longrightarrow> rx_lang (Cat a b) (s @ t)"
| lang_Or1: "rx_lang a s \<Longrightarrow> rx_lang (Or a b) s"
| lang_Or2: "rx_lang b s \<Longrightarrow> rx_lang (Or a b) s"
| lang_Star0: "rx_lang (Star a) []"
| lang_Star1: "rx_lang a s \<Longrightarrow> s \<noteq> [] \<Longrightarrow> rx_lang (Star a) t \<Longrightarrow> rx_lang (Star a) (s @ t)"
| lang_Grp: "rx_lang a s \<Longrightarrow> rx_lang (Grp n a) s"

inductive_simps rx_lang_simps [simp]:
  "rx_lang Eps s" "rx_lang (Cls P) s" "rx_lang (Cat a b) s" "rx_lang (Or a b) s" "rx_lang (Grp n a) s"

inductive_cases lang_StarE: "rx_lang (Star a) s"

lemma in_Star_iff:
  "q \<in> set (rx_match (Star a) p g) \<longleftrightarrow> q = (p, g) \<or>
   (\<exists>x \<in> set (rx_match a p g). length (snd (fst x)) < length (snd p)
      \<and> q \<in> set (rx_match (Star a) (fst x) (snd x)))"
  by (subst rx_match_Star) (auto split: if_splits)

text \<open>Every result is reached by consuming a text of the language.\<close>

lemma rx_match_sound:
  "q \<in> set (rx_match r p g) \<Longrightarrow> plain r \<Longrightarrow>
   \<exists>s. rx_lang r s \<and> fst (fst q) = rev s @ fst p \<and> snd p = s @ snd (fst q)"
proof (induction r p g arbitrary: q rule: rx_match.induct)
  case (2 P p g)
  then show ?case by (auto split: list.splits if_splits)
next
  case (3 a b p g)
  from "3.prems" obtain x where x: "x \<in> set (rx_match a p g)"
    and q: "q \<in> set (rx_match b (fst x) (snd x))" by auto
  from "3.IH"(1) [OF x] "3.prems" obtain s where
    s: "rx_lang a s" "fst (fst x) = rev s @ fst p" "snd p = s @ snd (fst x)" by auto
  from "3.IH"(2) [OF x q] "3.prems" obtain t where
    t: "rx_lang b t" "fst (fst q) = rev t @ fst (fst x)" "snd (fst x) = t @ snd (fst q)" by auto
  from s t show ?case by (intro exI [of _ "s @ t"]) (auto intro: lang_Cat)
next
  case (4 a b p g)
  from "4.prems" consider "q \<in> set (rx_match a p g)" | "q \<in> set (rx_match b p g)" by auto
  then show ?case
  proof cases
    case 1
    from "4.IH"(1) [OF this] "4.prems" show ?thesis by (auto intro: lang_Or1)
  next
    case 2
    from "4.IH"(2) [OF this] "4.prems" show ?thesis by (auto intro: lang_Or2)
  qed
next
  case (5 a p g)
  show ?case
  proof (cases "q = (p, g)")
    case True
    then show ?thesis by (intro exI [of _ "[]"]) (auto intro: lang_Star0)
  next
    case False
    with "5.prems" obtain x where x: "x \<in> set (rx_match a p g)"
      and len: "length (snd (fst x)) < length (snd p)"
      and q: "q \<in> set (rx_match (Star a) (fst x) (snd x))" by (metis in_Star_iff)
    from "5.IH"(1) [OF x] "5.prems" obtain s where
      s: "rx_lang a s" "fst (fst x) = rev s @ fst p" "snd p = s @ snd (fst x)" by auto
    from "5.IH"(2) [OF x len q] "5.prems" obtain t where
      t: "rx_lang (Star a) t" "fst (fst q) = rev t @ fst (fst x)" "snd (fst x) = t @ snd (fst q)" by auto
    from s len have "s \<noteq> []" by auto
    with s t show ?thesis by (intro exI [of _ "s @ t"]) (auto intro: lang_Star1)
  qed
next
  case (6 n a p g)
  then show ?case by fastforce
qed auto

text \<open>Every text of the language at the current position is one of the results.\<close>

lemma rx_match_complete:
  "rx_lang r s \<Longrightarrow> \<exists>g'. ((rev s @ l, t), g') \<in> set (rx_match r (l, s @ t) g)"
proof (induction r s arbitrary: l t g rule: rx_lang.induct)
  case (lang_Cat a s b u)
  from lang_Cat.IH(1) [of l "u @ t" g] obtain g1 where
    1: "((rev s @ l, u @ t), g1) \<in> set (rx_match a (l, s @ u @ t) g)" by auto
  from lang_Cat.IH(2) [of "rev s @ l" t g1] obtain g2 where
    2: "((rev u @ rev s @ l, t), g2) \<in> set (rx_match b (rev s @ l, u @ t) g1)" by auto
  from 1 2 show ?case by (auto intro!: exI [of _ g2] bexI [OF _ 1])
next
  case (lang_Star1 a s u)
  from lang_Star1.IH(1) [of l "u @ t" g] obtain g1 where
    1: "((rev s @ l, u @ t), g1) \<in> set (rx_match a (l, s @ u @ t) g)" by auto
  from lang_Star1.IH(2) [of "rev s @ l" t g1] obtain g2 where
    2: "((rev u @ rev s @ l, t), g2) \<in> set (rx_match (Star a) (rev s @ l, u @ t) g1)" by auto
  from lang_Star1.hyps(2) have "length (u @ t) < length (s @ u @ t)" by (cases s) auto
  with 1 2 have "((rev u @ rev s @ l, t), g2) \<in> set (rx_match (Star a) (l, s @ u @ t) g)"
    by (subst in_Star_iff) force
  then show ?case by auto
next
  case (lang_Grp a s n)
  from lang_Grp.IH [of l t g] obtain g1 where
    1: "((rev s @ l, t), g1) \<in> set (rx_match a (l, s @ t) g)" by auto
  then show ?case by (auto intro!: exI image_eqI [OF _ 1])
next
  case (lang_Star0 a)
  show ?case by (rule exI [of _ g], subst in_Star_iff) simp
qed (simp_all, blast+)

theorem re_fullmatch_iff_lang: "plain r \<Longrightarrow> (\<exists>g. re_fullmatch r s = Some g) \<longleftrightarrow> rx_lang r s"
proof
  assume "plain r" and "\<exists>g. re_fullmatch r s = Some g"
  then obtain q where q: "q \<in> set (rx_match r ([], s) no_caps)" "snd (fst q) = []"
    unfolding re_fullmatch_def by (metis (mono_tags, lifting) find_Some_iff map_option_eq_Some nth_mem)
  with rx_match_sound [OF q(1) \<open>plain r\<close>] show "rx_lang r s" by auto
next
  assume "rx_lang r s"
  from rx_match_complete [OF this, of "[]" "[]" no_caps]
  have "List.find (\<lambda>q. snd (fst q) = []) (rx_match r ([], s) no_caps) \<noteq> None"
    by (auto simp: find_None_iff)
  then show "\<exists>g. re_fullmatch r s = Some g" by (auto simp: re_fullmatch_def)
qed

section \<open>Captured groups\<close>

text \<open>The sub-patterns a group number stands for, and the groups every match sets.\<close>

primrec grps :: "nat \<Rightarrow> rx \<Rightarrow> rx set" where
  "grps n Eps = {}"
| "grps n (Cls P) = {}"
| "grps n (Cat a b) = grps n a \<union> grps n b"
| "grps n (Or a b) = grps n a \<union> grps n b"
| "grps n (Star a) = grps n a"
| "grps n (Grp m a) = (if m = n then {a} else {}) \<union> grps n a"
| "grps n Bot = {}"
| "grps n Bol = {}"
| "grps n Eol = {}"
| "grps n WordB = {}"
| "grps n (NotBehind P) = {}"

primrec sets_grp :: "nat \<Rightarrow> rx \<Rightarrow> bool" where
  "sets_grp n Eps = False"
| "sets_grp n (Cls P) = False"
| "sets_grp n (Cat a b) = (sets_grp n a \<or> sets_grp n b)"
| "sets_grp n (Or a b) = (sets_grp n a \<and> sets_grp n b)"
| "sets_grp n (Star a) = False"
| "sets_grp n (Grp m a) = (m = n \<or> sets_grp n a)"
| "sets_grp n Bot = False"
| "sets_grp n Bol = False"
| "sets_grp n Eol = False"
| "sets_grp n WordB = False"
| "sets_grp n (NotBehind P) = False"

lemma plain_grps: "plain r \<Longrightarrow> a \<in> grps n r \<Longrightarrow> plain a"
  by (induction r) (auto split: if_splits)

text \<open>Whatever a group holds after a match is a text of one of its sub-patterns.\<close>

lemma rx_match_captures:
  "q \<in> set (rx_match r p g) \<Longrightarrow> plain r \<Longrightarrow> snd q n = Some v \<Longrightarrow>
   g n = Some v \<or> (\<exists>a \<in> grps n r. rx_lang a v)"
proof (induction r p g arbitrary: q v rule: rx_match.induct)
  case (2 P p g)
  then show ?case by (auto split: list.splits if_splits)
next
  case (3 a b p g)
  then obtain x where x: "x \<in> set (rx_match a p g)" "q \<in> set (rx_match b (fst x) (snd x))" by auto
  with "3.IH"(2) [OF x] "3.IH"(1) [OF x(1)] "3.prems" show ?case by auto
next
  case (4 a b p g)
  from "4.prems"(1) consider "q \<in> set (rx_match a p g)" | "q \<in> set (rx_match b p g)" by auto
  then show ?case
    by cases (use "4.IH" "4.prems" in \<open>fastforce+\<close>)
next
  case (5 a p g)
  show ?case
  proof (cases "q = (p, g)")
    case False
    with "5.prems" obtain x where x: "x \<in> set (rx_match a p g)" "length (snd (fst x)) < length (snd p)"
      "q \<in> set (rx_match (Star a) (fst x) (snd x))" by (metis in_Star_iff)
    with "5.IH"(2) [OF x] "5.IH"(1) [OF x(1)] "5.prems" show ?thesis by auto
  qed (use "5.prems" in simp)
next
  case (6 m a p g)
  then obtain x where x: "x \<in> set (rx_match a p g)"
    and q: "q = (fst x, (snd x)(m \<mapsto> rev (take (length (fst (fst x)) - length (fst p)) (fst (fst x)))))"
    by auto
  from rx_match_sound [OF x] "6.prems" obtain s where
    s: "rx_lang a s" "fst (fst x) = rev s @ fst p" by auto
  show ?case
  proof (cases "m = n")
    case True
    with s q "6.prems" show ?thesis by auto
  next
    case False
    with q "6.prems" "6.IH" [OF x] show ?thesis by auto
  qed
qed auto

lemma rx_match_keeps_captures:
  "q \<in> set (rx_match r p g) \<Longrightarrow> g n \<noteq> None \<or> sets_grp n r \<Longrightarrow> snd q n \<noteq> None"
proof (induction r p g arbitrary: q rule: rx_match.induct)
  case (2 P p g)
  then show ?case by (auto split: list.splits if_splits)
next
  case (5 a p g)
  show ?case
  proof (cases "q = (p, g)")
    case False
    with "5.prems" obtain x where x: "x \<in> set (rx_match a p g)" "length (snd (fst x)) < length (snd p)"
      "q \<in> set (rx_match (Star a) (fst x) (snd x))" by (metis in_Star_iff)
    with "5.IH"(2) [OF x] "5.IH"(1) [OF x(1)] "5.prems" show ?thesis by auto
  qed (use "5.prems" in auto)
qed (auto split: if_splits)

lemma re_fullmatch_group:
  assumes "re_fullmatch r s = Some g" and "plain r" and "sets_grp n r" and "grps n r = {a}"
  obtains v where "g n = Some v" and "rx_lang a v"
proof -
  from assms(1) obtain q where "List.find (\<lambda>q. snd (fst q) = []) (rx_match r ([], s) no_caps) = Some q"
    and q2: "snd q = g" by (auto simp: re_fullmatch_def)
  then have q1: "q \<in> set (rx_match r ([], s) no_caps)"
    by (metis find_Some_iff nth_mem)
  note q = q1 q2
  from rx_match_keeps_captures [OF q(1)] assms(3) q(2) obtain v where v: "g n = Some v" by auto
  with rx_match_captures [OF q(1) assms(2), of n v] q(2) assms(4) have "rx_lang a v"
    by (simp add: no_caps_def)
  with v that show thesis by blast
qed

section \<open>Repetition of one character class\<close>

text \<open>A greedy \<open>[..]*\<close> first takes the longest run of the class, then gives back one by one.\<close>

lemma rx_match_Star_Cls:
  "rx_match (Star (Cls P)) (l, s) g =
   map (\<lambda>n. ((rev (take n s) @ l, drop n s), g)) (rev [0..<Suc (length (takeWhile P s))])"
proof (induction s arbitrary: l)
  case Nil
  show ?case by (subst rx_match_Star) simp
next
  case (Cons c s)
  show ?case
  proof (cases "P c")
    case True
    let ?f = "\<lambda>n. ((rev (take n (c # s)) @ l, drop n (c # s)), g)"
    let ?n = "length (takeWhile P s)"
    have "rx_match (Star (Cls P)) (l, c # s) g = rx_match (Star (Cls P)) (c # l, s) g @ [((l, c # s), g)]"
      using True by (subst rx_match_Star) simp
    also have "\<dots> = map (\<lambda>n. ?f (Suc n)) (rev [0..<Suc ?n]) @ [?f 0]"
      by (simp add: Cons.IH)
    also have "\<dots> = map ?f (rev (0 # map Suc [0..<Suc ?n]))"
      by (simp only: rev_map [symmetric] map_map comp_def rev.simps map_append list.map)
    also have "0 # map Suc [0..<Suc ?n] = [0..<Suc (Suc ?n)]"
      by (simp only: map_Suc_upt upt_conv_Cons [OF zero_less_Suc, of "Suc ?n"])
    finally show ?thesis using True by simp
  next
    case False
    then show ?thesis by (subst rx_match_Star) simp
  qed
qed

lemma hd_Star_Cls:
  "hd (rx_match (Star (Cls P)) (l, s) g) = ((rev (takeWhile P s) @ l, dropWhile P s), g)"
  "rx_match (Star (Cls P)) (l, s) g \<noteq> []"
proof -
  have "take (length (takeWhile P s)) s = takeWhile P s" "drop (length (takeWhile P s)) s = dropWhile P s"
    by (metis append_eq_conv_conj takeWhile_dropWhile_id)+
  then show "hd (rx_match (Star (Cls P)) (l, s) g) = ((rev (takeWhile P s) @ l, dropWhile P s), g)"
    by (simp add: rx_match_Star_Cls)
qed (simp add: rx_match_Star_Cls)

lemma rx_lang_Star_Cls: "rx_lang (Star (Cls P)) s \<longleftrightarrow> (\<forall>c \<in> set s. P c)"
proof
  assume "rx_lang (Star (Cls P)) s"
  then show "\<forall>c \<in> set s. P c"
    by (induction "Star (Cls P)" s rule: rx_lang.induct) auto
next
  assume "\<forall>c \<in> set s. P c"
  then show "rx_lang (Star (Cls P)) s"
  proof (induction s)
    case Nil
    show ?case by (rule lang_Star0)
  next
    case (Cons c s)
    then show ?case using lang_Star1 [of "Cls P" "[c]" s] by simp
  qed
qed

lemma rx_lang_Cat_Cls: "rx_lang (Cat (Cls P) b) s \<longleftrightarrow> (\<exists>c t. s = c # t \<and> P c \<and> rx_lang b t)"
  by (auto intro: exI [of _ "[_]"])

lemma rx_lang_Plus1_Cls: "rx_lang (Plus1 (Cls P)) s \<longleftrightarrow> s \<noteq> [] \<and> (\<forall>c \<in> set s. P c)"
  unfolding Plus1_def rx_lang_Cat_Cls rx_lang_Star_Cls by (cases s) auto

lemma rx_lang_Lit: "rx_lang (Lit t) s \<longleftrightarrow> s = t"
  by (induction t arbitrary: s) (auto simp: Lit_def)

lemma rx_lang_Opt: "rx_lang (Opt a) s \<longleftrightarrow> rx_lang a s \<or> s = []"
  by (simp add: Opt_def)

lemma rx_lang_Rep_Cls: "rx_lang (Rep n (Cls P)) s \<longleftrightarrow> length s = n \<and> (\<forall>c \<in> set s. P c)"
proof (induction n arbitrary: s)
  case 0
  show ?case by auto
next
  case (Suc n)
  show ?case unfolding Rep.simps rx_lang_Cat_Cls Suc by (cases s) auto
qed

lemmas rx_lang_blocks = rx_lang_Plus1_Cls rx_lang_Lit rx_lang_Opt rx_lang_Rep_Cls rx_lang_Star_Cls

lemma plain_blocks [simp]:
  "plain (Lit t)" "plain a \<Longrightarrow> plain (Plus1 a)" "plain a \<Longrightarrow> plain (Opt a)" "plain a \<Longrightarrow> plain (Rep n a)"
proof -
  show "plain (Lit t)" by (induction t) (simp_all add: Lit_def)
  show "plain a \<Longrightarrow> plain (Rep n a)" by (induction n) simp_all
qed (simp_all add: Plus1_def Opt_def)

section \<open>First results\<close>

lemma starts_with_Cons [simp]:
  "starts_with [] s" "starts_with (c # t) [] = False"
  "starts_with (c # t) (d # s) = (c = d \<and> starts_with t s)"
  by (auto simp: starts_with_def)

lemma starts_with_iff: "starts_with t s \<longleftrightarrow> (\<exists>u. s = t @ u)"
  unfolding starts_with_def by (metis append_eq_conv_conj append_take_drop_id)

lemma rx_match_Lit:
  "rx_match (Lit t) (l, s) g =
   (if starts_with t s then [((rev t @ l, drop (length t) s), g)] else [])"
proof (induction t arbitrary: l s)
  case Nil
  show ?case by (simp add: Lit_def)
next
  case (Cons c t)
  have "Lit (c # t) = Cat (Cls ((=) c)) (Lit t)" by (simp add: Lit_def)
  then show ?case by (cases s) (auto simp: Cons.IH)
qed

lemma rx_match_Plus1_Cls:
  "rx_match (Plus1 (Cls P)) (l, s) g =
   (if s \<noteq> [] \<and> P (hd s) then rx_match (Star (Cls P)) (hd s # l, tl s) g else [])"
  by (cases s) (simp_all add: Plus1_def)

lemma rx_match_Cat_first:
  assumes "rx_match a p g = q # qs" and "rx_match b (fst q) (snd q) = r # rs"
  shows "\<exists>xs. rx_match (Cat a b) p g = r # xs"
  using assms by simp

lemma rx_match_Cat_Nil: "rx_match a p g = [] \<Longrightarrow> rx_match (Cat a b) p g = []"
  by simp

lemma rx_match_Plus1_Cls_first:
  assumes "s \<noteq> []" and "P (hd s)"
  shows "\<exists>xs. rx_match (Plus1 (Cls P)) (l, s) g = ((rev (takeWhile P s) @ l, dropWhile P s), g) # xs"
proof -
  obtain c t where s: "s = c # t" using assms(1) by (cases s) auto
  obtain x xs where x: "rx_match (Star (Cls P)) (c # l, t) g = x # xs"
    using hd_Star_Cls(2) by (cases "rx_match (Star (Cls P)) (c # l, t) g") auto
  moreover have "x = ((rev (takeWhile P t) @ c # l, dropWhile P t), g)"
    using hd_Star_Cls(1) [of P "c # l" t g] x by simp
  ultimately show ?thesis using assms(2) by (simp add: rx_match_Plus1_Cls s)
qed

text \<open>A tag, a captured run of a class, an optional terminator: \<open>tag([..]+)x?\<close>.\<close>

definition tagged :: "string \<Rightarrow> (char \<Rightarrow> bool) \<Rightarrow> char \<Rightarrow> rx" where
  "tagged t P x = Cat (Lit t) (Cat (Grp 1 (Plus1 (Cls P))) (Opt (Cls ((=) x))))"

definition tagged_here :: "string \<Rightarrow> (char \<Rightarrow> bool) \<Rightarrow> string \<Rightarrow> bool" where
  "tagged_here t P s \<longleftrightarrow> starts_with t s \<and> drop (length t) s \<noteq> [] \<and> P (hd (drop (length t) s))"

fun tagged_search :: "string \<Rightarrow> (char \<Rightarrow> bool) \<Rightarrow> string \<Rightarrow> string option" where
  "tagged_search t P [] = (if tagged_here t P [] then Some [] else None)"
| "tagged_search t P (c # s) =
     (if tagged_here t P (c # s) then Some (takeWhile P (drop (length t) (c # s))) else tagged_search t P s)"

lemma tagged_match:
  assumes "tagged_here t P s"
  shows "\<exists>q g xs. rx_match (tagged t P x) (l, s) no_caps = (q, g) # xs
           \<and> g 1 = Some (takeWhile P (drop (length t) s))"
proof -
  define r where "r = drop (length t) s"
  define q where "q = ((rev (takeWhile P r) @ rev t @ l, dropWhile P r), no_caps(1 \<mapsto> takeWhile P r))"
  obtain xs where "rx_match (Plus1 (Cls P)) (rev t @ l, r) no_caps
      = ((rev (takeWhile P r) @ rev t @ l, dropWhile P r), no_caps) # xs"
    using rx_match_Plus1_Cls_first [of r P "rev t @ l" no_caps] assms
    by (auto simp: tagged_here_def r_def)
  then obtain ys where 1: "rx_match (Grp 1 (Plus1 (Cls P))) (rev t @ l, r) no_caps = q # ys"
    by (simp add: q_def)
  have "\<exists>u zs. rx_match (Opt (Cls ((=) x))) p g = (u, g) # zs" for p g
    by (cases "snd p") (auto simp: Opt_def)
  then obtain u zs where 2: "rx_match (Opt (Cls ((=) x))) (fst q) (snd q) = (u, snd q) # zs" by blast
  from rx_match_Cat_first [OF 1 2] obtain ws where
    "rx_match (Cat (Grp 1 (Plus1 (Cls P))) (Opt (Cls ((=) x)))) (rev t @ l, r) no_caps = (u, snd q) # ws"
    by blast
  with assms show ?thesis
    unfolding tagged_def
    by (subst rx_match.simps(3)) (simp add: rx_match_Lit tagged_here_def r_def [symmetric] q_def
        del: rx_match.simps)
qed

lemma tagged_no_match: "\<not> tagged_here t P s \<Longrightarrow> rx_match (tagged t P x) (l, s) no_caps = []"
  by (auto simp: tagged_def tagged_here_def rx_match_Lit rx_match_Plus1_Cls)

lemma tagged_here_Nil [simp]: "\<not> tagged_here t P []"
  by (simp add: tagged_here_def)

lemma search_from_tagged:
  "map_option (\<lambda>q. snd (snd q) 1) (search_from (tagged t P x) l s) = map_option Some (tagged_search t P s)"
proof (induction s arbitrary: l)
  case Nil
  show ?case by (simp add: tagged_no_match)
next
  case (Cons c s)
  show ?case
  proof (cases "tagged_here t P (c # s)")
    case True
    from tagged_match [OF True, of x l] True show ?thesis by auto
  next
    case False
    with tagged_no_match [OF False, of x l] Cons.IH show ?thesis by simp
  qed
qed

lemma re_search_tagged:
  "(case re_search (tagged t P x) s of None \<Rightarrow> None | Some g \<Rightarrow> g 1) = tagged_search t P s"
  using search_from_tagged [of t P x "[]" s] unfolding re_search_def
  by (cases "search_from (tagged t P x) [] s"; cases "tagged_search t P s") auto

lemma tagged_search_Some:
  "tagged_search t P s = Some v \<Longrightarrow> \<exists>a b. s = a @ t @ v @ b \<and> v \<noteq> [] \<and> (\<forall>c \<in> set v. P c)
     \<and> (b = [] \<or> \<not> P (hd b))"
proof (induction s)
  case Nil
  then show ?case by simp
next
  case (Cons c s)
  show ?case
  proof (cases "tagged_here t P (c # s)")
    case True
    then obtain u where u1: "c # s = t @ u" unfolding tagged_here_def starts_with_iff by blast
    from True [unfolded u1] have u: "u \<noteq> []" "P (hd u)" by (simp_all add: tagged_here_def)
    from Cons.prems True have "v = takeWhile P (drop (length t) (c # s))" by simp
    then have v: "v = takeWhile P u" unfolding u1 by simp
    have "c # s = [] @ t @ v @ dropWhile P u" using u1 by (simp add: v)
    moreover have "v \<noteq> []" using u by (cases u) (simp_all add: v)
    moreover have "\<forall>c \<in> set v. P c" by (auto simp: v dest: set_takeWhileD)
    moreover have "dropWhile P u = [] \<or> \<not> P (hd (dropWhile P u))" using hd_dropWhile by blast
    ultimately show ?thesis by blast
  next
    case False
    with Cons obtain a b where "s = a @ t @ v @ b" "v \<noteq> []" "\<forall>c \<in> set v. P c" "b = [] \<or> \<not> P (hd b)"
      by auto
    then show ?thesis by (metis append_Cons)
  qed
qed

end
