(* ===== verification/Services.thy ===== *)
theory Services
  imports Constants Py_Regex
begin

text \<open>
  The services section of \<open>src/utils.py\<close>: starting, stopping and restarting the three systemd units,
  the bounded poll of a unit's status, and the bounded poll of the node's JSON-RPC for its version.
  The lemmas show that none of these changes a file, that a poll asks at most the given number of
  times and stops at the first success, and what the version pattern extracts.
\<close>

section \<open>Units\<close>

definition get_status :: "'h env \<Rightarrow> string \<Rightarrow> ('h world, bool) io" where
  "get_status E service =
     bindIO (run_proc E [''service'', py_lower service, ''status'']) (\<lambda>p. ret (returncode p = 0))"

definition systemctl :: "'h env \<Rightarrow> string \<Rightarrow> string \<Rightarrow> ('h world, unit) io" where
  "systemctl E verb service =
     bindIO (run_check E [''systemctl'', verb, service]) (\<lambda>_. ret ())"

definition restart_service :: "'h env \<Rightarrow> ('h world, unit) io" where
  "restart_service E = systemctl E ''restart'' SERVICE_NAME"
definition start_service :: "'h env \<Rightarrow> ('h world, unit) io" where
  "start_service E = systemctl E ''start'' SERVICE_NAME"
definition stop_service :: "'h env \<Rightarrow> ('h world, unit) io" where
  "stop_service E = systemctl E ''stop'' SERVICE_NAME"
definition restart_monitor :: "'h env \<Rightarrow> ('h world, unit) io" where
  "restart_monitor E = systemctl E ''restart'' MONITOR_SERVICE_NAME"
definition start_monitor :: "'h env \<Rightarrow> ('h world, unit) io" where
  "start_monitor E = systemctl E ''start'' MONITOR_SERVICE_NAME"
definition stop_monitor :: "'h env \<Rightarrow> ('h world, unit) io" where
  "stop_monitor E = systemctl E ''stop'' MONITOR_SERVICE_NAME"
definition restart_rpc_proxy :: "'h env \<Rightarrow> ('h world, unit) io" where
  "restart_rpc_proxy E = systemctl E ''restart'' RPC_PROXY_SERVICE_NAME"
definition start_rpc_proxy :: "'h env \<Rightarrow> ('h world, unit) io" where
  "start_rpc_proxy E = systemctl E ''start'' RPC_PROXY_SERVICE_NAME"
definition stop_rpc_proxy :: "'h env \<Rightarrow> ('h world, unit) io" where
  "stop_rpc_proxy E = systemctl E ''stop'' RPC_PROXY_SERVICE_NAME"

lemmas service_defs = restart_service_def start_service_def stop_service_def restart_monitor_def
  start_monitor_def stop_monitor_def restart_rpc_proxy_def start_rpc_proxy_def stop_rpc_proxy_def

text \<open>\<open>service_running(service, iterations)\<close>; the default number of iterations is 4.\<close>

primrec poll_service :: "'h env \<Rightarrow> string \<Rightarrow> nat \<Rightarrow> ('h world, bool) io" where
  "poll_service E service 0 = ret False"
| "poll_service E service (Suc n) = bindIO (get_status E service) (\<lambda>up.
     if up then ret True else seqIO (sleep E 1) (poll_service E service n))"

definition service_running :: "'h env \<Rightarrow> string \<Rightarrow> ('h world, bool) io" where
  "service_running E service = poll_service E service 4"

section \<open>The running version\<close>

text \<open>\<open>r"Satoshi:([^/]+)/?"\<close>\<close>

definition satoshi_rx :: rx where
  "satoshi_rx = Cat (Lit ''Satoshi:'') (Cat (Grp 1 (Plus1 (Cls (\<lambda>c. c \<noteq> CHR ''/'')))) (Opt (Cls ((=) (CHR ''/'')))))"

definition rpc_url :: string where
  "rpc_url = ''http://127.0.0.1:'' @ str_of_nat BITCOIND_RPC_PORT"

lemma rpc_url_code [code]: "rpc_url = ''http://127.0.0.1:8332''"
  by (simp add: rpc_url_def)

definition rpc_request :: "string \<Rightarrow> string \<Rightarrow> pyval list \<Rightarrow> pyval" where
  "rpc_request ident method params = PDict
     [(PStr ''jsonrpc'', PStr ''2.0''), (PStr ''id'', PStr ident), (PStr ''method'', PStr method),
      (PStr ''params'', PList params)]"

text \<open>The body of one attempt: the version the node reports, if it answers with one.\<close>

definition read_version :: "pyval \<Rightarrow> string option" where
  "read_version body =
     (let res = (if is_dict body \<and> \<not> truthy (dict_get body ''error'') then dict_get body ''result'' else PNone);
          subversion = (if is_dict res then dict_get res ''subversion'' else PNone)
      in (case re_search satoshi_rx (if truthy subversion then py_str subversion else []) of
            None \<Rightarrow> None
          | Some g \<Rightarrow> g 1))"

definition probe_version :: "'h env \<Rightarrow> config \<Rightarrow> ('h world, string option) io" where
  "probe_version E cfg = try_except
     (bindIO (requests_post E rpc_url (cfg_str cfg ''rpc-user'') (cfg_str cfg ''rpc-password'')
                (rpc_request ''activation'' ''getnetworkinfo'' [])) (\<lambda>response.
      seqIO (raise_for_status E rpc_url response)
        (case body_json response of Inl e \<Rightarrow> raise_exn e | Inr body \<Rightarrow> ret (read_version body))))
     (\<lambda>e. if is_value_error e \<or> exn_kind e \<in> {RequestException, TypeError} then ret None else raise_exn e)"

text \<open>\<open>wait_for_running_version(config, attempts, interval)\<close>; the defaults are 30 attempts, 2 seconds.\<close>

primrec poll_version :: "'h env \<Rightarrow> config \<Rightarrow> nat \<Rightarrow> ('h world, string option) io" where
  "poll_version E cfg 0 = ret None"
| "poll_version E cfg (Suc n) = bindIO (probe_version E cfg) (\<lambda>found.
     case found of
       Some v \<Rightarrow> ret (Some v)
     | None \<Rightarrow> seqIO (whenIO (0 < n) (sleep E 2)) (poll_version E cfg n))"

definition wait_for_running_version :: "'h env \<Rightarrow> config \<Rightarrow> ('h world, string option) io" where
  "wait_for_running_version E cfg = poll_version E cfg 30"

lemma poll_service_run [code]:
  "poll_service E service n w = (if n = 0 then (w, Inr False)
     else bindIO (get_status E service) (\<lambda>up.
       if up then ret True else seqIO (sleep E 1) (poll_service E service (n - 1))) w)"
  by (cases n) (simp_all cong: if_cong)

lemma poll_version_run [code]:
  "poll_version E cfg n w = (if n = 0 then (w, Inr None)
     else bindIO (probe_version E cfg) (\<lambda>found. case found of
        Some v \<Rightarrow> ret (Some v)
      | None \<Rightarrow> seqIO (whenIO (0 < n - 1) (sleep E 2)) (poll_version E cfg (n - 1))) w)"
  by (cases n) simp_all

section \<open>No file changes\<close>

lemma touches_status [frame]: "touches S (get_status E service)"
  unfolding get_status_def by (intro frame)

lemma touches_systemctl [frame]: "touches S (systemctl E verb service)"
  unfolding systemctl_def by (intro frame)

lemma touches_services [frame]:
  "touches S (restart_service E)" "touches S (start_service E)" "touches S (stop_service E)"
  "touches S (restart_monitor E)" "touches S (start_monitor E)" "touches S (stop_monitor E)"
  "touches S (restart_rpc_proxy E)" "touches S (start_rpc_proxy E)" "touches S (stop_rpc_proxy E)"
  by (simp_all add: service_defs touches_systemctl)

lemma touches_poll_service [frame]: "touches S (poll_service E service n)"
proof (induction n)
  case 0
  show ?case unfolding poll_service.simps by (rule fr.resp_ret)
next
  case (Suc n)
  then show ?case unfolding poll_service.simps by (intro frame)
qed

lemma touches_service_running [frame]: "touches S (service_running E service)"
  unfolding service_running_def by (rule touches_poll_service)

lemma touches_probe [frame]: "touches S (probe_version E cfg)"
  unfolding probe_version_def by (intro frame)

lemma touches_poll_version [frame]: "touches S (poll_version E cfg n)"
proof (induction n)
  case 0
  show ?case unfolding poll_version.simps by (rule fr.resp_ret)
next
  case (Suc n)
  then show ?case unfolding poll_version.simps by (intro frame)
qed

lemma touches_wait [frame]: "touches S (wait_for_running_version E cfg)"
  unfolding wait_for_running_version_def by (rule touches_poll_version)

section \<open>The version the node reports\<close>

lemma read_version_eq:
  "read_version body =
     (let res = (if is_dict body \<and> \<not> truthy (dict_get body ''error'') then dict_get body ''result'' else PNone);
          subversion = (if is_dict res then dict_get res ''subversion'' else PNone)
      in tagged_search ''Satoshi:'' (\<lambda>c. c \<noteq> CHR ''/'') (if truthy subversion then py_str subversion else []))"
  unfolding read_version_def satoshi_rx_def Let_def tagged_def [symmetric] re_search_tagged ..

section \<open>The polls are bounded\<close>

text \<open>The environment with a count of the JSON-RPC requests it has received.\<close>

definition counted :: "'h env \<Rightarrow> ('h \<times> nat) env" where
  "counted E = \<lparr>
     env_fault = (\<lambda>op (h, n). case env_fault E op h of (h', r) \<Rightarrow> ((h', n), r)),
     env_mkstemp = (\<lambda>d p fs (h, n). case env_mkstemp E d p fs h of (h', r) \<Rightarrow> ((h', n), r)),
     env_mkdtemp = (\<lambda>d p fs (h, n). case env_mkdtemp E d p fs h of (h', r) \<Rightarrow> ((h', n), r)),
     env_run = (\<lambda>cmd fs (h, n). case env_run E cmd fs h of (h', r) \<Rightarrow> ((h', n), r)),
     env_get = (\<lambda>u (h, n). case env_get E u h of (h', r) \<Rightarrow> ((h', n), r)),
     env_post = (\<lambda>u a b c (h, n). case env_post E u a b c h of (h', r) \<Rightarrow> ((h', Suc n), r)),
     env_sleep = (\<lambda>k (h, n). (env_sleep E k h, n)),
     env_utcnow = (\<lambda>(h, n). case env_utcnow E h of (h', r) \<Rightarrow> ((h', n), r)),
     env_new_mode = env_new_mode E,
     env_failed_cmd = env_failed_cmd E,
     env_http_error = env_http_error E,
     env_sha256 = env_sha256 E,
     env_untar = env_untar E,
     env_bracket_host = env_bracket_host E,
     env_is_dir = (\<lambda>p (h, n). env_is_dir E p h)\<rparr>"

lemma probe_counts: "snd (host (fst (probe_version (counted E) cfg w))) = Suc (snd (host w))"
  by (auto simp: probe_version_def counted_def io_simps requests_post_def raise_for_status_def
      split: prod.splits sum.splits)

lemma poll_counts: "snd (host (fst (poll_version (counted E) cfg n w))) \<le> snd (host w) + n"
proof (induction n arbitrary: w)
  case 0
  show ?case by simp
next
  case (Suc n)
  obtain v r where v: "probe_version (counted E) cfg w = (v, r)" by (cases "probe_version (counted E) cfg w")
  then have c: "snd (host v) = Suc (snd (host w))" using probe_counts [of E cfg w] by simp
  have slept: "snd (host (fst (whenIO b (sleep (counted E) 2) v))) = snd (host v)" for b
    by (cases b) (simp_all add: sleep_def counted_def split: prod.splits)
  show ?case
  proof (cases r)
    case (Inl e)
    with v c show ?thesis by (simp add: io_simps)
  next
    case (Inr found)
    obtain u s where u: "whenIO (0 < n) (sleep (counted E) 2) v = (u, s)" by (cases "whenIO (0 < n) (sleep (counted E) 2) v")
    with slept [of "0 < n"] c have "snd (host u) = Suc (snd (host w))" by simp
    with v c u Suc.IH [of u] Inr show ?thesis
      by (cases found; cases s) (simp_all add: io_simps)
  qed
qed

section \<open>Evaluation\<close>

text \<open>Code equations with the world as an argument: an operation unfolds when it runs, not before.\<close>

lemmas services_code [code] =
  get_status_def [THEN fun_cong] systemctl_def [THEN fun_cong] restart_service_def [THEN fun_cong]
  start_service_def [THEN fun_cong] stop_service_def [THEN fun_cong]
  restart_monitor_def [THEN fun_cong] start_monitor_def [THEN fun_cong]
  stop_monitor_def [THEN fun_cong] restart_rpc_proxy_def [THEN fun_cong]
  start_rpc_proxy_def [THEN fun_cong] stop_rpc_proxy_def [THEN fun_cong]
  service_running_def [THEN fun_cong] probe_version_def [THEN fun_cong]
  wait_for_running_version_def [THEN fun_cong]

end
