(* ===== verification/Service_Args.thy ===== *)
theory Service_Args
  imports Services
begin

text \<open>
  The files \<open>src/utils.py\<close> renders from the charm configuration: \<open>bitcoind\<close>'s arguments with its RPC
  pinned to loopback (\<open>_opt_name\<close>, \<open>harden_service_args\<close>, \<open>update_service_args\<close>), and the environment
  files of the proxy and of the monitor. The lemmas show which options survive hardening, that
  hardening twice changes nothing, what each file contains after the operation that writes it, and
  that a rendered environment file reads back line by line.
\<close>

section \<open>bitcoind's arguments\<close>

definition RPC_BIND_OPTS :: "string set" where
  "RPC_BIND_OPTS = {''rpcbind'', ''rpcallowip'', ''rpcport''}"

definition WALLET_OPTS :: "string set" where
  "WALLET_OPTS = {''disablewallet'', ''wallet''}"

definition opt_name :: "string \<Rightarrow> string" where
  "opt_name tok =
     (let name = takeWhile (\<lambda>c. c \<noteq> CHR ''='') (dropWhile (\<lambda>c. c = CHR ''-'') tok)
      in if starts_with ''no'' name \<and> length name > 2 then drop 2 name else name)"

definition harden_service_args :: "string \<Rightarrow> config \<Rightarrow> string" where
  "harden_service_args service_args cfg =
     (let tokens = filter (\<lambda>t. opt_name t \<notin> RPC_BIND_OPTS) (py_split service_args)
            @ [''-rpcbind=127.0.0.1'', ''-rpcbind=[::1]'', ''-rpcport='' @ str_of_nat BITCOIND_RPC_PORT];
          tokens' = (if truthy (cfg_get cfg ''disable-wallet'')
             then filter (\<lambda>t. opt_name t \<notin> WALLET_OPTS) tokens @ [''-disablewallet''] else tokens)
      in py_join '' '' tokens')"

text \<open>The argument string \<open>update_service_args\<close> builds: hardened, then the credentials appended.\<close>

definition service_args_of :: "config \<Rightarrow> string" where
  "service_args_of cfg =
     (let args = harden_service_args (cfg_str cfg ''service-args'') cfg;
          rpc_user = cfg_get cfg ''rpc-user''; rpc_password = cfg_get cfg ''rpc-password''
      in if truthy rpc_user \<and> truthy rpc_password
         then args @ '' -rpcuser='' @ py_str rpc_user @ '' -rpcpassword='' @ py_str rpc_password
         else args)"

definition node_env_content :: "config \<Rightarrow> string" where
  "node_env_content cfg = ''BITCOIND_CLI_ARGS='' @ [CHR 0x22] @ service_args_of cfg @ [CHR 0x22]"

definition update_service_args :: "'h env \<Rightarrow> config \<Rightarrow> bool \<Rightarrow> ('h world, bool) io" where
  "update_service_args E cfg restart =
     seqIO (whenIO restart (stop_service E))
      (let env_path = default_file SERVICE_NAME; new_content = node_env_content cfg in
       bindIO (path_exists env_path) (\<lambda>present.
       bindIO (if present then bindIO (read_file E env_path) (\<lambda>old. ret (old \<noteq> new_content)) else ret True)
         (\<lambda>changed.
       seqIO (write_file E env_path new_content)
         (seqIO (whenIO restart (start_service E)) (ret changed)))))"

section \<open>Environment files\<close>

definition env_line :: "string \<times> string \<Rightarrow> string" where
  "env_line kv = fst kv @ ''='' @ snd kv @ [CHR 0x0A]"

definition proxy_overrides :: "config \<Rightarrow> (string \<times> pyval) list" where
  "proxy_overrides cfg =
    [(''PROXY_LISTEN'', cfg_get cfg ''rpc-proxy-listen''),
     (''PROXY_EXTEND_ALLOWLIST'', cfg_get cfg ''rpc-proxy-extend-allowlist''),
     (''PROXY_UPSTREAM_USER'', cfg_get cfg ''rpc-user''),
     (''PROXY_UPSTREAM_PASSWORD'', cfg_get cfg ''rpc-password'')]"

definition proxy_env_value :: "config \<Rightarrow> string \<times> string \<Rightarrow> string \<times> string" where
  "proxy_env_value cfg kv =
     (let key = fst kv;
          override = (case map_of (proxy_overrides cfg) key of None \<Rightarrow> PNone | Some v \<Rightarrow> v);
          filter_value = (if truthy (cfg_get cfg ''rpc-proxy-filter'') then ''true'' else ''false'')
      in (key, if key = ''PROXY_FILTER'' then filter_value
               else if truthy override then py_str override else snd kv))"

definition proxy_env_content :: "config \<Rightarrow> string" where
  "proxy_env_content cfg = concat (map (\<lambda>kv. env_line (proxy_env_value cfg kv)) RPC_PROXY_ENV)"

definition write_rpc_proxy_env_file :: "'h env \<Rightarrow> config \<Rightarrow> ('h world, unit) io" where
  "write_rpc_proxy_env_file E cfg =
     write_file E (default_file RPC_PROXY_SERVICE_NAME) (proxy_env_content cfg)"

definition monitor_env_value :: "config \<Rightarrow> string \<times> string \<Rightarrow> string \<times> string" where
  "monitor_env_value cfg kv =
     (let key = fst kv; value = snd kv;
          value = (if key = ''BITCOIN_RPC_PASSWORD'' \<and> truthy (cfg_get cfg ''rpc-password'')
                   then py_str (cfg_get cfg ''rpc-password'') else value);
          value = (if key = ''BITCOIN_RPC_USER'' \<and> truthy (cfg_get cfg ''rpc-user'')
                   then py_str (cfg_get cfg ''rpc-user'') else value)
      in (key, value))"

definition monitor_env_content :: "config \<Rightarrow> string" where
  "monitor_env_content cfg = concat (map (\<lambda>kv. env_line (monitor_env_value cfg kv)) MONITOR_ENV)"

definition write_monitor_env_file :: "'h env \<Rightarrow> config \<Rightarrow> ('h world, unit) io" where
  "write_monitor_env_file E cfg =
     write_file E (default_file MONITOR_SERVICE_NAME) (monitor_env_content cfg)"

section \<open>Tokens of the rendered arguments\<close>

lemma py_split_append_space:
  assumes "is_space c"
  shows "py_split (s @ c # t) = py_split s @ py_split t"
proof (induction s rule: py_split.induct)
  case (1 s)
  show ?case
  proof (cases "dropWhile is_space s = []")
    case True
    then have "py_split s = []" by (subst py_split.simps) simp
    moreover from True have "py_split (s @ c # t) = py_split t"
      by (induction s) (auto simp: assms split: if_splits)
    ultimately show ?thesis by simp
  next
    case False
    define u where "u = dropWhile is_space s"
    let ?tok = "takeWhile (\<lambda>c. \<not> is_space c) u" and ?rest = "dropWhile (\<lambda>c. \<not> is_space c) u"
    from False have u: "u \<noteq> []" by (simp add: u_def)
    have ap: "dropWhile is_space (s @ c # t) = u @ c # t"
      using False unfolding u_def by (auto simp: dropWhile_append)
    have "py_split (s @ c # t) = takeWhile (\<lambda>c. \<not> is_space c) (u @ c # t)
        # py_split (dropWhile (\<lambda>c. \<not> is_space c) (u @ c # t))"
      using py_split_step [OF ap [symmetric]] by simp
    also have "takeWhile (\<lambda>c. \<not> is_space c) (u @ c # t) = ?tok"
      using assms by (induction u) auto
    also have "dropWhile (\<lambda>c. \<not> is_space c) (u @ c # t) = ?rest @ c # t"
      using assms by (induction u) auto
    also have "py_split (?rest @ c # t) = py_split ?rest @ py_split t"
      using "1.IH" [OF u_def u] .
    finally show ?thesis using py_split_step [OF u_def u] by simp
  qed
qed

lemma py_split_token: "token t \<Longrightarrow> py_split t = [t]"
  using py_split_token_append [of t "[]"] by simp

definition pinned :: "string list" where
  "pinned = [''-rpcbind=127.0.0.1'', ''-rpcbind=[::1]'', ''-rpcport=8332'']"

definition is_rpc_bind :: "string \<Rightarrow> bool" where
  "is_rpc_bind t \<longleftrightarrow> opt_name t \<in> RPC_BIND_OPTS"

definition is_wallet :: "string \<Rightarrow> bool" where
  "is_wallet t \<longleftrightarrow> opt_name t \<in> WALLET_OPTS"

lemma pinned_names [simp]: "\<forall>t \<in> set pinned. is_rpc_bind t \<and> \<not> is_wallet t \<and> token t"
  by (simp add: pinned_def is_rpc_bind_def is_wallet_def opt_name_def RPC_BIND_OPTS_def WALLET_OPTS_def
      starts_with_def token_def is_space_def)

lemma disablewallet_name [simp]: "is_wallet ''-disablewallet''" "\<not> is_rpc_bind ''-disablewallet''"
  "token ''-disablewallet''"
  by (simp_all add: is_rpc_bind_def is_wallet_def opt_name_def RPC_BIND_OPTS_def WALLET_OPTS_def
      starts_with_def token_def is_space_def)

text \<open>The tokens of the hardened arguments, before they are joined.\<close>

definition hardened_tokens :: "string \<Rightarrow> config \<Rightarrow> string list" where
  "hardened_tokens args cfg =
     (let kept = filter (\<lambda>t. \<not> is_rpc_bind t) (py_split args) in
      if truthy (cfg_get cfg ''disable-wallet'')
      then filter (\<lambda>t. \<not> is_wallet t) kept @ pinned @ [''-disablewallet''] else kept @ pinned)"

lemma harden_join: "harden_service_args args cfg = py_join '' '' (hardened_tokens args cfg)"
proof -
  have w: "filter (\<lambda>t. opt_name t \<notin> WALLET_OPTS) pinned = pinned"
    using pinned_names by (auto simp: is_wallet_def intro!: filter_True)
  show ?thesis
    unfolding harden_service_args_def hardened_tokens_def is_rpc_bind_def is_wallet_def Let_def
    using w by (simp add: pinned_def)
qed

lemma hardened_tokens_token: "t \<in> set (hardened_tokens args cfg) \<Longrightarrow> token t"
  using pinned_names by (auto simp: hardened_tokens_def Let_def dest: py_split_tokens split: if_splits)

lemma py_split_harden [simp]: "py_split (harden_service_args args cfg) = hardened_tokens args cfg"
  unfolding harden_join by (rule py_split_join) (rule hardened_tokens_token)

lemma filter_pinned [simp]:
  "filter is_rpc_bind pinned = pinned" "filter (\<lambda>t. \<not> is_rpc_bind t) pinned = []"
  "filter is_wallet pinned = []" "filter (\<lambda>t. \<not> is_wallet t) pinned = pinned"
  using pinned_names by (auto intro!: filter_True filter_False)

lemma rpc_bind_tokens: "filter is_rpc_bind (hardened_tokens args cfg) = pinned"
  by (auto simp: hardened_tokens_def Let_def filter_empty_conv)

lemma other_tokens:
  "filter (\<lambda>t. \<not> is_rpc_bind t \<and> \<not> is_wallet t) (hardened_tokens args cfg)
   = filter (\<lambda>t. \<not> is_rpc_bind t \<and> \<not> is_wallet t) (py_split args)"
proof -
  have "filter (\<lambda>t. \<not> is_rpc_bind t \<and> \<not> is_wallet t) pinned = []"
    using pinned_names by (auto intro!: filter_False)
  then show ?thesis by (auto simp: hardened_tokens_def Let_def intro!: filter_cong)
qed

lemma wallet_tokens:
  "filter is_wallet (hardened_tokens args cfg) =
   (if truthy (cfg_get cfg ''disable-wallet'') then [''-disablewallet'']
    else filter (\<lambda>t. is_wallet t \<and> \<not> is_rpc_bind t) (py_split args))"
  by (auto simp: hardened_tokens_def Let_def filter_empty_conv intro!: filter_cong)

lemma hardened_tokens_idem:
  "hardened_tokens (harden_service_args args cfg) cfg = hardened_tokens args cfg"
proof -
  let ?b = "\<lambda>t. \<not> is_rpc_bind t" and ?w = "\<lambda>t. \<not> is_wallet t"
  have sw: "filter ?w (filter ?b xs) = filter ?b (filter ?w xs)" for xs
    by (auto simp: conj_commute intro: filter_cong)
  show ?thesis
    by (subst hardened_tokens_def) (auto simp: hardened_tokens_def Let_def sw intro!: filter_cong)
qed

section \<open>Reading an environment file back\<close>

text \<open>One \<open>KEY=value\<close> per line, split at the first equals sign.\<close>

definition parse_env :: "string \<Rightarrow> (string \<times> string) list" where
  "parse_env s = map (\<lambda>l. case partition_chr (CHR ''='') l of (k, _, v) \<Rightarrow> (k, v)) (py_splitlines s)"

definition one_line :: "string \<Rightarrow> bool" where
  "one_line s \<longleftrightarrow> (\<forall>c \<in> set s. \<not> is_line_end c)"

lemma lines_aux_line:
  "one_line s \<Longrightarrow> lines_aux acc (s @ CHR 0x0A # t) = (rev acc @ s) # lines_aux [] t"
proof (induction s arbitrary: acc)
  case Nil
  show ?case by (simp add: is_line_end_def)
next
  case (Cons c s)
  then have "\<not> is_line_end c" and "one_line s" by (simp_all add: one_line_def)
  then have "code c \<noteq> 13" by (auto simp: is_line_end_def)
  with Cons.IH [OF \<open>one_line s\<close>] \<open>\<not> is_line_end c\<close> show ?case by simp
qed

lemma partition_chr_key:
  "c \<notin> set k \<Longrightarrow> partition_chr c (k @ c # v) = (k, True, v)"
  unfolding partition_chr_def Let_def by (induction k) auto

lemma parse_env_lines:
  assumes "\<forall>kv \<in> set kvs. CHR ''='' \<notin> set (fst kv) \<and> one_line (fst kv) \<and> one_line (snd kv)"
  shows "parse_env (concat (map env_line kvs)) = kvs"
  using assms
proof (induction kvs)
  case Nil
  show ?case by (simp add: parse_env_def py_splitlines_def)
next
  case (Cons kv kvs)
  have line: "env_line kv = (fst kv @ CHR ''='' # snd kv) @ [CHR 0x0A]" by (simp add: env_line_def)
  have one: "one_line (fst kv @ CHR ''='' # snd kv)"
    using Cons.prems by (auto simp: one_line_def is_line_end_def)
  have "py_splitlines (concat (map env_line (kv # kvs)))
      = (fst kv @ CHR ''='' # snd kv) # py_splitlines (concat (map env_line kvs))"
    using lines_aux_line [OF one, of "[]" "concat (map env_line kvs)"]
    by (simp add: py_splitlines_def line)
  with Cons show ?case by (simp add: parse_env_def partition_chr_key)
qed

lemma one_line_const: "one_line s \<longleftrightarrow> list_all (\<lambda>c. \<not> is_line_end c) s"
  by (simp add: one_line_def list_all_iff)

lemmas env_const_defs = str_of_nat_ports is_line_end_def one_line_const

lemma proxy_env_keys:
  "\<forall>kv \<in> set RPC_PROXY_ENV. CHR ''='' \<notin> set (fst kv) \<and> one_line (fst kv) \<and> one_line (snd kv)"
  by (simp add: RPC_PROXY_ENV_def env_const_defs)

lemma monitor_env_keys:
  "\<forall>kv \<in> set MONITOR_ENV. CHR ''='' \<notin> set (fst kv) \<and> one_line (fst kv) \<and> one_line (snd kv)"
  by (simp add: MONITOR_ENV_def env_const_defs)

definition one_line_cfg :: "config \<Rightarrow> bool" where
  "one_line_cfg cfg \<longleftrightarrow> (\<forall>k \<in> {''rpc-proxy-listen'', ''rpc-proxy-extend-allowlist'', ''rpc-user'', ''rpc-password''}.
     one_line (py_str (cfg_get cfg k)))"

lemma proxy_value_one_line:
  assumes "one_line_cfg cfg" and "one_line (snd kv)"
  shows "one_line (snd (proxy_env_value cfg kv))"
proof -
  let ?o = "case map_of (proxy_overrides cfg) (fst kv) of None \<Rightarrow> PNone | Some v \<Rightarrow> v"
  have "?o = PNone \<or> one_line (py_str ?o)"
    using assms(1) by (auto simp: proxy_overrides_def one_line_cfg_def)
  then show ?thesis
    using assms(2) by (auto simp: proxy_env_value_def Let_def env_const_defs)
qed

lemma monitor_value_one_line:
  "one_line_cfg cfg \<Longrightarrow> one_line (snd kv) \<Longrightarrow> one_line (snd (monitor_env_value cfg kv))"
  by (auto simp: monitor_env_value_def Let_def one_line_cfg_def)

lemma env_value_key [simp]: "fst (proxy_env_value cfg kv) = fst kv" "fst (monitor_env_value cfg kv) = fst kv"
  by (simp_all add: proxy_env_value_def monitor_env_value_def Let_def)

lemma parse_proxy_env:
  "one_line_cfg cfg \<Longrightarrow> parse_env (proxy_env_content cfg) = map (proxy_env_value cfg) RPC_PROXY_ENV"
  using parse_env_lines [of "map (proxy_env_value cfg) RPC_PROXY_ENV"] proxy_env_keys
  by (auto simp: proxy_env_content_def comp_def proxy_value_one_line)

lemma parse_monitor_env:
  "one_line_cfg cfg \<Longrightarrow> parse_env (monitor_env_content cfg) = map (monitor_env_value cfg) MONITOR_ENV"
  using parse_env_lines [of "map (monitor_env_value cfg) MONITOR_ENV"] monitor_env_keys
  by (auto simp: monitor_env_content_def comp_def monitor_value_one_line)

section \<open>The operations that write the files\<close>

lemma touches_update_args [frame]: "default_file SERVICE_NAME \<in> S \<Longrightarrow> touches S (update_service_args E cfg restart)"
  unfolding update_service_args_def Let_def by (intro frame)

lemma touches_proxy_env [frame]:
  "default_file RPC_PROXY_SERVICE_NAME \<in> S \<Longrightarrow> touches S (write_rpc_proxy_env_file E cfg)"
  unfolding write_rpc_proxy_env_file_def by (intro frame)

lemma touches_monitor_env [frame]:
  "default_file MONITOR_SERVICE_NAME \<in> S \<Longrightarrow> touches S (write_monitor_env_file E cfg)"
  unfolding write_monitor_env_file_def by (intro frame)

definition data_of :: "'h world \<Rightarrow> path \<Rightarrow> bytes option" where
  "data_of w p = map_option fdata (files w p)"

lemma write_file_data: "write_file E p d w = (w', Inr x) \<Longrightarrow> data_of w' p = Some d"
  by (auto simp: write_file_def data_of_def with_data_def split: prod.splits option.splits)

lemma data_of_cong: "files w' p = files w p \<Longrightarrow> data_of w' p = data_of w p"
  by (simp add: data_of_def)

lemma update_service_args_data:
  assumes "update_service_args E cfg restart w = (w', Inr changed)"
  shows "data_of w' (default_file SERVICE_NAME) = Some (node_env_content cfg)
    \<and> (changed \<longleftrightarrow> data_of w (default_file SERVICE_NAME) \<noteq> Some (node_env_content cfg))"
proof -
  let ?p = "default_file SERVICE_NAME"
  from assms obtain a b c x1 x2 x3 where
    a: "whenIO restart (stop_service E) w = (a, Inr x1)"
    and b: "(if files a ?p \<noteq> None then bindIO (read_file E ?p) (\<lambda>old. ret (old \<noteq> node_env_content cfg))
             else ret True) a = (b, Inr changed)"
    and c: "write_file E ?p (node_env_content cfg) b = (c, Inr x2)"
    and d: "whenIO restart (start_service E) c = (w', Inr x3)"
    unfolding update_service_args_def Let_def path_exists_def
    by (auto simp only: seqIO_Inr_iff bindIO_Inr_iff getIO_run ret_run prod.inject sum.inject)
  have "touches {} (whenIO restart (stop_service E))" "touches {} (whenIO restart (start_service E))"
    by (intro frame)+
  with a d have fa: "files a = files w" and fd: "files w' = files c" by (auto dest: touches_noneD)
  have "changed \<longleftrightarrow> data_of a ?p \<noteq> Some (node_env_content cfg)"
    using b by (auto simp: read_file_def fs_check_def io_inv data_of_def io_simps
        split: if_splits option.splits prod.splits)
  with write_file_data [OF c] fa fd show ?thesis by (simp add: data_of_def)
qed

section \<open>Evaluation\<close>

text \<open>Code equations with the world as an argument: an operation unfolds when it runs, not before.\<close>

lemmas service_args_code [code] =
  update_service_args_def [THEN fun_cong] write_rpc_proxy_env_file_def [THEN fun_cong]
  write_monitor_env_file_def [THEN fun_cong]

end
