(* ===== verification/Lab.thy ===== *)
theory Lab
  imports Constants "HOL-Library.Code_Target_Nat"
begin

text \<open>
  A concrete host on which the theorems are exercised: no file operation fails, the release server
  publishes Bitcoin Core 28.0 with a matching checksum, the unpacked programs and the running node
  report that version, and every command succeeds. The witnesses replace single answers of it.
\<close>

definition lab_digest :: string where
  "lab_digest = replicate 64 (CHR ''a'')"

definition lab_archive :: "tar_member list" where
  "lab_archive =
    [\<lparr>member_name = ''bitcoin-28.0/README.md'', member_isfile = True, member_data = Some ''text''\<rparr>,
     \<lparr>member_name = ''bitcoin-28.0/bin/bitcoind'', member_isfile = True, member_data = Some ''node''\<rparr>,
     \<lparr>member_name = ''bitcoin-28.0/bin/bitcoin-cli'', member_isfile = True, member_data = Some ''cli''\<rparr>]"

definition lab_temp :: "path \<Rightarrow> string \<Rightarrow> fs \<Rightarrow> unit \<Rightarrow> unit \<times> (exn + path)" where
  "lab_temp d pre fs h = (let t = path_join d (pre @ ''0'') in
     (h, if fs t = None then Inr t else Inl (Exn OSError ''no usable temporary name'')))"

definition lab_get :: "string \<Rightarrow> unit \<Rightarrow> unit \<times> (exn + response)" where
  "lab_get url h = (h, Inr \<lparr>status_code = 200, body_bytes = ''archive'',
     body_text = lab_digest @ ''  bitcoin-28.0-x86_64-linux-gnu.tar.gz'', body_json = Inr PNone\<rparr>)"

definition lab_post :: "string \<Rightarrow> string \<Rightarrow> string \<Rightarrow> pyval \<Rightarrow> unit \<Rightarrow> unit \<times> (exn + response)" where
  "lab_post url user pw body h = (h, Inr \<lparr>status_code = 200, body_bytes = [], body_text = [],
     body_json = Inr (PDict [(PStr ''error'', PNone), (PStr ''result'',
       PDict [(PStr ''subversion'', PStr ''/Satoshi:28.0.0/'')])])\<rparr>)"

definition lab_fault :: "fs_op \<Rightarrow> unit \<Rightarrow> unit \<times> (exn \<times> nat option) option" where
  "lab_fault op h = (h, None)"

definition lab_run :: "string list \<Rightarrow> fs \<Rightarrow> unit \<Rightarrow> unit \<times> (exn + proc)" where
  "lab_run cmd fs h = (h, Inr \<lparr>returncode = 0, stdout = ''Bitcoin Core version v28.0.0''\<rparr>)"

definition lab_sleep :: "nat \<Rightarrow> unit \<Rightarrow> unit" where
  "lab_sleep n h = h"

definition lab_utcnow :: "unit \<Rightarrow> unit \<times> string" where
  "lab_utcnow h = (h, ''2026-01-01 00:00:00 UTC'')"

definition lab_failed_cmd :: "string list \<Rightarrow> int \<Rightarrow> string" where
  "lab_failed_cmd cmd rc = ''command failed''"

definition lab_http_error :: "string \<Rightarrow> nat \<Rightarrow> string" where
  "lab_http_error url st = ''HTTP error''"

definition lab_sha256 :: "bytes \<Rightarrow> string" where
  "lab_sha256 d = lab_digest"

definition lab_untar :: "bytes \<Rightarrow> exn + tar_member list" where
  "lab_untar d = Inr lab_archive"

definition lab_bracket_host :: "string \<Rightarrow> exn option" where
  "lab_bracket_host s = None"

definition lab_is_dir :: "path \<Rightarrow> unit \<Rightarrow> bool" where
  "lab_is_dir p h \<longleftrightarrow> p = HOME_DIR"

text \<open>The answers are named functions, so that evaluation unfolds an answer only when it is asked for.\<close>

definition lab :: "unit env" where
  "lab = \<lparr>
     env_fault = lab_fault,
     env_mkstemp = lab_temp,
     env_mkdtemp = lab_temp,
     env_run = lab_run,
     env_get = lab_get,
     env_post = lab_post,
     env_sleep = lab_sleep,
     env_utcnow = lab_utcnow,
     env_new_mode = 420,
     env_failed_cmd = lab_failed_cmd,
     env_http_error = lab_http_error,
     env_sha256 = lab_sha256,
     env_untar = lab_untar,
     env_bracket_host = lab_bracket_host,
     env_is_dir = lab_is_dir\<rparr>"

text \<open>A machine with an older release installed.\<close>

definition lab_world :: "unit world" where
  "lab_world = \<lparr>files = [BINARY_PATH \<mapsto> \<lparr>fdata = ''old node'', st_mode = 33261\<rparr>,
     CLI_PATH \<mapsto> \<lparr>fdata = ''old cli'', st_mode = 33261\<rparr>], host = ()\<rparr>"

lemma lab_tempfile_ok: "tempfile_ok lab"
  unfolding tempfile_ok_def lab_def lab_temp_def Let_def by (auto split: if_splits intro!: exI [of _ "''0''"])

text \<open>The host itself has no state, so an operation that leaves the files alone leaves this world alone.\<close>

lemma unit_world_eqI: "files w = files v \<Longrightarrow> w = (v :: unit world)"
  by (cases w; cases v) simp

lemma unit_world_run:
  assumes "touches {} m"
  shows "m w = ((w :: unit world), snd (m w))"
proof -
  obtain w' r where run: "m w = (w', r)" by (cases "m w")
  with touches_noneD [OF assms run] show ?thesis by (simp add: unit_world_eqI)
qed

end
