(* ===== verification/Args_Spec.thy ===== *)
theory Args_Spec
  imports Service_Args Lab
begin

text \<open>
  The properties of the rendered files and of the polls: what hardening keeps and removes, what the
  three environment files say, when an update reports a change, how long a poll can last.
\<close>

section \<open>Hardened arguments\<close>


text \<open>
  Hardening is idempotent: hardening arguments that are already hardened changes nothing.
\<close>

lemma harden_service_args_idempotent:
  "harden_service_args (harden_service_args args cfg) cfg = harden_service_args args cfg"
  unfolding harden_join by (simp add: harden_join [symmetric] hardened_tokens_idem)

text \<open>Credentials that are one argument each.\<close>

definition plain_credentials :: "config \<Rightarrow> bool" where
  "plain_credentials cfg \<longleftrightarrow>
     token (py_str (cfg_get cfg ''rpc-user'')) \<and> token (py_str (cfg_get cfg ''rpc-password''))"

lemma credential_tokens:
  assumes "token t"
  shows "token (''-rpcuser='' @ t)" "token (''-rpcpassword='' @ t)"
    and "\<not> is_rpc_bind (''-rpcuser='' @ t)" "\<not> is_rpc_bind (''-rpcpassword='' @ t)"
  using assms
  by (simp_all add: token_def is_space_def is_rpc_bind_def opt_name_def RPC_BIND_OPTS_def starts_with_def Let_def)

lemma service_args_split:
  assumes "plain_credentials cfg"
  shows "py_split (service_args_of cfg) = hardened_tokens (cfg_str cfg ''service-args'') cfg
    @ (if truthy (cfg_get cfg ''rpc-user'') \<and> truthy (cfg_get cfg ''rpc-password'')
       then [''-rpcuser='' @ py_str (cfg_get cfg ''rpc-user''), ''-rpcpassword='' @ py_str (cfg_get cfg ''rpc-password'')]
       else [])"
proof -
  let ?h = "harden_service_args (cfg_str cfg ''service-args'') cfg"
  let ?u = "''-rpcuser='' @ py_str (cfg_get cfg ''rpc-user'')" and ?p = "''-rpcpassword='' @ py_str (cfg_get cfg ''rpc-password'')"
  have tok: "token ?u" "token ?p" using assms credential_tokens by (simp_all add: plain_credentials_def)
  have "py_split (?h @ CHR '' '' # ?u @ CHR '' '' # ?p) = py_split ?h @ [?u] @ [?p]"
    using py_split_append_space [of "CHR '' ''" ?h "?u @ CHR '' '' # ?p"]
      py_split_append_space [of "CHR '' ''" ?u ?p] py_split_token [OF tok(1)] py_split_token [OF tok(2)]
    by (simp add: is_space_def)
  then show ?thesis by (auto simp: service_args_of_def Let_def)
qed




section \<open>Environment files\<close>

text \<open>
  (C19) A proxy environment file reads back, line by line, as the default environment with the
  configured values: the filter switch always says the configured boolean, the admin listener is the
  frozen default whatever the configuration, and the proxy's upstream is the port the node is pinned to.
\<close>

theorem proxy_env_file_round_trip:
  assumes "one_line_cfg cfg"
  shows "parse_env (proxy_env_content cfg) = map (proxy_env_value cfg) RPC_PROXY_ENV
    \<and> map_of (parse_env (proxy_env_content cfg)) ''PROXY_ADMIN_LISTEN'' = Some ''0.0.0.0:8360''
    \<and> map_of (parse_env (proxy_env_content cfg)) ''PROXY_UPSTREAM_URL'' = Some ''http://127.0.0.1:8332''
    \<and> map_of (parse_env (proxy_env_content cfg)) ''PROXY_FILTER''
      = Some (if truthy (cfg_get cfg ''rpc-proxy-filter'') then ''true'' else ''false'')"
  unfolding parse_proxy_env [OF assms]
  by (simp add: RPC_PROXY_ENV_def proxy_env_value_def proxy_overrides_def Let_def)

theorem proxy_env_file_round_trip_witness:
  "map_of (parse_env (proxy_env_content [''rpc-user'' \<mapsto> PStr ''alice''])) ''PROXY_ADMIN_LISTEN'' = Some ''0.0.0.0:8360''"
proof -
  have "one_line_cfg [''rpc-user'' \<mapsto> PStr ''alice'']" by code_simp
  from proxy_env_file_round_trip [OF this] show ?thesis by blast
qed

text \<open>
  (C18) The node, the monitor and the proxy are given the same credentials: when both are set, the
  monitor's and the proxy's files name exactly the user and password that are appended to the node's
  arguments.
\<close>

theorem credentials_agree_across_files:
  assumes "one_line_cfg cfg" and "plain_credentials cfg"
    and "truthy (cfg_get cfg ''rpc-user'')" and "truthy (cfg_get cfg ''rpc-password'')"
  shows "\<exists>user password.
    map_of (parse_env (monitor_env_content cfg)) ''BITCOIN_RPC_USER'' = Some user
    \<and> map_of (parse_env (monitor_env_content cfg)) ''BITCOIN_RPC_PASSWORD'' = Some password
    \<and> map_of (parse_env (proxy_env_content cfg)) ''PROXY_UPSTREAM_USER'' = Some user
    \<and> map_of (parse_env (proxy_env_content cfg)) ''PROXY_UPSTREAM_PASSWORD'' = Some password
    \<and> drop (length (py_split (service_args_of cfg)) - 2) (py_split (service_args_of cfg))
      = [''-rpcuser='' @ user, ''-rpcpassword='' @ password]"
  unfolding parse_proxy_env [OF assms(1)] parse_monitor_env [OF assms(1)] service_args_split [OF assms(2)]
  using assms(3,4)
  by (simp add: RPC_PROXY_ENV_def MONITOR_ENV_def proxy_env_value_def monitor_env_value_def proxy_overrides_def Let_def)

theorem credentials_agree_across_files_witness:
  "\<exists>user password.
    map_of (parse_env (monitor_env_content [''rpc-user'' \<mapsto> PStr ''alice'', ''rpc-password'' \<mapsto> PStr ''s3cret''])) ''BITCOIN_RPC_USER'' = Some user
    \<and> map_of (parse_env (proxy_env_content [''rpc-user'' \<mapsto> PStr ''alice'', ''rpc-password'' \<mapsto> PStr ''s3cret''])) ''PROXY_UPSTREAM_PASSWORD'' = Some password"
proof -
  let ?cfg = "[''rpc-user'' \<mapsto> PStr ''alice'', ''rpc-password'' \<mapsto> PStr ''s3cret'']"
  have "one_line_cfg ?cfg" by code_simp
  moreover have "plain_credentials ?cfg" by code_simp
  moreover have "truthy (cfg_get ?cfg ''rpc-user'')" "truthy (cfg_get ?cfg ''rpc-password'')" by code_simp+
  ultimately show ?thesis using credentials_agree_across_files [of ?cfg] by blast
qed

text \<open>
  An update of the node's arguments that returns has written exactly the rendered content, and its
  result says whether the file was different (or absent) before.
\<close>

lemma update_service_args_writes_and_reports:
  assumes "snd (update_service_args E cfg restart w) = Inr changed"
  shows "data_of (fst (update_service_args E cfg restart w)) (default_file SERVICE_NAME) = Some (node_env_content cfg)
    \<and> (changed \<longleftrightarrow> data_of w (default_file SERVICE_NAME) \<noteq> Some (node_env_content cfg))"
proof -
  obtain w' where w': "update_service_args E cfg restart w = (w', Inr changed)" using assms by (metis prod.collapse)
  from update_service_args_data [OF w'] w' show ?thesis by simp
qed

lemma update_service_args_writes_and_reports_witness:
  "data_of (fst (update_service_args lab Map.empty True lab_world)) (default_file SERVICE_NAME) = Some (node_env_content Map.empty)
    \<and> (True \<longleftrightarrow> data_of lab_world (default_file SERVICE_NAME) \<noteq> Some (node_env_content Map.empty))"
proof (rule update_service_args_writes_and_reports)
  show "snd (update_service_args lab Map.empty True lab_world) = Inr True" by code_simp
qed

section \<open>Polls\<close>

text \<open>
  (C20) The wait for the node's version ends: whatever the node answers, it is asked at most 30 times.
  The environment is wrapped so that it counts the JSON-RPC requests it receives.
\<close>

theorem wait_for_running_version_bounded:
  "snd (host (fst (wait_for_running_version (counted E) cfg w))) \<le> snd (host w) + 30"
  unfolding wait_for_running_version_def by (rule poll_counts)

text \<open>
  The version a wait returns is, up to the next slash, what follows \<open>Satoshi:\<close> in the
  \<open>subversion\<close> of a response without an error, and it is never empty.
\<close>

lemma read_version_extracts:
  assumes "read_version body = Some v"
  shows "v \<noteq> [] \<and> CHR ''/'' \<notin> set v \<and> is_dict body \<and> \<not> truthy (dict_get body ''error'')
    \<and> (\<exists>a b. py_str (dict_get (dict_get body ''result'') ''subversion'') = a @ ''Satoshi:'' @ v @ b
         \<and> (b = [] \<or> hd b = CHR ''/''))"
proof -
  let ?res = "if is_dict body \<and> \<not> truthy (dict_get body ''error'') then dict_get body ''result'' else PNone"
  let ?sub = "if is_dict ?res then dict_get ?res ''subversion'' else PNone"
  from assms have tag: "tagged_search ''Satoshi:'' (\<lambda>c. c \<noteq> CHR ''/'') (if truthy ?sub then py_str ?sub else []) = Some v"
    by (simp only: read_version_eq Let_def)
  then have "truthy ?sub" by (cases "truthy ?sub") simp_all
  then have dict: "is_dict body" "\<not> truthy (dict_get body ''error'')"
    and sub: "?sub = dict_get (dict_get body ''result'') ''subversion''"
    by (auto split: if_splits)
  have "tagged_search ''Satoshi:'' (\<lambda>c. c \<noteq> CHR ''/'')
      (py_str (dict_get (dict_get body ''result'') ''subversion'')) = Some v"
    using tag unfolding sub if_P [OF \<open>truthy ?sub\<close> [unfolded sub]] .
  then have "\<exists>a b. py_str (dict_get (dict_get body ''result'') ''subversion'') = a @ ''Satoshi:'' @ v @ b
      \<and> v \<noteq> [] \<and> (\<forall>c \<in> set v. c \<noteq> CHR ''/'') \<and> (b = [] \<or> \<not> hd b \<noteq> CHR ''/'')"
    by (rule tagged_search_Some)
  with dict show ?thesis by blast
qed

theorem read_version_extracts_witness:
  "CHR ''/'' \<notin> set ''28.0.0'' \<and> read_version (PDict [(PStr ''result'', PDict [(PStr ''subversion'', PStr ''/Satoshi:28.0.0/'')])]) = Some ''28.0.0''"
proof -
  have v: "read_version (PDict [(PStr ''result'', PDict [(PStr ''subversion'', PStr ''/Satoshi:28.0.0/'')])]) = Some ''28.0.0''"
    by code_simp
  from read_version_extracts [OF v] v show ?thesis by blast
qed

end
