(* ===== verification/Py_Url.thy ===== *)
theory Py_Url
  imports Host
begin

text \<open>
  \<open>urllib.parse.urlsplit\<close> and the \<open>hostname\<close>, \<open>username\<close>, \<open>password\<close> and \<open>port\<close> attributes of its
  result, as the sources use them. The check of a bracketed IPv6 host is the environment's.
\<close>

record split_result =
  u_scheme :: string
  u_netloc :: string
  u_path :: string
  u_query :: string
  u_fragment :: string

definition scheme_char :: "char \<Rightarrow> bool" where
  "scheme_char c \<longleftrightarrow> is_lower_ascii c \<or> is_upper_ascii c \<or> is_digit c \<or> c \<in> {CHR ''+'', CHR ''-'', CHR ''.''}"

text \<open>Leading control characters and spaces are dropped, tabs and line ends removed everywhere.\<close>

definition url_clean :: "string \<Rightarrow> string" where
  "url_clean s = filter (\<lambda>c. code c \<notin> {9, 10, 13}) (dropWhile (\<lambda>c. code c \<le> 32) s)"

definition split_scheme :: "string \<Rightarrow> string \<times> string" where
  "split_scheme s = (case partition_chr (CHR '':'') s of
      (a, found, b) \<Rightarrow>
        if found \<and> a \<noteq> [] \<and> (is_lower_ascii (hd a) \<or> is_upper_ascii (hd a)) \<and> (\<forall>c \<in> set a. scheme_char c)
        then (py_lower a, b) else ([], s))"

definition split_netloc :: "string \<Rightarrow> string \<times> string" where
  "split_netloc s =
     (if starts_with ''//'' s
      then (let r = drop 2 s; stop = (\<lambda>c. c \<in> {CHR ''/'', CHR ''?'', CHR ''#''})
            in (takeWhile (\<lambda>c. \<not> stop c) r, dropWhile (\<lambda>c. \<not> stop c) r))
      else ([], s))"

definition bracket_check :: "'h env \<Rightarrow> string \<Rightarrow> exn option" where
  "bracket_check E netloc =
     (let l = CHR ''['' \<in> set netloc; r = CHR '']'' \<in> set netloc
      in if l \<noteq> r then Some (Exn ValueError ''Invalid IPv6 URL'')
         else if l then env_bracket_host E netloc else None)"

definition urlsplit :: "'h env \<Rightarrow> string \<Rightarrow> exn + split_result" where
  "urlsplit E url =
     (case split_scheme (url_clean url) of (scheme, rest) \<Rightarrow>
      case split_netloc rest of (netloc, rest) \<Rightarrow>
      case bracket_check E netloc of
        Some e \<Rightarrow> Inl e
      | None \<Rightarrow>
         (case partition_chr (CHR ''#'') rest of (rest, _, fragment) \<Rightarrow>
          case partition_chr (CHR ''?'') rest of (path, _, query) \<Rightarrow>
            Inr \<lparr>u_scheme = scheme, u_netloc = netloc, u_path = path, u_query = query, u_fragment = fragment\<rparr>))"

definition u_username :: "split_result \<Rightarrow> string option" where
  "u_username u = (case rpartition_chr (CHR ''@'') (u_netloc u) of
      (info, found, _) \<Rightarrow> if found then Some (fst (partition_chr (CHR '':'') info)) else None)"

definition u_password :: "split_result \<Rightarrow> string option" where
  "u_password u = (case rpartition_chr (CHR ''@'') (u_netloc u) of
      (info, found, _) \<Rightarrow>
        (case partition_chr (CHR '':'') info of (_, has, pw) \<Rightarrow> if found \<and> has then Some pw else None))"

text \<open>Host and port texts of the network location.\<close>

definition u_hostinfo :: "split_result \<Rightarrow> string \<times> string" where
  "u_hostinfo u = (case rpartition_chr (CHR ''@'') (u_netloc u) of (_, _, hostinfo) \<Rightarrow>
      case partition_chr (CHR ''['') hostinfo of (_, has_bracket, bracketed) \<Rightarrow>
        if has_bracket
        then (case partition_chr (CHR '']'') bracketed of (h, _, r) \<Rightarrow> (h, snd (snd (partition_chr (CHR '':'') r))))
        else (case partition_chr (CHR '':'') hostinfo of (h, _, p) \<Rightarrow> (h, p)))"

definition u_hostname :: "split_result \<Rightarrow> string option" where
  "u_hostname u = (let h = fst (u_hostinfo u) in
     if h = [] then None
     else (case partition_chr (CHR ''%'') h of (a, has, zone) \<Rightarrow>
             Some (py_lower a @ (if has then ''%'' @ zone else []))))"

text \<open>\<open>port\<close>: absent, a number up to 65535, or a \<open>ValueError\<close>.\<close>

definition u_port :: "split_result \<Rightarrow> exn + nat option" where
  "u_port u = (let p = snd (u_hostinfo u) in
     if p = [] then Inr None
     else if (\<forall>c \<in> set p. is_digit c)
     then (if nat_of_digits p \<le> 65535 then Inr (Some (nat_of_digits p))
           else Inl (Exn ValueError ''Port out of range 0-65535''))
     else Inl (Exn ValueError (''Port could not be cast to integer value as '' @ repr_str p)))"

lemma u_username_None_iff: "u_username u = None \<longleftrightarrow> CHR ''@'' \<notin> set (u_netloc u)"
  by (auto simp: u_username_def rpartition_chr_def partition_chr_def Let_def)

end
