(* ===== verification/Release.thy ===== *)
theory Release
  imports Services Py_Url
begin

text \<open>
  \<open>src/bitcoin.py\<close>: downloading, verifying, staging and activating one Bitcoin Core release. The
  definitions follow the module function by function; \<open>fetch_release\<close> and \<open>stage_release\<close> are the two
  stretches of \<open>install_release\<close> before the temporary directory exists and inside it, up to the call
  of \<open>_activate\<close>. The service callbacks are parameters, as they are in the code.

  The lemmas show what an accepted URL and an accepted checksum line look like, that the service is
  not touched before the archive and both binaries have been verified, and that a failed activation
  puts the previous binaries back or says that it could not.
\<close>

section \<open>URLs and checksums\<close>

text \<open>\<open>r"\d+(?:\.\d+){1,2}"\<close>\<close>

definition dot_number_rx :: rx where
  "dot_number_rx = Cat (Cls ((=) (CHR ''.''))) (Plus1 (Cls is_digit))"

definition release_version_rx :: rx where
  "release_version_rx = Cat (Plus1 (Cls is_digit)) (Cat dot_number_rx (Opt dot_number_rx))"

definition release_filename :: "string \<Rightarrow> string" where
  "release_filename version = ''bitcoin-'' @ version @ ''-x86_64-linux-gnu.tar.gz''"

definition url_acceptable :: "split_result \<Rightarrow> string \<Rightarrow> bool" where
  "url_acceptable parsed expected_filename \<longleftrightarrow>
     \<not> (u_scheme parsed \<noteq> ''https''
        \<or> u_hostname parsed = None
        \<or> u_username parsed \<noteq> None
        \<or> u_password parsed \<noteq> None
        \<or> u_query parsed \<noteq> []
        \<or> u_fragment parsed \<noteq> []
        \<or> path_name (u_path parsed) \<noteq> expected_filename)"

text \<open>\<open>s.rsplit("/", 1)\<close>: the parts before and after the last slash (\<open>IndexError\<close> without one).\<close>

definition before_last_slash :: "string \<Rightarrow> string" where
  "before_last_slash s = (case rpartition_chr (CHR ''/'') s of (a, found, b) \<Rightarrow> if found then a else b)"

definition after_last_slash :: "string \<Rightarrow> exn + string" where
  "after_last_slash s = (case rpartition_chr (CHR ''/'') s of
      (a, found, b) \<Rightarrow> if found then Inr b else Inl (Exn IndexError ''list index out of range''))"

definition release_urls :: "'h env \<Rightarrow> string \<Rightarrow> string \<Rightarrow> exn + string \<times> string" where
  "release_urls E version binary_url =
     (if re_fullmatch release_version_rx version = None
      then Inl (Exn ValueError ''version must contain two or three numeric components'')
      else
       (let expected_filename = release_filename version;
            release_url = (if py_strip binary_url \<noteq> [] then py_strip binary_url
                           else py_replace ''VERSION'' version DL_URL)
        in (case urlsplit E release_url of
              Inl e \<Rightarrow> Inl e
            | Inr parsed \<Rightarrow>
                if \<not> url_acceptable parsed expected_filename
                then Inl (Exn ValueError
                  (''binary-url must be an HTTPS URL without credentials, query, or fragment, ending in '' @ expected_filename))
                else Inr (release_url, before_last_slash release_url @ ''/SHA256SUMS''))))"

text \<open>\<open>r"([0-9a-fA-F]{64})\s+\*?(.+)"\<close>\<close>

definition checksum_rx :: rx where
  "checksum_rx = Cat (Grp 1 (Rep 64 (Cls is_hex_digit))) (Cat (Plus1 (Cls is_space))
     (Cat (Opt (Cls ((=) (CHR ''*'')))) (Grp 2 (Plus1 (Cls (\<lambda>c. c \<noteq> CHR 0x0A))))))"

fun checksum_in_lines :: "string list \<Rightarrow> string \<Rightarrow> string option" where
  "checksum_in_lines [] filename = None"
| "checksum_in_lines (line # lines) filename =
     (case re_fullmatch checksum_rx (py_strip line) of
        Some g \<Rightarrow> if g 2 = Some filename then map_option py_casefold (g 1)
                  else checksum_in_lines lines filename
      | None \<Rightarrow> checksum_in_lines lines filename)"

definition expected_checksum :: "string \<Rightarrow> string \<Rightarrow> exn + string" where
  "expected_checksum payload filename =
     (case checksum_in_lines (py_splitlines payload) filename of
        Some digest \<Rightarrow> Inr digest
      | None \<Rightarrow> Inl (Exn ValueError (''SHA256SUMS has no entry for '' @ filename)))"

section \<open>Archives and versions\<close>

text \<open>\<open>r"(?:^|\s)v?(\d+(?:\.\d+)+)"\<close>\<close>

definition version_rx :: rx where
  "version_rx = Cat (Or Bot (Cls is_space)) (Cat (Opt (Cls ((=) (CHR ''v''))))
     (Grp 1 (Cat (Plus1 (Cls is_digit)) (Plus1 dot_number_rx))))"

definition drop_trailing_zeros :: "nat list \<Rightarrow> nat list" where
  "drop_trailing_zeros parts = rev (dropWhile (\<lambda>n. n = 0) (rev parts))"

definition version_parts :: "string \<Rightarrow> exn + nat list" where
  "version_parts value =
     (case re_search version_rx value of
        None \<Rightarrow> Inl (Exn ValueError (''cannot parse Bitcoin Core version from '' @ repr_str value))
      | Some g \<Rightarrow> (case g 1 of
            None \<Rightarrow> Inl (Exn AttributeError [])
          | Some s \<Rightarrow> Inr (drop_trailing_zeros (map nat_of_digits (split_chr (CHR ''.'') s)))))"

definition extract_member :: "'h env \<Rightarrow> path \<Rightarrow> tar_member \<Rightarrow> (string \<Rightarrow> path option) \<Rightarrow> ('h world, string \<Rightarrow> path option) io" where
  "extract_member E stage_dir m extracted =
     (let name = path_name (member_name m) in
      if name \<notin> {BINARY_NAME, CLI_NAME} \<or> path_parent_name (member_name m) \<noteq> ''bin'' \<or> \<not> member_isfile m
      then ret extracted
      else (case member_data m of
         None \<Rightarrow> ret extracted
       | Some d \<Rightarrow>
           (let target = path_join stage_dir name in
            seqIO (write_file E target d) (seqIO (os_chmod E target 493)
              (ret (extracted(name \<mapsto> target)))))))"

primrec extract_members :: "'h env \<Rightarrow> path \<Rightarrow> tar_member list \<Rightarrow> (string \<Rightarrow> path option) \<Rightarrow> ('h world, string \<Rightarrow> path option) io" where
  "extract_members E stage_dir [] extracted = ret extracted"
| "extract_members E stage_dir (m # ms) extracted =
     bindIO (extract_member E stage_dir m extracted) (extract_members E stage_dir ms)"

lemma extract_members_run [code]:
  "extract_members E stage_dir [] extracted w = (w, Inr extracted)"
  "extract_members E stage_dir (m # ms) extracted w =
     bindIO (extract_member E stage_dir m extracted) (extract_members E stage_dir ms) w"
  by simp_all

definition extract_binaries :: "'h env \<Rightarrow> path \<Rightarrow> path \<Rightarrow> string \<Rightarrow> ('h world, string \<Rightarrow> path option) io" where
  "extract_binaries E archive_path stage_dir version =
     bindIO (read_file E archive_path) (\<lambda>archive.
      case env_untar E archive of
        Inl e \<Rightarrow> raise_exn e
      | Inr members \<Rightarrow>
         bindIO (extract_members E stage_dir members (\<lambda>_. None)) (\<lambda>extracted.
           let missing = filter (\<lambda>n. extracted n = None) [CLI_NAME, BINARY_NAME] in
           if missing \<noteq> []
           then raise_exn (Exn ValueError
                  (''Bitcoin Core '' @ version @ '' archive is missing '' @ py_join '', '' missing))
           else ret extracted))"

definition validate_version :: "'h env \<Rightarrow> path \<Rightarrow> string \<Rightarrow> ('h world, unit) io" where
  "validate_version E binary_path expected_version =
     bindIO (run_check E [binary_path, ''--version'']) (\<lambda>result.
      case version_parts (stdout result) of
        Inl e \<Rightarrow> raise_exn e
      | Inr found \<Rightarrow>
         (case version_parts expected_version of
            Inl e \<Rightarrow> raise_exn e
          | Inr expected \<Rightarrow>
              if found \<noteq> expected
              then raise_exn (Exn ValueError
                (''staged '' @ path_name binary_path @ '' version does not match expected '' @ expected_version @ '': '' @
                 (if stdout result \<noteq> [] then hd (py_splitlines (stdout result)) else ''empty output'')))
              else ret ()))"

section \<open>Swapping binaries\<close>

type_synonym backups = "(path \<times> path option) list"

definition restore_one :: "'h env \<Rightarrow> path \<times> path option \<Rightarrow> ('h world, unit) io" where
  "restore_one E db =
     seqIO (unlink_missing_ok E (fst db))
       (case snd db of
          None \<Rightarrow> ret ()
        | Some backup \<Rightarrow>
            bindIO (path_exists backup) (\<lambda>there. whenIO there (os_replace E backup (fst db))))"

definition restore :: "'h env \<Rightarrow> backups \<Rightarrow> ('h world, unit) io" where
  "restore E destinations = for_each destinations (restore_one E)"

definition stop_for_activation :: "('h world, unit) io \<Rightarrow> ('h world, unit) io \<Rightarrow> ('h world, unit) io" where
  "stop_for_activation stop start =
     try_except stop (\<lambda>exc.
       seqIO (try_except start (\<lambda>recovery_exc. raise_exn (Exn RuntimeError
                (''failed to recover Bitcoin Core after stop failure: '' @ exn_str recovery_exc))))
         (raise_exn exc))"

text \<open>The outcome of a step as a value, for the code that goes on after a failure.\<close>

definition attempt :: "('w, 'a) io \<Rightarrow> ('w, exn + 'a) io" where
  "attempt m = (\<lambda>w. case m w of (w', r) \<Rightarrow> (w', Inr r))"

text \<open>
  \<open>_swap_binaries\<close> fills the caller's \<open>backups\<close> as it goes, so the backups made so far are part of its
  result when it raises.
\<close>

fun swap_binaries :: "'h env \<Rightarrow> (path \<times> path) list \<Rightarrow> path \<Rightarrow> backups \<Rightarrow> ('h world, backups \<times> exn option) io" where
  "swap_binaries E [] stage_dir backups = ret (backups, None)"
| "swap_binaries E ((destination, source) # rest) stage_dir backups =
     bindIO (path_exists destination) (\<lambda>there.
     let backup = (if there then Some (path_join stage_dir (path_name destination @ ''.previous'')) else None) in
     bindIO (attempt (case backup of None \<Rightarrow> ret () | Some b \<Rightarrow> os_replace E destination b)) (\<lambda>moved.
     case moved of
       Inl e \<Rightarrow> ret (backups, Some e)
     | Inr _ \<Rightarrow>
        (let backups' = backups @ [(destination, backup)] in
         bindIO (attempt (os_replace E source destination)) (\<lambda>placed.
         case placed of
           Inl e \<Rightarrow> ret (backups', Some e)
         | Inr _ \<Rightarrow> swap_binaries E rest stage_dir backups'))))"

definition verify_running_version :: "string \<Rightarrow> ('h world, string option) io \<Rightarrow> ('h world, unit) io" where
  "verify_running_version version wait = bindIO wait (\<lambda>running.
     case running of
       None \<Rightarrow> raise_exn (Exn RuntimeError (''Bitcoin Core '' @ version @ '' did not become RPC-ready''))
     | Some running_version \<Rightarrow>
        (case version_parts running_version of
           Inl e \<Rightarrow> raise_exn e
         | Inr found \<Rightarrow>
            (case version_parts version of
               Inl e \<Rightarrow> raise_exn e
             | Inr expected \<Rightarrow>
                 if found \<noteq> expected
                 then raise_exn (Exn RuntimeError
                   (''running Bitcoin Core version does not match expected '' @ version @ '': '' @ running_version))
                 else ret ())))"

definition rollback_steps :: "'h env \<Rightarrow> backups \<Rightarrow> bool \<Rightarrow> bool \<Rightarrow> ('h world, unit) io \<Rightarrow> ('h world, unit) io
    \<Rightarrow> (string \<times> ('h world, unit) io) list" where
  "rollback_steps E backups stop_replacement start_previous stop start =
     (if stop_replacement then [(''stop replacement'', stop)] else [])
     @ [(''restore binaries'', restore E backups)]
     @ (if start_previous then [(''start previous version'', start)] else [])"

definition rollback :: "'h env \<Rightarrow> backups \<Rightarrow> bool \<Rightarrow> bool \<Rightarrow> ('h world, unit) io \<Rightarrow> ('h world, unit) io \<Rightarrow> ('h world, unit) io" where
  "rollback E backups stop_replacement start_previous stop start =
     bindIO (collect_errors (rollback_steps E backups stop_replacement start_previous stop start)) (\<lambda>rollback_errors.
       if rollback_errors \<noteq> []
       then raise_exn (Exn RuntimeError
              (''Bitcoin Core rollback failed ('' @ py_join ''; '' rollback_errors @ '')''))
       else ret ())"

definition activate :: "'h env \<Rightarrow> string \<Rightarrow> (path \<times> path) list \<Rightarrow> path \<Rightarrow> ('h world, bool) io \<Rightarrow> ('h world, unit) io
    \<Rightarrow> ('h world, unit) io \<Rightarrow> ('h world, string option) io \<Rightarrow> ('h world, unit) io" where
  "activate E version destinations stage_dir is_running stop start wait =
     bindIO is_running (\<lambda>was_running.
     seqIO (whenIO was_running (stop_for_activation stop start))
     (bindIO (swap_binaries E destinations stage_dir []) (\<lambda>swapped.
     case swapped of
       (backups, Some exc) \<Rightarrow> seqIO (rollback E backups False was_running stop start) (raise_exn exc)
     | (backups, None) \<Rightarrow>
         try_except (whenIO was_running (seqIO start (verify_running_version version wait)))
           (\<lambda>exc. seqIO (rollback E backups was_running was_running stop start) (raise_exn exc)))))"

section \<open>Installing a release\<close>

definition fetch_release :: "'h env \<Rightarrow> string \<Rightarrow> string \<Rightarrow> ('h world, string \<times> bytes) io" where
  "fetch_release E version binary_url =
     (case release_urls E version binary_url of
        Inl e \<Rightarrow> raise_exn e
      | Inr (release_url, checksum_url) \<Rightarrow>
         bindIO (requests_get E release_url) (\<lambda>release.
         seqIO (raise_for_status E release_url release)
         (bindIO (requests_get E checksum_url) (\<lambda>sums.
         seqIO (raise_for_status E checksum_url sums)
         (case after_last_slash release_url of
            Inl e \<Rightarrow> raise_exn e
          | Inr filename \<Rightarrow>
             (case expected_checksum (body_text sums) filename of
                Inl e \<Rightarrow> raise_exn e
              | Inr expected \<Rightarrow>
                 (let actual = env_sha256 E (body_bytes release) in
                  if actual \<noteq> expected
                  then raise_exn (Exn ValueError
                    (''SHA-256 mismatch for '' @ filename @ '': expected '' @ expected @ '', got '' @ actual))
                  else ret (filename, body_bytes release))))))))"

definition stage_release :: "'h env \<Rightarrow> string \<Rightarrow> path \<Rightarrow> path \<Rightarrow> path \<Rightarrow> string \<Rightarrow> bytes \<Rightarrow> ('h world, (path \<times> path) list) io" where
  "stage_release E version binary_path cli_path stage_dir filename archive =
     (let archive_path = path_join stage_dir filename in
      seqIO (write_file E archive_path archive)
      (bindIO (extract_binaries E archive_path stage_dir version) (\<lambda>staged.
       case (staged BINARY_NAME, staged CLI_NAME) of
         (Some node, Some cli) \<Rightarrow>
           seqIO (validate_version E node version)
           (seqIO (validate_version E cli version)
             (ret (if binary_path = cli_path then [(binary_path, cli)]
                   else [(binary_path, node), (cli_path, cli)])))
       | _ \<Rightarrow> raise_exn (Exn KeyError []))))"

definition install_release :: "'h env \<Rightarrow> string \<Rightarrow> path \<Rightarrow> path \<Rightarrow> string \<Rightarrow> ('h world, bool) io \<Rightarrow> ('h world, unit) io
    \<Rightarrow> ('h world, unit) io \<Rightarrow> ('h world, string option) io \<Rightarrow> ('h world, unit) io" where
  "install_release E version binary_path cli_path binary_url is_running stop start wait =
     (if version = [] then ret ()
      else bindIO (fetch_release E version binary_url) (\<lambda>(filename, archive).
       seqIO (mkdir_parents E (path_parent binary_path))
       (bindIO (mkdtemp E (path_parent binary_path) ''.bitcoin-stage-'') (\<lambda>stage_dir.
        try_finally
          (bindIO (stage_release E version binary_path cli_path stage_dir filename archive) (\<lambda>destinations.
             activate E version destinations stage_dir is_running stop start wait))
          (rmtree E stage_dir)))))"

section \<open>Frames\<close>

lemma inside_join [simp]: "inside d (path_join d n)"
  by (simp add: inside_def path_join_def starts_with_iff)

lemma touches_attempt [frame]: "touches S m \<Longrightarrow> touches S (attempt m)"
  by (auto simp: runs_in_def attempt_def case_prod_beta)

lemma touches_restore_one: "fst db \<in> S \<Longrightarrow> (\<And>b. snd db = Some b \<Longrightarrow> b \<in> S) \<Longrightarrow> touches S (restore_one E db)"
  unfolding restore_one_def by (intro frame) auto

lemma touches_restore:
  "(\<And>d b. (d, b) \<in> set bs \<Longrightarrow> d \<in> S) \<Longrightarrow> (\<And>d b. (d, Some b) \<in> set bs \<Longrightarrow> b \<in> S) \<Longrightarrow> touches S (restore E bs)"
  unfolding restore_def by (intro fr.resp_for_each touches_restore_one) auto

definition backup_of :: "path \<Rightarrow> path \<Rightarrow> path" where
  "backup_of stage_dir d = path_join stage_dir (path_name d @ ''.previous'')"

lemma touches_swap:
  "fst ` set ds \<subseteq> S \<Longrightarrow> snd ` set ds \<subseteq> S \<Longrightarrow> (\<And>d. d \<in> fst ` set ds \<Longrightarrow> backup_of stage d \<in> S) \<Longrightarrow>
   touches S (swap_binaries E ds stage bs)"
proof (induction ds arbitrary: bs)
  case Nil
  show ?case unfolding swap_binaries.simps by (intro frame)
next
  case (Cons ds ds')
  obtain d s where ds: "ds = (d, s)" by (cases ds)
  from Cons.prems have rest: "touches S (swap_binaries E ds' stage bs')" for bs'
    by (intro Cons.IH) auto
  show ?case unfolding ds swap_binaries.simps Let_def
    using Cons.prems by (intro frame rest) (auto simp: ds backup_of_def split: if_splits)
qed

lemma touches_stop_for_activation:
  "touches S stop \<Longrightarrow> touches S start \<Longrightarrow> touches S (stop_for_activation stop start)"
  unfolding stop_for_activation_def by (intro frame)

lemma touches_verify_running: "touches S wait \<Longrightarrow> touches S (verify_running_version version wait)"
  unfolding verify_running_version_def by (intro frame)

lemma touches_validate [frame]: "touches S (validate_version E p v)"
  unfolding validate_version_def by (intro frame)

lemma touches_extract_member:
  "{p. inside stage p} \<subseteq> S \<Longrightarrow> touches S (extract_member E stage m ex)"
  unfolding extract_member_def Let_def by (intro frame) auto

lemma touches_extract_members:
  "{p. inside stage p} \<subseteq> S \<Longrightarrow> touches S (extract_members E stage ms ex)"
proof (induction ms arbitrary: ex)
  case Nil
  show ?case unfolding extract_members.simps by (intro frame)
next
  case (Cons m ms)
  then show ?case unfolding extract_members.simps by (intro frame touches_extract_member) auto
qed

lemma touches_extract_binaries:
  "{p. inside stage p} \<subseteq> S \<Longrightarrow> touches S (extract_binaries E a stage v)"
  unfolding extract_binaries_def Let_def by (intro frame touches_extract_members) auto

lemma touches_stage_release:
  "{p. inside stage p} \<subseteq> S \<Longrightarrow> touches S (stage_release E v b c stage f a)"
  unfolding stage_release_def Let_def
  by (intro frame touches_extract_binaries) auto

lemma touches_fetch_release [frame]: "touches S (fetch_release E v u)"
  unfolding fetch_release_def Let_def by (intro frame)

section \<open>Swapping and putting back\<close>

text \<open>
  The places a swap works with are apart: the destinations, the staged sources and the backup names
  are pairwise different.
\<close>

definition swap_layout :: "(path \<times> path) list \<Rightarrow> path \<Rightarrow> bool" where
  "swap_layout ds stage \<longleftrightarrow> distinct (map fst ds) \<and> distinct (map snd ds)
     \<and> distinct (map (\<lambda>x. backup_of stage (fst x)) ds)
     \<and> fst ` set ds \<inter> snd ` set ds = {}
     \<and> fst ` set ds \<inter> (\<lambda>x. backup_of stage (fst x)) ` set ds = {}
     \<and> snd ` set ds \<inter> (\<lambda>x. backup_of stage (fst x)) ` set ds = {}"

text \<open>
  What a swap, finished or not, leaves behind, compared with the files \<open>f\<close> before it: every recorded
  backup holds the destination's former file, every destination without a record is as it was.
\<close>

definition backed_up :: "(path \<times> path) list \<Rightarrow> path \<Rightarrow> fs \<Rightarrow> backups \<Rightarrow> fs \<Rightarrow> bool" where
  "backed_up ds stage f bs f' \<longleftrightarrow> distinct (map fst bs)
     \<and> (\<forall>(d, b) \<in> set bs. d \<in> fst ` set ds \<and> (b = None \<or> b = Some (backup_of stage d))
          \<and> f d = (case b of None \<Rightarrow> None | Some p \<Rightarrow> f' p))
     \<and> (\<forall>d \<in> fst ` set ds. d \<notin> fst ` set bs \<longrightarrow> f' d = f d)"

lemma backed_up_Cons:
  assumes "backed_up ds stage g nb f'" and same: "\<And>d'. d' \<in> fst ` set ds \<Longrightarrow> g d' = f d'"
    and d: "d \<notin> fst ` set ds" and b: "b = None \<or> b = Some (backup_of stage d)"
    and f: "f d = (case b of None \<Rightarrow> None | Some p \<Rightarrow> f' p)"
  shows "backed_up ((d, s) # ds) stage f ((d, b) # nb) f'"
proof -
  have nb: "distinct (map fst nb)" and rest: "\<And>d'. d' \<in> fst ` set ds \<Longrightarrow> d' \<notin> fst ` set nb \<Longrightarrow> f' d' = g d'"
    and rec: "\<And>d' b'. (d', b') \<in> set nb \<Longrightarrow> d' \<in> fst ` set ds \<and> (b' = None \<or> b' = Some (backup_of stage d'))
      \<and> g d' = (case b' of None \<Rightarrow> None | Some p \<Rightarrow> f' p)"
    using assms(1) unfolding backed_up_def by (blast, blast, fast)
  have "d \<notin> fst ` set nb" using rec d by force
  moreover have "\<forall>(d', b') \<in> set ((d, b) # nb). d' \<in> fst ` set ((d, s) # ds)
      \<and> (b' = None \<or> b' = Some (backup_of stage d')) \<and> f d' = (case b' of None \<Rightarrow> None | Some p \<Rightarrow> f' p)"
    using rec b f same by (simp add: case_prod_beta) (metis prod.collapse)
  moreover have "\<forall>d' \<in> fst ` set ((d, s) # ds). d' \<notin> fst ` set ((d, b) # nb) \<longrightarrow> f' d' = f d'"
    using rest same by simp
  ultimately show ?thesis unfolding backed_up_def using nb by simp
qed

lemma attempt_run [simp]: "attempt m w = (fst (m w), Inr (snd (m w)))"
  by (simp add: attempt_def case_prod_beta)

lemma swap_layout_Cons:
  assumes "swap_layout ((d, s) # ds) stage"
  shows "swap_layout ds stage" and "d \<noteq> s" "d \<noteq> backup_of stage d" "s \<noteq> backup_of stage d"
    and "\<And>d' s'. (d', s') \<in> set ds \<Longrightarrow> d' \<noteq> d \<and> d' \<noteq> s \<and> d' \<noteq> backup_of stage d \<and> s' \<noteq> s \<and> s' \<noteq> d
           \<and> s' \<noteq> backup_of stage d \<and> backup_of stage d' \<noteq> d \<and> backup_of stage d' \<noteq> s
           \<and> backup_of stage d' \<noteq> backup_of stage d"
  using assms unfolding swap_layout_def by (auto simp: image_iff)

lemma swap_binaries_spec:
  assumes "swap_layout ds stage" and "swap_binaries E ds stage bs w = (w', r)"
  shows "\<exists>nb x. r = Inr (bs @ nb, x) \<and> backed_up ds stage (files w) nb (files w')
    \<and> (x = None \<longrightarrow> (\<forall>(d, s) \<in> set ds. files w' d = files w s))"
  using assms
proof (induction ds arbitrary: bs w)
  case Nil
  then show ?case by (auto simp: backed_up_def intro!: exI [of _ "[]"])
next
  case (Cons ds1 ds)
  obtain d s where ds1: "ds1 = (d, s)" by (cases ds1)
  note lay = swap_layout_Cons [OF Cons.prems(1) [unfolded ds1]]
  let ?b = "backup_of stage d" and ?S = "fst ` set ds \<union> snd ` set ds \<union> backup_of stage ` fst ` set ds"
  have tail: "touches ?S (swap_binaries E ds stage bs')" for bs'
    by (rule touches_swap) auto
  have notin: "d \<notin> ?S" "?b \<notin> ?S" using lay(5) by fastforce+
  define b where "b = (if files w d \<noteq> None then Some ?b else None)"
  define m where "m = (case b of None \<Rightarrow> ret () | Some p \<Rightarrow> os_replace E d p) w"
  obtain w1 r1 where m: "m = (w1, r1)" by (cases m)
  have swap: "swap_binaries E ((d, s) # ds) stage bs w = (case r1 of Inl e \<Rightarrow> (w1, Inr (bs, Some e))
      | Inr _ \<Rightarrow> (case os_replace E s d w1 of
          (w2, Inl e) \<Rightarrow> (w2, Inr (bs @ [(d, b)], Some e))
        | (w2, Inr _) \<Rightarrow> swap_binaries E ds stage (bs @ [(d, b)]) w2))"
    using m unfolding m_def b_def
    by (cases "files w d") (auto simp: bindIO_run path_exists_def Let_def backup_of_def split: sum.splits prod.splits)
  show ?case
  proof (cases r1)
    case (Inl e)
    then have "files w1 = files w"
      using m os_replace_files [of E d ?b w w1 r1] unfolding m_def by (auto simp: b_def split: if_splits)
    with Cons.prems(2) swap Inl ds1 show ?thesis
      by (auto simp: backed_up_def intro!: exI [of _ "[]"])
  next
    case (Inr u)
    have f1: "files w1 = (case b of None \<Rightarrow> files w | Some p \<Rightarrow> (files w)(d := None, p := files w d))
        \<and> (b = None \<longrightarrow> files w d = None)"
      using m Inr os_replace_files [of E d ?b w w1 r1] unfolding m_def by (auto simp: b_def split: if_splits)
    have bd: "files w d = (case b of None \<Rightarrow> None | Some p \<Rightarrow> files w1 p)"
      using f1 by (auto split: option.splits)
    have b: "b = None \<or> b = Some ?b" by (simp add: b_def)
    obtain w2 r2 where m2: "os_replace E s d w1 = (w2, r2)" by (cases "os_replace E s d w1")
    have same: "files w1 p = files w p" if "p \<noteq> d" "p \<noteq> ?b" for p
      using f1 b that by auto
    show ?thesis
    proof (cases r2)
      case (Inl e)
      with m2 os_replace_files [OF m2] have "files w2 = files w1" by auto
      moreover have "backed_up (ds1 # ds) stage (files w) [(d, b)] (files w1)"
        unfolding backed_up_def using b bd same lay(5) by (fastforce simp: ds1)
      moreover have "w' = w2" "r = Inr (bs @ [(d, b)], Some e)"
        using Cons.prems(2) swap m2 Inl Inr by (simp_all add: ds1)
      ultimately show ?thesis by auto
    next
      case (Inr u2)
      with os_replace_files [OF m2] obtain f where
        f: "files w1 s = Some f" "files w2 = (files w1)(s := None, d := Some f)" by auto
      have rest: "swap_binaries E ds stage (bs @ [(d, b)]) w2 = (w', r)"
        using Cons.prems(2) swap m2 Inr \<open>r1 = Inr u\<close> by (simp add: ds1)
      from Cons.IH [OF lay(1) rest] obtain nb x where
        nb: "r = Inr ((bs @ [(d, b)]) @ nb, x)" "backed_up ds stage (files w2) nb (files w')"
        and x: "x = None \<longrightarrow> (\<forall>(d, s) \<in> set ds. files w' d = files w2 s)" by blast
      have keep: "files w' d = files w2 d" "files w' ?b = files w2 ?b"
        using touchesD [OF tail rest] notin by blast+
      have d2: "files w2 p = files w p" if "p \<noteq> d" "p \<noteq> ?b" "p \<noteq> s" for p
        using f(2) same that by simp
      have bw': "files w d = (case b of None \<Rightarrow> None | Some p \<Rightarrow> files w' p)"
        using bd b keep(2) f(2) lay(3,4) by (auto split: option.splits)
      have w2: "files w2 d' = files w d'" if "d' \<in> fst ` set ds" for d'
        using that lay(5) d2 by auto
      have notd: "d \<notin> fst ` set ds" using notin(1) by auto
      have "backed_up (ds1 # ds) stage (files w) ((d, b) # nb) (files w')"
        unfolding ds1 by (rule backed_up_Cons [OF nb(2) w2 notd b bw'])
      moreover have "x = None \<longrightarrow> (\<forall>(d', s') \<in> set (ds1 # ds). files w' d' = files w s')"
        using x keep(1) f same lay(2,4,5) d2 unfolding ds1 by fastforce
      ultimately show ?thesis using nb(1) by auto
    qed
  qed
qed

section \<open>Evaluation\<close>

text \<open>Code equations with the world as an argument: an operation unfolds when it runs, not before.\<close>

lemmas release_code [code] =
  extract_member_def [THEN fun_cong] extract_binaries_def [THEN fun_cong]
  validate_version_def [THEN fun_cong] restore_one_def [THEN fun_cong] restore_def [THEN fun_cong]
  stop_for_activation_def [THEN fun_cong] attempt_def [THEN fun_cong]
  verify_running_version_def [THEN fun_cong] rollback_def [THEN fun_cong]
  activate_def [THEN fun_cong] fetch_release_def [THEN fun_cong] stage_release_def [THEN fun_cong]
  install_release_def [THEN fun_cong]

end
