(* ===== verification/Release_Safety.thy ===== *)
theory Release_Safety
  imports Release
begin

text \<open>
  What \<open>src/bitcoin.py\<close> promises about an upgrade. The contract \<open>restorable\<close> is interpreted on
  \<open>_restore\<close> and the backups \<open>_swap_binaries\<close> records; from it follow the roll-back lemma, the failure
  and success theorems of \<open>_activate\<close>, and those of \<open>install_release\<close> on the paths the charm uses.
  Before them stand the facts about accepted URLs, checksums and version numbers.
\<close>

section \<open>Putting binaries back\<close>

definition released :: "backups \<Rightarrow> bool" where
  "released bs \<longleftrightarrow> distinct (map fst bs) \<and> (\<forall>d b d' b'. (d, b) \<in> set bs \<and> (d', Some b') \<in> set bs \<longrightarrow> d \<noteq> b')
     \<and> (\<forall>d b d'. (d, Some b) \<in> set bs \<and> (d', Some b) \<in> set bs \<longrightarrow> d = d')"

lemma released_Cons:
  assumes "released ((d, b) # bs)"
  shows "released bs" and "b \<noteq> Some d" and "d \<notin> fst ` set bs"
    and "(d', b') \<in> set bs \<Longrightarrow> d' \<noteq> d \<and> b \<noteq> Some d' \<and> b' \<noteq> Some d \<and> (b \<noteq> None \<longrightarrow> b' \<noteq> b)"
proof -
  note rel = assms [unfolded released_def]
  note dist = rel [THEN conjunct1] and ap = rel [THEN conjunct2, THEN conjunct1, rule_format]
    and inj = rel [THEN conjunct2, THEN conjunct2, rule_format]
  show "released bs" unfolding released_def
  proof (intro conjI allI impI)
    show "distinct (map fst bs)" using dist by simp
    show "x \<noteq> b'" if "(x, y) \<in> set bs \<and> (d', Some b') \<in> set bs" for x y d' b'
      using ap [of x y d' b'] that by simp
    show "x = d'" if "(x, Some y) \<in> set bs \<and> (d', Some y) \<in> set bs" for x y d'
      using inj [of x y d'] that by simp
  qed
  show "b \<noteq> Some d" using ap [of d b d d] by auto
  show dbs: "d \<notin> fst ` set bs" using dist by simp
  assume mem: "(d', b') \<in> set bs"
  then have "d' \<noteq> d" using dbs by force
  moreover have "b \<noteq> Some d'" using ap [of d' b' d d'] mem by auto
  moreover have "b' \<noteq> Some d" using ap [of d b d' d] mem by auto
  moreover have "b \<noteq> None \<longrightarrow> b' \<noteq> b" using inj [of d _ d'] mem \<open>d' \<noteq> d\<close> by auto
  ultimately show "d' \<noteq> d \<and> b \<noteq> Some d' \<and> b' \<noteq> Some d \<and> (b \<noteq> None \<longrightarrow> b' \<noteq> b)" by blast
qed

lemma restore_one_files:
  assumes "restore_one E (d, b) w = (w', Inr u)" and "b \<noteq> Some d"
  shows "files w' d = (case b of None \<Rightarrow> None | Some p \<Rightarrow> files w p)"
    and "p \<noteq> d \<Longrightarrow> b \<noteq> Some p \<Longrightarrow> files w' p = files w p"
proof -
  from assms(1) obtain v x where v: "unlink_missing_ok E d w = (v, Inr x)"
    and rest: "(case b of None \<Rightarrow> ret () | Some backup \<Rightarrow>
        bindIO (path_exists backup) (\<lambda>there. whenIO there (os_replace E backup d))) v = (w', Inr u)"
    unfolding restore_one_def seqIO_Inr_iff fst_conv snd_conv by blast
  from unlink_files [OF v] have fv: "files v = (files w)(d := None)" by auto
  have "files w' d = (case b of None \<Rightarrow> None | Some p \<Rightarrow> files w p)
      \<and> (p \<noteq> d \<longrightarrow> b \<noteq> Some p \<longrightarrow> files w' p = files w p)"
  proof (cases b)
    case None
    with rest fv show ?thesis by simp
  next
    case (Some backup)
    with assms(2) rest fv show ?thesis
      using os_replace_files [of E backup d v w' "Inr u"]
      by (cases "files v backup") (auto simp: path_exists_def bindIO_run)
  qed
  then show "files w' d = (case b of None \<Rightarrow> None | Some p \<Rightarrow> files w p)"
    and "p \<noteq> d \<Longrightarrow> b \<noteq> Some p \<Longrightarrow> files w' p = files w p" by blast+
qed

lemma restore_files:
  assumes "released bs" and "restore E bs w = (w', Inr u)"
  shows "(\<forall>(d, b) \<in> set bs. files w' d = (case b of None \<Rightarrow> None | Some p \<Rightarrow> files w p))
    \<and> (\<forall>p. p \<notin> fst ` set bs \<longrightarrow> (\<forall>d. (d, Some p) \<notin> set bs) \<longrightarrow> files w' p = files w p)"
  using assms
proof (induction bs arbitrary: w)
  case Nil
  then show ?case by (simp add: restore_def)
next
  case (Cons x bs)
  obtain d b where x: "x = (d, b)" by (cases x)
  from Cons.prems(2) obtain v y where v: "restore_one E (d, b) w = (v, Inr y)"
    and rest: "restore E bs v = (w', Inr u)" unfolding restore_def x by (auto simp: seqIO_Inr_iff)
  note rel' = Cons.prems(1) [unfolded x]
  note apart = released_Cons(4) [OF rel']
  note rel = released_Cons(1) [OF rel'] and bd = released_Cons(2) [OF rel'] and dbs = released_Cons(3) [OF rel']
  note one = restore_one_files [OF v bd]
  from Cons.IH [OF rel rest] have
    IH: "\<And>d' b'. (d', b') \<in> set bs \<Longrightarrow> files w' d' = (case b' of None \<Rightarrow> None | Some p \<Rightarrow> files v p)"
    and same: "\<And>p. p \<notin> fst ` set bs \<Longrightarrow> (\<And>d'. (d', Some p) \<notin> set bs) \<Longrightarrow> files w' p = files v p"
    by fast+
  have "files w' d = (case b of None \<Rightarrow> None | Some p \<Rightarrow> files w p)"
    using same [OF dbs] apart one(1) by auto
  moreover have "files w' d' = (case b' of None \<Rightarrow> None | Some p \<Rightarrow> files w p)" if "(d', b') \<in> set bs" for d' b'
    using IH [OF that] one(2) apart [OF that] by (cases b') auto
  moreover have "files w' p = files w p"
    if "p \<notin> fst ` set (x # bs)" "\<And>d'. (d', Some p) \<notin> set (x # bs)" for p
  proof -
    have "files w' p = files v p" using that by (intro same) auto
    also have "\<dots> = files w p" using that unfolding x by (intro one(2)) auto
    finally show ?thesis .
  qed
  ultimately show ?case unfolding x by auto
qed

lemma backed_up_released:
  assumes "swap_layout ds stage" and "backed_up ds stage f bs f'"
  shows "released bs"
proof -
  have "inj_on (\<lambda>x. backup_of stage (fst x)) (set ds)"
    using assms(1) unfolding swap_layout_def distinct_map by blast
  then have inj: "backup_of stage d = backup_of stage d' \<Longrightarrow> d = d'" if "d \<in> fst ` set ds" "d' \<in> fst ` set ds" for d d'
    using that unfolding inj_on_def by blast
  have "fst ` set ds \<inter> (\<lambda>x. backup_of stage (fst x)) ` set ds = {}"
    using assms(1) unfolding swap_layout_def by blast
  then have apart: "d \<noteq> backup_of stage d'" if "d \<in> fst ` set ds" "d' \<in> fst ` set ds" for d d'
    using that by blast
  have rec: "d \<in> fst ` set ds \<and> (b = None \<or> b = Some (backup_of stage d))" if "(d, b) \<in> set bs" for d b
    using assms(2) that unfolding backed_up_def by fast
  show ?thesis unfolding released_def
  proof (intro conjI allI impI)
    show "distinct (map fst bs)" using assms(2) unfolding backed_up_def by blast
    show "d \<noteq> b'" if "(d, b) \<in> set bs \<and> (d', Some b') \<in> set bs" for d b d' b'
      using that rec apart by blast
    show "d = d'" if "(d, Some b) \<in> set bs \<and> (d', Some b) \<in> set bs" for d b d'
      using that rec inj by (metis option.distinct(1) option.inject)
  qed
qed

type_synonym swap_record = "(path \<times> path) list \<times> path \<times> fs \<times> backups"

definition swap_good :: "swap_record \<Rightarrow> 'h world \<Rightarrow> bool" where
  "swap_good s w = (case s of (ds, stage, f, bs) \<Rightarrow> swap_layout ds stage \<and> backed_up ds stage f bs (files w))"

definition swap_undo :: "'h env \<Rightarrow> swap_record \<Rightarrow> ('h world, unit) io" where
  "swap_undo E s = (case s of (ds, stage, f, bs) \<Rightarrow> restore E bs)"

definition swap_undone :: "swap_record \<Rightarrow> 'h world \<Rightarrow> bool" where
  "swap_undone s w = (case s of (ds, stage, f, bs) \<Rightarrow> \<forall>d \<in> fst ` set ds. files w d = f d)"

interpretation sw: restorable swap_good "swap_undo E" swap_undone for E
proof
  fix s :: swap_record and w w' :: "'a world"
  assume good: "swap_good s w" and run: "swap_undo E s w = (w', Inr ())"
  obtain ds stage f bs where s: "s = (ds, stage, f, bs)" by (cases s)
  from good s have lay: "swap_layout ds stage" and bu: "backed_up ds stage f bs (files w)"
    by (simp_all add: swap_good_def)
  from run s have res: "restore E bs w = (w', Inr ())" by (simp add: swap_undo_def)
  from restore_files [OF backed_up_released [OF lay bu] res] have
    put: "\<And>d b. (d, b) \<in> set bs \<Longrightarrow> files w' d = (case b of None \<Rightarrow> None | Some p \<Rightarrow> files w p)"
    and same: "\<And>p. p \<notin> fst ` set bs \<Longrightarrow> (\<And>d. (d, Some p) \<notin> set bs) \<Longrightarrow> files w' p = files w p"
    by (fast, blast)
  have rec: "f d = (case b of None \<Rightarrow> None | Some p \<Rightarrow> files w p) \<and> (b = None \<or> b = Some (backup_of stage d)) \<and> d \<in> fst ` set ds"
    if "(d, b) \<in> set bs" for d b using bu that unfolding backed_up_def by fast
  have "files w' d = f d" if d: "d \<in> fst ` set ds" for d
  proof (cases "d \<in> fst ` set bs")
    case True
    then obtain b where "(d, b) \<in> set bs" by auto
    with put rec show ?thesis by metis
  next
    case False
    have "fst ` set ds \<inter> (\<lambda>x. backup_of stage (fst x)) ` set ds = {}"
      using lay unfolding swap_layout_def by blast
    then have "(d', Some d) \<notin> set bs" for d' using rec [of d' "Some d"] d by blast
    with False have "files w' d = files w d" by (rule same)
    with bu d False show ?thesis unfolding backed_up_def by auto
  qed
  then show "swap_undone s w'" by (simp add: s swap_undone_def)
qed

section \<open>Roll-back and activation\<close>

lemma release_rollback_restores:
  assumes good: "swap_good (ds, stage, f, bs) w" and quiet: "touches {} stop" "touches {} start"
    and run: "rollback E bs stop_replacement start_previous stop start w = (w', Inr u)"
  shows "swap_undone (ds, stage, f, bs) w'"
proof -
  let ?steps = "rollback_steps E bs stop_replacement start_previous stop start"
  let ?pre = "if stop_replacement then [stop] else []" and ?post = "if start_previous then [start] else []"
  from run obtain es where "collect_errors ?steps w = (w', Inr es)" "es = []"
    unfolding rollback_def by (auto simp: bindIO_Inr_iff split: if_splits)
  then have "for_each (map snd ?steps) (\<lambda>m. m) w = (w', Inr ())"
    by (simp add: collect_errors_Nil_iff for_each_map)
  also have "map snd ?steps = ?pre @ swap_undo E (ds, stage, f, bs) # ?post"
    by (simp add: rollback_steps_def swap_undo_def)
  finally show ?thesis
  proof (rule sw.rollback_restores [OF good, rotated 2])
    show "swap_good (ds, stage, f, bs) v'"
      if "m \<in> set ?pre" "swap_good (ds, stage, f, bs) v" "m v = (v', r)" for m v v' r
      using that touches_noneD [OF quiet(1)] by (auto simp: swap_good_def split: if_splits)
    show "swap_undone (ds, stage, f, bs) v'"
      if "m \<in> set ?post" "swap_undone (ds, stage, f, bs) v" "m v = (v', r)" for m v v' r
      using that touches_noneD [OF quiet(2)] by (auto simp: swap_undone_def split: if_splits)
  qed
qed

definition rollback_reported :: "exn \<Rightarrow> bool" where
  "rollback_reported e \<longleftrightarrow> exn_kind e = RuntimeError \<and> starts_with ''Bitcoin Core rollback failed ('' (exn_str e)"

lemma rollback_reports:
  "rollback E bs a b stop start w = (w', Inl e) \<Longrightarrow> rollback_reported e"
  unfolding rollback_def
  by (auto simp: bindIO_Inl_iff rollback_reported_def starts_with_iff split: if_splits)

text \<open>What a failure inside the \<open>try\<close> block leads to: the handler of \<open>_activate\<close>.\<close>

lemma rollback_then_raise:
  assumes good: "swap_good (ds, stage, f, bs) w" and quiet: "touches {} stop" "touches {} start"
    and run: "seqIO (rollback E bs a b stop start) (raise_exn exc) w = (w', r)"
  shows "\<exists>e. r = Inl e \<and> (swap_undone (ds, stage, f, bs) w' \<or> rollback_reported e)"
proof -
  obtain v s where v: "rollback E bs a b stop start w = (v, s)" by (cases "rollback E bs a b stop start w")
  show ?thesis
  proof (cases s)
    case (Inl e)
    with v run rollback_reports show ?thesis by (fastforce simp: seqIO_run)
  next
    case (Inr u)
    with release_rollback_restores [OF good quiet] v run show ?thesis by (auto simp: seqIO_run)
  qed
qed

text \<open>The stretch of \<open>_activate\<close> after the service was stopped.\<close>

lemma after_stop:
  assumes lay: "swap_layout ds stage" and quiet: "touches {} stop" "touches {} start" "touches {} wait"
    and run: "bindIO (swap_binaries E ds stage []) (\<lambda>swapped.
     case swapped of
       (backups, Some exc) \<Rightarrow> seqIO (rollback E backups False was_running stop start) (raise_exn exc)
     | (backups, None) \<Rightarrow>
         try_except (whenIO was_running (seqIO start (verify_running_version version wait)))
           (\<lambda>exc. seqIO (rollback E backups was_running was_running stop start) (raise_exn exc))) w = (w', r)"
  shows "(\<exists>e. r = Inl e \<and> ((\<forall>d \<in> fst ` set ds. files w' d = files w d) \<or> rollback_reported e))
    \<or> (r = Inr () \<and> (\<forall>(d, s) \<in> set ds. files w' d = files w s))"
proof -
  obtain v q where v: "swap_binaries E ds stage [] w = (v, q)" by (cases "swap_binaries E ds stage [] w")
  from swap_binaries_spec [OF lay v] obtain bs x where q: "q = Inr (bs, x)"
    and bu: "backed_up ds stage (files w) bs (files v)"
    and placed: "x = None \<Longrightarrow> \<forall>(d, s) \<in> set ds. files v d = files w s" by auto
  have good: "swap_good (ds, stage, files w, bs) u" if "files u = files v" for u :: "'a world"
    using that lay bu by (simp add: swap_good_def)
  note handler = rollback_then_raise [OF good quiet(1,2)]
  have body: "touches {} (whenIO was_running (seqIO start (verify_running_version version wait)))"
    by (intro frame quiet touches_verify_running)
  show ?thesis
  proof (cases x)
    case (Some exc)
    with run v q have "seqIO (rollback E bs False was_running stop start) (raise_exn exc) v = (w', r)"
      by (simp add: bindIO_run)
    from handler [OF refl this] show ?thesis by (auto simp: swap_undone_def)
  next
    case None
    obtain u y where u: "whenIO was_running (seqIO start (verify_running_version version wait)) v = (u, y)"
      by (cases "whenIO was_running (seqIO start (verify_running_version version wait)) v")
    then have same: "files u = files v" by (rule touches_noneD [OF body])
    show ?thesis
    proof (cases y)
      case (Inl exc)
      with None run v q u have "seqIO (rollback E bs was_running was_running stop start) (raise_exn exc) u = (w', r)"
        by (simp add: bindIO_run try_except_run)
      from handler [OF same this] show ?thesis by (auto simp: swap_undone_def)
    next
      case (Inr z)
      with None run v q u same placed show ?thesis by (simp add: bindIO_run try_except_run)
    qed
  qed
qed

lemma activate_outcome:
  assumes lay: "swap_layout ds stage"
    and quiet: "touches {} is_running" "touches {} stop" "touches {} start" "touches {} wait"
    and run: "activate E version ds stage is_running stop start wait w = (w', r)"
  shows "(\<exists>e. r = Inl e \<and> ((\<forall>d \<in> fst ` set ds. files w' d = files w d) \<or> rollback_reported e))
    \<or> (r = Inr () \<and> (\<forall>(d, s) \<in> set ds. files w' d = files w s))"
proof -
  obtain v q where v: "is_running w = (v, q)" by (cases "is_running w")
  have fv: "files v = files w" using touches_noneD [OF quiet(1) v] .
  show ?thesis
  proof (cases q)
    case (Inl e)
    with v run fv show ?thesis by (auto simp: activate_def bindIO_run)
  next
    case (Inr up)
    obtain u y where u: "whenIO up (stop_for_activation stop start) v = (u, y)"
      by (cases "whenIO up (stop_for_activation stop start) v")
    have "touches {} (whenIO up (stop_for_activation stop start))"
      by (intro frame touches_stop_for_activation quiet)
    from touches_noneD [OF this u] fv have fu: "files u = files w" by simp
    show ?thesis
    proof (cases y)
      case (Inl e)
      with Inr u v run fu show ?thesis by (auto simp: activate_def bindIO_run seqIO_run)
    next
      case (Inr z)
      with \<open>q = Inr up\<close> u v run have
        "bindIO (swap_binaries E ds stage []) (\<lambda>swapped. case swapped of
           (backups, Some exc) \<Rightarrow> seqIO (rollback E backups False up stop start) (raise_exn exc)
         | (backups, None) \<Rightarrow> try_except (whenIO up (seqIO start (verify_running_version version wait)))
             (\<lambda>exc. seqIO (rollback E backups up up stop start) (raise_exn exc))) u = (w', r)"
        unfolding activate_def by (simp add: bindIO_run [of is_running] seqIO_run)
      from after_stop [OF lay quiet(2-) this] show ?thesis by (simp add: fu)
    qed
  qed
qed

section \<open>What the archive has to be\<close>

text \<open>
  \<open>authentic\<close>: the archive is what the server sent for an accepted URL, and the published checksum
  file, fetched from the same directory, lists its SHA-256 digest under the file's name.
\<close>

definition authentic :: "'h env \<Rightarrow> string \<Rightarrow> string \<Rightarrow> string \<Rightarrow> bytes \<Rightarrow> bool" where
  "authentic E version binary_url filename archive \<longleftrightarrow>
     (\<exists>release_url checksum_url h1 h2 h3 h4 release sums.
        release_urls E version binary_url = Inr (release_url, checksum_url)
        \<and> after_last_slash release_url = Inr filename
        \<and> env_get E release_url h1 = (h2, Inr release) \<and> body_bytes release = archive
        \<and> env_get E checksum_url h3 = (h4, Inr sums)
        \<and> expected_checksum (body_text sums) filename = Inr (env_sha256 E archive))"

text \<open>\<open>reports\<close>: run with \<open>--version\<close>, the program exits with 0 and names the expected version.\<close>

definition reports :: "'h env \<Rightarrow> path \<Rightarrow> string \<Rightarrow> bool" where
  "reports E p version \<longleftrightarrow> (\<exists>fs h h' out parts. env_run E [p, ''--version''] fs h = (h', Inr out)
     \<and> returncode out = 0 \<and> version_parts (stdout out) = Inr parts \<and> version_parts version = Inr parts)"

text \<open>\<open>unpacked\<close>: the file is an executable copy of a regular member \<open>bin/<name>\<close> of the archive.\<close>

definition unpacked :: "tar_member list \<Rightarrow> string \<Rightarrow> file_ent \<Rightarrow> bool" where
  "unpacked members name f \<longleftrightarrow> st_mode f mod 4096 = 493 \<and>
     (\<exists>m \<in> set members. path_name (member_name m) = name \<and> path_parent_name (member_name m) = ''bin''
        \<and> member_isfile m \<and> member_data m = Some (fdata f))"

lemma fetch_release_authentic:
  assumes "fetch_release E version binary_url w = (w', Inr (filename, archive))"
  shows "authentic E version binary_url filename archive"
proof (cases "release_urls E version binary_url")
  case (Inl e)
  with assms show ?thesis by (simp add: fetch_release_def)
next
  case (Inr urls)
  obtain release_url checksum_url where urls: "urls = (release_url, checksum_url)" by (cases urls)
  from assms Inr urls obtain release sums v1 v2 v3 where
    "requests_get E release_url w = (v1, Inr release)" "requests_get E checksum_url v2 = (v3, Inr sums)"
    and "after_last_slash release_url = Inr filename" "body_bytes release = archive"
    and "expected_checksum (body_text sums) filename = Inr (env_sha256 E archive)"
    unfolding fetch_release_def Let_def by (auto simp: bindIO_Inr_iff seqIO_Inr_iff guard_inv)
  with Inr urls show ?thesis unfolding authentic_def by (blast dest!: requests_get_Inr)
qed

lemma validate_version_reports:
  assumes "validate_version E p version w = (w', Inr u)"
  shows "reports E p version"
  using assms unfolding validate_version_def run_check_def run_proc_def reports_def bindIO_Inr_iff guard_inv
  by (auto split: prod.splits) blast

text \<open>What the extraction loop has put into the stage directory so far.\<close>

definition staged_ok :: "path \<Rightarrow> tar_member list \<Rightarrow> (string \<Rightarrow> path option) \<Rightarrow> fs \<Rightarrow> bool" where
  "staged_ok stage members ex fs \<longleftrightarrow> (\<forall>n p. ex n = Some p \<longrightarrow>
     p = path_join stage n \<and> (\<exists>f. fs p = Some f \<and> unpacked members n f))"

lemma extract_member_ok:
  assumes ok: "staged_ok stage ms ex (files w)" and m: "m \<in> set ms"
    and run: "extract_member E stage m ex w = (w', Inr ex')"
  shows "staged_ok stage ms ex' (files w')"
proof -
  let ?n = "path_name (member_name m)"
  show ?thesis
  proof (cases "ex' = ex \<and> w' = w")
    case True
    with ok show ?thesis by simp
  next
    case False
    with run obtain d v x where bin: "path_parent_name (member_name m) = ''bin''" "member_isfile m" "member_data m = Some d"
      and v: "write_file E (path_join stage ?n) d w = (v, Inr x)"
      and c: "os_chmod E (path_join stage ?n) 493 v = (w', Inr ())" and ex': "ex' = ex(?n \<mapsto> path_join stage ?n)"
      unfolding extract_member_def Let_def
      by (auto simp: seqIO_Inr_iff split: if_splits option.splits)
    have "fdata (with_data E o' d) = d" for o' by (simp add: with_data_def split: option.splits)
    then obtain f where f: "files w' = (files w)(path_join stage ?n \<mapsto> f)" "fdata f = d" "st_mode f mod 4096 = 493"
      using v c unfolding write_file_def os_chmod_def fs_check_def
      by (auto simp: seqIO_run split: prod.splits option.splits)
    have "unpacked ms ?n f" unfolding unpacked_def using bin m f by auto
    with ok ex' f(1) show ?thesis unfolding staged_ok_def by (auto simp: path_join_def)
  qed
qed

lemma extract_members_ok:
  assumes "staged_ok stage all ex (files w)" and "set ms \<subseteq> set all"
    and "extract_members E stage ms ex w = (w', Inr ex')"
  shows "staged_ok stage all ex' (files w')"
  using assms
proof (induction ms arbitrary: ex w)
  case Nil
  then show ?case by simp
next
  case (Cons m ms)
  then obtain v ex1 where "extract_member E stage m ex w = (v, Inr ex1)"
    and "extract_members E stage ms ex1 v = (w', Inr ex')" by (auto simp: bindIO_Inr_iff)
  with Cons extract_member_ok [of stage all ex w m E v ex1] show ?case by auto
qed

lemma extract_binaries_ok:
  assumes "extract_binaries E archive_path stage version w = (w', Inr ex)"
  shows "\<exists>f members. files w archive_path = Some f \<and> env_untar E (fdata f) = Inr members
    \<and> staged_ok stage members ex (files w') \<and> ex BINARY_NAME \<noteq> None \<and> ex CLI_NAME \<noteq> None"
proof -
  from assms obtain a v where a: "read_file E archive_path w = (v, Inr a)"
    and rest: "(case env_untar E a of Inl e \<Rightarrow> raise_exn e | Inr members \<Rightarrow>
         bindIO (extract_members E stage members (\<lambda>_. None)) (\<lambda>extracted.
           let missing = filter (\<lambda>n. extracted n = None) [CLI_NAME, BINARY_NAME] in
           if missing \<noteq> []
           then raise_exn (Exn ValueError
                  (''Bitcoin Core '' @ version @ '' archive is missing '' @ py_join '', '' missing))
           else ret extracted)) v = (w', Inr ex)"
    unfolding extract_binaries_def bindIO_Inr_iff by blast
  from a obtain f where f: "files w archive_path = Some f" "a = fdata f"
    unfolding read_file_def fs_check_def by (auto simp: seqIO_run split: prod.splits option.splits)
  from rest obtain members where m: "env_untar E a = Inr members"
    and ex: "extract_members E stage members (\<lambda>_. None) v = (w', Inr ex)"
    and there: "ex BINARY_NAME \<noteq> None" "ex CLI_NAME \<noteq> None"
    unfolding guard_inv Let_def bindIO_Inr_iff by (auto split: if_splits)
  from extract_members_ok [OF _ subset_refl ex] have "staged_ok stage members ex (files w')"
    by (simp add: staged_ok_def)
  with f m there show ?thesis by blast
qed

lemma write_file_Inr:
  assumes "write_file E p d w = (w', Inr u)"
  shows "\<exists>f. files w' p = Some f \<and> fdata f = d"
proof -
  have "fdata (with_data E old d) = d" for old by (simp add: with_data_def split: option.splits)
  with assms show ?thesis by (auto simp: write_file_def split: prod.splits option.splits)
qed

lemma stage_release_ok:
  assumes run: "stage_release E version b c stage filename archive w = (w', Inr ds)" and bc: "b \<noteq> c"
  shows "ds = [(b, path_join stage BINARY_NAME), (c, path_join stage CLI_NAME)]"
    and "\<exists>members fb fc. env_untar E archive = Inr members
      \<and> files w' (path_join stage BINARY_NAME) = Some fb \<and> unpacked members BINARY_NAME fb
      \<and> files w' (path_join stage CLI_NAME) = Some fc \<and> unpacked members CLI_NAME fc"
    and "reports E (path_join stage BINARY_NAME) version" "reports E (path_join stage CLI_NAME) version"
proof -
  let ?a = "path_join stage filename"
  from run obtain v1 x v2 ex where wr: "write_file E ?a archive w = (v1, Inr x)"
    and ex: "extract_binaries E ?a stage version v1 = (v2, Inr ex)"
    and rest: "(case (ex BINARY_NAME, ex CLI_NAME) of
         (Some node, Some cli) \<Rightarrow> seqIO (validate_version E node version)
           (seqIO (validate_version E cli version)
             (ret (if b = c then [(b, cli)] else [(b, node), (c, cli)])))
       | _ \<Rightarrow> raise_exn (Exn KeyError [])) v2 = (w', Inr ds)"
    unfolding stage_release_def Let_def bindIO_Inr_iff seqIO_Inr_iff by blast
  from extract_binaries_ok [OF ex] write_file_Inr [OF wr] obtain members where
    members: "env_untar E archive = Inr members" and st: "staged_ok stage members ex (files v2)"
    and there: "ex BINARY_NAME \<noteq> None" "ex CLI_NAME \<noteq> None" by auto
  then have eb: "ex BINARY_NAME = Some (path_join stage BINARY_NAME)"
    and ec: "ex CLI_NAME = Some (path_join stage CLI_NAME)" unfolding staged_ok_def by auto
  from rest eb ec obtain v3 y z where
    v: "validate_version E (path_join stage BINARY_NAME) version v2 = (v3, Inr y)"
       "validate_version E (path_join stage CLI_NAME) version v3 = (w', Inr z)"
    and ds: "ds = [(b, path_join stage BINARY_NAME), (c, path_join stage CLI_NAME)]"
    using bc by (auto simp: seqIO_Inr_iff)
  have same: "files w' = files v2"
    using touches_noneD [OF touches_validate v(1)] touches_noneD [OF touches_validate v(2)] by simp
  show "ds = [(b, path_join stage BINARY_NAME), (c, path_join stage CLI_NAME)]" by (rule ds)
  show "\<exists>members fb fc. env_untar E archive = Inr members
      \<and> files w' (path_join stage BINARY_NAME) = Some fb \<and> unpacked members BINARY_NAME fb
      \<and> files w' (path_join stage CLI_NAME) = Some fc \<and> unpacked members CLI_NAME fc"
    using st eb ec members same unfolding staged_ok_def by metis
  show "reports E (path_join stage BINARY_NAME) version" "reports E (path_join stage CLI_NAME) version"
    using v validate_version_reports by blast+
qed

section \<open>Installing on the charm's paths\<close>

abbreviation stage_names :: "path set" where
  "stage_names \<equiv> temp_names HOME_DIR ''.bitcoin-stage-''"

lemma stage_layout:
  assumes "stage \<in> stage_names"
  shows "swap_layout [(BINARY_PATH, path_join stage BINARY_NAME), (CLI_PATH, path_join stage CLI_NAME)] stage"
    and "\<not> inside stage BINARY_PATH" "\<not> inside stage CLI_PATH"
proof -
  have names: "path_name ''/home/bitcoin/bitcoind'' \<noteq> path_name ''/home/bitcoin/bitcoin-cli''" by code_simp
  from assms obtain r where "stage = path_join HOME_DIR (''.bitcoin-stage-'' @ r)"
    unfolding temp_names_def by blast
  then show "swap_layout [(BINARY_PATH, path_join stage BINARY_NAME), (CLI_PATH, path_join stage CLI_NAME)] stage"
    and "\<not> inside stage BINARY_PATH" "\<not> inside stage CLI_PATH"
    by (simp_all add: swap_layout_def backup_of_def names inside_def starts_with_iff constant_defs)
qed

lemma parent_binary [simp]: "path_parent BINARY_PATH = HOME_DIR"
  by code_simp

definition installed :: "'h env \<Rightarrow> string \<Rightarrow> string \<Rightarrow> 'h world \<Rightarrow> bool" where
  "installed E version binary_url w \<longleftrightarrow> (\<exists>filename archive members stage node cli.
     authentic E version binary_url filename archive \<and> env_untar E archive = Inr members
     \<and> reports E (path_join stage BINARY_NAME) version \<and> reports E (path_join stage CLI_NAME) version
     \<and> files w BINARY_PATH = Some node \<and> unpacked members BINARY_NAME node
     \<and> files w CLI_PATH = Some cli \<and> unpacked members CLI_NAME cli)"

definition binaries_kept :: "'h world \<Rightarrow> 'h world \<Rightarrow> bool" where
  "binaries_kept w w' \<longleftrightarrow> files w' BINARY_PATH = files w BINARY_PATH \<and> files w' CLI_PATH = files w CLI_PATH"

lemma binaries_distinct [simp]: "BINARY_PATH \<noteq> CLI_PATH"
  by code_simp

lemma binaries_keptI: "touches S m \<Longrightarrow> m w = (w', r) \<Longrightarrow> BINARY_PATH \<notin> S \<Longrightarrow> CLI_PATH \<notin> S \<Longrightarrow> binaries_kept w w'"
  unfolding binaries_kept_def by (auto dest: touchesD)

lemma staged_activation:
  assumes stage: "stage \<in> stage_names" and auth: "authentic E version binary_url filename archive"
    and quiet: "touches {} is_running" "touches {} stop" "touches {} start" "touches {} wait"
    and run: "bindIO (stage_release E version BINARY_PATH CLI_PATH stage filename archive)
      (\<lambda>ds. activate E version ds stage is_running stop start wait) w = (w', r)"
  shows "(\<exists>e. r = Inl e \<and> (binaries_kept w w' \<or> rollback_reported e)) \<or> (r = Inr () \<and> installed E version binary_url w')"
proof -
  note lay = stage_layout [OF stage]
  obtain v q where v: "stage_release E version BINARY_PATH CLI_PATH stage filename archive w = (v, q)"
    by (cases "stage_release E version BINARY_PATH CLI_PATH stage filename archive w")
  have kept: "binaries_kept w v"
    by (rule binaries_keptI [OF touches_stage_release [OF subset_refl] v]) (simp_all add: lay)
  show ?thesis
  proof (cases q)
    case (Inl e)
    with v run kept show ?thesis by (auto simp: bindIO_run)
  next
    case (Inr ds)
    note ok = stage_release_ok [OF v [unfolded Inr] binaries_distinct]
    from v run Inr have "activate E version ds stage is_running stop start wait v = (w', r)"
      by (simp add: bindIO_run)
    from activate_outcome [OF _ quiet this] lay(1) ok(1) show ?thesis
      using ok(2-) kept auth unfolding installed_def binaries_kept_def by auto
  qed
qed

text \<open>
  The outcomes of \<open>install_release\<close>: an error after which both binaries are as they were, an error that
  reports a failed roll-back, an error raised by the removal of the staging directory, or success.
\<close>

lemma install_release_outcome:
  assumes tmp: "tempfile_ok E" and version: "version \<noteq> []"
    and quiet: "touches {} is_running" "touches {} stop" "touches {} start" "touches {} wait"
    and run: "install_release E version BINARY_PATH CLI_PATH binary_url is_running stop start wait w = (w', r)"
  shows "(\<exists>e. r = Inl e \<and> (binaries_kept w w' \<or> rollback_reported e \<or> (\<exists>stage v. snd (rmtree E stage v) = Inl e)))
    \<or> (r = Inr () \<and> installed E version binary_url w')"
proof -
  let ?fetch = "fetch_release E version binary_url"
  obtain v1 q1 where v1: "?fetch w = (v1, q1)" by (cases "?fetch w")
  have f1: "files v1 = files w" by (rule touches_noneD [OF touches_fetch_release v1])
  show ?thesis
  proof (cases q1)
    case (Inl e)
    with version v1 run f1 show ?thesis by (auto simp: install_release_def bindIO_run binaries_kept_def)
  next
    case (Inr fa)
    obtain filename archive where fa: "fa = (filename, archive)" by (cases fa)
    note auth = fetch_release_authentic [OF v1 [unfolded Inr fa]]
    obtain v2 q2 where v2: "bindIO (mkdir_parents E HOME_DIR) (\<lambda>_. mkdtemp E HOME_DIR ''.bitcoin-stage-'') v1 = (v2, q2)"
      by (cases "bindIO (mkdir_parents E HOME_DIR) (\<lambda>_. mkdtemp E HOME_DIR ''.bitcoin-stage-'') v1")
    have f2: "files v2 = files w"
      using touches_noneD [OF fr.resp_bind [OF touches_mkdir touches_mkdtemp] v2] f1 by simp
    let ?body = "\<lambda>stage. bindIO (stage_release E version BINARY_PATH CLI_PATH stage filename archive)
        (\<lambda>ds. activate E version ds stage is_running stop start wait)"
    have rest: "(case q2 of Inl e \<Rightarrow> (v2, Inl e) | Inr stage \<Rightarrow> try_finally (?body stage) (rmtree E stage) v2) = (w', r)"
      using run version v1 v2 Inr fa
      by (auto simp: install_release_def bindIO_run seqIO_run split: prod.splits sum.splits)
    show ?thesis
    proof (cases q2)
      case (Inl e)
      with rest f2 show ?thesis by (auto simp: binaries_kept_def)
    next
      case (Inr stage)
      from v2 Inr have stage: "stage \<in> stage_names" by (auto simp: bindIO_Inr_iff dest: mkdtemp_name(1) [OF tmp])
      obtain v3 q3 where v3: "?body stage v2 = (v3, q3)" by (cases "?body stage v2")
      note out = staged_activation [OF stage auth quiet v3]
      obtain v4 q4 where v4: "rmtree E stage v3 = (v4, q4)" by (cases "rmtree E stage v3")
      have kept: "binaries_kept v3 v4"
        by (rule binaries_keptI [OF touches_rmtree [OF subset_refl] v4]) (simp_all add: stage_layout [OF stage])
      from rest Inr v3 v4 have end_r: "w' = v4" "r = (case q4 of Inl e \<Rightarrow> Inl e | Inr _ \<Rightarrow> q3)"
        by (auto simp: try_finally_def split: sum.splits)
      from out kept f2 have out': "(\<exists>e. q3 = Inl e \<and> (binaries_kept w v4 \<or> rollback_reported e))
          \<or> (q3 = Inr () \<and> installed E version binary_url v4)"
        unfolding binaries_kept_def installed_def by auto
      show ?thesis
      proof (cases q4)
        case (Inl e)
        with v4 have "snd (rmtree E stage v3) = Inl e" by simp
        with Inl end_r show ?thesis by auto
      next
        case (Inr x)
        with out' end_r show ?thesis by auto
      qed
    qed
  qed
qed

section \<open>Which files an upgrade may touch\<close>

lemma swap_binaries_backups:
  "swap_binaries E ds stage bs w = (w', Inr (bs', x)) \<Longrightarrow>
   (d', b') \<in> set bs' \<Longrightarrow> (d', b') \<notin> set bs \<Longrightarrow> d' \<in> fst ` set ds \<and> (b' = None \<or> b' = Some (backup_of stage d'))"
proof (induction ds arbitrary: bs w)
  case Nil
  then show ?case by simp
next
  case (Cons ds1 ds)
  obtain d s where ds1: "ds1 = (d, s)" by (cases ds1)
  define b where "b = (if files w d \<noteq> None then Some (backup_of stage d) else None)"
  from Cons.prems(1) consider "bs' = bs" | "bs' = bs @ [(d, b)]"
    | v where "swap_binaries E ds stage (bs @ [(d, b)]) v = (w', Inr (bs', x))"
    unfolding ds1 b_def
    by (cases "files w d") (auto simp: bindIO_run path_exists_def Let_def backup_of_def split: sum.splits prod.splits)
  then show ?case
  proof cases
    case (3 v)
    show ?thesis
    proof (cases "(d', b') = (d, b)")
      case True
      then show ?thesis by (auto simp: ds1 b_def split: if_splits)
    next
      case False
      with Cons.IH [OF 3] Cons.prems(2,3) show ?thesis by auto
    qed
  qed (use Cons.prems(2,3) in \<open>auto simp: ds1 b_def split: if_splits\<close>)
qed

definition backups_in :: "path set \<Rightarrow> backups \<Rightarrow> bool" where
  "backups_in S bs \<longleftrightarrow> (\<forall>d b. (d, b) \<in> set bs \<longrightarrow> d \<in> S \<and> (\<forall>p. b = Some p \<longrightarrow> p \<in> S))"

lemma touches_rollback:
  assumes "backups_in S bs" and "touches S stop" "touches S start"
  shows "touches S (rollback E bs a c stop start)"
  unfolding rollback_def rollback_steps_def using assms
  by (intro frame) (auto simp: backups_in_def intro!: touches_restore split: if_splits)

lemma touches_activate:
  assumes ds: "fst ` set ds \<subseteq> S" "snd ` set ds \<subseteq> S" "\<And>d. d \<in> fst ` set ds \<Longrightarrow> backup_of stage d \<in> S"
    and quiet: "touches S is_running" "touches S stop" "touches S start" "touches S wait"
  shows "touches S (activate E version ds stage is_running stop start wait)"
proof -
  let ?P = "\<lambda>y :: backups \<times> exn option. backups_in S (fst y)"
  have res: "?P y" if "swap_binaries E ds stage [] w = (w', Inr y)" for w w' y
    unfolding backups_in_def
  proof (intro allI impI)
    fix d b
    assume "(d, b) \<in> set (fst y)"
    from swap_binaries_backups [OF _ this, of E ds stage "[]" w w' "snd y"] that
    have "d \<in> fst ` set ds" "b = None \<or> b = Some (backup_of stage d)" by simp_all
    with ds show "d \<in> S \<and> (\<forall>p. b = Some p \<longrightarrow> p \<in> S)" by auto
  qed
  have k: "touches S (case y of
       (backups, Some exc) \<Rightarrow> seqIO (rollback E backups False up stop start) (raise_exn exc)
     | (backups, None) \<Rightarrow>
         try_except (whenIO up (seqIO start (verify_running_version version wait)))
           (\<lambda>exc. seqIO (rollback E backups up up stop start) (raise_exn exc)))" if "?P y" for y up
    using that by (intro frame touches_rollback touches_verify_running quiet) auto
  show ?thesis unfolding activate_def
    by (intro frame touches_stop_for_activation quiet touches_bind_result [OF touches_swap [OF ds] res] k)
qed

lemma touches_install_release:
  assumes tmp: "tempfile_ok E" and S: "BINARY_PATH \<in> S" "CLI_PATH \<in> S" "\<And>stage p. stage \<in> stage_names \<Longrightarrow> inside stage p \<Longrightarrow> p \<in> S"
    and quiet: "touches S is_running" "touches S stop" "touches S start" "touches S wait"
  shows "touches S (install_release E version BINARY_PATH CLI_PATH url is_running stop start wait)"
proof -
  have body: "touches S (bindIO (stage_release E version BINARY_PATH CLI_PATH stage filename archive)
      (\<lambda>ds. activate E version ds stage is_running stop start wait))"
    if stage: "stage \<in> stage_names" for stage filename archive
  proof (rule touches_bind_result)
    show "touches S (stage_release E version BINARY_PATH CLI_PATH stage filename archive)"
      using S(3) [OF stage] by (intro touches_stage_release) auto
    show "ds = [(BINARY_PATH, path_join stage BINARY_NAME), (CLI_PATH, path_join stage CLI_NAME)]"
      if "stage_release E version BINARY_PATH CLI_PATH stage filename archive w = (w', Inr ds)" for w w' ds
      using stage_release_ok(1) [OF that binaries_distinct] .
    show "touches S (activate E version ds stage is_running stop start wait)"
      if "ds = [(BINARY_PATH, path_join stage BINARY_NAME), (CLI_PATH, path_join stage CLI_NAME)]" for ds
      unfolding that using S S(3) [OF stage] by (intro touches_activate quiet) (auto simp: backup_of_def)
  qed
  show ?thesis unfolding install_release_def parent_binary
    using S(3) by (intro frame touches_bind_mkdtemp [OF tmp] body) auto
qed

end
