(* ===== verification/Install.thy ===== *)
theory Install
  imports Release_Safety Service_Args
begin

text \<open>
  The installation section of \<open>src/utils.py\<close>: users and ownership, the node's binaries (through
  \<open>install_release\<close> with the charm's own service callbacks), dependencies, unit files, the monitor and
  the proxy. The environment variables handed to \<open>pip\<close> and log messages are left out; everything else
  is in the order of the code. The lemmas say which files each operation may touch, what a unit file or
  a proxy binary is afterwards, and carry the outcome of \<open>install_release\<close> over to the charm's callbacks.
\<close>

section \<open>Operations\<close>

definition chown :: "'h env \<Rightarrow> ('h world, unit) io" where
  "chown E = bindIO (run_proc E [''chown'', ''-R'', USER @ '':'' @ USER, HOME_DIR]) (\<lambda>_. ret ())"

definition create_user :: "'h env \<Rightarrow> ('h world, unit) io" where
  "create_user E =
     seqIO (run_proc E [''addgroup'', ''--system'', USER])
     (seqIO (run_proc E [''adduser'', ''--system'', ''--home'', HOME_DIR, ''--disabled-password'', ''--ingroup'', USER, USER])
     (seqIO (run_proc E [''chmod'', ''700'', HOME_DIR])
     (chown E)))"

definition install_bitcoin :: "'h env \<Rightarrow> string \<Rightarrow> config \<Rightarrow> string \<Rightarrow> ('h world, unit) io" where
  "install_bitcoin E version cfg binary_url =
     seqIO (install_release E version BINARY_PATH CLI_PATH binary_url
              (get_status E SERVICE_NAME) (stop_service E) (start_service E) (wait_for_running_version E cfg))
       (if version = [] then ret () else chown E)"

definition install_dependencies :: "'h env \<Rightarrow> ('h world, unit) io" where
  "install_dependencies E =
     seqIO (run_proc E [''apt'', ''update''])
     (seqIO (run_check E ([''apt'', ''install'', ''-y''] @ APT_PACKAGES))
     (seqIO (mkdir_parents E MONITOR_DIR)
     (seqIO (run_check E [''python3'', ''-m'', ''venv'', MONITOR_VENV_DIR])
     (seqIO (for_each PIP_PACKAGES (\<lambda>package.
               seqIO (run_check E [MONITOR_VENV_PIP, ''install'', ''--no-deps'', package]) (ret ())))
     (seqIO (run_check E [path_join (path_join MONITOR_VENV_DIR ''bin'') ''python'', ''-c'',
               ''import bitcoin, prometheus_client, riprova, six''])
     (chown E))))))"

definition install_service_file :: "'h env \<Rightarrow> path \<Rightarrow> string \<Rightarrow> ('h world, bool) io" where
  "install_service_file E source_path service_name =
     (let target_path = unit_file (py_lower service_name) in
      bindIO (read_file E source_path) (\<lambda>new_content.
      bindIO (path_exists target_path) (\<lambda>there.
      bindIO (if there then bindIO (read_file E target_path) (\<lambda>old. ret (old = new_content)) else ret False) (\<lambda>same.
      if same then ret False
      else seqIO (copyfile E source_path target_path)
             (seqIO (run_proc E [''systemctl'', ''daemon-reload'']) (ret True))))))"

definition install_bitcoind_monitor :: "'h env \<Rightarrow> config \<Rightarrow> bool \<Rightarrow> ('h world, unit) io" where
  "install_bitcoind_monitor E cfg restart =
     seqIO (mkdir_parents E MONITOR_DIR)
     (seqIO (copyfile E (''templates/'' @ MONITOR_SCRIPT_NAME) MONITOR_SCRIPT_PATH)
     (seqIO (write_monitor_env_file E cfg)
     (whenIO restart (restart_monitor E))))"

definition install_rpc_proxy :: "'h env \<Rightarrow> string \<Rightarrow> ('h world, unit) io" where
  "install_rpc_proxy E version =
     (if version = [] then ret ()
      else (let url = py_replace ''VERSION'' version RPC_PROXY_DL_URL; dest = RPC_PROXY_BINARY_PATH in
       bindIO (requests_get E url) (\<lambda>response.
       seqIO (raise_for_status E url response)
       (bindIO (mkstemp E (path_parent dest) (''.'' @ path_name dest @ ''.'')) (\<lambda>tmp.
       seqIO (try_except
           (seqIO (write_file E tmp (body_bytes response))
           (seqIO (os_chmod E tmp 493)
           (os_replace E tmp dest)))
           (\<lambda>e. seqIO (unlink_missing_ok E tmp) (raise_exn e)))
       (chown E))))))"

definition install_rpc_proxy_service :: "'h env \<Rightarrow> config \<Rightarrow> bool \<Rightarrow> ('h world, unit) io" where
  "install_rpc_proxy_service E cfg restart =
     seqIO (install_service_file E (''templates/'' @ RPC_PROXY_SERVICE_NAME @ ''.service'') RPC_PROXY_SERVICE_NAME)
     (seqIO (write_rpc_proxy_env_file E cfg)
     (whenIO restart (restart_rpc_proxy E)))"

definition bitcoind_binary_installed :: "('h world, bool) io" where
  "bitcoind_binary_installed = path_exists BINARY_PATH"

definition rpc_proxy_binary_installed :: "('h world, bool) io" where
  "rpc_proxy_binary_installed = path_exists RPC_PROXY_BINARY_PATH"

section \<open>Frames\<close>

lemma touches_chown [frame]: "touches S (chown E)"
  unfolding chown_def by (intro frame)

lemma touches_create_user [frame]: "touches S (create_user E)"
  unfolding create_user_def by (intro frame)

lemma touches_dependencies [frame]: "touches S (install_dependencies E)"
  unfolding install_dependencies_def by (intro frame)

lemma touches_service_file [frame]:
  "unit_file (py_lower name) \<in> S \<Longrightarrow> touches S (install_service_file E src name)"
  unfolding install_service_file_def Let_def by (intro frame)

lemma touches_install_monitor [frame]:
  "MONITOR_SCRIPT_PATH \<in> S \<Longrightarrow> default_file MONITOR_SERVICE_NAME \<in> S \<Longrightarrow>
   touches S (install_bitcoind_monitor E cfg restart)"
  unfolding install_bitcoind_monitor_def by (intro frame)

abbreviation proxy_temps :: "path set" where
  "proxy_temps \<equiv> temp_names HOME_DIR ''.bitcoin-rpc-proxy.''"

lemma proxy_temp_args: "path_parent RPC_PROXY_BINARY_PATH = HOME_DIR" "path_name RPC_PROXY_BINARY_PATH = ''bitcoin-rpc-proxy''"
  by code_simp+

lemma touches_install_proxy:
  assumes "tempfile_ok E" and "RPC_PROXY_BINARY_PATH \<in> S" and "proxy_temps \<subseteq> S"
  shows "touches S (install_rpc_proxy E version)"
  using assms unfolding install_rpc_proxy_def Let_def proxy_temp_args
  by (intro frame) auto

lemma touches_proxy_service [frame]:
  "unit_file RPC_PROXY_SERVICE_NAME \<in> S \<Longrightarrow> default_file RPC_PROXY_SERVICE_NAME \<in> S \<Longrightarrow>
   touches S (install_rpc_proxy_service E cfg restart)"
proof -
  have "py_lower RPC_PROXY_SERVICE_NAME = RPC_PROXY_SERVICE_NAME" by code_simp
  then show "unit_file RPC_PROXY_SERVICE_NAME \<in> S \<Longrightarrow> default_file RPC_PROXY_SERVICE_NAME \<in> S \<Longrightarrow>
   touches S (install_rpc_proxy_service E cfg restart)"
    unfolding install_rpc_proxy_service_def by (intro frame) simp_all
qed

lemma touches_binary_installed [frame]:
  "touches S bitcoind_binary_installed" "touches S rpc_proxy_binary_installed"
  unfolding bitcoind_binary_installed_def rpc_proxy_binary_installed_def by (intro frame)+

section \<open>The node's binaries\<close>

lemma install_bitcoin_outcome:
  assumes tmp: "tempfile_ok E" and version: "version \<noteq> []"
    and run: "install_bitcoin E version cfg binary_url w = (w', r)"
  shows "(\<exists>e. r = Inl e \<and> (binaries_kept w w' \<or> installed E version binary_url w' \<or> rollback_reported e
      \<or> (\<exists>stage v. snd (rmtree E stage v) = Inl e)))
    \<or> (r = Inr () \<and> installed E version binary_url w')"
proof -
  let ?i = "install_release E version BINARY_PATH CLI_PATH binary_url
    (get_status E SERVICE_NAME) (stop_service E) (start_service E) (wait_for_running_version E cfg)"
  obtain v q where v: "?i w = (v, q)" by (cases "?i w")
  have out: "(\<exists>e. q = Inl e \<and> (binaries_kept w v \<or> rollback_reported e \<or> (\<exists>stage u. snd (rmtree E stage u) = Inl e)))
      \<or> (q = Inr () \<and> installed E version binary_url v)"
    by (rule install_release_outcome [OF tmp version _ _ _ _ v]; intro frame)
  show ?thesis
  proof (cases q)
    case (Inl e)
    with v run out show ?thesis by (auto simp: install_bitcoin_def seqIO_run)
  next
    case (Inr u)
    obtain x s where x: "chown E v = (x, s)" by (cases "chown E v")
    have "files x = files v" by (rule touches_noneD [OF touches_chown x])
    with v run out Inr x version show ?thesis
      by (cases s) (auto simp: install_bitcoin_def seqIO_run installed_def)
  qed
qed

section \<open>Evaluation\<close>

text \<open>Code equations with the world as an argument: an operation unfolds when it runs, not before.\<close>

lemmas install_code [code] =
  chown_def [THEN fun_cong] create_user_def [THEN fun_cong] install_bitcoin_def [THEN fun_cong]
  install_dependencies_def [THEN fun_cong] install_service_file_def [THEN fun_cong]
  install_bitcoind_monitor_def [THEN fun_cong] install_rpc_proxy_def [THEN fun_cong]
  install_rpc_proxy_service_def [THEN fun_cong] bitcoind_binary_installed_def [THEN fun_cong]
  rpc_proxy_binary_installed_def [THEN fun_cong]

end
