(* ===== verification/Release_Spec.thy ===== *)
theory Release_Spec
  imports Install Lab
begin

text \<open>
  The properties of \<open>src/bitcoin.py\<close> as the charm uses it, each with a run on the concrete host of
  \<open>Lab\<close> where it has hypotheses.
\<close>

section \<open>Upgrades on the concrete host\<close>

abbreviation lab_install :: "unit env \<Rightarrow> unit world \<times> (exn + unit)" where
  "lab_install E \<equiv> install_bitcoin E ''28.0'' Map.empty [] lab_world"

text \<open>The host whose release server refuses connections.\<close>

definition lab_down :: "unit env" where
  "lab_down = lab\<lparr>env_get := (\<lambda>url h. (h, Inl (Exn RequestException ''connection refused'')))\<rparr>"

lemma lab_install_fails: "snd (lab_install lab_down) = Inl (Exn RequestException ''connection refused'')"
  by code_simp

lemma lab_install_succeeds: "snd (lab_install lab) = Inr ()"
  by code_simp

lemma lab_down_tempfile_ok: "tempfile_ok lab_down"
  using lab_tempfile_ok by (simp add: tempfile_ok_def lab_down_def)

text \<open>A machine on which the new binaries are staged.\<close>

definition lab_destinations :: "(path \<times> path) list" where
  "lab_destinations = [(BINARY_PATH, ''/stage/bitcoind''), (CLI_PATH, ''/stage/bitcoin-cli'')]"

definition lab_staged :: "unit world" where
  "lab_staged = lab_world\<lparr>files := (files lab_world)
     (''/stage/bitcoind'' \<mapsto> \<lparr>fdata = ''node'', st_mode = 33261\<rparr>, ''/stage/bitcoin-cli'' \<mapsto> \<lparr>fdata = ''cli'', st_mode = 33261\<rparr>)\<rparr>"

lemma lab_layout: "swap_layout lab_destinations ''/stage''"
  by code_simp

section \<open>Properties\<close>



text \<open>
  (C4) When an upgrade returns, the archive came from an accepted URL, its SHA-256 digest is the one
  the publisher's checksum file lists for that file name, both staged programs reported the requested
  version, and the two installed binaries are executable copies (mode \<open>0o755\<close>) of the archive's
  \<open>bin/bitcoind\<close> and \<open>bin/bitcoin-cli\<close>.
\<close>

theorem install_bitcoin_installs_verified_binaries:
  assumes "tempfile_ok E" and "version \<noteq> []" and "snd (install_bitcoin E version cfg binary_url w) = Inr ()"
  shows "installed E version binary_url (fst (install_bitcoin E version cfg binary_url w))"
proof -
  obtain w' where w': "install_bitcoin E version cfg binary_url w = (w', Inr ())"
    using assms(3) by (metis prod.collapse)
  from install_bitcoin_outcome [OF assms(1,2) w'] w' show ?thesis by simp
qed

theorem install_bitcoin_installs_verified_binaries_witness:
  "installed lab ''28.0'' [] (fst (lab_install lab))"
  by (rule install_bitcoin_installs_verified_binaries [OF lab_tempfile_ok _ lab_install_succeeds]) simp

text \<open>
  (C14) The \<open>try\<close> block of \<open>_activate\<close>: whatever step of the swap, the start or the health check raises,
  every destination holds the file it held before, content and mode, unless the error reports a failed
  roll-back. The three sets of paths a swap works with have to be apart; the callbacks are those of a
  service manager, which leave the files alone.
\<close>

theorem activate_failure_restores_destinations:
  assumes "swap_layout destinations stage_dir"
    and "touches {} is_running" "touches {} stop" "touches {} start" "touches {} wait"
    and "snd (activate E version destinations stage_dir is_running stop start wait w) = Inl e"
  shows "(\<forall>d \<in> fst ` set destinations.
      files (fst (activate E version destinations stage_dir is_running stop start wait w)) d = files w d)
    \<or> rollback_reported e"
proof -
  obtain w' where w': "activate E version destinations stage_dir is_running stop start wait w = (w', Inl e)"
    using assms(6) by (metis prod.collapse)
  from activate_outcome [OF assms(1-5) w'] w' show ?thesis by simp
qed

theorem activate_failure_restores_destinations_witness:
  "list_all (\<lambda>d. files (fst (activate lab ''28.0'' lab_destinations ''/stage''
     (ret True) (ret ()) (ret ()) (ret (Some ''27.0.0'')) lab_staged)) d = files lab_staged d) (map fst lab_destinations)"
proof -
  let ?e = "Exn RuntimeError ''running Bitcoin Core version does not match expected 28.0: 27.0.0''"
  have "snd (activate lab ''28.0'' lab_destinations ''/stage'' (ret True) (ret ()) (ret ())
      (ret (Some ''27.0.0'')) lab_staged) = Inl ?e" by code_simp
  moreover have "\<not> rollback_reported ?e" by code_simp
  ultimately show ?thesis
    using activate_failure_restores_destinations [OF lab_layout fr.resp_ret fr.resp_ret fr.resp_ret fr.resp_ret]
    unfolding list_all_iff set_map by blast
qed

text \<open>
  (C15) A successful activation of a running node ends with the node answering with the requested
  version, and with every staged file at its destination.
\<close>

theorem activate_success_verified_running:
  assumes "swap_layout destinations stage_dir"
    and "touches {} is_running" "touches {} stop" "touches {} start" "touches {} wait"
    and "snd (activate E version destinations stage_dir is_running stop start wait w) = Inr ()"
  shows "(\<forall>(d, s) \<in> set destinations.
      files (fst (activate E version destinations stage_dir is_running stop start wait w)) d = files w s)
    \<and> (snd (is_running w) = Inr True \<longrightarrow>
       (\<exists>v running parts. snd (wait v) = Inr (Some running) \<and> version_parts running = Inr parts \<and> version_parts version = Inr parts))"
proof
  obtain w' where w': "activate E version destinations stage_dir is_running stop start wait w = (w', Inr ())"
    using assms(6) by (metis prod.collapse)
  from activate_outcome [OF assms(1-5) w'] w' show "\<forall>(d, s) \<in> set destinations.
      files (fst (activate E version destinations stage_dir is_running stop start wait w)) d = files w s" by simp
  show "snd (is_running w) = Inr True \<longrightarrow>
       (\<exists>v running parts. snd (wait v) = Inr (Some running) \<and> version_parts running = Inr parts \<and> version_parts version = Inr parts)"
  proof
    assume "snd (is_running w) = Inr True"
    then obtain u where u: "is_running w = (u, Inr True)" by (metis prod.collapse)
    from w' obtain v v' x where "verify_running_version version wait v = (v', Inr x)"
      unfolding activate_def
      by (auto simp: bindIO_Inr_iff seqIO_Inr_iff try_except_Inr_iff u split: prod.splits option.splits)
    then show "\<exists>v running parts. snd (wait v) = Inr (Some running) \<and> version_parts running = Inr parts \<and> version_parts version = Inr parts"
      unfolding verify_running_version_def
      by (auto simp: bindIO_Inr_iff guard_inv split: option.splits) (metis snd_conv)
  qed
qed

theorem activate_success_verified_running_witness:
  "list_all (\<lambda>(d, s). files (fst (activate lab ''28.0'' lab_destinations ''/stage''
     (ret True) (ret ()) (ret ()) (ret (Some ''28.0.0'')) lab_staged)) d = files lab_staged s) lab_destinations"
proof -
  have "snd (activate lab ''28.0'' lab_destinations ''/stage'' (ret True) (ret ()) (ret ())
      (ret (Some ''28.0.0'')) lab_staged) = Inr ()" by code_simp
  from activate_success_verified_running [OF lab_layout fr.resp_ret fr.resp_ret fr.resp_ret fr.resp_ret this]
  show ?thesis unfolding list_all_iff by blast
qed

text \<open>
  (C13) Downloads and validation finish before the service is interrupted: if it makes any difference
  which callbacks an upgrade was given, then the archive was authentic and both staged programs had
  already reported the requested version.
\<close>

theorem install_release_verifies_before_interrupting:
  assumes "install_release E version BINARY_PATH CLI_PATH binary_url is_running stop start wait w
    \<noteq> install_release E version BINARY_PATH CLI_PATH binary_url is_running' stop' start' wait' w"
  shows "\<exists>filename archive stage. authentic E version binary_url filename archive
    \<and> reports E (path_join stage BINARY_NAME) version \<and> reports E (path_join stage CLI_NAME) version"
proof (rule ccontr)
  assume none: "\<not> ?thesis"
  have fails: "\<exists>e. snd (stage_release E version BINARY_PATH CLI_PATH stage filename archive v) = Inl e"
    if "authentic E version binary_url filename archive" for filename archive stage and v :: "'a world"
  proof (cases "stage_release E version BINARY_PATH CLI_PATH stage filename archive v")
    case (Pair v' r)
    with stage_release_ok(3,4) [OF _ binaries_distinct, of E version stage filename archive v v'] that none
    show ?thesis by (cases r) auto
  qed
  have same: "bindIO (stage_release E version BINARY_PATH CLI_PATH stage filename archive)
        (\<lambda>ds. activate E version ds stage is_running stop start wait)
      = bindIO (stage_release E version BINARY_PATH CLI_PATH stage filename archive)
        (\<lambda>ds. activate E version ds stage is_running' stop' start' wait')"
    if auth: "authentic E version binary_url filename archive" for filename archive stage
  proof
    fix v :: "'a world"
    obtain v' e where "stage_release E version BINARY_PATH CLI_PATH stage filename archive v = (v', Inl e)"
      using fails [OF auth, of stage v] by (metis prod.collapse)
    then show "bindIO (stage_release E version BINARY_PATH CLI_PATH stage filename archive)
        (\<lambda>ds. activate E version ds stage is_running stop start wait) v
      = bindIO (stage_release E version BINARY_PATH CLI_PATH stage filename archive)
        (\<lambda>ds. activate E version ds stage is_running' stop' start' wait') v"
      by (simp add: bindIO_run)
  qed
  have version: "version \<noteq> []" using assms by (auto simp: install_release_def)
  obtain v r where v: "fetch_release E version binary_url w = (v, r)" by (cases "fetch_release E version binary_url w")
  show False
  proof (cases r)
    case (Inl e)
    with v version assms show False by (simp add: install_release_def bindIO_run)
  next
    case (Inr fa)
    obtain filename archive where fa: "fa = (filename, archive)" by (cases fa)
    from same [OF fetch_release_authentic [OF v [unfolded Inr fa]]] assms v version Inr fa show False
      by (simp add: install_release_def bindIO_run [of "fetch_release _ _ _"])
  qed
qed

theorem install_release_verifies_before_interrupting_witness:
  "\<exists>filename archive stage. authentic lab ''28.0'' [] filename archive
    \<and> reports lab (path_join stage BINARY_NAME) ''28.0'' \<and> reports lab (path_join stage CLI_NAME) ''28.0''"
proof (rule install_release_verifies_before_interrupting)
  let ?run = "\<lambda>callback. install_release lab ''28.0'' BINARY_PATH CLI_PATH [] callback (ret ()) (ret ()) (ret None) lab_world"
  have "snd (?run (raise_exn (Exn OSError []))) = Inl (Exn OSError [])" by code_simp
  moreover have "snd (?run (raise_exn (Exn ValueError []))) = Inl (Exn ValueError [])" by code_simp
  ultimately show "?run (raise_exn (Exn OSError [])) \<noteq> ?run (raise_exn (Exn ValueError []))" by auto
qed

text \<open>
  A stopped service remains stopped: when the node is not running, an activation calls neither
  \<open>stop\<close> nor \<open>start\<close> nor the health check, on success or failure.
\<close>

lemma activate_leaves_stopped_service_alone:
  assumes "snd (is_running w) = Inr False"
  shows "activate E version destinations stage_dir is_running stop start wait w
    = activate E version destinations stage_dir is_running stop' start' wait' w"
proof -
  obtain v where v: "is_running w = (v, Inr False)" using assms by (metis prod.collapse)
  have steps: "rollback E bs False False stop start = rollback E bs False False stop' start'" for bs
    by (simp add: rollback_def rollback_steps_def)
  show ?thesis using v unfolding activate_def by (simp add: bindIO_run [of is_running] steps)
qed

theorem activate_leaves_stopped_service_alone_witness:
  "activate lab ''28.0'' [] ''/s'' (ret False) (ret ()) (ret ()) (ret None) lab_world
   = activate lab ''28.0'' [] ''/s'' (ret False) (raise_exn (Exn OSError [])) (raise_exn (Exn OSError [])) (ret None) lab_world"
  by (rule activate_leaves_stopped_service_alone) simp

end
