(* ===== verification/Config_Transaction.thy ===== *)
theory Config_Transaction
  imports Install
begin

text \<open>
  The configuration transaction of \<open>src/utils.py\<close>: capture every managed file and which services run,
  write and activate the new generation, and on any exception put files and services back
  (\<open>_capture_config_transaction\<close> to \<open>apply_config_transaction\<close>). The contract \<open>restorable\<close> is interpreted on
  the snapshot and the file-restoring loop, and yields that a transaction which raises has restored
  every managed file or says that it could not.
\<close>

section \<open>Data\<close>

record file_state =
  state_data :: "bytes option"
  state_mode :: "nat option"

record config_snapshot =
  snap_files :: "(path \<times> file_state) list"
  snap_running :: "(string \<times> bool) list"

definition transaction_paths :: "path list" where
  "transaction_paths =
    [BINARY_PATH, CLI_PATH, RPC_PROXY_BINARY_PATH,
     default_file SERVICE_NAME, default_file MONITOR_SERVICE_NAME, default_file RPC_PROXY_SERVICE_NAME,
     MONITOR_SCRIPT_PATH,
     unit_file SERVICE_NAME, unit_file MONITOR_SERVICE_NAME, unit_file RPC_PROXY_SERVICE_NAME]"

text \<open>\<open>snapshot.running[service]\<close>; the three services are always present.\<close>

definition was_running :: "config_snapshot \<Rightarrow> string \<Rightarrow> bool" where
  "was_running snapshot service \<longleftrightarrow> map_of (snap_running snapshot) service = Some True"

section \<open>Capture\<close>

definition capture_file :: "'h env \<Rightarrow> path \<Rightarrow> ('h world, path \<times> file_state) io" where
  "capture_file E p =
     bindIO (path_exists p) (\<lambda>there.
     bindIO (if there then bindIO (read_file E p) (\<lambda>d. ret (Some d)) else ret None) (\<lambda>data.
     bindIO (path_exists p) (\<lambda>there.
     bindIO (if there then bindIO (stat_mode E p) (\<lambda>m. ret (Some (m mod 4096))) else ret None) (\<lambda>mode.
     ret (p, \<lparr>state_data = data, state_mode = mode\<rparr>)))))"

primrec capture_files :: "'h env \<Rightarrow> path list \<Rightarrow> ('h world, (path \<times> file_state) list) io" where
  "capture_files E [] = ret []"
| "capture_files E (p # ps) = bindIO (capture_file E p) (\<lambda>x. bindIO (capture_files E ps) (\<lambda>xs. ret (x # xs)))"

primrec capture_running :: "'h env \<Rightarrow> string list \<Rightarrow> ('h world, (string \<times> bool) list) io" where
  "capture_running E [] = ret []"
| "capture_running E (s # ss) = bindIO (get_status E s) (\<lambda>b. bindIO (capture_running E ss) (\<lambda>xs. ret ((s, b) # xs)))"

lemma capture_run [code]:
  "capture_files E [] w = (w, Inr [])"
  "capture_files E (p # ps) w = bindIO (capture_file E p) (\<lambda>x. bindIO (capture_files E ps) (\<lambda>xs. ret (x # xs))) w"
  "capture_running E [] w = (w, Inr [])"
  "capture_running E (s # ss) w = bindIO (get_status E s) (\<lambda>b. bindIO (capture_running E ss) (\<lambda>xs. ret ((s, b) # xs))) w"
  by simp_all

definition capture_config_transaction :: "'h env \<Rightarrow> ('h world, config_snapshot) io" where
  "capture_config_transaction E =
     bindIO (capture_files E transaction_paths) (\<lambda>fs.
     bindIO (capture_running E [SERVICE_NAME, MONITOR_SERVICE_NAME, RPC_PROXY_SERVICE_NAME]) (\<lambda>running.
     ret \<lparr>snap_files = fs, snap_running = running\<rparr>))"

section \<open>Roll-back\<close>

definition restore_file :: "'h env \<Rightarrow> path \<times> file_state \<Rightarrow> ('h world, unit) io" where
  "restore_file E ps =
     (case state_data (snd ps) of
        None \<Rightarrow> unlink_missing_ok E (fst ps)
      | Some data \<Rightarrow>
          seqIO (mkdir_parents E (path_parent (fst ps)))
          (bindIO (mkstemp E (path_parent (fst ps)) (''.'' @ path_name (fst ps) @ ''.rollback-'')) (\<lambda>temporary.
           try_except
             (seqIO (write_file E temporary data)
             (seqIO (case state_mode (snd ps) of None \<Rightarrow> ret () | Some m \<Rightarrow> os_chmod E temporary m)
             (os_replace E temporary (fst ps))))
             (\<lambda>e. seqIO (unlink_missing_ok E temporary) (raise_exn e)))))"

text \<open>\<open>if snapshot.running[service] and not service_running(service): errors.append(...)\<close>\<close>

definition unit_ready_errors :: "'h env \<Rightarrow> config_snapshot \<Rightarrow> string \<times> string \<Rightarrow> ('h world, string list) io" where
  "unit_ready_errors E snapshot sn =
     (if was_running snapshot (fst sn)
      then bindIO (service_running E (fst sn)) (\<lambda>up. ret (if up then [] else [snd sn @ '': service did not recover'']))
      else ret [])"

definition restored_service_errors :: "'h env \<Rightarrow> config_snapshot \<Rightarrow> config \<Rightarrow> ('h world, string list) io" where
  "restored_service_errors E snapshot previous_config =
     bindIO (if was_running snapshot SERVICE_NAME
             then try_except (bindIO (wait_for_running_version E previous_config) (\<lambda>v.
                      ret (if v = None then [''node readiness: Bitcoin Core RPC did not recover''] else [])))
                    (\<lambda>e. ret [''node readiness: '' @ exn_str e])
             else ret []) (\<lambda>node.
     bindIO (unit_ready_errors E snapshot (MONITOR_SERVICE_NAME, ''monitor readiness'')) (\<lambda>monitor.
     bindIO (unit_ready_errors E snapshot (RPC_PROXY_SERVICE_NAME, ''proxy readiness'')) (\<lambda>proxy.
     ret (node @ monitor @ proxy))))"

definition stop_steps :: "'h env \<Rightarrow> (string \<times> ('h world, unit) io) list" where
  "stop_steps E = [(''stop proxy'', stop_rpc_proxy E), (''stop monitor'', stop_monitor E), (''stop node'', stop_service E)]"

definition restore_steps :: "'h env \<Rightarrow> config_snapshot \<Rightarrow> (string \<times> ('h world, unit) io) list" where
  "restore_steps E snapshot = map (\<lambda>ps. (''restore '' @ path_name (fst ps), restore_file E ps)) (snap_files snapshot)"

definition start_steps :: "'h env \<Rightarrow> config_snapshot \<Rightarrow> (string \<times> ('h world, unit) io) list" where
  "start_steps E snapshot =
     map snd (filter (\<lambda>x. was_running snapshot (fst x))
       [(SERVICE_NAME, (''start node'', start_service E)),
        (MONITOR_SERVICE_NAME, (''start monitor'', start_monitor E)),
        (RPC_PROXY_SERVICE_NAME, (''start proxy'', start_rpc_proxy E))])"

definition rollback_config_transaction :: "'h env \<Rightarrow> config_snapshot \<Rightarrow> config \<Rightarrow> ('h world, unit) io" where
  "rollback_config_transaction E snapshot previous_config =
     bindIO (collect_errors (stop_steps E @ restore_steps E snapshot
         @ [(''daemon-reload'', seqIO (run_check E [''systemctl'', ''daemon-reload'']) (ret ()))]
         @ start_steps E snapshot)) (\<lambda>errors.
     bindIO (restored_service_errors E snapshot previous_config) (\<lambda>more.
     let errors = errors @ more in
     if errors \<noteq> []
     then raise_exn (Exn RuntimeError (''config rollback failed ('' @ py_join ''; '' errors @ '')''))
     else ret ()))"

section \<open>The transaction\<close>

definition credentials_changed :: "string set \<Rightarrow> bool" where
  "credentials_changed changed_keys \<longleftrightarrow> {''rpc-user'', ''rpc-password''} \<inter> changed_keys \<noteq> {}"

definition node_changed :: "string set \<Rightarrow> bool" where
  "node_changed changed_keys \<longleftrightarrow>
     {''rpc-user'', ''rpc-password'', ''service-args'', ''disable-wallet'', ''version'', ''binary-url''} \<inter> changed_keys \<noteq> {}"

definition proxy_changed :: "string set \<Rightarrow> bool" where
  "proxy_changed changed_keys \<longleftrightarrow> credentials_changed changed_keys
     \<or> {''rpc-proxy-filter'', ''rpc-proxy-version'', ''rpc-proxy-listen'', ''rpc-proxy-extend-allowlist''} \<inter> changed_keys \<noteq> {}"

definition write_config_generation :: "'h env \<Rightarrow> config \<Rightarrow> string set \<Rightarrow> ('h world, unit) io" where
  "write_config_generation E cfg changed_keys =
     seqIO (whenIO (''rpc-proxy-version'' \<in> changed_keys) (install_rpc_proxy E (cfg_str cfg ''rpc-proxy-version'')))
     (seqIO (whenIO (node_changed changed_keys) (seqIO (update_service_args E cfg False) (ret ())))
     (seqIO (whenIO (credentials_changed changed_keys) (install_bitcoind_monitor E cfg False))
     (whenIO (proxy_changed changed_keys) (install_rpc_proxy_service E cfg False))))"

text \<open>\<open>if not <check>: raise RuntimeError(<message>)\<close>\<close>

definition require :: "('w, bool) io \<Rightarrow> string \<Rightarrow> ('w, unit) io" where
  "require check message = bindIO check (\<lambda>ok. if ok then ret () else raise_exn (Exn RuntimeError message))"

definition node_ready :: "'h env \<Rightarrow> config \<Rightarrow> ('h world, bool) io" where
  "node_ready E cfg = bindIO (wait_for_running_version E cfg) (\<lambda>v. ret (v \<noteq> None))"

definition activate_config_generation :: "'h env \<Rightarrow> config \<Rightarrow> string set \<Rightarrow> config_snapshot \<Rightarrow> ('h world, unit) io" where
  "activate_config_generation E cfg changed_keys snapshot =
     seqIO (if {''version'', ''binary-url''} \<inter> changed_keys \<noteq> {}
            then install_bitcoin E (cfg_str cfg ''version'') cfg (cfg_str cfg ''binary-url'')
            else whenIO (node_changed changed_keys \<and> was_running snapshot SERVICE_NAME)
              (seqIO (restart_service E)
                (require (node_ready E cfg) ''Bitcoin Core did not become RPC-ready after config change'')))
     (seqIO (whenIO (credentials_changed changed_keys \<and> was_running snapshot MONITOR_SERVICE_NAME)
              (seqIO (restart_monitor E)
                (require (service_running E MONITOR_SERVICE_NAME) ''bitcoind monitor did not become ready after config change'')))
     (seqIO (whenIO (proxy_changed changed_keys \<and> was_running snapshot RPC_PROXY_SERVICE_NAME)
              (seqIO (require rpc_proxy_binary_installed ''RPC proxy binary is missing after config change'')
              (seqIO (restart_rpc_proxy E)
                (require (service_running E RPC_PROXY_SERVICE_NAME) ''RPC proxy did not become ready after config change''))))
     (whenIO (was_running snapshot SERVICE_NAME)
        (require (service_running E SERVICE_NAME) ''Bitcoin Core did not remain running after config change''))))"

definition apply_config_transaction :: "'h env \<Rightarrow> config \<Rightarrow> config \<Rightarrow> string set \<Rightarrow> ('h world, unit) io" where
  "apply_config_transaction E cfg previous_config changed_keys =
     (if changed_keys = {} then ret ()
      else bindIO (capture_config_transaction E) (\<lambda>snapshot.
        try_except
          (seqIO (write_config_generation E cfg changed_keys)
                 (activate_config_generation E cfg changed_keys snapshot))
          (\<lambda>exc. seqIO (rollback_config_transaction E snapshot previous_config) (raise_exn exc))))"

section \<open>What a snapshot records\<close>

definition state_of :: "file_ent option \<Rightarrow> file_state" where
  "state_of f = \<lparr>state_data = map_option fdata f, state_mode = map_option (\<lambda>g. st_mode g mod 4096) f\<rparr>"

lemma read_file_Inr: "read_file E p w = (w', Inr d) \<Longrightarrow> files w' = files w \<and> map_option fdata (files w p) = Some d"
  by (auto simp: read_file_def fs_check_def io_inv split: prod.splits option.splits)

lemma stat_mode_Inr: "stat_mode E p w = (w', Inr m) \<Longrightarrow> files w' = files w \<and> map_option st_mode (files w p) = Some m"
  by (auto simp: stat_mode_def fs_check_def io_inv split: prod.splits option.splits)

lemma touches_capture_file [frame]: "touches S (capture_file E p)"
  unfolding capture_file_def by (intro frame)

lemma capture_file_state:
  assumes "capture_file E p w = (w', Inr x)"
  shows "x = (p, state_of (files w p))"
proof (cases "files w p")
  case None
  with assms show ?thesis by (auto simp: capture_file_def path_exists_def io_inv state_of_def)
next
  case (Some f)
  obtain v r where d: "read_file E p w = (v, r)" by (cases "read_file E p w")
  obtain u s where m: "stat_mode E p v = (u, s)" by (cases "stat_mode E p v")
  have v: "files v = files w" by (rule touches_noneD [OF touches_read(1) d])
  from assms Some d m v obtain y z where rs: "r = Inr y" "s = Inr z"
    and x: "x = (p, \<lparr>state_data = Some y, state_mode = Some (z mod 4096)\<rparr>)"
    by (cases r; cases s) (simp_all add: capture_file_def path_exists_def bindIO_run)
  from Some v x read_file_Inr [OF d [unfolded rs]] stat_mode_Inr [OF m [unfolded rs]] show ?thesis
    by (simp add: state_of_def)
qed

lemma touches_capture_files [frame]: "touches S (capture_files E ps)"
  by (induction ps) (simp_all only: capture_files.simps, (intro frame | assumption)+)

lemma capture_files_state:
  "capture_files E ps w = (w', Inr fs) \<Longrightarrow> fs = map (\<lambda>p. (p, state_of (files w p))) ps"
proof (induction ps arbitrary: w fs)
  case Nil
  then show ?case by simp
next
  case (Cons p ps)
  then obtain v x xs where x: "capture_file E p w = (v, Inr x)"
    and xs: "capture_files E ps v = (w', Inr xs)" and fs: "fs = x # xs"
    by (auto simp: bindIO_Inr_iff)
  have "files v = files w" by (rule touches_noneD [OF touches_capture_file x])
  with capture_file_state [OF x] Cons.IH [OF xs] fs show ?case by simp
qed

lemma touches_capture_running [frame]: "touches S (capture_running E ss)"
  by (induction ss) (simp_all only: capture_running.simps, (intro frame | assumption)+)

lemma touches_capture [frame]: "touches S (capture_config_transaction E)"
  unfolding capture_config_transaction_def by (intro frame)

lemma capture_running_keys:
  "capture_running E ss w = (w', Inr rs) \<Longrightarrow> map fst rs = ss"
  by (induction ss arbitrary: w rs) (auto simp: bindIO_Inr_iff)

lemma capture_snapshot:
  assumes "capture_config_transaction E w = (w', Inr snapshot)"
  shows "snap_files snapshot = map (\<lambda>p. (p, state_of (files w p))) transaction_paths"
    and "map fst (snap_running snapshot) = [SERVICE_NAME, MONITOR_SERVICE_NAME, RPC_PROXY_SERVICE_NAME]"
  using assms unfolding capture_config_transaction_def
  by (auto simp: bindIO_Inr_iff dest: capture_files_state capture_running_keys)

section \<open>Putting files back\<close>

lemma write_file_files:
  "write_file E p d w = (w', Inr u) \<Longrightarrow> files w' = (files w)(p \<mapsto> with_data E (files w p) d)"
  by (auto simp: write_file_def split: prod.splits option.splits)

lemma os_chmod_files:
  "os_chmod E p m w = (w', Inr u) \<Longrightarrow> \<exists>f. files w p = Some f \<and>
     files w' = (files w)(p \<mapsto> f\<lparr>st_mode := st_mode f div 4096 * 4096 + m mod 4096\<rparr>)"
  by (auto simp: os_chmod_def fs_check_def io_inv split: prod.splits option.splits)

lemma restore_file_files:
  assumes tmp: "tempfile_ok E" and reg: "\<And>g. f = Some g \<Longrightarrow> regular_ent g"
    and run: "restore_file E (p, state_of f) w = (w', Inr u)"
  shows "files w' = (files w)(p := f)"
proof (cases f)
  case None
  with run unlink_files [of E p w w' "Inr u"] show ?thesis by (auto simp: restore_file_def state_of_def)
next
  case (Some g)
  let ?pre = "''.'' @ path_name p @ ''.rollback-''"
  from run Some obtain v0 v1 v2 v3 t x y z a where
    v0: "mkdir_parents E (path_parent p) w = (v0, Inr a)"
    and t: "mkstemp E (path_parent p) ?pre v0 = (v1, Inr t)"
    and v2: "write_file E t (fdata g) v1 = (v2, Inr x)"
    and v3: "os_chmod E t (st_mode g mod 4096) v2 = (v3, Inr y)"
    and w': "os_replace E t p v3 = (w', Inr z)"
    by (auto simp: restore_file_def state_of_def io_inv)
  have f0: "files v0 = files w" by (rule touches_noneD [OF touches_mkdir v0])
  note nm = mkstemp_name [OF tmp t]
  have "files v2 = (files w)(t \<mapsto> \<lparr>fdata = fdata g, st_mode = S_IFREG + 384\<rparr>)"
    using write_file_files [OF v2] nm f0 by (simp add: with_data_def)
  with os_chmod_files [OF v3] have
    "files v3 = (files w)(t \<mapsto> \<lparr>fdata = fdata g, st_mode = S_IFREG + st_mode g mod 4096\<rparr>)"
    by auto
  moreover have "\<lparr>fdata = fdata g, st_mode = S_IFREG + st_mode g mod 4096\<rparr> = g"
    using regular_mode [OF reg [OF Some]] by simp
  ultimately have "files v3 = (files w)(t \<mapsto> g)" by simp
  with os_replace_files [OF w'] nm(2) f0 Some show ?thesis by (auto simp: fun_eq_iff)
qed

type_synonym snapshot_record = "fs \<times> path list"

definition snapshot_good :: "'h env \<Rightarrow> snapshot_record \<Rightarrow> 'h world \<Rightarrow> bool" where
  "snapshot_good E s w \<longleftrightarrow> tempfile_ok E \<and> (\<forall>p \<in> set (snd s). \<forall>g. fst s p = Some g \<longrightarrow> regular_ent g)"

definition snapshot_undo :: "'h env \<Rightarrow> snapshot_record \<Rightarrow> ('h world, unit) io" where
  "snapshot_undo E s = for_each (map (\<lambda>p. (p, state_of (fst s p))) (snd s)) (restore_file E)"

definition snapshot_restored :: "snapshot_record \<Rightarrow> 'h world \<Rightarrow> bool" where
  "snapshot_restored s w \<longleftrightarrow> (\<forall>p \<in> set (snd s). files w p = fst s p)"

lemma snapshot_undo_files:
  "tempfile_ok E \<Longrightarrow> (\<And>p g. p \<in> set ps \<Longrightarrow> f p = Some g \<Longrightarrow> regular_ent g) \<Longrightarrow>
   snapshot_undo E (f, ps) w = (w', Inr u) \<Longrightarrow>
   files w' = (\<lambda>p. if p \<in> set ps then f p else files w p)"
proof (induction ps arbitrary: w)
  case Nil
  then show ?case by (simp add: snapshot_undo_def)
next
  case (Cons p ps)
  from Cons.prems(3) obtain v x where v: "restore_file E (p, state_of (f p)) w = (v, Inr x)"
    and rest: "snapshot_undo E (f, ps) v = (w', Inr u)"
    by (auto simp: snapshot_undo_def seqIO_Inr_iff)
  have "files v = (files w)(p := f p)"
    by (rule restore_file_files [OF Cons.prems(1) _ v]) (rule Cons.prems(2) [of p], simp_all)
  moreover have "files w' = (\<lambda>q. if q \<in> set ps then f q else files v q)"
    by (rule Cons.IH [OF Cons.prems(1) _ rest]) (rule Cons.prems(2), simp_all)
  ultimately show ?case by (auto simp: fun_eq_iff)
qed

interpretation ct: restorable "snapshot_good E" "snapshot_undo E" snapshot_restored for E
proof
  fix s and w w' :: "'a world"
  assume "snapshot_good E s w" and "snapshot_undo E s w = (w', Inr ())"
  then show "snapshot_restored s w'"
    using snapshot_undo_files [of E "snd s" "fst s" w w' "()"]
    by (auto simp: snapshot_good_def snapshot_restored_def)
qed

section \<open>What a failed transaction leaves\<close>

definition config_rollback_reported :: "exn \<Rightarrow> bool" where
  "config_rollback_reported e \<longleftrightarrow> exn_kind e = RuntimeError \<and> starts_with ''config rollback failed ('' (exn_str e)"

text \<open>The error of a \<open>service <name> status\<close> command that could not be spawned.\<close>

definition status_spawn_failed :: "'h env \<Rightarrow> exn \<Rightarrow> bool" where
  "status_spawn_failed E e \<longleftrightarrow> (\<exists>s fs h. snd (env_run E [''service'', s, ''status''] fs h) = Inl e)"

lemma get_status_Inl: "get_status E s w = (w', Inl e) \<Longrightarrow> status_spawn_failed E e"
  unfolding get_status_def run_proc_def status_spawn_failed_def
  by (auto simp: bindIO_Inl_iff split: prod.splits) (metis snd_conv)+

lemma poll_service_Inl: "poll_service E s n w = (w', Inl e) \<Longrightarrow> status_spawn_failed E e"
proof (induction n arbitrary: w)
  case 0
  then show ?case by simp
next
  case (Suc n)
  then show ?case
    by (auto simp: bindIO_Inl_iff seqIO_Inl_iff sleep_def dest: get_status_Inl split: if_splits)
qed

lemma restored_service_errors_Inl:
  "restored_service_errors E snapshot prev w = (w', Inl e) \<Longrightarrow> status_spawn_failed E e"
  unfolding restored_service_errors_def unit_ready_errors_def service_running_def
  by (auto simp: bindIO_Inl_iff try_except_Inl_iff dest: poll_service_Inl split: if_splits)

lemma touches_restored_errors [frame]: "touches S (restored_service_errors E snapshot prev)"
  unfolding restored_service_errors_def unit_ready_errors_def by (intro frame)

lemma restore_steps_snapshot:
  assumes "snap_files snapshot = map (\<lambda>p. (p, state_of (f p))) ps"
  shows "for_each (restore_steps E snapshot) snd = snapshot_undo E (f, ps)"
  by (simp add: restore_steps_def snapshot_undo_def assms for_each_map)

lemma config_rollback_restores:
  assumes tmp: "tempfile_ok E" and reg: "\<And>p g. p \<in> set ps \<Longrightarrow> f p = Some g \<Longrightarrow> regular_ent g"
    and snap: "snap_files snapshot = map (\<lambda>p. (p, state_of (f p))) ps"
    and run: "rollback_config_transaction E snapshot prev w = (w', Inr u)"
  shows "snapshot_restored (f, ps) w'"
proof -
  let ?reload = "(''daemon-reload'', seqIO (run_check E [''systemctl'', ''daemon-reload'']) (ret ()))"
  let ?post = "?reload # start_steps E snapshot"
  from run obtain v more where
    v: "collect_errors (stop_steps E @ restore_steps E snapshot @ ?post) w = (v, Inr [])"
    and more: "restored_service_errors E snapshot prev v = (w', Inr more)"
    unfolding rollback_config_transaction_def Let_def
    by (auto simp: bindIO_Inr_iff guard_inv)
  from v have "for_each (map snd (stop_steps E) @ snapshot_undo E (f, ps) # map snd ?post) (\<lambda>m. m) w = (v, Inr ())"
    unfolding collect_errors_Nil_iff for_each_block restore_steps_snapshot [OF snap] .
  then have "snapshot_restored (f, ps) v"
  proof (rule ct.rollback_restores [rotated 3])
    show good: "snapshot_good E (f, ps) w" using tmp reg by (auto simp: snapshot_good_def)
    show "snapshot_good E (f, ps) y'" if "snapshot_good E (f, ps) y" for y y' :: "'a world"
      using that by (simp add: snapshot_good_def)
    have quiet: "touches {} m" if "m \<in> set (map snd ?post)" for m
    proof -
      have "touches {} (seqIO (run_check E [''systemctl'', ''daemon-reload'']) (ret ()))" by (intro frame)
      with that show ?thesis by (auto simp: start_steps_def touches_services split: if_splits)
    qed
    show "snapshot_restored (f, ps) y'"
      if "m \<in> set (map snd ?post)" "snapshot_restored (f, ps) y" "m y = (y', r)" for m y y' r
      using touches_noneD [OF quiet [OF that(1)] that(3)] that(2) by (simp add: snapshot_restored_def)
  qed
  then show ?thesis
    using touches_noneD [OF touches_restored_errors more] by (simp add: snapshot_restored_def)
qed

lemma config_rollback_Inl:
  "rollback_config_transaction E snapshot prev w = (w', Inl e) \<Longrightarrow> config_rollback_reported e \<or> status_spawn_failed E e"
  unfolding rollback_config_transaction_def Let_def
  by (auto simp: bindIO_Inl_iff config_rollback_reported_def starts_with_iff dest: restored_service_errors_Inl split: if_splits)

lemma transaction_failure:
  assumes tmp: "tempfile_ok E" and reg: "regular w"
    and run: "apply_config_transaction E cfg prev changed w = (w', Inl e)"
  shows "(\<forall>p \<in> set transaction_paths. files w' p = files w p) \<or> config_rollback_reported e \<or> status_spawn_failed E e"
proof -
  let ?body = "\<lambda>snapshot. seqIO (write_config_generation E cfg changed) (activate_config_generation E cfg changed snapshot)"
  from run have ne: "changed \<noteq> {}" by (auto simp: apply_config_transaction_def)
  from run have "capture_config_transaction E w = (w', Inl e)
    \<or> (\<exists>snapshot v. capture_config_transaction E w = (v, Inr snapshot) \<and> (\<exists>exc u. ?body snapshot v = (u, Inl exc)
        \<and> seqIO (rollback_config_transaction E snapshot prev) (raise_exn exc) u = (w', Inl e :: exn + unit)))"
    unfolding apply_config_transaction_def if_not_P [OF ne] bindIO_Inl_iff try_except_Inl_iff .
  then show ?thesis
  proof (elim disjE exE conjE)
    assume capture: "capture_config_transaction E w = (w', Inl e)"
    then show ?thesis using touches_noneD [OF touches_capture capture] by simp
  next
    fix snapshot v exc u
    assume body: "capture_config_transaction E w = (v, Inr snapshot)" "?body snapshot v = (u, Inl exc)"
      "seqIO (rollback_config_transaction E snapshot prev) (raise_exn exc) u = (w', Inl e :: exn + unit)"
    show ?thesis
    proof (cases "rollback_config_transaction E snapshot prev u")
      case (Pair x r)
      show ?thesis
      proof (cases r)
        case (Inl e')
        with Pair body(3) config_rollback_Inl [of E snapshot prev u x e'] show ?thesis by (simp add: seqIO_run)
      next
        case (Inr y)
        have "snapshot_restored (files w, transaction_paths) x"
          using config_rollback_restores [OF tmp _ capture_snapshot(1) [OF body(1)] Pair [unfolded Inr]] reg
          by (simp add: regular_def)
        with Pair Inr body(3) show ?thesis by (simp add: seqIO_run snapshot_restored_def)
      qed
    qed
  qed
qed

section \<open>Which files a transaction may touch\<close>

text \<open>The managed files, and the names temporary files and the staging directory may have.\<close>

definition scratch_names :: "path set" where
  "scratch_names = {p. \<exists>stage \<in> stage_names. inside stage p} \<union> proxy_temps
     \<union> (\<Union>p \<in> set transaction_paths. temp_names (path_parent p) (''.'' @ path_name p @ ''.rollback-''))"

lemma touches_install_bitcoin:
  assumes "tempfile_ok E" and "BINARY_PATH \<in> S" "CLI_PATH \<in> S" and "\<And>stage p. stage \<in> stage_names \<Longrightarrow> inside stage p \<Longrightarrow> p \<in> S"
  shows "touches S (install_bitcoin E version cfg url)"
  unfolding install_bitcoin_def using assms by (intro frame touches_install_release) auto

lemma touches_require [frame]: "touches S m \<Longrightarrow> touches S (require m msg)"
  unfolding require_def by (intro frame)

lemma touches_node_ready [frame]: "touches S (node_ready E cfg)"
  unfolding node_ready_def by (intro frame)

abbreviation binary_names :: "path set" where
  "binary_names \<equiv> {BINARY_PATH, CLI_PATH} \<union> {p. \<exists>stage \<in> stage_names. inside stage p}"

lemma touches_activate_generation:
  assumes "tempfile_ok E" and "binary_names \<subseteq> S"
  shows "touches S (activate_config_generation E cfg changed snapshot)"
  unfolding activate_config_generation_def using assms
  by (intro frame touches_install_bitcoin) auto

lemma touches_write_generation:
  assumes "tempfile_ok E" and "set transaction_paths \<subseteq> S" and "proxy_temps \<subseteq> S"
  shows "touches S (write_config_generation E cfg changed)"
  unfolding write_config_generation_def using assms
  by (intro frame touches_install_proxy) (auto simp: transaction_paths_def)

lemma touches_restore_file:
  assumes "tempfile_ok E" and "fst x \<in> S" and "temp_names (path_parent (fst x)) (''.'' @ path_name (fst x) @ ''.rollback-'') \<subseteq> S"
  shows "touches S (restore_file E x)"
  unfolding restore_file_def using assms by (intro frame) auto

lemma touches_config_rollback:
  assumes "tempfile_ok E" and "set transaction_paths \<union> scratch_names \<subseteq> S" and "map fst (snap_files snapshot) = transaction_paths"
  shows "touches S (rollback_config_transaction E snapshot prev)"
proof -
  have "touches S (restore_file E x)" if "x \<in> set (snap_files snapshot)" for x
  proof -
    have "fst x \<in> set transaction_paths" using assms(3) that by (metis image_eqI set_map)
    then show ?thesis using assms(1,2) by (intro touches_restore_file) (auto simp: scratch_names_def)
  qed
  moreover have "touches S (seqIO (run_check E [''systemctl'', ''daemon-reload'']) (ret ()))" by (intro frame)
  ultimately have "touches S (snd q)" if "q \<in> set (stop_steps E @ restore_steps E snapshot
      @ [(''daemon-reload'', seqIO (run_check E [''systemctl'', ''daemon-reload'']) (ret ()))] @ start_steps E snapshot)" for q
    using that by (auto simp: stop_steps_def restore_steps_def start_steps_def touches_services split: if_splits)
  then show ?thesis unfolding rollback_config_transaction_def Let_def by (intro frame) blast
qed

lemma touches_transaction:
  assumes tmp: "tempfile_ok E"
  shows "touches (set transaction_paths \<union> scratch_names) (apply_config_transaction E cfg prev changed)"
proof -
  let ?S = "set transaction_paths \<union> scratch_names"
  have S: "set transaction_paths \<subseteq> ?S" "proxy_temps \<subseteq> ?S" "binary_names \<subseteq> ?S"
    by (auto simp: scratch_names_def transaction_paths_def)
  have k: "touches ?S (try_except
          (seqIO (write_config_generation E cfg changed) (activate_config_generation E cfg changed snapshot))
          (\<lambda>exc. seqIO (rollback_config_transaction E snapshot prev) (raise_exn exc)))"
    if "map fst (snap_files snapshot) = transaction_paths" for snapshot
    by (intro frame touches_write_generation [OF tmp S(1,2)] touches_activate_generation [OF tmp S(3)]
        touches_config_rollback [OF tmp subset_refl that])
  have res: "map fst (snap_files snapshot) = transaction_paths"
    if "capture_config_transaction E w = (w', Inr snapshot)" for w w' snapshot
    using capture_snapshot(1) [OF that] by (simp add: comp_def)
  show ?thesis unfolding apply_config_transaction_def
    by (intro fr.resp_if fr.resp_ret touches_bind_result [OF touches_capture res k])
qed

section \<open>What a successful transaction leaves\<close>

text \<open>The three environment files are the ones rendered from the given configuration.\<close>

definition rendered :: "config \<Rightarrow> 'h world \<Rightarrow> bool" where
  "rendered cfg w \<longleftrightarrow> data_of w (default_file SERVICE_NAME) = Some (node_env_content cfg)
     \<and> data_of w (default_file MONITOR_SERVICE_NAME) = Some (monitor_env_content cfg)
     \<and> data_of w (default_file RPC_PROXY_SERVICE_NAME) = Some (proxy_env_content cfg)"

lemma default_files_apart:
  "default_file SERVICE_NAME \<noteq> default_file MONITOR_SERVICE_NAME"
  "default_file SERVICE_NAME \<noteq> default_file RPC_PROXY_SERVICE_NAME"
  "default_file MONITOR_SERVICE_NAME \<noteq> default_file RPC_PROXY_SERVICE_NAME"
  "default_file s \<notin> {BINARY_PATH, CLI_PATH, RPC_PROXY_BINARY_PATH, MONITOR_SCRIPT_PATH, unit_file t} \<union> proxy_temps"
  "stage \<in> stage_names \<Longrightarrow> \<not> inside stage (default_file s)"
  by (auto simp: constant_defs temp_names_def inside_def starts_with_iff)

lemma data_kept: "touches S m \<Longrightarrow> m w = (w', r) \<Longrightarrow> p \<notin> S \<Longrightarrow> data_of w' p = data_of w p"
  by (simp add: data_of_def touchesD)

lemma monitor_env_written:
  assumes "install_bitcoind_monitor E cfg restart w = (w', Inr u)"
  shows "data_of w' (default_file MONITOR_SERVICE_NAME) = Some (monitor_env_content cfg)"
proof -
  from assms obtain v v' x y where v: "write_monitor_env_file E cfg v = (v', Inr x)"
    and w': "whenIO restart (restart_monitor E) v' = (w', Inr y)"
    unfolding install_bitcoind_monitor_def seqIO_Inr_iff by blast
  have "touches {} (whenIO restart (restart_monitor E))" by (intro frame)
  from data_kept [OF this w'] write_file_data [OF v [unfolded write_monitor_env_file_def]] show ?thesis by simp
qed

lemma proxy_env_written:
  assumes "install_rpc_proxy_service E cfg restart w = (w', Inr u)"
  shows "data_of w' (default_file RPC_PROXY_SERVICE_NAME) = Some (proxy_env_content cfg)"
proof -
  from assms obtain v v' x y where v: "write_rpc_proxy_env_file E cfg v = (v', Inr x)"
    and w': "whenIO restart (restart_rpc_proxy E) v' = (w', Inr y)"
    unfolding install_rpc_proxy_service_def seqIO_Inr_iff by blast
  have "touches {} (whenIO restart (restart_rpc_proxy E))" by (intro frame)
  from data_kept [OF this w'] write_file_data [OF v [unfolded write_rpc_proxy_env_file_def]] show ?thesis by simp
qed

lemma when_written:
  assumes "whenIO b m w = (w', Inr u)" and "\<And>v v' x. m v = (v', Inr x) \<Longrightarrow> data_of v' p = d"
  shows "data_of w' p = (if b then d else data_of w p)"
  using assms by (auto simp: whenIO_Inr_iff)

lemma write_generation_data:
  assumes tmp: "tempfile_ok E" and run: "write_config_generation E cfg changed w = (w', Inr u)"
  shows "data_of w' (default_file SERVICE_NAME) =
      (if node_changed changed then Some (node_env_content cfg) else data_of w (default_file SERVICE_NAME))"
    and "data_of w' (default_file MONITOR_SERVICE_NAME) =
      (if credentials_changed changed then Some (monitor_env_content cfg) else data_of w (default_file MONITOR_SERVICE_NAME))"
    and "data_of w' (default_file RPC_PROXY_SERVICE_NAME) =
      (if proxy_changed changed then Some (proxy_env_content cfg) else data_of w (default_file RPC_PROXY_SERVICE_NAME))"
proof -
  let ?n = "default_file SERVICE_NAME" and ?m = "default_file MONITOR_SERVICE_NAME" and ?p = "default_file RPC_PROXY_SERVICE_NAME"
  let ?S1 = "{RPC_PROXY_BINARY_PATH} \<union> proxy_temps" and ?S3 = "{MONITOR_SCRIPT_PATH, ?m}" and ?S4 = "{unit_file RPC_PROXY_SERVICE_NAME, ?p}"
  from run obtain v1 v2 v3 x1 x2 x3 where
    r1: "whenIO (''rpc-proxy-version'' \<in> changed) (install_rpc_proxy E (cfg_str cfg ''rpc-proxy-version'')) w = (v1, Inr x1)"
    and r2: "whenIO (node_changed changed) (seqIO (update_service_args E cfg False) (ret ())) v1 = (v2, Inr x2)"
    and r3: "whenIO (credentials_changed changed) (install_bitcoind_monitor E cfg False) v2 = (v3, Inr x3)"
    and r4: "whenIO (proxy_changed changed) (install_rpc_proxy_service E cfg False) v3 = (w', Inr u)"
    unfolding write_config_generation_def seqIO_Inr_iff by blast
  have "touches ?S1 (whenIO b (install_rpc_proxy E v))" for b v
    by (intro frame touches_install_proxy [OF tmp]) auto
  note k1 = data_kept [OF this r1]
  have "touches {?n} (whenIO b (seqIO (update_service_args E cfg False) (ret ())))" for b by (intro frame) simp
  note k2 = data_kept [OF this r2]
  have "touches ?S3 (whenIO b (install_bitcoind_monitor E cfg False))" for b by (intro frame) simp_all
  note k3 = data_kept [OF this r3]
  have "touches ?S4 (whenIO b (install_rpc_proxy_service E cfg False))" for b by (intro frame) simp_all
  note k4 = data_kept [OF this r4]
  have n: "data_of v2 ?n = (if node_changed changed then Some (node_env_content cfg) else data_of v1 ?n)"
    by (rule when_written [OF r2]) (auto simp: seqIO_Inr_iff dest: update_service_args_data)
  note m = when_written [OF r3 monitor_env_written] and p = when_written [OF r4 proxy_env_written]
  note apart = default_files_apart(1-3) default_files_apart(1-3) [THEN not_sym]
    default_files_apart(4) [of _ RPC_PROXY_SERVICE_NAME]
  show "data_of w' ?n = (if node_changed changed then Some (node_env_content cfg) else data_of w ?n)"
    using k4 [of ?n] k3 [of ?n] n k1 [of ?n] apart by auto
  show "data_of w' ?m = (if credentials_changed changed then Some (monitor_env_content cfg) else data_of w ?m)"
    using k4 [of ?m] m k2 [of ?m] k1 [of ?m] apart by auto
  show "data_of w' ?p = (if proxy_changed changed then Some (proxy_env_content cfg) else data_of w ?p)"
    using p k3 [of ?p] k2 [of ?p] k1 [of ?p] apart by auto
qed

lemma transaction_success:
  assumes tmp: "tempfile_ok E" and ne: "changed \<noteq> {}"
    and run: "apply_config_transaction E cfg prev changed w = (w', Inr u)"
  shows "\<exists>v v' x. write_config_generation E cfg changed v = (v', Inr x) \<and> files v = files w
    \<and> (\<forall>s. data_of w' (default_file s) = data_of v' (default_file s))"
proof -
  from run obtain snapshot v v' x where snap: "capture_config_transaction E w = (v, Inr snapshot)"
    and wr: "write_config_generation E cfg changed v = (v', Inr x)"
    and act: "activate_config_generation E cfg changed snapshot v' = (w', Inr u)"
    unfolding apply_config_transaction_def if_not_P [OF ne]
    by (auto simp: bindIO_Inr_iff try_except_Inr_iff seqIO_Inr_iff)
  have "files v = files w" by (rule touches_noneD [OF touches_capture snap])
  moreover have "data_of w' (default_file s) = data_of v' (default_file s)" for s
    using default_files_apart(5) [of _ s] default_files_apart(4) [of s]
    by (intro data_kept [OF touches_activate_generation [OF tmp subset_refl] act]) auto
  ultimately show ?thesis using wr by blast
qed

text \<open>The files depend only on the keys that make the transaction rewrite them.\<close>

lemma contents_cong:
  assumes "\<And>k. k \<notin> changed \<Longrightarrow> cfg_get cfg k = cfg_get prev k"
  shows "\<not> node_changed changed \<Longrightarrow> node_env_content cfg = node_env_content prev"
    and "\<not> credentials_changed changed \<Longrightarrow> monitor_env_content cfg = monitor_env_content prev"
    and "\<not> proxy_changed changed \<Longrightarrow> proxy_env_content cfg = proxy_env_content prev"
proof -
  show "node_env_content cfg = node_env_content prev" if "\<not> node_changed changed"
  proof -
    have "cfg_get cfg k = cfg_get prev k"
      if "k \<in> {''rpc-user'', ''rpc-password'', ''service-args'', ''disable-wallet''}" for k
      using assms [of k] that \<open>\<not> node_changed changed\<close> by (auto simp: node_changed_def)
    then show ?thesis by (simp add: node_env_content_def service_args_of_def harden_service_args_def cfg_str_def Let_def)
  qed
  show "monitor_env_content cfg = monitor_env_content prev" if "\<not> credentials_changed changed"
  proof -
    have "cfg_get cfg ''rpc-user'' = cfg_get prev ''rpc-user''" "cfg_get cfg ''rpc-password'' = cfg_get prev ''rpc-password''"
      using assms that by (auto simp: credentials_changed_def)
    then show ?thesis unfolding monitor_env_content_def monitor_env_value_def by (simp only:)
  qed
  show "proxy_env_content cfg = proxy_env_content prev" if "\<not> proxy_changed changed"
  proof -
    have "cfg_get cfg k = cfg_get prev k" if "k \<in> {''rpc-user'', ''rpc-password'', ''rpc-proxy-filter'',
        ''rpc-proxy-listen'', ''rpc-proxy-extend-allowlist''}" for k
      using assms [of k] that \<open>\<not> proxy_changed changed\<close> by (auto simp: proxy_changed_def credentials_changed_def)
    then show ?thesis by (simp add: proxy_env_content_def proxy_env_value_def proxy_overrides_def Let_def)
  qed
qed

lemma transaction_renders:
  assumes tmp: "tempfile_ok E" and old: "rendered prev w"
    and diff: "\<And>k. k \<notin> changed \<Longrightarrow> cfg_get cfg k = cfg_get prev k"
    and run: "apply_config_transaction E cfg prev changed w = (w', Inr u)"
  shows "rendered cfg w'"
proof (cases "changed = {}")
  case True
  with run have "w' = w" by (simp add: apply_config_transaction_def)
  with True old contents_cong [of "{}" cfg prev] diff show ?thesis
    by (simp add: rendered_def node_changed_def credentials_changed_def proxy_changed_def)
next
  case False
  from transaction_success [OF tmp False run] obtain v v' x where
    wr: "write_config_generation E cfg changed v = (v', Inr x)" and v: "files v = files w"
    and w': "\<And>s. data_of w' (default_file s) = data_of v' (default_file s)" by blast
  have "data_of v p = data_of w p" for p using v by (simp add: data_of_def)
  with write_generation_data [OF tmp wr] w' old contents_cong [of changed cfg prev, OF diff] show ?thesis
    unfolding rendered_def by simp
qed

text \<open>A transaction whose generation cannot be written raises, whatever the roll-back does.\<close>

lemma transaction_raises:
  assumes "changed \<noteq> {}" and "capture_config_transaction E w = (v, Inr snapshot)"
    and "snd (write_config_generation E cfg changed v) = Inl exc"
  shows "\<exists>e. snd (apply_config_transaction E cfg prev changed w) = Inl e"
proof -
  obtain u where "write_config_generation E cfg changed v = (u, Inl exc)" using assms(3) by (metis prod.collapse)
  then show ?thesis
    using assms(1,2)
    by (simp add: apply_config_transaction_def bindIO_run try_except_run seqIO_run split: prod.splits sum.splits)
qed

text \<open>With no service running before, writing the generation is all there is to do.\<close>

lemma transaction_idle_returns:
  assumes "changed \<noteq> {}" and "''version'' \<notin> changed" "''binary-url'' \<notin> changed"
    and "capture_config_transaction E w = (v, Inr snapshot)" and "\<forall>b \<in> snd ` set (snap_running snapshot). \<not> b"
    and "snd (write_config_generation E cfg changed v) = Inr ()"
  shows "snd (apply_config_transaction E cfg prev changed w) = Inr ()"
proof -
  obtain u where u: "write_config_generation E cfg changed v = (u, Inr ())" using assms(6) by (metis prod.collapse)
  have "\<not> was_running snapshot s" for s
    using assms(5) by (auto simp: was_running_def dest!: map_of_SomeD)
  then have "activate_config_generation E cfg changed snapshot = ret ()"
    using assms(2,3) by (simp add: activate_config_generation_def)
  with u assms(1,4) show ?thesis
    by (simp add: apply_config_transaction_def bindIO_run try_except_run seqIO_run)
qed

section \<open>Evaluation\<close>

text \<open>Code equations with the world as an argument: an operation unfolds when it runs, not before.\<close>

lemmas config_transaction_code [code] =
  capture_file_def [THEN fun_cong] capture_config_transaction_def [THEN fun_cong]
  restore_file_def [THEN fun_cong] unit_ready_errors_def [THEN fun_cong]
  restored_service_errors_def [THEN fun_cong] rollback_config_transaction_def [THEN fun_cong]
  write_config_generation_def [THEN fun_cong] require_def [THEN fun_cong]
  node_ready_def [THEN fun_cong] activate_config_generation_def [THEN fun_cong]
  apply_config_transaction_def [THEN fun_cong]

end
