(* ===== verification/Transaction_Spec.thy ===== *)
theory Transaction_Spec
  imports Config_Transaction Lab
begin

text \<open>
  The properties of the configuration transaction, each with a run on the concrete host of \<open>Lab\<close>.
\<close>

section \<open>Transactions on the concrete host\<close>

definition lab_config :: config where
  "lab_config = [''rpc-user'' \<mapsto> PStr ''alice'', ''rpc-password'' \<mapsto> PStr ''s3cret'',
     ''rpc-proxy-filter'' \<mapsto> PBool True, ''rpc-proxy-listen'' \<mapsto> PStr ''127.0.0.1:8331'']"

definition lab_previous :: config where
  "lab_previous = lab_config(''rpc-proxy-listen'' := None)"

text \<open>The host on which no service runs.\<close>

definition idle_run :: "string list \<Rightarrow> fs \<Rightarrow> unit \<Rightarrow> unit \<times> (exn + proc)" where
  "idle_run cmd fs h = (h, Inr \<lparr>returncode = 3, stdout = []\<rparr>)"

definition lab_idle :: "unit env" where
  "lab_idle = lab\<lparr>env_run := idle_run\<rparr>"

text \<open>The machine with the charm's proxy unit and the files of the previous configuration.\<close>

definition lab_managed :: "unit world" where
  "lab_managed = lab_world\<lparr>files :=
     [''templates/bitcoin-rpc-proxy.service'' \<mapsto> \<lparr>fdata = ''unit'', st_mode = 33188\<rparr>,
      default_file SERVICE_NAME \<mapsto> \<lparr>fdata = node_env_content lab_previous, st_mode = 33188\<rparr>,
      default_file MONITOR_SERVICE_NAME \<mapsto> \<lparr>fdata = monitor_env_content lab_previous, st_mode = 33188\<rparr>,
      default_file RPC_PROXY_SERVICE_NAME \<mapsto> \<lparr>fdata = proxy_env_content lab_previous, st_mode = 33188\<rparr>]\<rparr>"

lemma lab_world_regular: "regular lab_world"
  by (auto simp: regular_def regular_ent_def lab_world_def S_IFREG_def split: if_splits)

lemma lab_idle_tempfile_ok: "tempfile_ok lab_idle"
  using lab_tempfile_ok by (simp add: tempfile_ok_def lab_idle_def)

text \<open>Without the charm's templates the new generation cannot be written.\<close>

lemma lab_transaction_fails: "\<exists>e. snd (apply_config_transaction lab lab_config lab_previous {''rpc-user''} lab_world) = Inl e"
proof -
  obtain v r where v: "capture_config_transaction lab lab_world = (v, r)" by (cases "capture_config_transaction lab lab_world")
  have "(case snd (capture_config_transaction lab lab_world) of Inl _ \<Rightarrow> False | Inr _ \<Rightarrow> True)" by code_simp
  with v obtain snapshot where r: "r = Inr snapshot" by (cases r) auto
  from touches_noneD [OF touches_capture v] have "v = lab_world" by (rule unit_world_eqI)
  moreover have "snd (write_config_generation lab lab_config {''rpc-user''} lab_world) =
      Inl (no_such_file ''templates/bitcoind-monitor.py'')" by code_simp
  ultimately show ?thesis using v r by (intro transaction_raises) auto
qed

lemma lab_transaction_succeeds:
  "snd (apply_config_transaction lab_idle lab_config previous {''rpc-proxy-listen''} lab_managed) = Inr ()"
proof -
  obtain v r where v: "capture_config_transaction lab_idle lab_managed = (v, r)"
    by (cases "capture_config_transaction lab_idle lab_managed")
  have "(case snd (capture_config_transaction lab_idle lab_managed) of
      Inl _ \<Rightarrow> False | Inr snapshot \<Rightarrow> list_all (\<lambda>x. \<not> snd x) (snap_running snapshot))" by code_simp
  with v obtain snapshot where r: "r = Inr snapshot" and idle: "\<forall>b \<in> snd ` set (snap_running snapshot). \<not> b"
    by (cases r) (auto simp: list_all_iff)
  from touches_noneD [OF touches_capture v] have "v = lab_managed" by (rule unit_world_eqI)
  moreover have "snd (write_config_generation lab_idle lab_config {''rpc-proxy-listen''} lab_managed) = Inr ()"
    by code_simp
  ultimately show ?thesis using v r idle by (intro transaction_idle_returns) auto
qed

section \<open>Properties\<close>



text \<open>
  (C6) The environment files of the node, the monitor and the proxy stay one generation: if they were
  the ones rendered from the previous configuration and the changed keys include every key whose value
  differs, a transaction that returns leaves the files rendered from the new configuration, also where
  it did not have to rewrite them.
\<close>

theorem transaction_success_renders_config:
  assumes "tempfile_ok E" and "rendered previous_config w"
    and "\<And>k. k \<notin> changed_keys \<Longrightarrow> cfg_get cfg k = cfg_get previous_config k"
    and "snd (apply_config_transaction E cfg previous_config changed_keys w) = Inr ()"
  shows "rendered cfg (fst (apply_config_transaction E cfg previous_config changed_keys w))"
proof -
  obtain w' where w': "apply_config_transaction E cfg previous_config changed_keys w = (w', Inr ())"
    using assms(4) by (metis prod.collapse)
  from transaction_renders [OF assms(1-3) w'] w' show ?thesis by simp
qed

theorem transaction_success_renders_config_witness:
  "rendered lab_config (fst (apply_config_transaction lab_idle lab_config lab_previous {''rpc-proxy-listen''} lab_managed))"
proof (rule transaction_success_renders_config [OF lab_idle_tempfile_ok _ _ lab_transaction_succeeds])
  show "rendered lab_previous lab_managed"
    by (simp add: rendered_def data_of_def lab_managed_def default_files_apart(1-3) default_files_apart(1-3) [THEN not_sym])
  show "cfg_get lab_config k = cfg_get lab_previous k" if "k \<notin> {''rpc-proxy-listen''}" for k
    using that by (simp add: lab_previous_def cfg_get_def)
qed

text \<open>
  (C16) Whatever its outcome, a transaction touches no file but the managed ones and names its temporary
  files and its staging directory can have.
\<close>

theorem transaction_touches_managed_files_only:
  assumes "tempfile_ok E" and "p \<notin> set transaction_paths" and "p \<notin> scratch_names"
  shows "files (fst (apply_config_transaction E cfg previous_config changed_keys w)) p = files w p"
proof -
  obtain w' r where w': "apply_config_transaction E cfg previous_config changed_keys w = (w', r)"
    by (cases "apply_config_transaction E cfg previous_config changed_keys w")
  from touchesD [OF touches_transaction [OF assms(1)] w'] assms(2,3) w' show ?thesis by simp
qed

lemma scratch_names_dot: "p \<in> scratch_names \<Longrightarrow> CHR ''.'' \<in> set p"
  by (auto simp: scratch_names_def temp_names_def inside_def starts_with_iff path_join_def)

lemma hosts_unmanaged: "''/etc/hosts'' \<notin> set transaction_paths" "''/etc/hosts'' \<notin> scratch_names"
  using scratch_names_dot [of "''/etc/hosts''"] by (auto simp: transaction_paths_def constant_defs)

theorem transaction_touches_managed_files_only_witness:
  "files (fst (apply_config_transaction lab lab_config lab_previous {''rpc-user''} lab_world)) ''/etc/hosts'' = files lab_world ''/etc/hosts''"
  by (rule transaction_touches_managed_files_only [OF lab_tempfile_ok hosts_unmanaged])

end
