(* ===== verification/Redaction.thy ===== *)
theory Redaction
  imports Py_Regex Py_Value "HOL-Library.AList"
begin

text \<open>
  The redaction half of \<open>src/bitcoin_metadata.py\<close>: which keys are sensitive, the scanner for serialized
  containers embedded in text, the regular-expression passes over runtime strings, and the recursive
  redaction of structured values. The two literal parsers and the JSON printer of the standard library
  are a parameter, the codec; the theorems hold for every codec, or for every codec whose parsers return
  strings shorter than the text they parse. Text redaction and value redaction call each other through
  the parser, so the depth is bounded by fuel; one unit more than the length of the text is enough.
\<close>

section \<open>Substitution\<close>

text \<open>
  \<open>re.sub(r, f, s)\<close>: non-overlapping matches from left to right; the replacement sees the matched text
  and the groups. No pattern of the module matches the empty string.
\<close>

function re_sub_from :: "rx \<Rightarrow> (string \<Rightarrow> caps \<Rightarrow> string) \<Rightarrow> string \<Rightarrow> string \<Rightarrow> string" where
  "re_sub_from r f l s =
     (case rx_match r (l, s) no_caps of
        ((l', s'), g) # _ \<Rightarrow>
          if length s' < length s
          then f (take (length s - length s') s) g @ re_sub_from r f l' s'
          else f [] g @ (case s of [] \<Rightarrow> [] | c # t \<Rightarrow> c # re_sub_from r f (c # l) t)
      | [] \<Rightarrow> (case s of [] \<Rightarrow> [] | c # t \<Rightarrow> c # re_sub_from r f (c # l) t))"
  by pat_completeness auto
termination
  by (relation "measure (\<lambda>(r, f, l, s). length s)") auto

declare re_sub_from.simps [simp del]

definition re_sub :: "rx \<Rightarrow> (string \<Rightarrow> caps \<Rightarrow> string) \<Rightarrow> string \<Rightarrow> string" where
  "re_sub r f s = re_sub_from r f [] s"

text \<open>\<open>match.group(n)\<close> of a group that takes part in every match.\<close>

definition grp :: "caps \<Rightarrow> nat \<Rightarrow> string" where
  "grp g n = (case g n of None \<Rightarrow> [] | Some s \<Rightarrow> s)"

section \<open>Sensitive keys\<close>

definition SENSITIVE_KEY_PARTS :: "string list" where
  "SENSITIVE_KEY_PARTS = [''accesskey'', ''apikey'', ''authorization'', ''cookie'', ''credential'', ''credentials'',
     ''password'', ''privatekey'', ''rpcauth'', ''rpcpassword'', ''rpcuser'', ''secret'', ''sessiontoken'', ''token'']"

definition normalize_key :: "string \<Rightarrow> string" where
  "normalize_key key = filter (\<lambda>c. is_lower_ascii c \<or> is_digit c) (py_casefold key)"

definition key_is_sensitive :: "string \<Rightarrow> bool" where
  "key_is_sensitive key = list_ex (\<lambda>part. contains part (normalize_key key)) SENSITIVE_KEY_PARTS"

section \<open>Serialized containers in text\<close>

definition is_quote :: "char \<Rightarrow> bool" where
  "is_quote c \<longleftrightarrow> c = CHR 0x27 \<or> c = CHR 0x22"

text \<open>The quote the scanner is inside of, \<open>None\<close> for the empty string of the code.\<close>

definition quoted_char_state :: "char \<Rightarrow> char option \<Rightarrow> bool \<Rightarrow> char option \<times> bool \<times> bool" where
  "quoted_char_state char quote escaped =
     (if escaped then (quote, False, True)
      else if char = CHR 0x5C then (quote, True, True)
      else if quote \<noteq> None then (if quote = Some char then None else quote, False, True)
      else if is_quote char then (Some char, False, True)
      else (quote, False, False))"

definition closing :: "char \<Rightarrow> char option" where
  "closing c = (if c = CHR ''{'' then Some (CHR ''}'') else if c = CHR ''['' then Some (CHR '']'') else None)"

fun scan_container :: "string \<Rightarrow> nat \<Rightarrow> char list \<Rightarrow> char option \<Rightarrow> bool \<Rightarrow> nat option" where
  "scan_container [] index stack quote escaped = None"
| "scan_container (char # rest) index stack quote escaped =
     (case quoted_char_state char quote escaped of (quote, escaped, consumed) \<Rightarrow>
        if consumed then scan_container rest (Suc index) stack quote escaped
        else (case closing char of
            Some close \<Rightarrow> scan_container rest (Suc index) (close # stack) quote escaped
          | None \<Rightarrow>
             if char \<noteq> CHR ''}'' \<and> char \<noteq> CHR '']'' then scan_container rest (Suc index) stack quote escaped
             else (case stack of
                 [] \<Rightarrow> None
               | inner # stack' \<Rightarrow>
                   if char \<noteq> inner then None
                   else if stack' = [] then Some index
                   else scan_container rest (Suc index) stack' quote escaped)))"

definition container_end :: "string \<Rightarrow> nat \<Rightarrow> nat option" where
  "container_end value start =
     (case closing (value ! start) of
        None \<Rightarrow> None
      | Some close \<Rightarrow> scan_container (drop (Suc start) value) (Suc start) [close] None False)"

definition looks_serialized_start :: "string \<Rightarrow> nat \<Rightarrow> bool" where
  "looks_serialized_start value start =
     (case py_lstrip (drop (Suc start) value) of
        [] \<Rightarrow> True
      | first # more \<Rightarrow>
          if value ! start = CHR ''{'' then is_quote first \<or> first = CHR 0x5C \<or> first = CHR ''}''
          else is_quote first \<or> first \<in> set ([CHR 0x5C] @ ''[{]-0123456789'')
            \<or> list_ex (\<lambda>p. starts_with p (first # more)) [''true'', ''false'', ''null'', ''True'', ''False'', ''None''])"

text \<open>The standard library's \<open>json.loads\<close> and \<open>ast.literal_eval\<close> (\<open>None\<close> when they raise) and \<open>json.dumps\<close>.\<close>

record codec =
  json_loads :: "string \<Rightarrow> pyval option"
  literal_eval :: "string \<Rightarrow> pyval option"
  json_dumps :: "pyval \<Rightarrow> string"

fun is_container :: "pyval \<Rightarrow> bool" where
  "is_container (PDict _) = True"
| "is_container (PList _) = True"
| "is_container (PTuple _) = True"
| "is_container _ = False"

primrec parse_rounds :: "codec \<Rightarrow> nat \<Rightarrow> pyval \<Rightarrow> pyval option" where
  "parse_rounds C 0 candidate = (if is_container candidate then Some candidate else None)"
| "parse_rounds C (Suc n) candidate =
     (case candidate of
        PStr s \<Rightarrow>
          (case json_loads C (py_strip s) of
             Some v \<Rightarrow> parse_rounds C n v
           | None \<Rightarrow> (case literal_eval C (py_strip s) of Some v \<Rightarrow> parse_rounds C n v | None \<Rightarrow> None))
      | _ \<Rightarrow> if is_container candidate then Some candidate else None)"

definition parse_serialized :: "codec \<Rightarrow> string \<Rightarrow> pyval option" where
  "parse_serialized C value = parse_rounds C 3 (PStr value)"

text \<open>\<open>min\<close> of the positions of the next opening brace or bracket from \<open>cursor\<close> on.\<close>

fun next_open :: "string \<Rightarrow> nat \<Rightarrow> nat option" where
  "next_open [] i = None"
| "next_open (c # s) i = (if c = CHR ''{'' \<or> c = CHR ''['' then Some i else next_open s (Suc i))"

lemma next_open_range: "next_open s i = Some j \<Longrightarrow> i \<le> j \<and> j < i + length s"
  by (induction s arbitrary: i) (force split: if_splits)+

definition fragment_bounds :: "string \<Rightarrow> nat \<Rightarrow> nat \<Rightarrow> nat \<times> nat" where
  "fragment_bounds value start end =
     (if 0 < start \<and> end + 1 < length value \<and> is_quote (value ! (start - 1)) \<and> value ! (end + 1) = value ! (start - 1)
      then (start - 1, end + 2) else (start, end + 1))"

definition slice :: "string \<Rightarrow> nat \<Rightarrow> nat \<Rightarrow> string" where
  "slice value a b = take (b - a) (drop a value)"

lemma scan_container_range: "scan_container s i st q e = Some j \<Longrightarrow> i \<le> j"
proof (induction s arbitrary: i st q e)
  case (Cons c s)
  from Cons.prems show ?case
    by (auto split: prod.splits if_splits option.splits list.splits dest!: Cons.IH)
qed simp

lemma container_end_range: "container_end value start = Some e \<Longrightarrow> start < e"
  by (auto simp: container_end_def dest!: scan_container_range split: option.splits)

text \<open>
  The loop of \<open>_redact_serialized_fragments\<close>. The redaction of a parsed container is an argument; it may
  run out of fuel (outer \<open>None\<close>). The inner \<open>None\<close> is the code's: a container that cannot be read.
\<close>

function redact_fragments :: "codec \<Rightarrow> (pyval \<Rightarrow> pyval option) \<Rightarrow> string \<Rightarrow> nat \<Rightarrow> string \<Rightarrow> string option option" where
  "redact_fragments C rv value cursor output =
     (if \<not> cursor < length value then Some (Some output)
      else (case next_open (drop cursor value) cursor of
          None \<Rightarrow> Some (Some (output @ drop cursor value))
        | Some start \<Rightarrow>
           if \<not> looks_serialized_start value start
           then redact_fragments C rv value (start + 1) (output @ slice value cursor (start + 1))
           else (case container_end value start of
              None \<Rightarrow> Some None
            | Some end \<Rightarrow>
               (case parse_serialized C (slice value (fst (fragment_bounds value start end)) (snd (fragment_bounds value start end))) of
                  None \<Rightarrow> Some None
                | Some parsed \<Rightarrow>
                   (case rv parsed of
                      None \<Rightarrow> None
                    | Some v \<Rightarrow> redact_fragments C rv value (snd (fragment_bounds value start end))
                                  (output @ slice value cursor start @ json_dumps C v))))))"
  by pat_completeness auto
termination
  by (relation "measure (\<lambda>(C, rv, value, cursor, output). length value - cursor)")
    (auto dest!: next_open_range container_end_range simp: fragment_bounds_def)

declare redact_fragments.simps [simp del]

section \<open>Patterns\<close>

definition is_letter :: "char \<Rightarrow> bool" where
  "is_letter c \<longleftrightarrow> is_lower_ascii c \<or> is_upper_ascii c"

text \<open>\<open>[a-z0-9_.-]\<close>, ignoring case.\<close>

definition is_key_char :: "char \<Rightarrow> bool" where
  "is_key_char c \<longleftrightarrow> is_letter c \<or> is_digit c \<or> c \<in> set ''_.-''"

definition Word :: "string \<Rightarrow> rx" where
  "Word s = foldr (\<lambda>c r. Cat (Cls (\<lambda>d. lower_char d = c)) r) s Eps"

definition Sp :: rx where
  "Sp = Star (Cls is_space)"

definition quoted_rx :: "char \<Rightarrow> (char \<Rightarrow> bool) \<Rightarrow> rx" where
  "quoted_rx q P = Cat (Cls ((=) q)) (Cat (Star (Cls (\<lambda>c. c \<noteq> q \<and> P c))) (Cls ((=) q)))"

text \<open>\<open>(?i)(\b[a-z][a-z0-9+.-]*://)[^\s/@]+@\<close>\<close>

definition url_rx :: rx where
  "url_rx = Cat (Grp 1 (Cat WordB (Cat (Cls is_letter)
       (Cat (Star (Cls (\<lambda>c. is_letter c \<or> is_digit c \<or> c \<in> set ''+.-''))) (Lit ''://'')))))
     (Cat (Plus1 (Cls (\<lambda>c. \<not> is_space c \<and> c \<noteq> CHR ''/'' \<and> c \<noteq> CHR ''@''))) (Cls ((=) (CHR ''@''))))"

text \<open>\<open>(?im)^(\s*([a-z][a-z0-9_.-]*)\s*:\s*)([^\r\n]*)$\<close>\<close>

definition header_rx :: rx where
  "header_rx = Cat Bol (Cat (Grp 1 (Cat Sp (Cat (Grp 2 (Cat (Cls is_letter) (Star (Cls is_key_char))))
       (Cat Sp (Cat (Cls ((=) (CHR '':''))) Sp)))))
     (Cat (Grp 3 (Star (Cls (\<lambda>c. c \<noteq> CHR 0x0D \<and> c \<noteq> CHR 0x0A)))) Eol))"

text \<open>\<open>(?i)(\bauthorization\s*[:=]\s*)(?:"[^"]*"|'[^']*'|[^\s,}]+(?:\s+[^\s,}]+)?)\<close>\<close>

definition authorization_rx :: rx where
  "authorization_rx =
     (let item = Plus1 (Cls (\<lambda>c. \<not> is_space c \<and> c \<noteq> CHR '','' \<and> c \<noteq> CHR ''}'')) in
      Cat (Grp 1 (Cat WordB (Cat (Word ''authorization'') (Cat Sp (Cat (Cls (\<lambda>c. c = CHR '':'' \<or> c = CHR ''='')) Sp)))))
        (Or (quoted_rx (CHR 0x22) (\<lambda>_. True)) (Or (quoted_rx (CHR 0x27) (\<lambda>_. True))
          (Cat item (Opt (Cat (Plus1 (Cls is_space)) item))))))"

text \<open>\<open>(?:"[^"\r\n]*"|'[^'\r\n]*'|[^\s,;}&#]+)\<close>\<close>

definition value_rx :: rx where
  "value_rx = Or (quoted_rx (CHR 0x22) (\<lambda>c. c \<noteq> CHR 0x0D \<and> c \<noteq> CHR 0x0A))
     (Or (quoted_rx (CHR 0x27) (\<lambda>c. c \<noteq> CHR 0x0D \<and> c \<noteq> CHR 0x0A))
       (Plus1 (Cls (\<lambda>c. \<not> is_space c \<and> c \<notin> set '',;}&#''))))"

text \<open>\<open>(?i)(?<![a-z0-9_.-])(--?)([a-z0-9_.-]+)(=|\s+)(<value>)\<close>\<close>

definition flag_rx :: rx where
  "flag_rx = Cat (NotBehind is_key_char) (Cat (Grp 1 (Cat (Cls ((=) (CHR ''-''))) (Opt (Cls ((=) (CHR ''-''))))))
     (Cat (Grp 2 (Plus1 (Cls is_key_char)))
     (Cat (Grp 3 (Or (Cls ((=) (CHR ''=''))) (Plus1 (Cls is_space)))) (Grp 4 value_rx))))"

text \<open>\<open>(?i)([?&])([a-z0-9_.-]+)(=)([^&#\s]*)\<close>\<close>

definition query_rx :: rx where
  "query_rx = Cat (Grp 1 (Cls (\<lambda>c. c = CHR ''?'' \<or> c = CHR ''&''))) (Cat (Grp 2 (Plus1 (Cls is_key_char)))
     (Cat (Grp 3 (Cls ((=) (CHR ''='')))) (Grp 4 (Star (Cls (\<lambda>c. c \<noteq> CHR ''&'' \<and> c \<noteq> CHR ''#'' \<and> \<not> is_space c))))))"

text \<open>\<open>(?i)(?<![a-z0-9_.-])([a-z][a-z0-9_.-]*)(\s*[:=]\s*)(<value>)\<close>\<close>

definition assignment_rx :: rx where
  "assignment_rx = Cat (NotBehind is_key_char) (Cat (Grp 1 (Cat (Cls is_letter) (Star (Cls is_key_char))))
     (Cat (Grp 2 (Cat Sp (Cat (Cls (\<lambda>c. c = CHR '':'' \<or> c = CHR ''='')) Sp))) (Grp 3 value_rx)))"

text \<open>
  \<open>(?i)((?<![a-z0-9_.-])\b(?:password|secret|token|credential|cookie|rpcauth|rpcuser|private key)\b\s*[:=]?\s+)([^\s,;}]+)\<close>
\<close>

definition words_rx :: rx where
  "words_rx = Cat (Grp 1 (Cat (NotBehind is_key_char) (Cat WordB
       (Cat (foldr (\<lambda>w r. Or (Word w) r) [''password'', ''secret'', ''token'', ''credential'', ''cookie'', ''rpcauth'', ''rpcuser''] (Word ''private key''))
       (Cat WordB (Cat Sp (Cat (Opt (Cls (\<lambda>c. c = CHR '':'' \<or> c = CHR ''=''))) (Plus1 (Cls is_space)))))))))
     (Grp 2 (Plus1 (Cls (\<lambda>c. \<not> is_space c \<and> c \<notin> set '',;}''))))"

section \<open>Redaction\<close>

definition REDACTED :: string where
  "REDACTED = ''REDACTED''"

text \<open>\<open>redact_flag\<close> and \<open>redact_query\<close>, whose bodies agree.\<close>

definition redact_flag :: "string \<Rightarrow> caps \<Rightarrow> string" where
  "redact_flag matched g =
     (if key_is_sensitive (grp g 2) then grp g 1 @ grp g 2 @ grp g 3 @ REDACTED else matched)"

definition redact_assignment :: "string \<Rightarrow> caps \<Rightarrow> string" where
  "redact_assignment matched g =
     (if key_is_sensitive (grp g 1) then grp g 1 @ grp g 2 @ REDACTED else matched)"

text \<open>The seven passes over the text, in the order of the code.\<close>

definition redact_patterns :: "string \<Rightarrow> string" where
  "redact_patterns structured =
     (let redacted = re_sub url_rx (\<lambda>m g. grp g 1 @ ''REDACTED@'') structured;
          redacted = re_sub header_rx (\<lambda>m g. if key_is_sensitive (grp g 2) then grp g 1 @ REDACTED else m) redacted;
          redacted = re_sub authorization_rx (\<lambda>m g. grp g 1 @ REDACTED) redacted;
          redacted = re_sub flag_rx redact_flag redacted;
          redacted = re_sub query_rx redact_flag redacted;
          redacted = re_sub assignment_rx redact_assignment redacted
      in re_sub words_rx (\<lambda>m g. grp g 1 @ REDACTED) redacted)"

text \<open>The dictionary a comprehension builds: a repeated key keeps its place and takes the last value.\<close>

definition dict_of :: "(string \<times> pyval) list \<Rightarrow> pyval" where
  "dict_of kvs = PDict (foldl (\<lambda>d kv. AList.update (PStr (fst kv)) (snd kv) d) [] kvs)"

text \<open>\<open>_redact_value(value, key)\<close>, given how text is redacted.\<close>

fun redact_value_with :: "(string \<Rightarrow> string option) \<Rightarrow> string \<Rightarrow> pyval \<Rightarrow> pyval option" where
  "redact_value_with rt key value =
     (if key_is_sensitive key then Some (PStr REDACTED)
      else (case value of
          PDict kvs \<Rightarrow> map_option dict_of (those (map (\<lambda>kv.
              map_option (\<lambda>v. (py_str (fst kv), v)) (redact_value_with rt (py_str (fst kv)) (snd kv))) kvs))
        | PList vs \<Rightarrow> map_option PList (those (map (redact_value_with rt []) vs))
        | PTuple vs \<Rightarrow> map_option PTuple (those (map (redact_value_with rt []) vs))
        | PStr s \<Rightarrow> map_option PStr (rt s)
        | v \<Rightarrow> Some v))"

declare redact_value_with.simps [simp del]

primrec redact_text :: "codec \<Rightarrow> nat \<Rightarrow> string \<Rightarrow> string option" where
  "redact_text C 0 value = None"
| "redact_text C (Suc n) value =
     (case redact_fragments C (redact_value_with (redact_text C n) []) value 0 [] of
        None \<Rightarrow> None
      | Some None \<Rightarrow> Some REDACTED
      | Some (Some structured) \<Rightarrow> Some (redact_patterns structured))"

definition redact_runtime_value :: "codec \<Rightarrow> string \<Rightarrow> string" where
  "redact_runtime_value C value = (case redact_text C (Suc (length value)) value of Some s \<Rightarrow> s | None \<Rightarrow> REDACTED)"

definition redact_value :: "codec \<Rightarrow> string \<Rightarrow> pyval \<Rightarrow> pyval" where
  "redact_value C key value =
     (case redact_value_with (\<lambda>s. Some (redact_runtime_value C s)) key value of Some v \<Rightarrow> v | None \<Rightarrow> PStr REDACTED)"

definition redact_output :: "codec \<Rightarrow> pyval \<Rightarrow> pyval" where
  "redact_output C value = redact_value C [] value"

section \<open>Enough fuel\<close>

text \<open>Every string inside a value, at whatever depth; keys are not redacted as text.\<close>

fun strings_of :: "pyval \<Rightarrow> string list" where
  "strings_of (PStr s) = [s]"
| "strings_of (PList vs) = concat (map strings_of vs)"
| "strings_of (PTuple vs) = concat (map strings_of vs)"
| "strings_of (PDict kvs) = concat (map (\<lambda>kv. strings_of (snd kv)) kvs)"
| "strings_of _ = []"

text \<open>
  The documented shape of both parsers: a string in the result was written in the input between its
  quotes, so it is shorter than the input.
\<close>

definition codec_shrinks :: "codec \<Rightarrow> bool" where
  "codec_shrinks C \<longleftrightarrow> (\<forall>s v t. (json_loads C s = Some v \<or> literal_eval C s = Some v) \<longrightarrow> t \<in> set (strings_of v) \<longrightarrow> length t < length s)"

lemma length_strip: "length (py_strip s) \<le> length s"
  using length_dropWhile_le [of is_space s] length_dropWhile_le [of is_space "rev (dropWhile is_space s)"]
  by (simp add: py_strip_def py_rstrip_def py_lstrip_def)

lemma parse_rounds_shrinks:
  assumes "codec_shrinks C"
  shows "parse_rounds C n c = Some v \<Longrightarrow> t \<in> set (strings_of v) \<Longrightarrow> \<exists>u \<in> set (strings_of c). length t \<le> length u"
proof (induction n arbitrary: c)
  case 0
  then show ?case by (auto split: if_splits)
next
  case (Suc n)
  show ?case
  proof (cases c)
    case (PStr s)
    from Suc.prems(1) PStr obtain x where x: "json_loads C (py_strip s) = Some x \<or> literal_eval C (py_strip s) = Some x"
      and rest: "parse_rounds C n x = Some v" by (auto split: option.splits)
    from Suc.IH [OF rest Suc.prems(2)] obtain u where "u \<in> set (strings_of x)" "length t \<le> length u" by blast
    with assms x have "length t \<le> length (py_strip s)" unfolding codec_shrinks_def by (meson le_trans less_imp_le)
    with length_strip [of s] PStr show ?thesis by simp
  qed (use Suc.prems in \<open>auto split: if_splits\<close>)
qed

lemma parse_serialized_shrinks:
  assumes C: "codec_shrinks C" and v: "parse_serialized C s = Some v" and t: "t \<in> set (strings_of v)"
  shows "length t < length s"
proof -
  have three: "parse_serialized C s = parse_rounds C (Suc 2) (PStr s)"
    unfolding parse_serialized_def by (simp add: numeral_3_eq_3 numeral_2_eq_2)
  from v [unfolded three] obtain x where x: "json_loads C (py_strip s) = Some x \<or> literal_eval C (py_strip s) = Some x"
    and rest: "parse_rounds C 2 x = Some v"
    unfolding parse_rounds.simps pyval.case by (auto split: option.splits)
  from parse_rounds_shrinks [OF C rest t] obtain u where u: "u \<in> set (strings_of x)" "length t \<le> length u" by blast
  with C x have "length u < length (py_strip s)" unfolding codec_shrinks_def by blast
  with u length_strip [of s] show ?thesis by simp
qed

lemma redact_value_with_cong:
  "(\<And>t. t \<in> set (strings_of v) \<Longrightarrow> f t = g t) \<Longrightarrow> redact_value_with f key v = redact_value_with g key v"
proof (induction f key v rule: redact_value_with.induct)
  case (1 f key v)
  show ?case
  proof (cases "key_is_sensitive key")
    case True
    then show ?thesis by (simp add: redact_value_with.simps)
  next
    case False
    show ?thesis
    proof (cases v)
      case (PDict kvs)
      have "redact_value_with f (py_str (fst kv)) (snd kv) = redact_value_with g (py_str (fst kv)) (snd kv)"
        if "kv \<in> set kvs" for kv
        using that "1.prems" PDict by (intro "1.IH"(3) [OF False PDict]) auto
      then show ?thesis using False PDict by (simp add: redact_value_with.simps cong: map_cong)
    next
      case (PList vs)
      have "redact_value_with f [] x = redact_value_with g [] x" if "x \<in> set vs" for x
        using that "1.prems" PList by (intro "1.IH"(1) [OF False PList]) auto
      then show ?thesis using False PList by (simp add: redact_value_with.simps cong: map_cong)
    next
      case (PTuple vs)
      have "redact_value_with f [] x = redact_value_with g [] x" if "x \<in> set vs" for x
        using that "1.prems" PTuple by (intro "1.IH"(2) [OF False PTuple]) auto
      then show ?thesis using False PTuple by (simp add: redact_value_with.simps cong: map_cong)
    qed (use False "1.prems" in \<open>simp_all add: redact_value_with.simps\<close>)
  qed
qed

lemma length_slice: "length (slice s a b) \<le> length s"
  by (simp add: slice_def)

lemma redact_fragments_cong:
  assumes eq: "\<And>x v. length x \<le> length s \<Longrightarrow> parse_serialized C x = Some v \<Longrightarrow> f v = g v"
  shows "redact_fragments C f s cursor out = redact_fragments C g s cursor out"
proof (induction "length s - cursor" arbitrary: cursor out rule: less_induct)
  case less
  note unf = redact_fragments.simps [of C f s cursor out] redact_fragments.simps [of C g s cursor out]
  show ?case
  proof (cases "next_open (drop cursor s) cursor")
    case None
    then show ?thesis by (simp add: unf)
  next
    case (Some start)
    then have start: "cursor \<le> start" "start < length s" by (auto dest: next_open_range)
    have more: "redact_fragments C f s (Suc start) o' = redact_fragments C g s (Suc start) o'" for o'
      using start by (intro less) auto
    have tail: "redact_fragments C f s (snd (fragment_bounds s start e)) o'
        = redact_fragments C g s (snd (fragment_bounds s start e)) o'" if "container_end s start = Some e" for e o'
      using start container_end_range [OF that] by (intro less) (auto simp: fragment_bounds_def)
    have "f v = g v" if "parse_serialized C (slice s (fst b) (snd b)) = Some v" for v b
      using eq [OF length_slice that] .
    with Some more tail show ?thesis
      by (auto simp: unf split: option.splits)
  qed
qed

text \<open>The converse of running out of fuel: when no container runs out, the loop does not.\<close>

lemma redact_fragments_total:
  assumes ok: "\<And>x v. length x \<le> length s \<Longrightarrow> parse_serialized C x = Some v \<Longrightarrow> f v \<noteq> None"
  shows "redact_fragments C f s cursor out \<noteq> None"
proof (induction "length s - cursor" arbitrary: cursor out rule: less_induct)
  case less
  show ?case
  proof (cases "next_open (drop cursor s) cursor")
    case None
    then show ?thesis by (simp add: redact_fragments.simps [of C f s cursor out])
  next
    case (Some start)
    then have start: "cursor \<le> start" "start < length s" by (auto dest: next_open_range)
    have more: "redact_fragments C f s (Suc start) o' \<noteq> None" for o'
      using start by (intro less) auto
    have tail: "redact_fragments C f s (snd (fragment_bounds s start e)) o' \<noteq> None"
      if "container_end s start = Some e" for e o'
      using start container_end_range [OF that] by (intro less) (auto simp: fragment_bounds_def)
    have fv: "\<exists>y. f v = Some y" if "parse_serialized C (slice s a b) = Some v" for v a b
      using ok [OF length_slice that] by simp
    from Some more tail show ?thesis
      by (auto simp: redact_fragments.simps [of C f s cursor out] split: option.splits dest: fv)
  qed
qed

lemma those_Some: "(\<And>x. x \<in> set xs \<Longrightarrow> f x \<noteq> None) \<Longrightarrow> those (map f xs) \<noteq> None"
proof (induction xs)
  case (Cons x xs)
  then obtain y where "f x = Some y" by force
  with Cons show ?case by auto
qed simp

lemma redact_value_with_total:
  "(\<And>t. t \<in> set (strings_of v) \<Longrightarrow> f t \<noteq> None) \<Longrightarrow> redact_value_with f key v \<noteq> None"
proof (induction f key v rule: redact_value_with.induct)
  case (1 f key v)
  show ?case
  proof (cases "key_is_sensitive key")
    case True
    then show ?thesis by (simp add: redact_value_with.simps)
  next
    case False
    show ?thesis
    proof (cases v)
      case (PDict kvs)
      have "redact_value_with f (py_str (fst kv)) (snd kv) \<noteq> None" if "kv \<in> set kvs" for kv
        using that "1.prems" PDict by (intro "1.IH"(3) [OF False PDict]) auto
      then have "those (map (\<lambda>kv. map_option (\<lambda>v. (py_str (fst kv), v))
          (redact_value_with f (py_str (fst kv)) (snd kv))) kvs) \<noteq> None"
        by (intro those_Some) auto
      then show ?thesis using False PDict by (auto simp: redact_value_with.simps [of f key "PDict kvs"])
    next
      case (PList vs)
      have "those (map (redact_value_with f []) vs) \<noteq> None"
        using "1.prems" PList by (intro those_Some "1.IH"(1) [OF False PList]) auto
      then show ?thesis using False PList by (auto simp: redact_value_with.simps [of f key "PList vs"])
    next
      case (PTuple vs)
      have "those (map (redact_value_with f []) vs) \<noteq> None"
        using "1.prems" PTuple by (intro those_Some "1.IH"(2) [OF False PTuple]) auto
      then show ?thesis using False PTuple by (auto simp: redact_value_with.simps [of f key "PTuple vs"])
    qed (use False "1.prems" in \<open>simp_all add: redact_value_with.simps\<close>)
  qed
qed

lemma redact_text_fuel:
  assumes C: "codec_shrinks C"
  shows "length s < n \<Longrightarrow> length s < m \<Longrightarrow> redact_text C n s = redact_text C m s \<and> redact_text C n s \<noteq> None"
proof (induction "length s" arbitrary: s n m rule: less_induct)
  case less
  obtain n' m' where n: "n = Suc n'" and m: "m = Suc m'"
    using less.prems by (metis less_imp_Suc_add)
  have shorter: "redact_text C n' t = redact_text C m' t \<and> redact_text C n' t \<noteq> None"
    if "length x \<le> length s" "parse_serialized C x = Some v" "t \<in> set (strings_of v)" for x v t
  proof -
    have "length t < length s" using parse_serialized_shrinks [OF C that(2,3)] that(1) by simp
    with less.prems n m show ?thesis by (intro less.hyps) auto
  qed
  have "redact_fragments C (redact_value_with (redact_text C n') []) s 0 []
      = redact_fragments C (redact_value_with (redact_text C m') []) s 0 []"
    by (intro redact_fragments_cong redact_value_with_cong) (use shorter in blast)
  moreover have "redact_fragments C (redact_value_with (redact_text C n') []) s 0 [] \<noteq> None"
    by (intro redact_fragments_total redact_value_with_total) (use shorter in blast)
  ultimately show ?case by (auto simp: n m split: option.splits)
qed

lemma redact_text_enough:
  assumes "codec_shrinks C" and "length s < n"
  shows "redact_text C n s = Some (redact_runtime_value C s)"
  using redact_text_fuel [OF assms(1), of s n "Suc (length s)"] assms(2)
  unfolding redact_runtime_value_def by (auto split: option.splits)

lemma redact_value_enough:
  "redact_value_with (\<lambda>s. Some (redact_runtime_value C s)) key v = Some (redact_value C key v)"
  using redact_value_with_total [of v "\<lambda>s. Some (redact_runtime_value C s)" key]
  by (auto simp: redact_value_def split: option.splits)

end
