(* ===== verification/Redaction_Spec.thy ===== *)
theory Redaction_Spec
  imports Redaction "HOL-Library.Code_Target_Nat"
begin

text \<open>
  The properties of redaction: what the recursion between text and values comes to, that nothing below
  a sensitive key influences the result, which keys are sensitive, where a container ends, and what the
  pattern passes make of a node's command line.
\<close>

section \<open>Keys\<close>

lemma contains_append: "contains p s \<Longrightarrow> contains p (a @ s)"
  by (induction a) (auto simp: starts_with_def)

lemma starts_with_append: "starts_with p s \<Longrightarrow> starts_with p (s @ b)"
  by (auto simp: starts_with_iff)

lemma contains_append2: "contains p s \<Longrightarrow> contains p (s @ b)"
proof (induction s)
  case Nil
  then show ?case by (cases b) (auto simp: starts_with_def)
next
  case (Cons c s)
  then show ?case using starts_with_append [of p "c # s" b] by auto
qed

lemma normalize_append: "normalize_key (a @ b) = normalize_key a @ normalize_key b"
  by (simp add: normalize_key_def py_casefold_def)

text \<open>
  Sensitivity is decided by the letters and digits of a key alone and is inherited: a key that
  contains a sensitive key, with anything before and after it, is sensitive, and so is every spelling
  with the same folded letters and digits, whatever separators and capitals it uses.
\<close>

lemma key_sensitivity_inherited:
  "(key_is_sensitive k \<longrightarrow> key_is_sensitive (before @ k @ behind))
   \<and> (normalize_key k = normalize_key k' \<longrightarrow> key_is_sensitive k = key_is_sensitive k')"
proof
  show "key_is_sensitive k \<longrightarrow> key_is_sensitive (before @ k @ behind)"
    unfolding key_is_sensitive_def normalize_append list_ex_iff
    by (blast intro: contains_append contains_append2)
  show "normalize_key k = normalize_key k' \<longrightarrow> key_is_sensitive k = key_is_sensitive k'"
    by (simp add: key_is_sensitive_def)
qed

theorem key_sensitivity_inherited_witness:
  "key_is_sensitive ''RPC-Pass_Word'' \<and> key_is_sensitive ''old-RPC-Pass_Word.bak''"
proof -
  have s: "key_is_sensitive ''password''" and n: "normalize_key ''password'' = normalize_key ''Pass_Word''" by code_simp+
  have p: "key_is_sensitive ''Pass_Word''" using s n key_sensitivity_inherited [of "''password''" "[]" "[]" "''Pass_Word''"] by blast
  have "key_is_sensitive (''RPC-'' @ ''Pass_Word'' @ [])" "key_is_sensitive (''old-RPC-'' @ ''Pass_Word'' @ ''.bak'')"
    using p key_sensitivity_inherited by blast+
  then show ?thesis by simp
qed

section \<open>Values\<close>

text \<open>What a value looks like to someone who may not see anything below a sensitive key.\<close>

fun public_view :: "string \<Rightarrow> pyval \<Rightarrow> pyval" where
  "public_view key value =
     (if key_is_sensitive key then PNone
      else (case value of
          PDict kvs \<Rightarrow> PDict (map (\<lambda>kv. (fst kv, public_view (py_str (fst kv)) (snd kv))) kvs)
        | PList vs \<Rightarrow> PList (map (public_view []) vs)
        | PTuple vs \<Rightarrow> PTuple (map (public_view []) vs)
        | v \<Rightarrow> v))"

declare public_view.simps [simp del]

lemma redact_public_view: "redact_value_with rt key (public_view key v) = redact_value_with rt key v"
proof (induction key v rule: public_view.induct)
  case (1 key v)
  show ?case
  proof (cases "key_is_sensitive key")
    case True
    then show ?thesis by (simp add: redact_value_with.simps)
  next
    case False
    show ?thesis
    proof (cases v)
      case (PDict kvs)
      have "redact_value_with rt (py_str (fst kv)) (public_view (py_str (fst kv)) (snd kv))
          = redact_value_with rt (py_str (fst kv)) (snd kv)" if "kv \<in> set kvs" for kv
        by (rule "1.IH"(3) [OF False PDict that])
      then show ?thesis using False PDict
        by (simp add: public_view.simps [of key] redact_value_with.simps [of rt key] comp_def cong: map_cong)
    next
      case (PList vs)
      have "redact_value_with rt [] (public_view [] x) = redact_value_with rt [] x" if "x \<in> set vs" for x
        by (rule "1.IH"(1) [OF False PList that])
      then show ?thesis using False PList
        by (simp add: public_view.simps [of key] redact_value_with.simps [of rt key] comp_def cong: map_cong)
    next
      case (PTuple vs)
      have "redact_value_with rt [] (public_view [] x) = redact_value_with rt [] x" if "x \<in> set vs" for x
        by (rule "1.IH"(2) [OF False PTuple that])
      then show ?thesis using False PTuple
        by (simp add: public_view.simps [of key] redact_value_with.simps [of rt key] comp_def cong: map_cong)
    qed (use False in \<open>simp_all add: public_view.simps\<close>)
  qed
qed

text \<open>
  (C5) Non-interference: action results and metadata say nothing about what is stored below a sensitive
  key, at whatever depth. Two values that look the same with everything below sensitive keys left out
  are redacted to the same output, for every codec.
\<close>

theorem redact_output_hides_sensitive_values:
  assumes "public_view [] v = public_view [] v'"
  shows "redact_output C v = redact_output C v'"
proof -
  let ?rt = "\<lambda>s. Some (redact_runtime_value C s)"
  have "redact_value_with ?rt [] v = redact_value_with ?rt [] v'"
    using redact_public_view [of ?rt "[]" v] redact_public_view [of ?rt "[]" v'] assms by simp
  then show ?thesis by (simp add: redact_output_def redact_value_def)
qed

theorem redact_output_hides_sensitive_values_witness:
  "redact_output \<lparr>json_loads = \<lambda>_. None, literal_eval = \<lambda>_. None, json_dumps = \<lambda>_. []\<rparr>
     (PDict [(PStr ''auth'', PList [PDict [(PStr ''rpc_password'', PStr ''s3cret''), (PStr ''port'', PInt 8332)]])])
   = redact_output \<lparr>json_loads = \<lambda>_. None, literal_eval = \<lambda>_. None, json_dumps = \<lambda>_. []\<rparr>
     (PDict [(PStr ''auth'', PList [PDict [(PStr ''rpc_password'', PList [PInt 1]), (PStr ''port'', PInt 8332)]])])"
  by (rule redact_output_hides_sensitive_values) code_simp

section \<open>Text\<close>


text \<open>A codec that reads one document.\<close>

definition sample_codec :: codec where
  "sample_codec = \<lparr>
     json_loads = (\<lambda>s. if s = ''[7]'' then Some (PList [PInt 7]) else None),
     literal_eval = (\<lambda>s. None),
     json_dumps = (\<lambda>v. ''[7]'')\<rparr>"


lemma scan_container_step:
  assumes "scan_container (c # s) i st q e = Some j" and "st \<noteq> []"
  shows "j = i \<and> c = last st \<or> (\<exists>st' q' e'. scan_container s (Suc i) st' q' e' = Some j \<and> st' \<noteq> [] \<and> last st' = last st)"
proof (cases "closing c")
  case None
  with assms show ?thesis by (auto split: prod.splits if_splits list.splits)
next
  case (Some close)
  obtain q' e' consumed where state: "quoted_char_state c q e = (q', e', consumed)" by (cases "quoted_char_state c q e")
  have "last (close # st) = last st" using assms(2) by simp
  moreover have "scan_container s (Suc i) (if consumed then st else close # st) q' e' = Some j"
    using assms Some state by (cases consumed) auto
  ultimately show ?thesis using assms(2) by (metis list.distinct(1))
qed

lemma scan_container_closes:
  assumes "scan_container s i st q e = Some j" and "st \<noteq> []"
  shows "j - i < length s \<and> s ! (j - i) = last st"
  using assms
proof (induction s arbitrary: i st q e)
  case (Cons c s)
  from scan_container_step [OF Cons.prems] show ?case
  proof (elim disjE exE)
    fix st' q' e'
    assume rest: "scan_container s (Suc i) st' q' e' = Some j \<and> st' \<noteq> [] \<and> last st' = last st"
    with Cons.IH [of "Suc i" st' q' e'] have "j - Suc i < length s \<and> s ! (j - Suc i) = last st" by simp
    moreover from rest have "Suc i \<le> j" using scan_container_range by blast
    moreover from this have "j - i = Suc (j - Suc i)" by simp
    ultimately show ?thesis by simp
  qed simp
qed simp

text \<open>
  The container scanner ends at a bracket that closes the one it started from, after it.
\<close>

lemma container_end_matches_start:
  assumes "container_end s start = Some e"
  shows "start < e \<and> e < length s \<and> closing (s ! start) = Some (s ! e)"
proof -
  from assms obtain close where close: "closing (s ! start) = Some close"
    and scan: "scan_container (drop (Suc start) s) (Suc start) [close] None False = Some e"
    by (auto simp: container_end_def split: option.splits)
  from scan_container_closes [OF scan] have
    "e - Suc start < length s - Suc start" "drop (Suc start) s ! (e - Suc start) = close" by simp_all
  moreover have "Suc start \<le> e" by (rule scan_container_range [OF scan])
  ultimately show ?thesis using close by simp
qed

theorem container_end_matches_start_witness:
  "closing (''x=[{}, 1] y'' ! 2) = Some (''x=[{}, 1] y'' ! 8)"
proof -
  have "container_end ''x=[{}, 1] y'' 2 = Some 8" by code_simp
  from container_end_matches_start [OF this] show ?thesis by blast
qed

lemma no_container:
  assumes "CHR ''{'' \<notin> set s" "CHR ''['' \<notin> set s"
  shows "redact_runtime_value C s = redact_patterns s"
proof -
  have "next_open t i = None" if "set t \<subseteq> set s" for t i
    using that assms by (induction t arbitrary: i) auto
  then have "next_open (drop 0 s) 0 = None" by simp
  then have "redact_fragments C f s 0 [] = Some (Some s)" for f
    by (simp add: redact_fragments.simps)
  then show ?thesis by (simp add: redact_runtime_value_def)
qed

text \<open>
  The credentials the charm appends to the node's arguments do not survive in the text it reports,
  and the other options do, whatever codec is used.
\<close>

lemma command_line_credentials_redacted:
  "redact_runtime_value C ''-rpcport=8332 -rpcuser=alice -rpcpassword=s3cret''
   = ''-rpcport=8332 -rpcuser=REDACTED -rpcpassword=REDACTED''"
proof -
  have "redact_patterns ''-rpcport=8332 -rpcuser=alice -rpcpassword=s3cret''
      = ''-rpcport=8332 -rpcuser=REDACTED -rpcpassword=REDACTED''" by code_simp
  then show ?thesis by (subst no_container) simp_all
qed

end
