(* ===== verification/Host_Info.thy ===== *)
theory Host_Info
  imports Service_Args Complex_Main
begin

text \<open>
  The helpers at the end of \<open>src/utils.py\<close>: what the charm reads back about the node, the proxy, the
  disk, the systemd limits and its own version. None of them changes a file. Output of subprocesses is
  text; a decimal fraction is an exact rational, and its conversion to a double is left to the printer
  the metadata is given.
\<close>

section \<open>Reading numbers\<close>

text \<open>
  \<open>int(s)\<close>: white space around, an optional sign, digits with single underscores between them;
  \<open>None\<close> for the \<open>ValueError\<close>.
\<close>

fun digit_groups :: "string \<Rightarrow> string \<Rightarrow> string option" where
  "digit_groups acc [] = (if acc = [] then None else Some (rev acc))"
| "digit_groups acc (c # s) =
     (if is_digit c then digit_groups (c # acc) s
      else if c = CHR ''_'' \<and> acc \<noteq> [] \<and> s \<noteq> [] \<and> is_digit (hd s) then digit_groups acc s
      else None)"

definition py_int :: "string \<Rightarrow> int option" where
  "py_int s = (let t = py_strip s in
     case t of
       c # u \<Rightarrow> if c = CHR ''-'' then map_option (\<lambda>d. - int (nat_of_digits d)) (digit_groups [] u)
                else if c = CHR ''+'' then map_option (\<lambda>d. int (nat_of_digits d)) (digit_groups [] u)
                else map_option (\<lambda>d. int (nat_of_digits d)) (digit_groups [] t)
     | [] \<Rightarrow> None)"

definition invalid_int :: "string \<Rightarrow> exn" where
  "invalid_int s = Exn ValueError (''invalid literal for int() with base 10: '' @ repr_str s)"

section \<open>The node and the proxy\<close>

definition get_client_help_output :: "'h env \<Rightarrow> ('h world, string) io" where
  "get_client_help_output E =
     bindIO (path_exists BINARY_PATH) (\<lambda>there.
     if there then
       bindIO (run_proc E [BINARY_PATH, ''--help'']) (\<lambda>process.
       if returncode process = 0 then ret (py_strip (stdout process))
       else ret ''Could not parse client binary '--help' command'')
     else ret ''Client binary not found'')"

definition get_client_proc_cmdline :: "'h env \<Rightarrow> ('h world, string) io" where
  "get_client_proc_cmdline E =
     bindIO (run_proc E [''pgrep'', SERVICE_NAME]) (\<lambda>pgrep.
     case py_split (stdout pgrep) of
       proc_id # _ \<Rightarrow>
         bindIO (run_proc E [''cat'', ''/proc/'' @ proc_id @ ''/cmdline'']) (\<lambda>cat.
         ret (py_join '' '' (split_chr (CHR 0x00) (stdout cat))))
     | [] \<Rightarrow> ret [])"

definition get_service_args :: "'h env \<Rightarrow> ('h world, string) io" where
  "get_service_args E = bindIO (run_proc E [''cat'', default_file SERVICE_NAME]) (\<lambda>p. ret (py_strip (stdout p)))"

definition get_rpc_proxy_env :: "'h env \<Rightarrow> ('h world, string) io" where
  "get_rpc_proxy_env E = bindIO (run_proc E [''cat'', default_file RPC_PROXY_SERVICE_NAME]) (\<lambda>p. ret (py_strip (stdout p)))"

definition not_space_rx :: rx where
  "not_space_rx = Plus1 (Cls (\<lambda>c. \<not> is_space c))"

text \<open>\<open>^Bitcoin Core (?:daemon )?version (\S+)\<close> and \<open>^bitcoin-rpc-proxy version (\S+)\<close>, multi-line.\<close>

definition node_version_rx :: rx where
  "node_version_rx = Cat Bol (Cat (Lit ''Bitcoin Core '') (Cat (Opt (Lit ''daemon '')) (Cat (Lit ''version '') (Grp 1 not_space_rx))))"

definition proxy_version_rx :: rx where
  "proxy_version_rx = Cat Bol (Cat (Lit ''bitcoin-rpc-proxy version '') (Grp 1 not_space_rx))"

text \<open>The common body of the two version readers.\<close>

definition version_of_binary :: "'h env \<Rightarrow> path \<Rightarrow> rx \<Rightarrow> ('h world, string) io" where
  "version_of_binary E binary pattern =
     bindIO (try_except (bindIO (run_check E [binary, ''--version'']) (\<lambda>p. ret (Some (stdout p))))
       (\<lambda>e. if exn_kind e \<in> {FileNotFoundError, PermissionError, CalledProcessError} then ret None else raise_exn e)) (\<lambda>output.
     case output of
       None \<Rightarrow> ret []
     | Some out \<Rightarrow> (case re_search pattern out of
          None \<Rightarrow> ret []
        | Some g \<Rightarrow> ret (case g 1 of None \<Rightarrow> [] | Some v \<Rightarrow> v)))"

definition get_version :: "'h env \<Rightarrow> ('h world, string) io" where
  "get_version E = version_of_binary E BINARY_PATH node_version_rx"

definition get_rpc_proxy_version :: "'h env \<Rightarrow> ('h world, string) io" where
  "get_rpc_proxy_version E = version_of_binary E RPC_PROXY_BINARY_PATH proxy_version_rx"

section \<open>The machine\<close>

text \<open>\<open>(\d+(\.\d+)?[GKMT])\<close>\<close>

definition size_rx :: rx where
  "size_rx = Grp 1 (Cat (Plus1 (Cls is_digit))
     (Cat (Opt (Grp 2 (Cat (Cls ((=) (CHR ''.''))) (Plus1 (Cls is_digit))))) (Cls (\<lambda>c. c \<in> set ''GKMT''))))"

primrec disk_usages :: "'h env \<Rightarrow> path list \<Rightarrow> ('h world, (path \<times> string) list) io" where
  "disk_usages E [] = ret []"
| "disk_usages E (path # paths) =
     bindIO (dir_or_file_exists E path) (\<lambda>there.
     if \<not> there then disk_usages E paths
     else bindIO (run_proc E [''du'', path, ''-hs'']) (\<lambda>output.
       case re_search size_rx (stdout output) of
         None \<Rightarrow> disk_usages E paths
       | Some g \<Rightarrow> bindIO (disk_usages E paths) (\<lambda>rest. ret ((path, case g 1 of None \<Rightarrow> [] | Some v \<Rightarrow> v) # rest))))"

definition get_disk_usage :: "'h env \<Rightarrow> path list \<Rightarrow> ('h world, string) io" where
  "get_disk_usage E paths = bindIO (disk_usages E paths) (\<lambda>usages.
     ret (if usages \<noteq> [] then py_join '', '' (map (\<lambda>u. fst u @ '': '' @ snd u) usages)
          else ''error parsing disk usage''))"

definition finite_int :: "string \<Rightarrow> exn + int option" where
  "finite_int value =
     (if py_casefold value = ''infinity'' then Inr None
      else (case py_int value of
          None \<Rightarrow> Inl (invalid_int value)
        | Some parsed \<Rightarrow> Inr (if 2 ^ 63 \<le> parsed then None else Some parsed)))"

text \<open>\<open>([0-9]+(?:\.[0-9]+)?)(us|ms|s|min|h)?\<close>\<close>

definition timespan_rx :: rx where
  "timespan_rx = Cat (Grp 1 (Cat (Plus1 (Cls is_digit)) (Opt (Cat (Cls ((=) (CHR ''.''))) (Plus1 (Cls is_digit))))))
     (Opt (Grp 2 (Or (Lit ''us'') (Or (Lit ''ms'') (Or (Lit ''s'') (Or (Lit ''min'') (Lit ''h'')))))))"

definition multiplier :: "string option \<Rightarrow> nat option" where
  "multiplier u = map_of [(None, 1), (Some ''us'', 1), (Some ''ms'', 1000), (Some ''s'', 1000000),
     (Some ''min'', 60000000), (Some ''h'', 3600000000)] u"

text \<open>The number a decimal text stands for.\<close>

definition decimal :: "string \<Rightarrow> rat" where
  "decimal s = (case partition_chr (CHR ''.'') s of (a, _, b) \<Rightarrow> of_nat (nat_of_digits (a @ b)) / 10 ^ length b)"

definition timespan_microseconds :: "string \<Rightarrow> rat option" where
  "timespan_microseconds value =
     (if py_casefold value = ''infinity'' then None
      else (case re_fullmatch timespan_rx value of
          None \<Rightarrow> None
        | Some g \<Rightarrow> (case (g 1, multiplier (g 2)) of
             (Some number, Some m) \<Rightarrow> Some (decimal number * of_nat m)
           | _ \<Rightarrow> None)))"

record systemd_limits =
  memory_max_bytes :: "int option"
  memory_high_bytes :: "int option"
  cpu_quota_percent :: "rat option"
  tasks_max :: "int option"

text \<open>\<open>dict(line.split("=", 1) for line in ... if "=" in line)\<close>: the last line of a key counts.\<close>

definition property_lines :: "string \<Rightarrow> (string \<times> string) list" where
  "property_lines out = rev (map (\<lambda>l. case partition_chr (CHR ''='') l of (k, _, v) \<Rightarrow> (k, v))
     (filter (\<lambda>l. CHR ''='' \<in> set l) (py_splitlines out)))"

definition property_of :: "(string \<times> string) list \<Rightarrow> string \<Rightarrow> string" where
  "property_of values k = (case map_of values k of None \<Rightarrow> ''infinity'' | Some v \<Rightarrow> v)"

definition get_systemd_limits :: "'h env \<Rightarrow> string \<Rightarrow> ('h world, systemd_limits) io" where
  "get_systemd_limits E service_name =
     bindIO (run_check E [''systemctl'', ''show'', service_name,
               ''--property=MemoryMax,MemoryHigh,CPUQuotaPerSecUSec,TasksMax'', ''--no-pager'']) (\<lambda>p.
     let values = property_lines (stdout p);
         quota_us = timespan_microseconds (property_of values ''CPUQuotaPerSecUSec'')
     in case finite_int (property_of values ''MemoryMax'') of
          Inl e \<Rightarrow> raise_exn e
        | Inr memory_max \<Rightarrow> (case finite_int (property_of values ''MemoryHigh'') of
             Inl e \<Rightarrow> raise_exn e
           | Inr memory_high \<Rightarrow> (case finite_int (property_of values ''TasksMax'') of
                Inl e \<Rightarrow> raise_exn e
              | Inr tasks \<Rightarrow> ret \<lparr>memory_max_bytes = memory_max, memory_high_bytes = memory_high,
                    cpu_quota_percent = map_option (\<lambda>q. q / 10000) quota_us, tasks_max = tasks\<rparr>)))"

section \<open>The charm itself\<close>

definition get_readme :: "'h env \<Rightarrow> ('h world, string) io" where
  "get_readme E = bindIO (path_exists ''README.md'') (\<lambda>there. if there then read_file E ''README.md'' else ret [])"

primrec first_version :: "'h env \<Rightarrow> path list \<Rightarrow> ('h world, string) io" where
  "first_version E [] = ret ''unknown''"
| "first_version E (name # names) =
     bindIO (path_exists name) (\<lambda>there.
     if there then bindIO (read_file E name) (\<lambda>text.
       if py_strip text \<noteq> [] then ret (py_strip text) else first_version E names)
     else first_version E names)"

definition get_charm_version :: "'h env \<Rightarrow> ('h world, string) io" where
  "get_charm_version E = first_version E [''charm_version'', ''VERSION'']"

section \<open>No file changes\<close>

lemma touches_info [frame]:
  "touches S (get_client_help_output E)" "touches S (get_client_proc_cmdline E)"
  "touches S (get_service_args E)" "touches S (get_rpc_proxy_env E)" "touches S (get_readme E)"
  unfolding get_client_help_output_def get_client_proc_cmdline_def get_service_args_def
    get_rpc_proxy_env_def get_readme_def
  by (intro frame)+

lemma touches_version_of_binary [frame]: "touches S (version_of_binary E binary pattern)"
  unfolding version_of_binary_def by (intro frame)

lemma touches_versions [frame]: "touches S (get_version E)" "touches S (get_rpc_proxy_version E)"
  unfolding get_version_def get_rpc_proxy_version_def by (intro frame)+

lemma touches_disk_usage [frame]: "touches S (get_disk_usage E paths)"
proof -
  have "touches S (disk_usages E ps)" for ps
  proof (induction ps)
    case Nil
    show ?case unfolding disk_usages.simps by (intro frame)
  next
    case (Cons p ps)
    then show ?case unfolding disk_usages.simps by (intro frame)
  qed
  then show ?thesis unfolding get_disk_usage_def by (intro frame)
qed

lemma touches_limits [frame]: "touches S (get_systemd_limits E s)"
  unfolding get_systemd_limits_def Let_def by (intro frame)

lemma touches_charm_version [frame]: "touches S (get_charm_version E)"
proof -
  have "touches S (first_version E ps)" for ps
  proof (induction ps)
    case Nil
    show ?case unfolding first_version.simps by (intro frame)
  next
    case (Cons p ps)
    then show ?case unfolding first_version.simps by (intro frame)
  qed
  then show ?thesis unfolding get_charm_version_def .
qed

section \<open>Evaluation\<close>

text \<open>Code equations with the world as an argument: an operation unfolds when it runs, not before.\<close>

lemma info_run [code]:
  "disk_usages E [] w = (w, Inr [])"
  "disk_usages E (path # paths) w =
     bindIO (dir_or_file_exists E path) (\<lambda>there.
     if \<not> there then disk_usages E paths
     else bindIO (run_proc E [''du'', path, ''-hs'']) (\<lambda>output.
       case re_search size_rx (stdout output) of
         None \<Rightarrow> disk_usages E paths
       | Some g \<Rightarrow> bindIO (disk_usages E paths) (\<lambda>rest. ret ((path, case g 1 of None \<Rightarrow> [] | Some v \<Rightarrow> v) # rest)))) w"
  "first_version E [] w = (w, Inr ''unknown'')"
  "first_version E (name # names) w =
     bindIO (path_exists name) (\<lambda>there.
     if there then bindIO (read_file E name) (\<lambda>text.
       if py_strip text \<noteq> [] then ret (py_strip text) else first_version E names)
     else first_version E names) w"
  by simp_all

lemmas host_info_code [code] =
  get_client_help_output_def [THEN fun_cong]
  get_client_proc_cmdline_def [THEN fun_cong]
  get_service_args_def [THEN fun_cong]
  get_rpc_proxy_env_def [THEN fun_cong]
  version_of_binary_def [THEN fun_cong]
  get_version_def [THEN fun_cong]
  get_rpc_proxy_version_def [THEN fun_cong]
  get_disk_usage_def [THEN fun_cong]
  get_systemd_limits_def [THEN fun_cong]
  get_readme_def [THEN fun_cong]
  get_charm_version_def [THEN fun_cong]

end
