(* ===== verification/Metadata.thy ===== *)
theory Metadata
  imports Host_Info Redaction Py_Url
begin

text \<open>
  The collection half of \<open>src/bitcoin_metadata.py\<close>: the JSON-RPC calls, the node's effective flags, ports
  and version, the two metadata documents, the redacted view of the Juju model and the final upload with
  its error messages. The credentials parser and the uploader of the \<open>blockchain_common\<close> library are a
  parameter, the collector; so are the codec of the redaction and the printing of a double.
\<close>

section \<open>Splitting a command line\<close>

text \<open>
  \<open>shlex.split\<close> in POSIX mode. The state is between tokens, in a token, inside quotes (with the quote),
  or after a backslash (with what to return to: a token or the double quotes). \<open>None\<close> is its \<open>ValueError\<close>.
\<close>

datatype lex_state = Between | InToken | Quoted char | Escaped "char option"

definition lex_space :: "char \<Rightarrow> bool" where
  "lex_space c \<longleftrightarrow> c = CHR '' '' \<or> c = CHR 0x09 \<or> c = CHR 0x0D \<or> c = CHR 0x0A"

text \<open>\<open>quoted\<close>: the token has had a quoted part, so it counts even when it is empty.\<close>

fun shlex_run :: "lex_state \<Rightarrow> string \<Rightarrow> bool \<Rightarrow> string \<Rightarrow> string list option" where
  "shlex_run st tok quoted [] =
     (case st of
        Quoted _ \<Rightarrow> None
      | Escaped _ \<Rightarrow> None
      | _ \<Rightarrow> Some (if tok \<noteq> [] \<or> quoted then [rev tok] else []))"
| "shlex_run st tok quoted (c # s) =
     (case st of
        Between \<Rightarrow>
          if lex_space c then shlex_run Between tok quoted s
          else if c = CHR 0x5C then shlex_run (Escaped None) tok quoted s
          else if is_quote c then shlex_run (Quoted c) tok quoted s
          else shlex_run InToken (c # tok) quoted s
      | InToken \<Rightarrow>
          if lex_space c
          then (if tok \<noteq> [] \<or> quoted then map_option ((#) (rev tok)) (shlex_run Between [] False s)
                else shlex_run Between tok quoted s)
          else if is_quote c then shlex_run (Quoted c) tok quoted s
          else if c = CHR 0x5C then shlex_run (Escaped None) tok quoted s
          else shlex_run InToken (c # tok) quoted s
      | Quoted q \<Rightarrow>
          if c = q then shlex_run InToken tok True s
          else if c = CHR 0x5C \<and> q = CHR 0x22 then shlex_run (Escaped (Some q)) tok True s
          else shlex_run (Quoted q) (c # tok) True s
      | Escaped None \<Rightarrow> shlex_run InToken (c # tok) quoted s
      | Escaped (Some q) \<Rightarrow>
          shlex_run (Quoted q) (if c \<noteq> CHR 0x5C \<and> c \<noteq> q then c # CHR 0x5C # tok else c # tok) quoted s)"

definition shlex_split :: "string \<Rightarrow> string list option" where
  "shlex_split s = shlex_run Between [] False s"

section \<open>Flags\<close>

type_synonym flags = "(string \<times> pyval) list"

definition add_flag :: "flags \<Rightarrow> string \<Rightarrow> string \<Rightarrow> flags" where
  "add_flag flags name v =
     (if key_is_sensitive name then flags
      else (case map_of flags name of
          None \<Rightarrow> AList.update name (PStr v) flags
        | Some (PList vs) \<Rightarrow> AList.update name (PList (vs @ [PStr v])) flags
        | Some existing \<Rightarrow> AList.update name (PList [existing, PStr v]) flags))"

fun parse_tokens :: "flags \<Rightarrow> string list \<Rightarrow> flags" where
  "parse_tokens flags [] = flags"
| "parse_tokens flags (tok # toks) =
     (if \<not> starts_with ''-'' tok then parse_tokens flags toks
      else (let raw = dropWhile (\<lambda>c. c = CHR ''-'') tok in
        if CHR ''='' \<in> set raw
        then (case partition_chr (CHR ''='') raw of (name, _, v) \<Rightarrow>
               parse_tokens (add_flag flags (py_casefold name) v) toks)
        else (case toks of
            nxt # rest \<Rightarrow>
              if \<not> starts_with ''-'' nxt then parse_tokens (add_flag flags (py_casefold raw) nxt) rest
              else parse_tokens (add_flag flags (py_casefold raw) ''1'') toks
          | [] \<Rightarrow> parse_tokens (add_flag flags (py_casefold raw) ''1'') toks)))"

definition parse_effective_flags :: "string \<Rightarrow> flags" where
  "parse_effective_flags cmdline =
     parse_tokens [] (case shlex_split cmdline of Some toks \<Rightarrow> toks | None \<Rightarrow> py_split cmdline)"

text \<open>\<open>value[-1] if isinstance(value, list) and value else value\<close>\<close>

fun last_value :: "pyval \<Rightarrow> pyval" where
  "last_value (PList vs) = (if vs = [] then PList vs else last vs)"
| "last_value v = v"

definition first_flag :: "flags \<Rightarrow> string \<Rightarrow> pyval \<Rightarrow> pyval" where
  "first_flag flags name dflt = last_value (case map_of flags name of None \<Rightarrow> dflt | Some v \<Rightarrow> v)"

text \<open>\<open>int(v)\<close> of a flag's value; \<open>None\<close> for the \<open>TypeError\<close> or \<open>ValueError\<close>.\<close>

fun int_of_value :: "pyval \<Rightarrow> int option" where
  "int_of_value (PInt i) = Some i"
| "int_of_value (PBool b) = Some (if b then 1 else 0)"
| "int_of_value (PStr s) = py_int s"
| "int_of_value _ = None"

definition int_flag :: "flags \<Rightarrow> string \<Rightarrow> int \<Rightarrow> int" where
  "int_flag flags name dflt =
     (case int_of_value (first_flag flags name (PInt dflt)) of Some i \<Rightarrow> i | None \<Rightarrow> dflt)"

definition proxy_port :: "config \<Rightarrow> int option" where
  "proxy_port cfg = (case rpartition_chr (CHR '':'') (cfg_str cfg ''rpc-proxy-listen'') of
      (_, found, port) \<Rightarrow> if found then py_int port else None)"

definition zmq_port :: "'h env \<Rightarrow> pyval \<Rightarrow> nat option" where
  "zmq_port E v = (case urlsplit E (py_str v) of
      Inl _ \<Rightarrow> None
    | Inr u \<Rightarrow> (case u_port u of Inl _ \<Rightarrow> None | Inr p \<Rightarrow> p))"

definition zmq_ports :: "'h env \<Rightarrow> flags \<Rightarrow> nat list" where
  "zmq_ports E flags = sort (remdups (List.map_filter (zmq_port E)
     (concat (map (\<lambda>nr. if starts_with ''zmqpub'' (fst nr) then (case snd nr of PList vs \<Rightarrow> vs | raw \<Rightarrow> [raw]) else [])
        flags))))"

section \<open>JSON-RPC\<close>

definition rpc_call :: "'h env \<Rightarrow> codec \<Rightarrow> config \<Rightarrow> string \<Rightarrow> pyval list \<Rightarrow> ('h world, pyval) io" where
  "rpc_call E C cfg method params =
     bindIO (requests_post E rpc_url (cfg_str cfg ''rpc-user'') (cfg_str cfg ''rpc-password'')
               (rpc_request ''metadata'' method params)) (\<lambda>response.
     seqIO (raise_for_status E rpc_url response)
       (case body_json response of
          Inl e \<Rightarrow> raise_exn e
        | Inr body \<Rightarrow>
            if \<not> is_dict body then raise_exn (Exn AttributeError ''object has no attribute get'')
            else if truthy (dict_get body ''error'')
            then raise_exn (Exn RuntimeError (redact_runtime_value C
                   (method @ '' failed: '' @ py_str (dict_get body ''error''))))
            else ret (dict_get body ''result'')))"

definition client_version :: "'h env \<Rightarrow> string \<Rightarrow> ('h world, string) io" where
  "client_version E subversion =
     (case re_search satoshi_rx subversion of
        Some g \<Rightarrow> ret (case g 1 of None \<Rightarrow> [] | Some v \<Rightarrow> v)
      | None \<Rightarrow> bindIO (get_version E) (\<lambda>v.
          ret (if remove_prefix ''v'' v \<noteq> [] then remove_prefix ''v'' v else ''unknown'')))"

section \<open>The documents\<close>

record network =
  net_name :: string
  net_magic :: "string option"
  net_p2p :: int
  net_rpc :: int

definition NETWORKS :: "(string \<times> network) list" where
  "NETWORKS =
    [(''main'', \<lparr>net_name = ''Bitcoin mainnet'', net_magic = Some ''f9beb4d9'', net_p2p = 8333, net_rpc = 8332\<rparr>),
     (''test'', \<lparr>net_name = ''Bitcoin testnet3'', net_magic = Some ''0b110907'', net_p2p = 18333, net_rpc = 18332\<rparr>),
     (''testnet4'', \<lparr>net_name = ''Bitcoin testnet4'', net_magic = Some ''1c163f28'', net_p2p = 48333, net_rpc = 48332\<rparr>),
     (''signet'', \<lparr>net_name = ''Bitcoin signet'', net_magic = Some ''0a03cf40'', net_p2p = 38333, net_rpc = 38332\<rparr>),
     (''regtest'', \<lparr>net_name = ''Bitcoin regtest'', net_magic = Some ''fabfb5da'', net_p2p = 18444, net_rpc = 18443\<rparr>)]"

definition network_of :: "string \<Rightarrow> network" where
  "network_of chain_name = (case map_of NETWORKS chain_name of
      Some n \<Rightarrow> n
    | None \<Rightarrow> \<lparr>net_name = ''Bitcoin '' @ chain_name, net_magic = None, net_p2p = 0, net_rpc = 0\<rparr>)"

definition opt_str :: "string option \<Rightarrow> pyval" where
  "opt_str x = (case x of None \<Rightarrow> PNone | Some s \<Rightarrow> PStr s)"

definition opt_int :: "int option \<Rightarrow> pyval" where
  "opt_int x = (case x of None \<Rightarrow> PNone | Some i \<Rightarrow> PInt i)"

definition pdict :: "(string \<times> pyval) list \<Rightarrow> pyval" where
  "pdict kvs = PDict (map (\<lambda>kv. (PStr (fst kv), snd kv)) kvs)"

text \<open>\<open>str(x or d)\<close>\<close>

definition str_or :: "pyval \<Rightarrow> string \<Rightarrow> string" where
  "str_or v d = (if truthy v then py_str v else d)"

definition limits_value :: "(rat \<Rightarrow> string) \<Rightarrow> systemd_limits \<Rightarrow> pyval" where
  "limits_value show_float l = pdict
    [(''memory_max_bytes'', opt_int (memory_max_bytes l)),
     (''memory_high_bytes'', opt_int (memory_high_bytes l)),
     (''cpu_quota_percent'', (case cpu_quota_percent l of None \<Rightarrow> PNone | Some q \<Rightarrow> PFloat (show_float q))),
     (''tasks_max'', opt_int (tasks_max l))]"

definition blockchain_document :: "codec \<Rightarrow> string \<Rightarrow> string \<Rightarrow> string \<Rightarrow> pyval \<Rightarrow> pyval" where
  "blockchain_document C chain_name version cmdline genesis_hash = pdict
    [(''blockchain_ecosystem'', PStr ''bitcoin''),
     (''blockchain_network_name'', PStr (net_name (network_of chain_name))),
     (''client_name'', PStr ''bitcoin-core''),
     (''client_version'', PStr version),
     (''cmdline'', PStr (redact_runtime_value C cmdline)),
     (''binary_path'', PStr BINARY_PATH),
     (''genesis_hash'', PStr (py_str genesis_hash))]"

definition bitcoin_section :: "'h env \<Rightarrow> config \<Rightarrow> string \<Rightarrow> pyval \<Rightarrow> pyval \<Rightarrow> pyval \<Rightarrow> flags \<Rightarrow> pyval" where
  "bitcoin_section E cfg chain_name network chain indexes flags =
     (let defaults = network_of chain_name; pruned = truthy (dict_get chain ''pruned'') in pdict
    [(''chain'', PStr chain_name),
     (''network_magic'', opt_str (net_magic defaults)),
     (''protocol_version'', dict_get network ''protocolversion''),
     (''blocks'', dict_get chain ''blocks''),
     (''headers'', dict_get chain ''headers''),
     (''best_block_hash'', dict_get chain ''bestblockhash''),
     (''initial_block_download'', dict_get chain ''initialblockdownload''),
     (''effective_flags'', pdict flags),
     (''pruning'', pdict
       [(''enabled'', PBool pruned),
        (''automatic'', PBool (if pruned then truthy (dict_get chain ''automatic_pruning'') else False)),
        (''target_bytes'', if pruned then dict_get chain ''prune_target_size'' else PNone),
        (''height'', if pruned then dict_get chain ''pruneheight'' else PNone)]),
     (''indexes'', indexes),
     (''ports'', pdict
       [(''p2p'', PInt (int_flag flags ''port'' (net_p2p defaults))),
        (''rpc_internal'', PInt (int_flag flags ''rpcport'' (net_rpc defaults))),
        (''rpc_proxy'', opt_int (proxy_port cfg)),
        (''zmq'', PList (map (\<lambda>p. PInt (int p)) (zmq_ports E flags)))])])"

definition build_runtime_metadata :: "'h env \<Rightarrow> codec \<Rightarrow> (rat \<Rightarrow> string) \<Rightarrow> config \<Rightarrow> ('h world, pyval \<times> pyval) io" where
  "build_runtime_metadata E C show_float cfg =
     bindIO (rpc_call E C cfg ''getnetworkinfo'' []) (\<lambda>network.
     bindIO (rpc_call E C cfg ''getblockchaininfo'' []) (\<lambda>chain.
     bindIO (rpc_call E C cfg ''getblockhash'' [PInt 0]) (\<lambda>genesis_hash.
     bindIO (rpc_call E C cfg ''getindexinfo'' []) (\<lambda>indexes.
     if \<not> is_dict network \<or> \<not> is_dict chain \<or> \<not> is_dict indexes
     then raise_exn (Exn RuntimeError ''Bitcoin Core returned invalid metadata response types'')
     else
       bindIO (get_client_proc_cmdline E) (\<lambda>proc.
       bindIO (if proc \<noteq> [] then ret proc else get_service_args E) (\<lambda>cmdline.
       let flags = parse_effective_flags cmdline;
           chain_name = str_or (dict_get chain ''chain'') ''unknown''
       in bindIO (client_version E (str_or (dict_get network ''subversion'') [])) (\<lambda>version.
          bindIO (get_systemd_limits E SERVICE_NAME) (\<lambda>limits.
          ret (redact_value C [] (blockchain_document C chain_name version cmdline genesis_hash),
               redact_value C [] (pdict
                 [(''bitcoin'', bitcoin_section E cfg chain_name network chain indexes flags),
                  (''resource_limits'', limits_value show_float limits)]))))))))))"

section \<open>The model view and the upload\<close>

record relation =
  rel_id :: int
  rel_app :: string
  rel_units :: "string list"
  rel_data :: "(string \<times> pyval) list"

record juju_model =
  model_name :: string
  model_uuid :: string
  model_config :: "(string \<times> pyval) list"
  model_relations :: "(string \<times> relation list) list"

definition redacted_relation :: "codec \<Rightarrow> relation \<Rightarrow> relation" where
  "redacted_relation C r = r\<lparr>rel_data := map (\<lambda>ed. (fst ed, redact_value C [] (snd ed))) (rel_data r)\<rparr>"

definition redacted_model_view :: "codec \<Rightarrow> juju_model \<Rightarrow> juju_model" where
  "redacted_model_view C m = \<lparr>
     model_name = model_name m,
     model_uuid = model_uuid m,
     model_config = map (\<lambda>kv. (fst kv, redact_value C (fst kv) (snd kv)))
       (filter (\<lambda>kv. fst kv \<noteq> ''collector-s3-credentials'') (model_config m)),
     model_relations = map (\<lambda>nr. (fst nr, map (redacted_relation C) (snd nr))) (model_relations m)\<rparr>"

text \<open>
  \<open>parse_credentials_secret_id\<close> and \<open>collect_and_upload\<close> of \<open>blockchain_common\<close>. The upload is left out exactly
  when there are no credentials; the application, the unit and the charm's own metadata are the same in
  every call and belong to the collector.
\<close>

record 'h collector =
  parse_credentials :: "juju_model \<Rightarrow> string \<Rightarrow> ('h world, pyval) io"
  collect_and_upload :: "juju_model \<Rightarrow> path \<Rightarrow> pyval \<Rightarrow> pyval \<Rightarrow> pyval option \<Rightarrow> ('h world, unit) io"

definition METADATA_DIR :: path where
  "METADATA_DIR = ''/tmp/dwellir-metadata-uploader''"

definition metadata_message :: "codec \<Rightarrow> bool \<Rightarrow> exn \<Rightarrow> string option" where
  "metadata_message C has_secret e =
     (if exn_kind e = MetadataValidationError
      then Some ((if has_secret then ''invalid collector-s3-credentials'' else ''invalid blockchain metadata'')
             @ '': '' @ redact_runtime_value C (exn_str e))
      else if exn_kind e = MetadataUploadError
      then Some (''metadata upload failed: '' @ redact_runtime_value C (exn_str e))
      else if is_os_error e \<or> is_value_error e \<or> exn_kind e \<in> {RequestException, RuntimeError}
      then Some (''metadata collection failed: '' @ redact_runtime_value C (exn_str e))
      else None)"

definition collect_upload_metadata :: "'h env \<Rightarrow> codec \<Rightarrow> (rat \<Rightarrow> string) \<Rightarrow> 'h collector \<Rightarrow> juju_model \<Rightarrow> config
    \<Rightarrow> ('h world, string option) io" where
  "collect_upload_metadata E C show_float K model cfg =
     (let secret_id = cfg_get (map_of (model_config model)) ''collector-s3-credentials'' in
      try_except
        (bindIO (if truthy secret_id then bindIO (parse_credentials K model (py_str secret_id)) (\<lambda>c. ret (Some c))
                 else ret None) (\<lambda>credentials.
         bindIO (build_runtime_metadata E C show_float cfg) (\<lambda>documents.
         seqIO (collect_and_upload K (redacted_model_view C model) METADATA_DIR
                  (redact_output C (fst documents)) (redact_output C (snd documents)) credentials)
           (ret None))))
        (\<lambda>e. case metadata_message C (truthy secret_id) e of
            Some message \<Rightarrow> ret (Some message)
          | None \<Rightarrow> raise_exn e))"

section \<open>Evaluation\<close>

text \<open>Code equations with the world as an argument: an operation unfolds when it runs, not before.\<close>

lemmas metadata_code [code] =
  rpc_call_def [THEN fun_cong]
  client_version_def [THEN fun_cong]
  build_runtime_metadata_def [THEN fun_cong]
  collect_upload_metadata_def [THEN fun_cong]

end
