(* ===== verification/Metadata_Spec.thy ===== *)
theory Metadata_Spec
  imports Metadata Redaction_Spec Lab
begin

text \<open>
  The properties of host information and runtime metadata: command lines and flags, ports, the view of
  the Juju model that leaves the unit, and which errors of a metadata collection become messages.
\<close>

section \<open>Command lines\<close>

definition plain_char :: "char \<Rightarrow> bool" where
  "plain_char c \<longleftrightarrow> \<not> is_quote c \<and> c \<noteq> CHR 0x5C \<and> (is_space c \<longrightarrow> lex_space c)"

lemma lex_space_is_space: "lex_space c \<Longrightarrow> is_space c"
  by (auto simp: lex_space_def is_space_def)

lemma shlex_spaces:
  "list_all plain_char s \<Longrightarrow> shlex_run Between [] False s = shlex_run Between [] False (dropWhile is_space s)"
  by (induction s) (auto simp: plain_char_def)

lemma shlex_word:
  assumes "list_all plain_char s" and "tok \<noteq> []"
  shows "shlex_run InToken tok False s =
    map_option ((#) (rev tok @ takeWhile (\<lambda>c. \<not> is_space c) s)) (shlex_run Between [] False (dropWhile (\<lambda>c. \<not> is_space c) s))"
  using assms
proof (induction s arbitrary: tok)
  case (Cons c s)
  show ?case
  proof (cases "is_space c")
    case True
    with Cons.prems have "lex_space c" by (simp add: plain_char_def)
    with True Cons.prems show ?thesis by simp
  next
    case False
    then have "\<not> lex_space c" using lex_space_is_space by blast
    with False Cons.prems Cons.IH [of "c # tok"] show ?thesis by (simp add: plain_char_def)
  qed
qed simp

text \<open>
  On a command line without quotes and backslashes, whose only white space is what the shell lexer
  splits at, the lexer and the fallback \<open>str.split\<close> agree: both give the words between white space.
\<close>

lemma shlex_split_plain:
  assumes "list_all plain_char s"
  shows "shlex_split s = Some (py_split s)"
  using assms unfolding shlex_split_def
proof (induction s rule: py_split.induct)
  case (1 s)
  define u where "u = dropWhile is_space s"
  have u: "list_all plain_char u" unfolding u_def using 1(2) by (auto simp: list_all_iff dest: set_dropWhileD)
  show ?case
  proof (cases u)
    case Nil
    with shlex_spaces [OF 1(2)] show ?thesis by (simp add: u_def [symmetric] py_split.simps [of s] Let_def)
  next
    case (Cons c t)
    then have c: "\<not> is_space c" using hd_dropWhile [of is_space s] by (simp add: u_def [symmetric])
    then have nl: "\<not> lex_space c" using lex_space_is_space by blast
    have t: "list_all plain_char t" and pc: "plain_char c" using u Cons by simp_all
    let ?r = "dropWhile (\<lambda>c. \<not> is_space c) u"
    have r: "?r = dropWhile (\<lambda>c. \<not> is_space c) t" using Cons c by simp
    have "list_all plain_char ?r" using u by (auto simp: list_all_iff dest: set_dropWhileD)
    from "1.IH" [OF u_def _ this] Cons have ih: "shlex_run Between [] False ?r = Some (py_split ?r)" by simp
    have "shlex_run Between [] False s = shlex_run InToken [c] False t"
      using shlex_spaces [OF 1(2)] Cons nl pc by (simp add: u_def [symmetric] plain_char_def)
    also have "\<dots> = Some (takeWhile (\<lambda>c. \<not> is_space c) u # py_split ?r)"
      using shlex_word [OF t, of "[c]"] ih r Cons c by simp
    also have "\<dots> = Some (py_split s)" using py_split_step [OF u_def] Cons by simp
    finally show ?thesis .
  qed
qed

theorem shlex_split_plain_witness:
  "shlex_split ''bitcoind  -server -rpcport=8332'' = Some (py_split ''bitcoind  -server -rpcport=8332'')"
  by (rule shlex_split_plain) code_simp

section \<open>Flags\<close>

text \<open>The values a flag was given, in order.\<close>

fun values_of :: "pyval \<Rightarrow> pyval list" where
  "values_of (PList vs) = vs"
| "values_of v = [v]"

definition flag_values :: "flags \<Rightarrow> string \<Rightarrow> pyval list" where
  "flag_values flags k = (case map_of flags k of None \<Rightarrow> [] | Some v \<Rightarrow> values_of v)"

text \<open>The flags of a command line as the list of occurrences the scanner sees, without credentials.\<close>

fun occurrences :: "string list \<Rightarrow> (string \<times> string) list" where
  "occurrences [] = []"
| "occurrences (tok # toks) =
     (if \<not> starts_with ''-'' tok then occurrences toks
      else (let raw = dropWhile (\<lambda>c. c = CHR ''-'') tok in
        if CHR ''='' \<in> set raw
        then (case partition_chr (CHR ''='') raw of (name, _, v) \<Rightarrow> (py_casefold name, v) # occurrences toks)
        else (case toks of
            nxt # rest \<Rightarrow>
              if \<not> starts_with ''-'' nxt then (py_casefold raw, nxt) # occurrences rest
              else (py_casefold raw, ''1'') # occurrences toks
          | [] \<Rightarrow> [(py_casefold raw, ''1'')])))"

lemma parse_tokens_occurrences:
  "parse_tokens flags toks = foldl (\<lambda>f (n, v). add_flag f n v) flags (occurrences toks)"
proof (induction toks arbitrary: flags rule: occurrences.induct)
  case 1
  show ?case by simp
next
  case (2 tok toks)
  define raw where "raw = dropWhile (\<lambda>c. c = CHR ''-'') tok"
  consider (word) "\<not> starts_with ''-'' tok" | (assigned) "starts_with ''-'' tok" "CHR ''='' \<in> set raw"
    | (bare) "starts_with ''-'' tok" "CHR ''='' \<notin> set raw" by blast
  then show ?case
  proof cases
    case word
    with "2.IH"(1) show ?thesis by simp
  next
    case assigned
    obtain name f v where p: "partition_chr (CHR ''='') raw = (name, f, v)" by (cases "partition_chr (CHR ''='') raw")
    have ih: "parse_tokens g toks = foldl (\<lambda>f (n, v). add_flag f n v) g (occurrences toks)" for g
      using "2.IH"(2) assigned p by (simp add: raw_def)
    show ?thesis
      using assigned p ih by (simp add: Let_def raw_def [symmetric])
  next
    case bare
    show ?thesis
    proof (cases toks)
      case Nil
      with bare show ?thesis by (simp add: Let_def raw_def [symmetric])
    next
      case (Cons nxt rest)
      have "parse_tokens g rest = foldl (\<lambda>f (n, v). add_flag f n v) g (occurrences rest)" if "\<not> starts_with ''-'' nxt" for g
        using "2.IH"(3) bare Cons that by (simp add: raw_def)
      moreover have "parse_tokens g toks = foldl (\<lambda>f (n, v). add_flag f n v) g (occurrences toks)" if "starts_with ''-'' nxt" for g
        using "2.IH"(4) bare Cons that by (simp add: raw_def)
      ultimately show ?thesis
        using bare by (simp add: Let_def raw_def [symmetric] Cons del: occurrences.simps(2) add: occurrences.simps(2) [of tok])
    qed
  qed
qed

lemma add_flag_values:
  "flag_values (add_flag flags n v) k = flag_values flags k @ (if k = n \<and> \<not> key_is_sensitive n then [PStr v] else [])"
  by (cases "key_is_sensitive n \<or> k \<noteq> n")
    (auto simp: add_flag_def flag_values_def update_conv' split: option.splits pyval.splits)

text \<open>No flag has an empty list of values.\<close>

definition valued :: "flags \<Rightarrow> bool" where
  "valued flags \<longleftrightarrow> (\<forall>k v. map_of flags k = Some v \<longrightarrow> values_of v \<noteq> [])"

lemma add_flag_valued: "valued flags \<Longrightarrow> valued (add_flag flags n v)"
  by (auto simp: valued_def add_flag_def update_conv' split: option.splits pyval.splits if_splits)

lemma flags_of_occurrences:
  "flag_values (foldl (\<lambda>f (n, v). add_flag f n v) flags os) k =
     flag_values flags k @ (if key_is_sensitive k then [] else map (\<lambda>x. PStr (snd x)) (filter (\<lambda>x. fst x = k) os))"
  "valued flags \<Longrightarrow> valued (foldl (\<lambda>f (n, v). add_flag f n v) flags os)"
  by (induction os arbitrary: flags) (auto simp: add_flag_values add_flag_valued)

lemma flag_values_Nil: "valued flags \<Longrightarrow> flag_values flags k = [] \<longleftrightarrow> map_of flags k = None"
  by (auto simp: flag_values_def valued_def split: option.splits)

lemma first_flag_last:
  assumes "valued flags" and "map_of flags k = Some v"
  shows "first_flag flags k d = last (flag_values flags k)"
proof -
  have "values_of v \<noteq> []" using assms by (auto simp: valued_def)
  with assms(2) show ?thesis by (cases v) (simp_all add: first_flag_def flag_values_def)
qed

text \<open>The words of a command line: those of the shell lexer, or of \<open>str.split\<close> when it fails.\<close>

definition command_words :: "string \<Rightarrow> string list" where
  "command_words s = (case shlex_split s of Some toks \<Rightarrow> toks | None \<Rightarrow> py_split s)"

text \<open>
  (C12) The effective flags of a command line are its flag occurrences: a flag has the values it was given,
  in order, the last one is the one used, a name that never occurs has none, and a credential has none
  however often it was given.
\<close>

theorem effective_flags_are_occurrences:
  "flag_values (parse_effective_flags s) k =
     (if key_is_sensitive k then [] else map (\<lambda>x. PStr (snd x)) (filter (\<lambda>x. fst x = k) (occurrences (command_words s))))
   \<and> (map_of (parse_effective_flags s) k \<noteq> None \<longleftrightarrow>
        \<not> key_is_sensitive k \<and> k \<in> fst ` set (occurrences (command_words s)))
   \<and> first_flag (parse_effective_flags s) k (PInt d) =
       (if map_of (parse_effective_flags s) k = None then PInt d else last (flag_values (parse_effective_flags s) k))"
proof -
  let ?os = "occurrences (command_words s)" and ?flags = "parse_effective_flags s"
  have flags: "?flags = foldl (\<lambda>f (n, v). add_flag f n v) [] ?os"
    by (simp add: parse_effective_flags_def command_words_def parse_tokens_occurrences)
  have valued: "valued ?flags" unfolding flags by (rule flags_of_occurrences(2)) (simp add: valued_def)
  have vals: "flag_values ?flags k = (if key_is_sensitive k then [] else map (\<lambda>x. PStr (snd x)) (filter (\<lambda>x. fst x = k) ?os))"
    unfolding flags flags_of_occurrences(1) by (simp add: flag_values_def)
  moreover have "map_of ?flags k \<noteq> None \<longleftrightarrow> \<not> key_is_sensitive k \<and> k \<in> fst ` set ?os"
    using flag_values_Nil [OF valued, of k] vals by (auto simp: filter_empty_conv split: if_splits)
  moreover have "first_flag ?flags k (PInt d) = (if map_of ?flags k = None then PInt d else last (flag_values ?flags k))"
    using first_flag_last [OF valued, of k] by (auto simp: first_flag_def)
  ultimately show ?thesis by blast
qed

section \<open>Ports\<close>

text \<open>
  The reported ZMQ ports are strictly increasing and are TCP ports, whatever the flags hold.
\<close>

lemma zmq_ports_ordered_and_bounded:
  "sorted_wrt (<) (zmq_ports E flags) \<and> list_all (\<lambda>p. p \<le> 65535) (zmq_ports E flags)"
proof
  show "sorted_wrt (<) (zmq_ports E flags)"
    unfolding zmq_ports_def by (simp add: strict_sorted_iff)
  have "zmq_port E v = Some p \<Longrightarrow> p \<le> 65535" for v p
    by (auto simp: zmq_port_def u_port_def Let_def split: sum.splits if_splits)
  then show "list_all (\<lambda>p. p \<le> 65535) (zmq_ports E flags)"
    unfolding zmq_ports_def list_all_iff by (auto simp: map_filter_def)
qed

section \<open>Limits\<close>

lemma digit_groups_digits: "list_all is_digit s \<Longrightarrow> acc \<noteq> [] \<or> s \<noteq> [] \<Longrightarrow> digit_groups acc s = Some (rev acc @ s)"
  by (induction s arbitrary: acc) auto

lemma py_int_str_of_int: "py_int (str_of_int i) = Some i"
proof -
  let ?d = "str_of_nat (nat \<bar>i\<bar>)"
  have d: "?d \<noteq> []" "list_all is_digit ?d" "nat_of_digits ?d = nat \<bar>i\<bar>" using str_of_nat_digits by blast+
  have g: "digit_groups [] ?d = Some ?d" using digit_groups_digits [OF d(2), of "[]"] d(1) by simp
  have ns: "list_all (\<lambda>c. \<not> is_space c) ?d" using d(2) by (auto simp: list_all_iff dest: digit_not_space)
  obtain c u where cu: "?d = c # u" using d(1) by (cases ?d) auto
  with d(2) have c: "c \<noteq> CHR ''-'' \<and> c \<noteq> CHR ''+''" by (auto simp: is_digit_def)
  show ?thesis
  proof (cases "i < 0")
    case True
    then have "py_strip (str_of_int i) = CHR ''-'' # ?d" using ns by (simp add: str_of_int_def py_strip_solid is_space_def)
    with True g d(3) show ?thesis by (simp add: py_int_def)
  next
    case False
    then have "py_strip (str_of_int i) = ?d" using ns by (simp add: str_of_int_def py_strip_solid)
    with False g d(3) c cu show ?thesis by (simp add: py_int_def)
  qed
qed

lemma casefold_number: "py_casefold (str_of_int i) \<noteq> ''infinity''"
proof
  assume "py_casefold (str_of_int i) = ''infinity''"
  moreover obtain c u where cu: "str_of_int i = c # u" "c = CHR ''-'' \<or> is_digit c"
  proof (cases "i < 0")
    case True
    with that show thesis by (simp add: str_of_int_def)
  next
    case False
    with that str_of_nat_digits [of "nat i"] show thesis by (cases "str_of_nat (nat i)") (simp_all add: str_of_int_def)
  qed
  moreover from cu(2) have "casefold_char c = [c]" by (auto simp: casefold_char_def is_digit_def is_upper_ascii_def)
  ultimately show False by (auto simp: py_casefold_def is_digit_def)
qed

text \<open>
  A limit systemd prints as a number is read back as that number, except that everything from 2^63
  on, which systemd uses for "no limit", is read as no limit; so a reported limit fits a signed 64-bit
  integer.
\<close>

lemma finite_int_round_trip: "finite_int (str_of_int i) = Inr (if 2 ^ 63 \<le> i then None else Some i)"
  by (simp add: finite_int_def py_int_str_of_int casefold_number)

section \<open>The model view\<close>

text \<open>What may be seen of a relation, and of a model: nothing below a sensitive key, and no collector credentials.\<close>

definition public_relation :: "relation \<Rightarrow> relation" where
  "public_relation r = r\<lparr>rel_data := map (\<lambda>ed. (fst ed, public_view [] (snd ed))) (rel_data r)\<rparr>"

definition public_model :: "juju_model \<Rightarrow> juju_model" where
  "public_model m = m\<lparr>model_config := map (\<lambda>kv. (fst kv, public_view (fst kv) (snd kv)))
       (filter (\<lambda>kv. fst kv \<noteq> ''collector-s3-credentials'') (model_config m)),
     model_relations := map (\<lambda>nr. (fst nr, map public_relation (snd nr))) (model_relations m)\<rparr>"

lemma redact_value_public: "redact_value C k (public_view k v) = redact_value C k v"
  by (simp add: redact_value_def redact_public_view)

lemma redacted_view_public: "redacted_model_view C (public_model m) = redacted_model_view C m"
  by (simp add: redacted_model_view_def public_model_def redacted_relation_def public_relation_def redact_value_public
      comp_def filter_map)

text \<open>
  (C28) Non-interference of the uploaded model: the view handed to the collector is the same for two models
  that differ only in the reference to the collector's secret and in what is stored below sensitive
  keys of the configuration or of any relation databag.
\<close>

theorem model_view_hides_secrets:
  assumes "public_model m = public_model m'"
  shows "redacted_model_view C m = redacted_model_view C m'"
  using redacted_view_public [of C m] redacted_view_public [of C m'] assms by simp

theorem model_view_hides_secrets_witness:
  "redacted_model_view sample_codec \<lparr>model_name = ''m'', model_uuid = ''u'',
      model_config = [(''rpc-password'', PStr ''s3cret''), (''collector-s3-credentials'', PStr ''secret:1'')], model_relations = []\<rparr>
   = redacted_model_view sample_codec \<lparr>model_name = ''m'', model_uuid = ''u'', model_config = [(''rpc-password'', PStr ''hunter2'')], model_relations = []\<rparr>"
  by (rule model_view_hides_secrets) code_simp

section \<open>Errors\<close>

text \<open>The exceptions that are in none of the three \<open>except\<close> clauses.\<close>

definition escaping_kinds :: "exn_kind set" where
  "escaping_kinds = {TypeError, KeyError, IndexError, AttributeError, CalledProcessError, ArgumentError, SystemExit,
     JSONRPCError, InWarmupError, RetryError}"


text \<open>A host on which the systemd limits cannot be shown.\<close>

definition unshown_run :: "string list \<Rightarrow> fs \<Rightarrow> unit \<Rightarrow> unit \<times> (exn + proc)" where
  "unshown_run cmd fs h = (h, Inr \<lparr>returncode = (if take 2 cmd = [''systemctl'', ''show''] then 1 else 0), stdout = ''1''\<rparr>)"

definition lab_unshown :: "unit env" where
  "lab_unshown = lab\<lparr>env_run := unshown_run\<rparr>"

lemma unshown_collect_raises:
  assumes "\<not> truthy (cfg_get (map_of (model_config m)) ''collector-s3-credentials'')"
  shows "snd (collect_upload_metadata lab_unshown C f K m cfg w) = Inl (Exn CalledProcessError ''command failed'')"
proof -
  let ?result = "PDict [(PStr ''subversion'', PStr ''/Satoshi:28.0.0/'')]"
  have run: "run_proc lab_unshown cmd w = (w, Inr \<lparr>returncode = (if take 2 cmd = [''systemctl'', ''show''] then 1 else 0), stdout = ''1''\<rparr>)" for cmd w
    by (simp add: run_proc_def lab_unshown_def unshown_run_def)
  have rpc: "rpc_call lab_unshown C cfg name params w = (w, Inr ?result)" for name params w
    by (simp add: rpc_call_def requests_post_def raise_for_status_def lab_unshown_def lab_def lab_post_def bindIO_run seqIO_run)
  have split: "py_split ''1'' = [''1'']" "split_chr (CHR 0x00) ''1'' = [''1'']" by code_simp+
  have proc: "get_client_proc_cmdline lab_unshown w = (w, Inr ''1'')" for w
    by (simp add: get_client_proc_cmdline_def bindIO_run run split)
  obtain g where sat: "re_search satoshi_rx ''/Satoshi:28.0.0/'' = Some g"
  proof -
    have "re_search satoshi_rx ''/Satoshi:28.0.0/'' \<noteq> None" by code_simp
    then show thesis using that by blast
  qed
  have version: "client_version lab_unshown ''/Satoshi:28.0.0/'' w = (w, Inr (case g 1 of None \<Rightarrow> [] | Some v \<Rightarrow> v))" for w
    by (simp add: client_version_def sat)
  have limits: "get_systemd_limits lab_unshown s w = (w, Inl (Exn CalledProcessError ''command failed''))" for s w
    by (simp add: get_systemd_limits_def run_check_def run bindIO_run) (simp add: lab_unshown_def lab_def lab_failed_cmd_def)
  have "build_runtime_metadata lab_unshown C f cfg w = (w, Inl (Exn CalledProcessError ''command failed''))" for w
    by (simp add: build_runtime_metadata_def Let_def bindIO_run rpc proc limits version str_or_def)
  with assms show ?thesis
    by (simp add: collect_upload_metadata_def bindIO_run seqIO_run try_except_run metadata_message_def is_os_error_def is_value_error_def)
qed

text \<open>
  A failing \<open>systemctl show\<close> is not among the reported errors: its \<open>CalledProcessError\<close> escapes the
  collection, and with it the status update and the hook that ran it.
\<close>

lemma failed_limits_query_escapes:
  "snd (collect_upload_metadata lab_unshown sample_codec (\<lambda>q. [])
      \<lparr>parse_credentials = \<lambda>m s. ret PNone, collect_and_upload = \<lambda>m d b s k. ret ()\<rparr>
      \<lparr>model_name = ''m'', model_uuid = ''u'', model_config = [], model_relations = []\<rparr> Map.empty lab_world)
   = Inl (Exn CalledProcessError ''command failed'')"
  by (rule unshown_collect_raises) (simp add: cfg_get_def)

end
