(* ===== verification/Charm.thy ===== *)
theory Charm
  imports Config_Transaction Metadata
begin

text \<open>
  \<open>src/charm.py\<close>: the charm's persistent state, the event log, the diff of the configuration against the
  values last applied, every hook and action handler, and the status of the unit. A handler is a
  computation on the unit's state, which holds the machine; the utilities run on the machine through
  \<open>on_host\<close>. Log messages are left out.
\<close>

section \<open>The state of the unit\<close>

datatype unit_status =
    UnknownStatus
  | ActiveStatus string
  | BlockedStatus string
  | WaitingStatus string
  | MaintenanceStatus string

text \<open>
  \<open>stored\<close> and \<open>event_log\<close> are the attributes of \<open>_stored\<close>; \<open>action_results\<close> are the dictionaries handed to
  \<open>event.set_results\<close>, in order.
\<close>

record 'h charm =
  machine :: "'h world"
  stored :: "string \<rightharpoonup> pyval"
  event_log :: "string list"
  unit_status :: unit_status
  workload_version :: string
  action_results :: "pyval list"

text \<open>What the handlers get from outside: the environment, the parameters of the redaction and of the collector.\<close>

record 'h setting =
  set_env :: "'h env"
  set_codec :: codec
  set_float :: "rat \<Rightarrow> string"
  set_collector :: "'h collector"

definition on_host :: "('h world, 'a) io \<Rightarrow> ('h charm, 'a) io" where
  "on_host m = (\<lambda>c. case m (machine c) of (w, r) \<Rightarrow> (c\<lparr>machine := w\<rparr>, r))"

definition set_status :: "unit_status \<Rightarrow> ('h charm, unit) io" where
  "set_status s = putIO (\<lambda>c. c\<lparr>unit_status := s\<rparr>)"

text \<open>\<open>self.config\<close>\<close>

definition charm_config :: "juju_model \<Rightarrow> config" where
  "charm_config m = map_of (model_config m)"

section \<open>Constants\<close>

definition EVENT_LOG_MAX :: nat where
  "EVENT_LOG_MAX = 256"

definition SENSITIVE_CONFIG :: "string list" where
  "SENSITIVE_CONFIG = [''rpc-password'', ''rpc-user'']"

definition TRACKED_CONFIG :: "(string \<times> string) list" where
  "TRACKED_CONFIG =
    [(''rpc-user'', ''rpc_user''),
     (''rpc-password'', ''rpc_password''),
     (''service-args'', ''service_args''),
     (''version'', ''version''),
     (''binary-url'', ''binary_url''),
     (''rpc-proxy-filter'', ''rpc_proxy_filter''),
     (''rpc-proxy-version'', ''rpc_proxy_version''),
     (''rpc-proxy-listen'', ''rpc_proxy_listen''),
     (''rpc-proxy-extend-allowlist'', ''rpc_proxy_extend_allowlist''),
     (''disable-wallet'', ''disable_wallet'')]"

definition EVENT_DETAIL_WIDTH :: nat where
  "EVENT_DETAIL_WIDTH = 32"

section \<open>The event log\<close>

text \<open>\<open>s.split("  ", 1)\<close> at the first double space: the parts around it, if there is one.\<close>

fun split_gap :: "string \<Rightarrow> (string \<times> string) option" where
  "split_gap (a # b # s) =
     (if a = CHR '' '' \<and> b = CHR '' '' then Some ([], s)
      else map_option (\<lambda>p. (a # fst p, snd p)) (split_gap (b # s)))"
| "split_gap s = None"

definition truncate_event_detail :: "string \<Rightarrow> nat \<Rightarrow> string" where
  "truncate_event_detail line width =
     (case split_gap line of
        None \<Rightarrow> line
      | Some (timestamp, rest) \<Rightarrow>
         (case split_gap rest of
            None \<Rightarrow> line
          | Some (name, detail) \<Rightarrow>
             timestamp @ ''  '' @ name @ ''  '' @
             (if width < length detail then take width detail @ ''...'' else detail)))"

text \<open>\<open>xs[-n:]\<close> for a positive \<open>n\<close>.\<close>

definition newest :: "nat \<Rightarrow> 'a list \<Rightarrow> 'a list" where
  "newest n xs = drop (length xs - n) xs"

definition record_event :: "'h env \<Rightarrow> string \<Rightarrow> ('h charm, unit) io" where
  "record_event E name =
     bindIO (on_host (utcnow E)) (\<lambda>now.
     putIO (\<lambda>c. c\<lparr>event_log := newest EVENT_LOG_MAX (event_log c @ [now @ ''  '' @ name])\<rparr>))"

definition set_action_results :: "codec \<Rightarrow> (string \<times> pyval) list \<Rightarrow> ('h charm, unit) io" where
  "set_action_results C results = putIO (\<lambda>c.
     c\<lparr>action_results := action_results c @ [redact_output C (pdict results)]\<rparr>)"

section \<open>Configuration\<close>

text \<open>\<open>getattr(self._stored, attr)\<close>; every tracked attribute is present once \<open>__init__\<close> has run.\<close>

definition stored_value :: "'h charm \<Rightarrow> string \<Rightarrow> pyval" where
  "stored_value c attr = (case stored c attr of None \<Rightarrow> PNone | Some v \<Rightarrow> v)"

text \<open>\<open>self._stored.set_default(...)\<close>, in the order of the call.\<close>

definition STORED_DEFAULTS :: "(string \<times> string) list" where
  "STORED_DEFAULTS =
    [(''rpc_password'', ''rpc-password''),
     (''rpc_user'', ''rpc-user''),
     (''service_args'', ''service-args''),
     (''version'', ''version''),
     (''binary_url'', ''binary-url''),
     (''rpc_proxy_filter'', ''rpc-proxy-filter''),
     (''rpc_proxy_version'', ''rpc-proxy-version''),
     (''rpc_proxy_listen'', ''rpc-proxy-listen''),
     (''rpc_proxy_extend_allowlist'', ''rpc-proxy-extend-allowlist''),
     (''disable_wallet'', ''disable-wallet'')]"

definition set_default :: "config \<Rightarrow> (string \<rightharpoonup> pyval) \<Rightarrow> (string \<rightharpoonup> pyval)" where
  "set_default cfg st = foldl (\<lambda>st (attr, key).
     if st attr = None then st(attr \<mapsto> cfg_get cfg key) else st) st STORED_DEFAULTS"

definition charm_init :: "juju_model \<Rightarrow> 'h charm \<Rightarrow> 'h charm" where
  "charm_init m c = c\<lparr>stored := set_default (charm_config m) (stored c)\<rparr>"

definition changed_pairs :: "config \<Rightarrow> 'h charm \<Rightarrow> (string \<times> string) list" where
  "changed_pairs cfg c = filter (\<lambda>(key, attr). stored_value c attr \<noteq> cfg_get cfg key) TRACKED_CONFIG"

definition change_entry :: "codec \<Rightarrow> config \<Rightarrow> string \<Rightarrow> string" where
  "change_entry C cfg key = key @ ''='' @
     (if key \<in> set SENSITIVE_CONFIG then ''<redacted>'' else redact_runtime_value C (py_str (cfg_get cfg key)))"

definition config_change_summary :: "codec \<Rightarrow> config \<Rightarrow> 'h charm \<Rightarrow> string" where
  "config_change_summary C cfg c = py_join '', '' (map (\<lambda>ka. change_entry C cfg (fst ka)) (changed_pairs cfg c))"

text \<open>\<open>dict(self.config)\<close> with every tracked key set to the stored value.\<close>

definition previous_config :: "config \<Rightarrow> 'h charm \<Rightarrow> config" where
  "previous_config cfg c = foldl (\<lambda>p (key, attr). p(key \<mapsto> stored_value c attr)) cfg TRACKED_CONFIG"

definition commit_config :: "config \<Rightarrow> string set \<Rightarrow> 'h charm \<Rightarrow> 'h charm" where
  "commit_config cfg changed_keys c = c\<lparr>stored := foldl (\<lambda>st (key, attr).
     if key \<in> changed_keys then st(attr \<mapsto> cfg_get cfg key) else st) (stored c) TRACKED_CONFIG\<rparr>"

definition rpc_proxy_config_changed :: "config \<Rightarrow> 'h charm \<Rightarrow> bool" where
  "rpc_proxy_config_changed cfg c \<longleftrightarrow>
     stored_value c ''rpc_proxy_filter'' \<noteq> cfg_get cfg ''rpc-proxy-filter''
   \<or> stored_value c ''rpc_proxy_version'' \<noteq> cfg_get cfg ''rpc-proxy-version''
   \<or> stored_value c ''rpc_proxy_listen'' \<noteq> cfg_get cfg ''rpc-proxy-listen''
   \<or> stored_value c ''rpc_proxy_extend_allowlist'' \<noteq> cfg_get cfg ''rpc-proxy-extend-allowlist''"

section \<open>The status of the unit\<close>

definition up_down :: "bool \<Rightarrow> string" where
  "up_down b = (if b then ''up'' else ''down'')"

definition status_message :: "bool \<Rightarrow> bool \<Rightarrow> bool \<Rightarrow> string" where
  "status_message node monitor proxy = py_join '', ''
     [''Node: '' @ up_down node, ''monitor: '' @ up_down monitor, ''proxy: '' @ up_down proxy]"

definition update_status :: "'h setting \<Rightarrow> juju_model \<Rightarrow> ('h charm, unit) io" where
  "update_status X m = (let E = set_env X; cfg = charm_config m in
     bindIO (on_host (get_version E)) (\<lambda>version.
     seqIO (putIO (\<lambda>c. c\<lparr>workload_version := version\<rparr>))
     (bindIO (on_host bitcoind_binary_installed) (\<lambda>node_there.
     if \<not> node_there then set_status (BlockedStatus ''bitcoind not installed; set version'')
     else bindIO (on_host rpc_proxy_binary_installed) (\<lambda>proxy_there.
     if \<not> proxy_there then set_status (BlockedStatus ''rpc-proxy binary not installed; set rpc-proxy-version'')
     else bindIO (on_host (service_running E SERVICE_NAME)) (\<lambda>status_node.
     bindIO (on_host (service_running E MONITOR_SERVICE_NAME)) (\<lambda>status_monitor.
     bindIO (on_host (service_running E RPC_PROXY_SERVICE_NAME)) (\<lambda>status_proxy.
     if status_node \<and> status_monitor \<and> status_proxy
     then bindIO (on_host (wait_for_running_version E cfg)) (\<lambda>running.
          if running = None then set_status (BlockedStatus ''Bitcoin Core RPC did not become ready'')
          else bindIO (on_host (collect_upload_metadata E (set_codec X) (set_float X) (set_collector X) m cfg)) (\<lambda>metadata_error.
          case metadata_error of
            Some e \<Rightarrow> if e \<noteq> [] then set_status (BlockedStatus e)
                      else set_status (ActiveStatus (status_message status_node status_monitor status_proxy))
          | None \<Rightarrow> set_status (ActiveStatus (status_message status_node status_monitor status_proxy))))
     else set_status (WaitingStatus (status_message status_node status_monitor status_proxy))))))))))"

section \<open>Hooks\<close>

definition on_config_changed :: "'h setting \<Rightarrow> juju_model \<Rightarrow> ('h charm, unit) io" where
  "on_config_changed X m = (let E = set_env X; cfg = charm_config m in
     bindIO (getIO (config_change_summary (set_codec X) cfg)) (\<lambda>summary.
     seqIO (record_event E (if summary \<noteq> [] then ''config-changed  '' @ summary else ''config-changed''))
     (bindIO (getIO (\<lambda>c. fst ` set (changed_pairs cfg c))) (\<lambda>changed_keys.
     bindIO (getIO (previous_config cfg)) (\<lambda>previous.
     seqIO (on_host (apply_config_transaction E cfg previous changed_keys))
     (seqIO (putIO (commit_config cfg changed_keys))
     (update_status X m)))))))"

definition do_install_bitcoind :: "'h env \<Rightarrow> config \<Rightarrow> bool \<Rightarrow> ('h world, unit) io" where
  "do_install_bitcoind E cfg restart =
     seqIO (install_bitcoin E (cfg_str cfg ''version'') cfg (cfg_str cfg ''binary-url''))
     (seqIO (install_service_file E (''templates/'' @ SERVICE_NAME @ ''.service'') SERVICE_NAME)
     (seqIO (update_service_args E cfg restart) (ret ())))"

definition do_install_bitcoind_monitor :: "'h env \<Rightarrow> config \<Rightarrow> bool \<Rightarrow> ('h world, unit) io" where
  "do_install_bitcoind_monitor E cfg restart =
     seqIO (install_service_file E (''templates/'' @ MONITOR_SERVICE_NAME @ ''.service'') MONITOR_SERVICE_NAME)
     (install_bitcoind_monitor E cfg restart)"

definition do_install_rpc_proxy :: "'h env \<Rightarrow> config \<Rightarrow> bool \<Rightarrow> ('h world, unit) io" where
  "do_install_rpc_proxy E cfg restart =
     seqIO (install_rpc_proxy E (cfg_str cfg ''rpc-proxy-version''))
     (install_rpc_proxy_service E cfg restart)"

definition reconcile_rpc_proxy :: "'h env \<Rightarrow> config \<Rightarrow> ('h world, unit) io" where
  "reconcile_rpc_proxy E cfg =
     seqIO (do_install_rpc_proxy E cfg False)
     (bindIO rpc_proxy_binary_installed (\<lambda>there. whenIO there (restart_rpc_proxy E)))"

definition on_install :: "'h setting \<Rightarrow> juju_model \<Rightarrow> ('h charm, unit) io" where
  "on_install X m = (let E = set_env X; cfg = charm_config m in
     seqIO (record_event E ''install'')
     (seqIO (on_host (create_user E))
     (seqIO (on_host (install_dependencies E))
     (seqIO (on_host (do_install_bitcoind E cfg False))
     (seqIO (on_host (do_install_bitcoind_monitor E cfg False))
     (seqIO (on_host (do_install_rpc_proxy E cfg False))
     (on_host (chown E))))))))"

text \<open>\<open>if utils.rpc_proxy_binary_installed(): <m>\<close>\<close>

definition if_proxy_installed :: "('h world, unit) io \<Rightarrow> ('h world, unit) io" where
  "if_proxy_installed m = bindIO rpc_proxy_binary_installed (\<lambda>there. whenIO there m)"

definition on_start :: "'h setting \<Rightarrow> juju_model \<Rightarrow> ('h charm, unit) io" where
  "on_start X m = (let E = set_env X in
     seqIO (record_event E ''start'')
     (seqIO (on_host (start_service E))
     (seqIO (on_host (start_monitor E))
     (seqIO (on_host (if_proxy_installed (start_rpc_proxy E)))
     (update_status X m)))))"

definition on_stop :: "'h setting \<Rightarrow> juju_model \<Rightarrow> ('h charm, unit) io" where
  "on_stop X m = (let E = set_env X in
     seqIO (record_event E ''stop'')
     (seqIO (on_host (stop_service E))
     (seqIO (on_host (stop_monitor E))
     (seqIO (on_host (stop_rpc_proxy E))
     (update_status X m)))))"

definition on_update_status :: "'h setting \<Rightarrow> juju_model \<Rightarrow> ('h charm, unit) io" where
  "on_update_status X m = update_status X m"

definition on_upgrade_charm :: "'h setting \<Rightarrow> juju_model \<Rightarrow> ('h charm, unit) io" where
  "on_upgrade_charm X m = (let E = set_env X in
     bindIO (on_host (get_charm_version E)) (\<lambda>version.
     seqIO (record_event E (''upgrade-charm  '' @ version))
     (update_status X m)))"

section \<open>Actions\<close>

definition on_get_node_help_action :: "'h setting \<Rightarrow> ('h charm, unit) io" where
  "on_get_node_help_action X =
     seqIO (record_event (set_env X) ''get-node-help'')
     (bindIO (on_host (get_client_help_output (set_env X))) (\<lambda>help.
      set_action_results (set_codec X) [(''help-output'', PStr help)]))"

definition on_get_node_info_action :: "'h setting \<Rightarrow> ('h charm, unit) io" where
  "on_get_node_info_action X = (let E = set_env X; report = (\<lambda>key v. set_action_results (set_codec X) [(key, v)]) in
     seqIO (record_event E ''get-node-info'')
     (bindIO (on_host (get_charm_version E)) (\<lambda>version. seqIO (report ''charm-version'' (PStr version))
     (bindIO (on_host (get_disk_usage E [HOME_DIR])) (\<lambda>disk_usage. seqIO (report ''disk-usage'' (PStr disk_usage))
     (bindIO (on_host (get_version E)) (\<lambda>client. seqIO (report ''client-version'' (PStr client))
     (bindIO (on_host (get_service_args E)) (\<lambda>args. seqIO (report ''client-service-args'' (PStr args))
     (bindIO (on_host (get_client_proc_cmdline E)) (\<lambda>proc_cmdline.
        seqIO (report ''client-proc-cmdline'' (PStr (if proc_cmdline \<noteq> [] then proc_cmdline else ''process not found'')))
     (bindIO (on_host rpc_proxy_binary_installed) (\<lambda>there. seqIO (report ''rpc-proxy-installed'' (PBool there))
     (bindIO (on_host (get_rpc_proxy_version E)) (\<lambda>proxy. seqIO (report ''rpc-proxy-version'' (PStr proxy))
     (bindIO (on_host (get_status E RPC_PROXY_SERVICE_NAME)) (\<lambda>up. seqIO (report ''rpc-proxy-running'' (PBool up))
     (bindIO (on_host (get_rpc_proxy_env E)) (\<lambda>env_text. seqIO (report ''rpc-proxy-env'' (PStr env_text))
     (bindIO (getIO (\<lambda>c. map (\<lambda>line. truncate_event_detail line EVENT_DETAIL_WIDTH) (newest 16 (event_log c)))) (\<lambda>recent.
        report ''event-log'' (PStr (py_join [CHR 0x0A] recent)))))))))))))))))))))))"

definition on_print_event_log_action :: "'h setting \<Rightarrow> ('h charm, unit) io" where
  "on_print_event_log_action X =
     seqIO (record_event (set_env X) ''print-event-log'')
     (bindIO (getIO event_log) (\<lambda>log.
      set_action_results (set_codec X) [(''event-log'', PStr (py_join [CHR 0x0A] log))]))"

definition on_print_readme_action :: "'h setting \<Rightarrow> ('h charm, unit) io" where
  "on_print_readme_action X =
     seqIO (record_event (set_env X) ''print-readme'')
     (bindIO (on_host (get_readme (set_env X))) (\<lambda>readme.
      set_action_results (set_codec X) [(''readme'', PStr readme)]))"

definition on_restart_node_action :: "'h setting \<Rightarrow> juju_model \<Rightarrow> ('h charm, unit) io" where
  "on_restart_node_action X m = (let E = set_env X in
     seqIO (record_event E ''restart-node'')
     (seqIO (set_status (MaintenanceStatus ''Restarting node services...''))
     (seqIO (on_host (stop_service E))
     (seqIO (on_host (sleep E 3))
     (seqIO (on_host (start_service E))
     (seqIO (on_host (if_proxy_installed (restart_rpc_proxy E)))
     (update_status X m)))))))"

definition on_start_node_action :: "'h setting \<Rightarrow> juju_model \<Rightarrow> ('h charm, unit) io" where
  "on_start_node_action X m = (let E = set_env X in
     seqIO (record_event E ''start-node'')
     (seqIO (set_status (MaintenanceStatus ''Starting node services...''))
     (seqIO (on_host (start_service E))
     (seqIO (on_host (start_monitor E))
     (seqIO (on_host (if_proxy_installed (start_rpc_proxy E)))
     (update_status X m))))))"

definition on_stop_node_action :: "'h setting \<Rightarrow> juju_model \<Rightarrow> ('h charm, unit) io" where
  "on_stop_node_action X m = (let E = set_env X in
     seqIO (record_event E ''stop-node'')
     (seqIO (set_status (MaintenanceStatus ''Stopping node services...''))
     (seqIO (on_host (stop_monitor E))
     (seqIO (on_host (stop_service E))
     (seqIO (on_host (stop_rpc_proxy E))
     (update_status X m))))))"

section \<open>Dispatch\<close>

text \<open>What \<open>__init__\<close> observes.\<close>

datatype event =
    ConfigChanged | InstallHook | StartHook | StopHook | UpdateStatus | UpgradeCharm
  | GetNodeHelp | GetNodeInfo | PrintEventLog | PrintReadme | RestartNode | StartNode | StopNode

fun handler :: "'h setting \<Rightarrow> juju_model \<Rightarrow> event \<Rightarrow> ('h charm, unit) io" where
  "handler X m ConfigChanged = on_config_changed X m"
| "handler X m InstallHook = on_install X m"
| "handler X m StartHook = on_start X m"
| "handler X m StopHook = on_stop X m"
| "handler X m UpdateStatus = on_update_status X m"
| "handler X m UpgradeCharm = on_upgrade_charm X m"
| "handler X m GetNodeHelp = on_get_node_help_action X"
| "handler X m GetNodeInfo = on_get_node_info_action X"
| "handler X m PrintEventLog = on_print_event_log_action X"
| "handler X m PrintReadme = on_print_readme_action X"
| "handler X m RestartNode = on_restart_node_action X m"
| "handler X m StartNode = on_start_node_action X m"
| "handler X m StopNode = on_stop_node_action X m"

definition dispatch :: "'h setting \<Rightarrow> juju_model \<Rightarrow> event \<Rightarrow> ('h charm, unit) io" where
  "dispatch X m ev = (\<lambda>c. handler X m ev (charm_init m c))"

section \<open>Evaluation\<close>

text \<open>Code equations with the state as an argument: an operation unfolds when it runs, not before.\<close>

lemmas charm_code [code] =
  on_host_def [THEN fun_cong] set_status_def [THEN fun_cong] record_event_def [THEN fun_cong]
  set_action_results_def [THEN fun_cong] update_status_def [THEN fun_cong] on_config_changed_def [THEN fun_cong]
  do_install_bitcoind_def [THEN fun_cong] do_install_bitcoind_monitor_def [THEN fun_cong]
  do_install_rpc_proxy_def [THEN fun_cong] reconcile_rpc_proxy_def [THEN fun_cong] on_install_def [THEN fun_cong]
  if_proxy_installed_def [THEN fun_cong] on_start_def [THEN fun_cong] on_stop_def [THEN fun_cong]
  on_update_status_def [THEN fun_cong] on_upgrade_charm_def [THEN fun_cong]
  on_get_node_help_action_def [THEN fun_cong] on_get_node_info_action_def [THEN fun_cong]
  on_print_event_log_action_def [THEN fun_cong] on_print_readme_action_def [THEN fun_cong]
  on_restart_node_action_def [THEN fun_cong] on_start_node_action_def [THEN fun_cong]
  on_stop_node_action_def [THEN fun_cong] dispatch_def [THEN fun_cong]

end
