(* ===== verification/Charm_Laws.thy ===== *)
theory Charm_Laws
  imports Charm
begin

text \<open>
  How the handlers of the charm treat each part of the unit's state. The contract \<open>unit_relation\<close> is that
  of a relation on units which the machine, the status and the workload version do not influence; it is
  respected by everything the handlers do except recording events, setting results and committing the
  configuration. It is interpreted for the event log, the stored configuration and the action results,
  and \<open>machine_relation\<close> lifts relations on the machine (which files, which service commands) to handlers.
\<close>

section \<open>Running on the machine\<close>

lemma on_host_Inr: "on_host m c = (c', Inr x) \<longleftrightarrow> (\<exists>w. m (machine c) = (w, Inr x) \<and> c' = c\<lparr>machine := w\<rparr>)"
  by (auto simp: on_host_def split: prod.splits)

lemma on_host_Inl: "on_host m c = (c', Inl e) \<longleftrightarrow> (\<exists>w. m (machine c) = (w, Inl e) \<and> c' = c\<lparr>machine := w\<rparr>)"
  by (auto simp: on_host_def split: prod.splits)

lemmas unit_inv = on_host_Inr on_host_Inl bindIO_Inr_iff seqIO_Inr_iff

locale unit_relation = run_relation R
  for R :: "'h charm \<Rightarrow> 'h charm \<Rightarrow> bool" +
  assumes machine_free: "R c (c\<lparr>machine := w\<rparr>)"
    and status_free: "R c (c\<lparr>unit_status := s\<rparr>)"
    and version_free: "R c (c\<lparr>workload_version := v\<rparr>)"
begin

lemma resp_host: "runs_in R (on_host m)"
  by (auto simp: runs_in_def on_host_def machine_free split: prod.splits)

lemma resp_status: "runs_in R (set_status s)"
  unfolding set_status_def by (intro resp_put status_free)

lemma resp_case_error: "(\<And>e. runs_in R (k e)) \<Longrightarrow> runs_in R m \<Longrightarrow> runs_in R (case x of Some e \<Rightarrow> k e | None \<Rightarrow> m)"
  by (cases x) simp_all

lemma resp_update_status: "runs_in R (update_status X m)"
  unfolding update_status_def Let_def
  by (intro resp_rules resp_host resp_status version_free resp_case_error)

lemmas resp_unit = resp_rules resp_host resp_status resp_update_status

end

section \<open>The event log\<close>

lemma newest_append: "newest n (newest n xs @ ys) = newest n (xs @ ys)"
proof -
  have "length xs + length ys - (length xs - n + n) + (length xs - n) = length xs + length ys - n" if "n \<le> length xs"
    using that by simp
  then show ?thesis by (cases "n \<le> length xs") (simp_all add: newest_def)
qed

lemma newest_length [simp]: "length (newest n xs) \<le> n"
  by (simp add: newest_def)

lemma newest_id: "length xs \<le> n \<Longrightarrow> newest n xs = xs"
  by (simp add: newest_def)

definition same_log :: "'h charm \<Rightarrow> 'h charm \<Rightarrow> bool" where
  "same_log c c' \<longleftrightarrow> event_log c' = event_log c"

interpretation sl: unit_relation same_log
  by unfold_locales (simp_all add: same_log_def)

lemma results_same_log: "runs_in same_log (set_action_results C r)"
  unfolding set_action_results_def by (intro sl.resp_put) (simp add: same_log_def)

lemma commit_same_log: "runs_in same_log (putIO (commit_config cfg ks))"
  by (intro sl.resp_put) (simp add: same_log_def commit_config_def)

text \<open>A handler that records an event and does nothing else to the log.\<close>

lemma recorded:
  assumes "runs_in same_log k" and "seqIO (record_event E name) k c = (c', r)"
  shows "\<exists>now. event_log c' = newest EVENT_LOG_MAX (event_log c @ [now @ ''  '' @ name])"
proof -
  obtain w h now where now: "env_utcnow E (host (machine c)) = (h, now)" by (cases "env_utcnow E (host (machine c))")
  let ?c = "c\<lparr>machine := (machine c)\<lparr>host := h\<rparr>, event_log := newest EVENT_LOG_MAX (event_log c @ [now @ ''  '' @ name])\<rparr>"
  have "record_event E name c = (?c, Inr ())"
    by (simp add: record_event_def bindIO_run on_host_def utcnow_def now)
  with assms(2) have "k ?c = (c', r)" by (simp add: seqIO_run)
  with assms(1) have "same_log ?c c'" by (rule runs_inD)
  then show ?thesis by (auto simp: same_log_def)
qed

fun event_name :: "event \<Rightarrow> string option" where
  "event_name ConfigChanged = Some ''config-changed''"
| "event_name InstallHook = Some ''install''"
| "event_name StartHook = Some ''start''"
| "event_name StopHook = Some ''stop''"
| "event_name UpdateStatus = None"
| "event_name UpgradeCharm = Some ''upgrade-charm''"
| "event_name GetNodeHelp = Some ''get-node-help''"
| "event_name GetNodeInfo = Some ''get-node-info''"
| "event_name PrintEventLog = Some ''print-event-log''"
| "event_name PrintReadme = Some ''print-readme''"
| "event_name RestartNode = Some ''restart-node''"
| "event_name StartNode = Some ''start-node''"
| "event_name StopNode = Some ''stop-node''"

text \<open>The entry an event may leave: nothing for update-status, else a time, two spaces, its name and a detail.\<close>

definition entry_of :: "event \<Rightarrow> string \<Rightarrow> bool" where
  "entry_of ev line \<longleftrightarrow> (\<exists>now name detail. event_name ev = Some name \<and> line = now @ ''  '' @ name @ detail)"

lemma recorded_entry:
  assumes "seqIO (record_event E (name @ detail)) k c = (c', r)" and "runs_in same_log k" and "event_name ev = Some name"
  shows "\<exists>line. entry_of ev line \<and> event_log c' = newest EVENT_LOG_MAX (event_log c @ [line])"
  using recorded [OF assms(2,1)] assms(3) unfolding entry_of_def by blast

lemmas handler_defs = on_install_def on_start_def on_stop_def on_get_node_help_action_def
  on_get_node_info_action_def on_print_event_log_action_def on_print_readme_action_def
  on_restart_node_action_def on_start_node_action_def on_stop_node_action_def

text \<open>The handlers that record their name first and do nothing else to the log.\<close>

definition records_first :: "'h env \<Rightarrow> string \<Rightarrow> ('h charm, unit) io \<Rightarrow> bool" where
  "records_first E name h \<longleftrightarrow> (\<exists>k. h = seqIO (record_event E name) k \<and> runs_in same_log k)"

lemma records_firstI: "runs_in same_log k \<Longrightarrow> records_first E name (seqIO (record_event E name) k)"
  unfolding records_first_def by blast

lemma recording_handlers:
  "records_first (set_env X) ''install'' (handler X m InstallHook)"
  "records_first (set_env X) ''start'' (handler X m StartHook)"
  "records_first (set_env X) ''stop'' (handler X m StopHook)"
  "records_first (set_env X) ''get-node-help'' (handler X m GetNodeHelp)"
  "records_first (set_env X) ''get-node-info'' (handler X m GetNodeInfo)"
  "records_first (set_env X) ''print-event-log'' (handler X m PrintEventLog)"
  "records_first (set_env X) ''print-readme'' (handler X m PrintReadme)"
  "records_first (set_env X) ''restart-node'' (handler X m RestartNode)"
  "records_first (set_env X) ''start-node'' (handler X m StartNode)"
  "records_first (set_env X) ''stop-node'' (handler X m StopNode)"
  unfolding handler.simps handler_defs Let_def
  by (intro records_firstI sl.resp_unit results_same_log)+

lemma recording_handler:
  assumes "event_name ev = Some name" and "ev \<noteq> ConfigChanged" "ev \<noteq> UpgradeCharm"
  shows "records_first (set_env X) name (handler X m ev)"
  using assms recording_handlers [of X m] by (cases ev) (simp_all only: event_name.simps option.inject option.simps simp_thms)

lemma handler_log:
  assumes run: "handler X m ev c = (c', r)"
  shows "event_log c' = event_log c
    \<or> (\<exists>line. entry_of ev line \<and> event_log c' = newest EVENT_LOG_MAX (event_log c @ [line]))"
proof (cases "ev = ConfigChanged \<or> ev = UpgradeCharm \<or> ev = UpdateStatus")
  case False
  then obtain name where name: "event_name ev = Some name" by (cases ev) simp_all
  from recording_handler [OF this] False obtain k where "handler X m ev = seqIO (record_event (set_env X) name) k"
    and k: "runs_in same_log k" unfolding records_first_def by blast
  with run have "seqIO (record_event (set_env X) (name @ [])) k c = (c', r)" by simp
  from recorded_entry [OF this k name] show ?thesis by blast
next
  case True
  then consider "ev = ConfigChanged" | "ev = UpgradeCharm" | "ev = UpdateStatus" by blast
  then show ?thesis
  proof cases
    case 1
    let ?s = "config_change_summary (set_codec X) (charm_config m) c"
    let ?k = "bindIO (getIO (\<lambda>c. fst ` set (changed_pairs (charm_config m) c))) (\<lambda>changed_keys.
       bindIO (getIO (previous_config (charm_config m))) (\<lambda>previous.
       seqIO (on_host (apply_config_transaction (set_env X) (charm_config m) previous changed_keys))
       (seqIO (putIO (commit_config (charm_config m) changed_keys))
       (update_status X m))))"
    have k: "runs_in same_log ?k"
      by (intro sl.resp_bind sl.resp_seq sl.resp_get sl.resp_host commit_same_log sl.resp_update_status)
    from run 1 have "seqIO (record_event (set_env X) (''config-changed'' @ (if ?s \<noteq> [] then ''  '' @ ?s else []))) ?k c = (c', r)"
      by (simp add: on_config_changed_def Let_def bindIO_run [of "getIO _"] split: if_splits)
    from recorded_entry [OF this k, of ev] 1 show ?thesis by simp
  next
    case 2
    obtain w q where w: "get_charm_version (set_env X) (machine c) = (w, q)" by (cases "get_charm_version (set_env X) (machine c)")
    show ?thesis
    proof (cases q)
      case (Inl e)
      with run w 2 show ?thesis by (auto simp: on_upgrade_charm_def Let_def bindIO_run on_host_def)
    next
      case (Inr v)
      with run w 2 have "seqIO (record_event (set_env X) (''upgrade-charm'' @ ''  '' @ v)) (update_status X m) (c\<lparr>machine := w\<rparr>) = (c', r)"
        by (simp add: on_upgrade_charm_def Let_def bindIO_run on_host_def)
      from recorded_entry [OF this sl.resp_update_status, of ev] 2 show ?thesis by simp
    qed
  next
    case 3
    with run have "same_log c c'" using runs_inD [OF sl.resp_update_status] by (simp add: on_update_status_def)
    then show ?thesis by (simp add: same_log_def)
  qed
qed

section \<open>Action results\<close>

definition results_redacted :: "codec \<Rightarrow> 'h charm \<Rightarrow> 'h charm \<Rightarrow> bool" where
  "results_redacted C c c' \<longleftrightarrow> (\<exists>vs. action_results c' = action_results c @ map (redact_output C) vs)"

lemma results_redacted_trans: "results_redacted C a b \<Longrightarrow> results_redacted C b c \<Longrightarrow> results_redacted C a c"
  unfolding results_redacted_def by (metis append_assoc map_append)

lemma results_redacted_same: "action_results c' = action_results c \<Longrightarrow> results_redacted C c c'"
  unfolding results_redacted_def by (rule exI [of _ "[]"]) simp

interpretation rr: unit_relation "results_redacted C" for C
  by unfold_locales (auto intro: results_redacted_same results_redacted_trans)

lemma set_results_redacted: "runs_in (results_redacted C) (set_action_results C r)"
  unfolding set_action_results_def
  by (intro rr.resp_put) (auto simp: results_redacted_def intro!: exI [of _ "[pdict r]"])

lemma record_results: "runs_in (results_redacted C) (record_event E name)"
  unfolding record_event_def by (intro rr.resp_unit results_redacted_same) simp

lemma commit_results: "runs_in (results_redacted C) (putIO (commit_config cfg ks))"
  by (intro rr.resp_put results_redacted_same) (simp add: commit_config_def)

lemma handler_results: "runs_in (results_redacted (set_codec X)) (handler X m ev)"
  by (cases ev; simp only: handler.simps handler_defs on_config_changed_def on_upgrade_charm_def on_update_status_def Let_def;
      intro rr.resp_bind rr.resp_seq rr.resp_get rr.resp_host rr.resp_status rr.resp_update_status
        record_results set_results_redacted commit_results)

section \<open>The stored configuration\<close>

definition same_stored :: "'h charm \<Rightarrow> 'h charm \<Rightarrow> bool" where
  "same_stored c c' \<longleftrightarrow> stored c' = stored c"

interpretation ss: unit_relation same_stored
  by unfold_locales (simp_all add: same_stored_def)

lemma record_same_stored: "runs_in same_stored (record_event E name)"
  unfolding record_event_def by (intro ss.resp_unit) (simp add: same_stored_def)

lemma results_same_stored: "runs_in same_stored (set_action_results C r)"
  unfolding set_action_results_def by (intro ss.resp_put) (simp add: same_stored_def)

lemma handler_same_stored:
  assumes "ev \<noteq> ConfigChanged"
  shows "runs_in same_stored (handler X m ev)"
  using assms
  by (cases ev; simp only: handler.simps handler_defs on_upgrade_charm_def on_update_status_def Let_def simp_thms;
      intro ss.resp_bind ss.resp_seq ss.resp_get ss.resp_host ss.resp_status ss.resp_update_status
        record_same_stored results_same_stored)

text \<open>\<open>set_default\<close> gives every tracked attribute a value and keeps the ones that have one.\<close>

lemma tracked_attrs_distinct: "distinct (map snd TRACKED_CONFIG)" "distinct (map fst TRACKED_CONFIG)"
  by code_simp+

lemma defaults_are_tracked: "set STORED_DEFAULTS = (\<lambda>(k, a). (a, k)) ` set TRACKED_CONFIG"
  by (auto simp: STORED_DEFAULTS_def TRACKED_CONFIG_def)

lemma defaults_keep:
  "st a = Some v \<Longrightarrow> foldl (\<lambda>st (attr, key). if st attr = None then st(attr \<mapsto> cfg_get cfg key) else st) st ds a = Some v"
proof (induction ds arbitrary: st)
  case (Cons d ds)
  obtain attr key where d: "d = (attr, key)" by (cases d)
  show ?case
  proof (cases "st attr = None")
    case True
    with Cons.prems have "(st(attr \<mapsto> cfg_get cfg key)) a = Some v" by auto
    then have "foldl (\<lambda>st (attr, key). if st attr = None then st(attr \<mapsto> cfg_get cfg key) else st)
        (st(attr \<mapsto> cfg_get cfg key)) ds a = Some v" by (rule Cons.IH)
    with True d show ?thesis by (simp only: foldl_Cons prod.case if_True simp_thms)
  next
    case False
    with Cons d show ?thesis by auto
  qed
qed simp

lemma set_default_keeps: "st a = Some v \<Longrightarrow> set_default cfg st a = Some v"
  unfolding set_default_def by (rule defaults_keep)

lemma set_default_fresh:
  assumes "(k, a) \<in> set TRACKED_CONFIG" and "st a = None"
  shows "set_default cfg st a = Some (cfg_get cfg k)"
proof -
  have "distinct (map fst ds) \<Longrightarrow> (a, k) \<in> set ds \<Longrightarrow> st a = None \<Longrightarrow>
      foldl (\<lambda>st (attr, key). if st attr = None then st(attr \<mapsto> cfg_get cfg key) else st) st ds a = Some (cfg_get cfg k)" for ds
  proof (induction ds arbitrary: st)
    case (Cons d ds)
    show ?case
    proof (cases "d = (a, k)")
      case True
      with Cons.prems show ?thesis by (simp add: defaults_keep)
    next
      case False
      with Cons.prems have "fst d \<noteq> a" by (auto simp: image_iff)
      with Cons.prems False show ?thesis by (cases d) (simp add: Cons.IH)
    qed
  qed simp
  moreover have "distinct (map fst STORED_DEFAULTS)" by code_simp
  moreover have "(a, k) \<in> set STORED_DEFAULTS" using assms(1) by (force simp: defaults_are_tracked)
  ultimately show ?thesis using assms(2) by (simp add: set_default_def)
qed

text \<open>The configuration the stored values stand for, on the tracked keys.\<close>

lemma previous_config_get:
  assumes "(k, a) \<in> set TRACKED_CONFIG"
  shows "cfg_get (previous_config cfg c) k = stored_value c a"
proof -
  have other: "k' \<notin> fst ` set ts \<Longrightarrow> foldl (\<lambda>p (key, attr). p(key \<mapsto> stored_value c attr)) f ts k' = f k'" for f ts k'
    by (induction ts arbitrary: f) auto
  have "distinct (map fst ts) \<Longrightarrow> (k, a) \<in> set ts \<Longrightarrow>
      foldl (\<lambda>p (key, attr). p(key \<mapsto> stored_value c attr)) f ts k = Some (stored_value c a)" for f ts
    by (induction ts arbitrary: f) (auto simp: other)
  from this [OF tracked_attrs_distinct(2) assms] show ?thesis by (simp add: previous_config_def cfg_get_def)
qed

lemma previous_config_other:
  assumes "k \<notin> fst ` set TRACKED_CONFIG"
  shows "previous_config cfg c k = cfg k"
proof -
  have "k \<notin> fst ` set ts \<Longrightarrow> foldl (\<lambda>p (key, attr). p(key \<mapsto> stored_value c attr)) f ts k = f k" for f ts
    by (induction ts arbitrary: f) auto
  from this [OF assms] show ?thesis by (simp add: previous_config_def)
qed

lemma changed_keys_iff:
  "k \<in> fst ` set (changed_pairs cfg c) \<longleftrightarrow> (\<exists>a. (k, a) \<in> set TRACKED_CONFIG \<and> stored_value c a \<noteq> cfg_get cfg k)"
  by (force simp: changed_pairs_def)

text \<open>Every key in which the two configurations differ is among the changed ones.\<close>

lemma changed_keys_cover:
  assumes "k \<notin> fst ` set (changed_pairs cfg c)"
  shows "cfg_get cfg k = cfg_get (previous_config cfg c) k"
proof (cases "k \<in> fst ` set TRACKED_CONFIG")
  case True
  then obtain a where a: "(k, a) \<in> set TRACKED_CONFIG" by auto
  with assms have "stored_value c a = cfg_get cfg k" unfolding changed_keys_iff by blast
  with previous_config_get [OF a, of cfg c] show ?thesis by simp
next
  case False
  then show ?thesis by (simp add: cfg_get_def previous_config_other)
qed

text \<open>Committing makes the stored values those of the configuration.\<close>

lemma commit_config_stored:
  assumes "(k, a) \<in> set TRACKED_CONFIG"
  shows "stored (commit_config cfg K c) a = (if k \<in> K then Some (cfg_get cfg k) else stored c a)"
proof -
  let ?f = "\<lambda>st (key, attr). if key \<in> K then st(attr \<mapsto> cfg_get cfg key) else st"
  have other: "a' \<notin> snd ` set ts \<Longrightarrow> foldl ?f st ts a' = st a'" for st :: "string \<rightharpoonup> pyval" and ts a'
    by (induction ts arbitrary: st) auto
  have "distinct (map snd ts) \<Longrightarrow> (k, a) \<in> set ts \<Longrightarrow>
      foldl ?f st ts a = (if k \<in> K then Some (cfg_get cfg k) else st a)" for st :: "string \<rightharpoonup> pyval" and ts
  proof (induction ts arbitrary: st)
    case (Cons t ts)
    show ?case
    proof (cases "t = (k, a)")
      case True
      with Cons.prems show ?thesis by (simp add: other)
    next
      case False
      with Cons.prems have "snd t \<noteq> a" by (auto simp: image_iff)
      with Cons.prems False show ?thesis by (cases t) (simp add: Cons.IH)
    qed
  qed simp
  from this [OF tracked_attrs_distinct(1) assms, of "stored c"] show ?thesis by (simp add: commit_config_def)
qed

lemma commit_config_value:
  assumes "(k, a) \<in> set TRACKED_CONFIG"
  shows "stored_value (commit_config cfg (fst ` set (changed_pairs cfg c)) c) a = cfg_get cfg k"
proof (cases "k \<in> fst ` set (changed_pairs cfg c)")
  case True
  then show ?thesis by (simp add: stored_value_def commit_config_stored [OF assms])
next
  case False
  with assms have "stored_value c a = cfg_get cfg k" unfolding changed_keys_iff by blast
  with False show ?thesis by (simp add: stored_value_def commit_config_stored [OF assms])
qed

lemma changed_pairs_nil: "changed_pairs cfg c = [] \<longleftrightarrow> (\<forall>(k, a) \<in> set TRACKED_CONFIG. stored_value c a = cfg_get cfg k)"
  by (auto simp: changed_pairs_def filter_empty_conv)

end
