(* ===== verification/Charm_Machine.thy ===== *)
theory Charm_Machine
  imports Charm_Laws
begin

text \<open>
  What the handlers do to the machine. The locale \<open>machine_lift\<close> carries a relation between worlds from
  the operations on the host to whole handlers; it is interpreted for the frame of files. On top of it:
  the files installation leaves, and the invariant that the environment files on disk are those of the
  configuration the charm has stored.
\<close>

section \<open>Lifting relations on the machine\<close>

definition on_machine :: "('h world \<Rightarrow> 'h world \<Rightarrow> bool) \<Rightarrow> 'h charm \<Rightarrow> 'h charm \<Rightarrow> bool" where
  "on_machine R c c' \<longleftrightarrow> R (machine c) (machine c')"

locale machine_lift = run_relation R
  for R :: "'h world \<Rightarrow> 'h world \<Rightarrow> bool"

sublocale machine_lift \<subseteq> up: run_relation "on_machine R"
  by unfold_locales (auto simp: on_machine_def intro: R_refl R_trans)

text \<open>The collector of \<open>blockchain_common\<close> keeps within a relation.\<close>

definition collector_runs :: "('h world \<Rightarrow> 'h world \<Rightarrow> bool) \<Rightarrow> 'h collector \<Rightarrow> bool" where
  "collector_runs R K \<longleftrightarrow> (\<forall>m s. runs_in R (parse_credentials K m s))
     \<and> (\<forall>m d b s k. runs_in R (collect_and_upload K m d b s k))"

context machine_lift
begin

lemma up_host: "runs_in R m \<Longrightarrow> runs_in (on_machine R) (on_host m)"
  by (auto simp: runs_in_def on_host_def on_machine_def split: prod.splits) (metis fst_conv)

lemma up_put: "(\<And>c. machine (f c) = machine c) \<Longrightarrow> runs_in (on_machine R) (putIO f)"
  by (simp add: runs_in_def on_machine_def R_refl)

lemma up_status: "runs_in (on_machine R) (set_status s)"
  unfolding set_status_def by (rule up_put) simp

lemma up_results: "runs_in (on_machine R) (set_action_results C r)"
  unfolding set_action_results_def by (rule up_put) simp

lemma up_record: "runs_in R (utcnow E) \<Longrightarrow> runs_in (on_machine R) (record_event E name)"
  unfolding record_event_def by (intro up.resp_bind up_host up_put) simp_all

lemma up_case_error: "(\<And>e. runs_in (on_machine R) (k e)) \<Longrightarrow> runs_in (on_machine R) m \<Longrightarrow>
    runs_in (on_machine R) (case x of Some e \<Rightarrow> k e | None \<Rightarrow> m)"
  by (cases x) simp_all

lemma up_update_status:
  assumes "runs_in R (get_version (set_env X))" and "\<And>s. runs_in R (service_running (set_env X) s)"
    and "\<And>cfg. runs_in R (wait_for_running_version (set_env X) cfg)"
    and "\<And>cfg. runs_in R (collect_upload_metadata (set_env X) (set_codec X) (set_float X) (set_collector X) m cfg)"
  shows "runs_in (on_machine R) (update_status X m)"
  unfolding update_status_def Let_def bitcoind_binary_installed_def rpc_proxy_binary_installed_def path_exists_def
  by (intro up.resp_bind up.resp_seq up.resp_if up_host up_put up_status up_case_error assms resp_get) simp

lemmas up_rules = up.resp_bind up.resp_seq up.resp_get up.resp_if up_host up_status up_results up_record

end

section \<open>Files\<close>

interpretation mf: machine_lift "same_outside S" for S ..

lemma touches_rpc_call [frame]: "touches S (rpc_call E C cfg method params)"
  unfolding rpc_call_def by (intro frame)

lemma touches_client_version [frame]: "touches S (client_version E s)"
  unfolding client_version_def by (intro frame)

lemma touches_build [frame]: "touches S (build_runtime_metadata E C f cfg)"
  unfolding build_runtime_metadata_def Let_def by (intro frame)

lemma touches_collect [frame]:
  "collector_runs (same_outside S) K \<Longrightarrow> touches S (collect_upload_metadata E C f K m cfg)"
  unfolding collect_upload_metadata_def Let_def by (intro frame) (simp_all add: collector_runs_def)

lemma touches_update_status:
  assumes "collector_runs (same_outside S) (set_collector X)"
  shows "runs_in (on_machine (same_outside S)) (update_status X m)"
  by (intro mf.up_update_status frame assms)

lemma touches_if_proxy [frame]: "touches S m \<Longrightarrow> touches S (if_proxy_installed m)"
  unfolding if_proxy_installed_def by (intro frame)

text \<open>Only installation and a changed configuration write files the charm manages.\<close>

lemma handler_files:
  assumes "collector_runs (same_outside S) (set_collector X)" and "ev \<noteq> ConfigChanged" "ev \<noteq> InstallHook"
  shows "runs_in (on_machine (same_outside S)) (handler X m ev)"
  using assms(2,3)
  by (cases ev; simp only: handler.simps handler_defs on_upgrade_charm_def on_update_status_def Let_def simp_thms;
      intro mf.up_rules touches_update_status assms(1) frame)

section \<open>Installation\<close>

lemma install_renders:
  assumes tmp: "tempfile_ok (set_env X)" and run: "on_install X m c = (c', Inr u)"
  shows "rendered (charm_config m) (machine c')"
proof -
  let ?E = "set_env X" and ?cfg = "charm_config m"
  let ?n = "default_file SERVICE_NAME" and ?m = "default_file MONITOR_SERVICE_NAME" and ?p = "default_file RPC_PROXY_SERVICE_NAME"
  from run obtain v0 v1 v2 v3 v4 x1 x2 x3 x4 where
    r1: "update_service_args ?E ?cfg False v0 = (v1, Inr x1)"
    and r2: "install_service_file ?E (''templates/'' @ MONITOR_SERVICE_NAME @ ''.service'') MONITOR_SERVICE_NAME v1 = (v2, Inr x2)"
    and r3: "install_bitcoind_monitor ?E ?cfg False v2 = (v3, Inr x3)"
    and r4: "install_rpc_proxy ?E (cfg_str ?cfg ''rpc-proxy-version'') v3 = (v4, Inr x4)"
    and r5: "seqIO (install_rpc_proxy_service ?E ?cfg False) (chown ?E) v4 = (machine c', Inr u)"
    unfolding on_install_def Let_def do_install_bitcoind_def do_install_bitcoind_monitor_def do_install_rpc_proxy_def
    by (auto simp: unit_inv)
  from r5 obtain v5 x5 where r5: "install_rpc_proxy_service ?E ?cfg False v4 = (v5, Inr x5)"
    and r6: "chown ?E v5 = (machine c', Inr u)" unfolding seqIO_Inr_iff by blast
  have low: "py_lower MONITOR_SERVICE_NAME = MONITOR_SERVICE_NAME" by code_simp
  have "touches {unit_file MONITOR_SERVICE_NAME} (install_service_file ?E s MONITOR_SERVICE_NAME)" for s
    by (intro frame) (simp add: low)
  note k2 = data_kept [OF this r2]
  have "touches {MONITOR_SCRIPT_PATH, ?m} (install_bitcoind_monitor ?E ?cfg False)" by (intro frame) simp_all
  note k3 = data_kept [OF this r3]
  have "touches ({RPC_PROXY_BINARY_PATH} \<union> proxy_temps) (install_rpc_proxy ?E v)" for v
    by (intro touches_install_proxy [OF tmp]) auto
  note k4 = data_kept [OF this r4]
  have "touches {unit_file RPC_PROXY_SERVICE_NAME, ?p} (install_rpc_proxy_service ?E ?cfg False)" by (intro frame) simp_all
  note k5 = data_kept [OF this r5]
  note k6 = data_kept [OF touches_chown [of "{}"] r6]
  note apart = default_files_apart(1-3) default_files_apart(1-3) [THEN not_sym] default_files_apart(4)
  have n: "data_of v1 ?n = Some (node_env_content ?cfg)" using update_service_args_data [OF r1] by simp
  show ?thesis
    unfolding rendered_def
    using n k2 [of ?n] k3 [of ?n] k4 [of ?n] k5 [of ?n] k6 [of ?n] monitor_env_written [OF r3] k4 [of ?m] k5 [of ?m] k6 [of ?m]
      proxy_env_written [OF r5] k6 [of ?p] apart by auto
qed

section \<open>A changed configuration\<close>

text \<open>The handler up to its status update: it recorded the event, then the transaction failed or was committed.\<close>

lemma config_changed_cases:
  fixes c :: "'h charm"
  assumes run: "on_config_changed X m c = (c', r)"
  obtains (failed) c1 w e where
      "apply_config_transaction (set_env X) (charm_config m) (previous_config (charm_config m) c)
         (fst ` set (changed_pairs (charm_config m) c)) (machine c1) = (w, Inl e)"
      "r = Inl e" "c' = c1\<lparr>machine := w\<rparr>" "files (machine c1) = files (machine c)" "stored c1 = stored c"
  | (applied) c1 w where
      "apply_config_transaction (set_env X) (charm_config m) (previous_config (charm_config m) c)
         (fst ` set (changed_pairs (charm_config m) c)) (machine c1) = (w, Inr ())"
      "update_status X m (commit_config (charm_config m) (fst ` set (changed_pairs (charm_config m) c)) (c1\<lparr>machine := w\<rparr>)) = (c', r)"
      "files (machine c1) = files (machine c)" "stored c1 = stored c"
proof -
  let ?cfg = "charm_config m"
  obtain c1 q where c1: "record_event (set_env X)
      (if config_change_summary (set_codec X) ?cfg c \<noteq> [] then ''config-changed  '' @ config_change_summary (set_codec X) ?cfg c else ''config-changed'') c = (c1, q)"
    (is "record_event _ ?name _ = _") by (cases "record_event (set_env X) ?name c")
  have q: "q = Inr ()" using c1 by (auto simp: record_event_def bindIO_run on_host_def utcnow_def split: prod.splits)
  have st: "stored c1 = stored c" using runs_inD [OF record_same_stored c1] by (simp add: same_stored_def)
  have "touches {} (utcnow (set_env X))" by (intro frame)
  from runs_inD [OF mf.up_record [OF this] c1] have fs: "files (machine c1) = files (machine c)"
    by (auto simp: on_machine_def same_outside_def)
  have K: "changed_pairs ?cfg c1 = changed_pairs ?cfg c" and P: "previous_config ?cfg c1 = previous_config ?cfg c"
    using st by (simp_all add: changed_pairs_def previous_config_def stored_value_def)
  obtain w x where w: "apply_config_transaction (set_env X) ?cfg (previous_config ?cfg c) (fst ` set (changed_pairs ?cfg c)) (machine c1) = (w, x)"
    by (cases "apply_config_transaction (set_env X) ?cfg (previous_config ?cfg c) (fst ` set (changed_pairs ?cfg c)) (machine c1)")
  have run': "bindIO (getIO (\<lambda>c. fst ` set (changed_pairs ?cfg c))) (\<lambda>changed_keys.
      bindIO (getIO (previous_config ?cfg)) (\<lambda>previous.
      seqIO (on_host (apply_config_transaction (set_env X) ?cfg previous changed_keys))
      (seqIO (putIO (commit_config ?cfg changed_keys)) (update_status X m)))) c1 = (c', r)"
    using run c1 q by (simp add: on_config_changed_def Let_def bindIO_run [of "getIO _"] seqIO_run [of "record_event _ _"])
  show thesis
  proof (cases x)
    case (Inl e)
    show thesis
    proof (rule failed)
      show "r = Inl e" "c' = c1\<lparr>machine := w\<rparr>" using run' w Inl K P by (auto simp: bindIO_run seqIO_run on_host_def)
    qed (use w Inl fs st in simp_all)
  next
    case (Inr y)
    show thesis
    proof (rule applied)
      show "update_status X m (commit_config ?cfg (fst ` set (changed_pairs ?cfg c)) (c1\<lparr>machine := w\<rparr>)) = (c', r)"
        using run' w Inr K P by (simp add: bindIO_run seqIO_run on_host_def)
    qed (use w Inr fs st in simp_all)
  qed
qed

text \<open>Every tracked value is stored afterwards, or none was touched.\<close>

definition config_stored :: "config \<Rightarrow> 'h charm \<Rightarrow> bool" where
  "config_stored cfg c \<longleftrightarrow> list_all (\<lambda>(k, a). stored_value c a = cfg_get cfg k) TRACKED_CONFIG"

lemma commit_config_stores:
  assumes "stored c1 = stored c"
  shows "config_stored cfg (commit_config cfg (fst ` set (changed_pairs cfg c)) c1)"
proof -
  have "stored (commit_config cfg K c1) = stored (commit_config cfg K c)" for K
    using assms by (simp add: commit_config_def)
  then show ?thesis using commit_config_value [of _ _ cfg c]
    by (auto simp: config_stored_def list_all_iff stored_value_def)
qed

lemma config_changed_stored:
  assumes "on_config_changed X m c = (c', r)"
  shows "config_stored (charm_config m) c' \<or> (\<exists>e. r = Inl e \<and> stored c' = stored c)"
  using assms
proof (cases rule: config_changed_cases)
  case (applied c1 w)
  from runs_inD [OF ss.resp_update_status applied(2)]
  have "stored c' = stored (commit_config (charm_config m) (fst ` set (changed_pairs (charm_config m) c)) (c1\<lparr>machine := w\<rparr>))"
    by (simp add: same_stored_def)
  moreover have "config_stored (charm_config m) (commit_config (charm_config m) (fst ` set (changed_pairs (charm_config m) c)) (c1\<lparr>machine := w\<rparr>))"
    using applied(4) by (intro commit_config_stores) simp
  ultimately show ?thesis by (simp add: config_stored_def stored_value_def)
qed simp_all

section \<open>The generation on disk\<close>

text \<open>The configuration the charm has stored.\<close>

definition stored_config :: "'h charm \<Rightarrow> config" where
  "stored_config c = previous_config Map.empty c"

lemma rendered_cong:
  assumes "\<And>k a. (k, a) \<in> set TRACKED_CONFIG \<Longrightarrow> cfg_get cfg k = cfg_get cfg' k"
  shows "rendered cfg w \<longleftrightarrow> rendered cfg' w"
proof -
  let ?other = "- fst ` set TRACKED_CONFIG"
  have eq: "cfg_get cfg k = cfg_get cfg' k" if "k \<notin> ?other" for k using assms that by auto
  have "\<not> node_changed ?other" "\<not> credentials_changed ?other" "\<not> proxy_changed ?other"
    by (auto simp: node_changed_def credentials_changed_def proxy_changed_def TRACKED_CONFIG_def)
  with contents_cong [of ?other cfg cfg', OF eq] show ?thesis by (simp add: rendered_def)
qed

lemma rendered_previous: "rendered (previous_config cfg c) w \<longleftrightarrow> rendered (stored_config c) w"
  unfolding stored_config_def by (rule rendered_cong) (simp add: previous_config_get)

lemma rendered_stored: "config_stored cfg c \<Longrightarrow> rendered (stored_config c) w \<longleftrightarrow> rendered cfg w"
  unfolding stored_config_def
  by (rule rendered_cong) (auto simp: previous_config_get config_stored_def list_all_iff)

lemma rendered_files: "(\<And>s. files w' (default_file s) = files w (default_file s)) \<Longrightarrow> rendered cfg w' = rendered cfg w"
  by (simp add: rendered_def data_of_def)

abbreviation metadata_files :: "path set" where
  "metadata_files \<equiv> {p. inside METADATA_DIR p}"

lemma default_not_metadata: "default_file s \<notin> metadata_files"
  by (simp add: inside_def METADATA_DIR_def default_file_def starts_with_iff)

lemma update_status_rendered:
  assumes "collector_runs (same_outside metadata_files) (set_collector X)" and "update_status X m c = (c', r)"
  shows "rendered cfg (machine c') = rendered cfg (machine c)"
  using runs_inD [OF touches_update_status [OF assms(1)] assms(2)] default_not_metadata
  by (intro rendered_files) (simp add: on_machine_def same_outside_def)

lemma transaction_applied_renders:
  assumes "tempfile_ok E" and "rendered (stored_config c) (machine c)" and "files w = files (machine c)"
    and "apply_config_transaction E cfg (previous_config cfg c) (fst ` set (changed_pairs cfg c)) w = (w', Inr u)"
  shows "rendered cfg w'"
proof (rule transaction_renders [OF assms(1) _ _ assms(4)])
  show "rendered (previous_config cfg c) w"
    using assms(2,3) rendered_files [of w "machine c"] by (simp add: rendered_previous)
qed (rule changed_keys_cover)

lemma config_changed_renders:
  assumes tmp: "tempfile_ok (set_env X)" and coll: "collector_runs (same_outside metadata_files) (set_collector X)"
    and old: "rendered (stored_config c) (machine c)" and run: "on_config_changed X m c = (c', Inr u)"
  shows "rendered (charm_config m) (machine c')"
  using run
proof (cases rule: config_changed_cases)
  case (applied c1 w)
  have "rendered (charm_config m) w" by (rule transaction_applied_renders [OF tmp old applied(3,1)])
  with update_status_rendered [OF coll applied(2)] show ?thesis by (simp add: commit_config_def)
qed simp

text \<open>
  A configuration change that raises before anything was committed leaves the old generation on disk.
\<close>

lemma config_changed_raised:
  assumes tmp: "tempfile_ok (set_env X)" and coll: "collector_runs (same_outside metadata_files) (set_collector X)"
    and reg: "regular (machine c)" and old: "rendered (stored_config c) (machine c)"
    and run: "on_config_changed X m c = (c', Inl e)" and st: "stored c' = stored c"
    and ok: "\<not> config_rollback_reported e" "\<not> status_spawn_failed (set_env X) e"
  shows "rendered (stored_config c') (machine c')"
proof -
  have same: "stored_config c' = stored_config c"
    using st by (simp add: stored_config_def previous_config_def stored_value_def)
  from run show ?thesis
  proof (cases rule: config_changed_cases)
    case (failed c1 w e')
    have "regular (machine c1)" using reg failed(4) by (simp add: regular_def)
    from transaction_failure [OF tmp this failed(1)] ok failed(2)
    have "\<forall>p \<in> set transaction_paths. files w p = files (machine c) p" using failed(4) by simp
    then have "data_of w p = data_of (machine c) p" if "p \<in> set transaction_paths" for p
      using that by (simp add: data_of_def)
    then have "rendered (stored_config c) w = rendered (stored_config c) (machine c)"
      by (simp add: rendered_def transaction_paths_def)
    with old failed(3) same show ?thesis by simp
  next
    case (applied c1 w)
    have "config_stored (charm_config m) c'"
    proof -
      have "stored c' = stored (commit_config (charm_config m) (fst ` set (changed_pairs (charm_config m) c)) (c1\<lparr>machine := w\<rparr>))"
        using runs_inD [OF ss.resp_update_status applied(2)] by (simp add: same_stored_def)
      with commit_config_stores [of "c1\<lparr>machine := w\<rparr>" c "charm_config m"] applied(4) show ?thesis
        by (simp add: config_stored_def stored_value_def)
    qed
    have "rendered (charm_config m) w" by (rule transaction_applied_renders [OF tmp old applied(3,1)])
    with update_status_rendered [OF coll applied(2)] rendered_stored [OF \<open>config_stored _ c'\<close>, of w] show ?thesis
      by (simp add: commit_config_def)
  qed
qed

text \<open>Handling a configuration that is already stored touches no managed file.\<close>

lemma stored_change_is_idle:
  assumes "collector_runs (same_outside metadata_files) (set_collector X)" and "config_stored (charm_config m) c"
    and "on_config_changed X m c = (d, r)" and "\<not> inside METADATA_DIR p"
  shows "files (machine d) p = files (machine c) p"
proof -
  have nil: "changed_pairs (charm_config m) c = []" using assms(2) unfolding changed_pairs_nil config_stored_def list_all_iff .
  from assms(3) show ?thesis
  proof (cases rule: config_changed_cases)
    case (failed c1 w e)
    with nil show ?thesis by (simp add: apply_config_transaction_def)
  next
    case (applied c1 w)
    with nil have "w = machine c1" by (simp add: apply_config_transaction_def)
    moreover have "files (machine d) p = files w p"
      using runs_inD [OF touches_update_status [OF assms(1)] applied(2)] assms(4)
      by (simp add: on_machine_def same_outside_def commit_config_def)
    ultimately show ?thesis using applied(3) by simp
  qed
qed

end
