(* ===== verification/Charm_Trace.thy ===== *)
theory Charm_Trace
  imports Charm_Machine
begin

text \<open>
  The service commands a handler issues. The environment is wrapped so that it records every
  \<open>systemctl start\<close>, \<open>stop\<close> and \<open>restart\<close>, in order, and answers as before. \<open>machine_lift\<close> is interpreted
  for the relation "no further command was recorded"; the predicate \<open>issues\<close> says which commands an
  operation records, all of them when it returns and a prefix when it raises.
\<close>

section \<open>Recording\<close>

definition service_change :: "string list \<Rightarrow> bool" where
  "service_change cmd = (case cmd of
      [program, verb, service] \<Rightarrow> program = ''systemctl'' \<and> verb \<in> set [''start'', ''stop'', ''restart'']
    | _ \<Rightarrow> False)"

definition recording :: "'h env \<Rightarrow> ('h \<times> string list list) env" where
  "recording E = \<lparr>
     env_fault = (\<lambda>op (h, t). case env_fault E op h of (h', r) \<Rightarrow> ((h', t), r)),
     env_mkstemp = (\<lambda>d p fs (h, t). case env_mkstemp E d p fs h of (h', r) \<Rightarrow> ((h', t), r)),
     env_mkdtemp = (\<lambda>d p fs (h, t). case env_mkdtemp E d p fs h of (h', r) \<Rightarrow> ((h', t), r)),
     env_run = (\<lambda>cmd fs (h, t). case env_run E cmd fs h of
        (h', r) \<Rightarrow> ((h', if service_change cmd then t @ [cmd] else t), r)),
     env_get = (\<lambda>u (h, t). case env_get E u h of (h', r) \<Rightarrow> ((h', t), r)),
     env_post = (\<lambda>u a b c (h, t). case env_post E u a b c h of (h', r) \<Rightarrow> ((h', t), r)),
     env_sleep = (\<lambda>k (h, t). (env_sleep E k h, t)),
     env_utcnow = (\<lambda>(h, t). case env_utcnow E h of (h', r) \<Rightarrow> ((h', t), r)),
     env_new_mode = env_new_mode E,
     env_failed_cmd = env_failed_cmd E,
     env_http_error = env_http_error E,
     env_sha256 = env_sha256 E,
     env_untar = env_untar E,
     env_bracket_host = env_bracket_host E,
     env_is_dir = (\<lambda>p (h, t). env_is_dir E p h)\<rparr>"

abbreviation trace :: "('h \<times> string list list) world \<Rightarrow> string list list" where
  "trace w \<equiv> snd (host w)"

definition same_trace :: "('h \<times> string list list) world \<Rightarrow> ('h \<times> string list list) world \<Rightarrow> bool" where
  "same_trace w w' \<longleftrightarrow> trace w' = trace w"

interpretation mt: machine_lift same_trace
  by unfold_locales (simp_all add: same_trace_def)

named_theorems quiet \<open>operations that record no service command\<close>

lemmas quiet_rules [quiet] = mt.resp_rules

lemma quiet_case [quiet]:
  "(x = None \<Longrightarrow> runs_in same_trace m) \<Longrightarrow> (\<And>y. x = Some y \<Longrightarrow> runs_in same_trace (k y)) \<Longrightarrow>
   runs_in same_trace (case x of None \<Rightarrow> m | Some y \<Rightarrow> k y)"
  "(\<And>e. z = Inl e \<Longrightarrow> runs_in same_trace (f e)) \<Longrightarrow> (\<And>y. z = Inr y \<Longrightarrow> runs_in same_trace (g y)) \<Longrightarrow>
   runs_in same_trace (case z of Inl e \<Rightarrow> f e | Inr y \<Rightarrow> g y)"
  "(l = [] \<Longrightarrow> runs_in same_trace a) \<Longrightarrow> (\<And>y ys. l = y # ys \<Longrightarrow> runs_in same_trace (b y ys)) \<Longrightarrow>
   runs_in same_trace (case l of [] \<Rightarrow> a | y # ys \<Rightarrow> b y ys)"
  by (simp_all split: option.splits sum.splits list.splits)

lemma quiet_fs_check [quiet]: "runs_in same_trace (fs_check (recording E) op)"
  by (auto simp: runs_in_def fs_check_def same_trace_def recording_def split: prod.splits option.splits)

lemma quiet_run: "\<not> service_change cmd \<Longrightarrow> runs_in same_trace (run_proc (recording E) cmd)"
  by (auto simp: runs_in_def run_proc_def same_trace_def recording_def split: prod.splits)

lemma quiet_run_check: "\<not> service_change cmd \<Longrightarrow> runs_in same_trace (run_check (recording E) cmd)"
  unfolding run_check_def by (intro quiet quiet_run)

lemma quiet_world [quiet]:
  "runs_in same_trace (path_exists p)" "runs_in same_trace (dir_or_file_exists (recording E) p)"
  "runs_in same_trace (requests_post (recording E) url user pw body)"
  "runs_in same_trace (raise_for_status (recording E) url r)"
  "runs_in same_trace (sleep (recording E) n)" "runs_in same_trace (utcnow (recording E))"
  by (auto simp: runs_in_def path_exists_def dir_or_file_exists_def requests_post_def raise_for_status_def sleep_def
      utcnow_def same_trace_def recording_def split: prod.splits)

lemma quiet_read [quiet]: "runs_in same_trace (read_file (recording E) p)"
  unfolding read_file_def
  by (intro quiet) (auto simp: runs_in_def same_trace_def split: option.splits)

section \<open>Operations that only look\<close>

lemma not_service_change [simp]:
  "\<not> service_change (''cat'' # cmd)" "\<not> service_change (''pgrep'' # cmd)" "\<not> service_change (''service'' # cmd)"
  "\<not> service_change (''du'' # cmd)" "\<not> service_change (''systemctl'' # ''show'' # cmd)"
  "\<not> service_change [p, a]"
  by (auto simp: service_change_def split: list.splits)

lemma quiet_status [quiet]: "runs_in same_trace (get_status (recording E) s)"
  unfolding get_status_def by (intro quiet quiet_run not_service_change)

lemma quiet_poll [quiet]: "runs_in same_trace (poll_service (recording E) s n)"
proof (induction n)
  case 0
  show ?case unfolding poll_service.simps by (intro quiet)
next
  case (Suc n)
  then show ?case unfolding poll_service.simps by (intro quiet)
qed

lemma quiet_service_running [quiet]: "runs_in same_trace (service_running (recording E) s)"
  unfolding service_running_def by (intro quiet)

lemma quiet_probe [quiet]: "runs_in same_trace (probe_version (recording E) cfg)"
  unfolding probe_version_def by (intro quiet)

lemma quiet_poll_version [quiet]: "runs_in same_trace (poll_version (recording E) cfg n)"
proof (induction n)
  case 0
  show ?case unfolding poll_version.simps by (intro quiet)
next
  case (Suc n)
  then show ?case unfolding poll_version.simps by (intro quiet)
qed

lemma quiet_wait [quiet]: "runs_in same_trace (wait_for_running_version (recording E) cfg)"
  unfolding wait_for_running_version_def by (intro quiet)

lemma quiet_binary [quiet]:
  "runs_in same_trace bitcoind_binary_installed" "runs_in same_trace rpc_proxy_binary_installed"
  unfolding bitcoind_binary_installed_def rpc_proxy_binary_installed_def by (intro quiet)+

lemma quiet_version_of_binary [quiet]: "runs_in same_trace (version_of_binary (recording E) b r)"
  unfolding version_of_binary_def by (intro quiet quiet_run_check not_service_change)

lemma quiet_versions [quiet]:
  "runs_in same_trace (get_version (recording E))" "runs_in same_trace (get_rpc_proxy_version (recording E))"
  unfolding get_version_def get_rpc_proxy_version_def by (intro quiet)+

lemma quiet_info [quiet]:
  "runs_in same_trace (get_client_help_output (recording E))" "runs_in same_trace (get_client_proc_cmdline (recording E))"
  "runs_in same_trace (get_service_args (recording E))" "runs_in same_trace (get_rpc_proxy_env (recording E))"
  "runs_in same_trace (get_readme (recording E))"
  unfolding get_client_help_output_def get_client_proc_cmdline_def get_service_args_def get_rpc_proxy_env_def get_readme_def
  by (intro quiet quiet_run not_service_change)+

lemma quiet_disk_usage [quiet]: "runs_in same_trace (get_disk_usage (recording E) paths)"
proof -
  have "runs_in same_trace (disk_usages (recording E) ps)" for ps
  proof (induction ps)
    case Nil
    show ?case unfolding disk_usages.simps by (intro quiet)
  next
    case (Cons p ps)
    then show ?case unfolding disk_usages.simps by (intro quiet quiet_run not_service_change)
  qed
  then show ?thesis unfolding get_disk_usage_def by (intro quiet)
qed

lemma quiet_charm_version [quiet]: "runs_in same_trace (get_charm_version (recording E))"
proof -
  have "runs_in same_trace (first_version (recording E) ps)" for ps
  proof (induction ps)
    case Nil
    show ?case unfolding first_version.simps by (intro quiet)
  next
    case (Cons p ps)
    then show ?case unfolding first_version.simps by (intro quiet)
  qed
  then show ?thesis unfolding get_charm_version_def .
qed

lemma quiet_limits [quiet]: "runs_in same_trace (get_systemd_limits (recording E) s)"
  unfolding get_systemd_limits_def Let_def by (intro quiet quiet_run_check not_service_change)

lemma quiet_rpc_call [quiet]: "runs_in same_trace (rpc_call (recording E) C cfg method params)"
  unfolding rpc_call_def by (intro quiet)

lemma quiet_build [quiet]: "runs_in same_trace (build_runtime_metadata (recording E) C f cfg)"
  unfolding build_runtime_metadata_def client_version_def Let_def by (intro quiet)

lemma quiet_collect [quiet]:
  "collector_runs same_trace K \<Longrightarrow> runs_in same_trace (collect_upload_metadata (recording E) C f K m cfg)"
  unfolding collect_upload_metadata_def Let_def by (intro quiet) (simp_all add: collector_runs_def)

section \<open>Operations that issue commands\<close>

definition proxy_there :: "'h world \<Rightarrow> bool" where
  "proxy_there w \<longleftrightarrow> files w RPC_PROXY_BINARY_PATH \<noteq> None"

text \<open>On a machine with (or without) the proxy binary, the commands recorded are \<open>cs\<close>, or a prefix when it raises.\<close>

definition issues :: "bool \<Rightarrow> string list list \<Rightarrow> (('h \<times> string list list) charm, 'a) io \<Rightarrow> bool" where
  "issues b cs m \<longleftrightarrow> (\<forall>c c' r. proxy_there (machine c) = b \<longrightarrow> m c = (c', r) \<longrightarrow>
     proxy_there (machine c') = b
     \<and> (\<exists>n. trace (machine c') = trace (machine c) @ take n cs \<and> ((\<exists>x. r = Inr x) \<longrightarrow> length cs \<le> n)))"

lemma issuesD:
  assumes "issues b cs m" and "proxy_there (machine c) = b" and "m c = (c', r)"
  obtains n where "proxy_there (machine c') = b" "trace (machine c') = trace (machine c) @ take n cs"
    "(\<exists>x. r = Inr x) \<longrightarrow> length cs \<le> n"
  using assms unfolding issues_def by blast

lemma issues_quiet:
  assumes "runs_in (on_machine same_trace) m" and "runs_in (on_machine (same_outside S)) m" and "RPC_PROXY_BINARY_PATH \<notin> S"
  shows "issues b [] m"
  unfolding issues_def
proof (intro allI impI)
  fix c c' r assume b: "proxy_there (machine c) = b" and run: "m c = (c', r)"
  from runs_inD [OF assms(2) run] assms(3) b have "proxy_there (machine c') = b"
    by (simp add: proxy_there_def on_machine_def same_outside_def)
  moreover from runs_inD [OF assms(1) run] have "trace (machine c') = trace (machine c)"
    by (simp add: on_machine_def same_trace_def)
  ultimately show "proxy_there (machine c') = b \<and>
      (\<exists>n. trace (machine c') = trace (machine c) @ take n [] \<and> ((\<exists>x. r = Inr x) \<longrightarrow> length ([] :: string list list) \<le> n))" by simp
qed

lemma issues_bind:
  assumes m: "issues b cs m" and k: "\<And>x. issues b ds (k x)"
  shows "issues b (cs @ ds) (bindIO m k)"
  unfolding issues_def
proof (intro allI impI)
  fix c c' r assume b: "proxy_there (machine c) = b" and run: "bindIO m k c = (c', r)"
  obtain d q where d: "m c = (d, q)" by (cases "m c")
  from m b d obtain n where n: "proxy_there (machine d) = b" "trace (machine d) = trace (machine c) @ take n cs"
    "(\<exists>x. q = Inr x) \<longrightarrow> length cs \<le> n" by (rule issuesD)
  show "proxy_there (machine c') = b \<and>
      (\<exists>n. trace (machine c') = trace (machine c) @ take n (cs @ ds) \<and> ((\<exists>x. r = Inr x) \<longrightarrow> length (cs @ ds) \<le> n))"
  proof (cases q)
    case (Inl e)
    with run d have "c' = d" "r = Inl e" by (simp_all add: bindIO_run)
    moreover have "take (min n (length cs)) (cs @ ds) = take n cs" by (simp add: min_def)
    ultimately show ?thesis using n(1,2) by (intro conjI exI [of _ "min n (length cs)"]) simp_all
  next
    case (Inr x)
    with run d have "k x d = (c', r)" by (simp add: bindIO_run)
    with k n(1) obtain n' where n': "proxy_there (machine c') = b" "trace (machine c') = trace (machine d) @ take n' ds"
      "(\<exists>x. r = Inr x) \<longrightarrow> length ds \<le> n'" by (rule issuesD)
    from n(2,3) n'(2) Inr have "trace (machine c') = trace (machine c) @ take (length cs + n') (cs @ ds)" by simp
    with n'(1,3) show ?thesis by (intro conjI exI [of _ "length cs + n'"]) auto
  qed
qed

lemma issues_seq: "issues b cs m \<Longrightarrow> issues b ds k \<Longrightarrow> issues b (cs @ ds) (seqIO m k)"
  unfolding seqIO_def by (rule issues_bind)

lemma issues_systemctl:
  assumes "verb \<in> set [''start'', ''stop'', ''restart'']"
  shows "issues b [[''systemctl'', verb, s]] (on_host (systemctl (recording E) verb s))"
  unfolding issues_def
proof (intro allI impI)
  fix c c' :: "('a \<times> string list list) charm" and r
  assume b: "proxy_there (machine c) = b" and run: "on_host (systemctl (recording E) verb s) c = (c', r)"
  have "runs_in (on_machine (same_outside {})) (on_host (systemctl (recording E) verb s))" by (intro mf.up_host frame)
  from runs_inD [OF this run] b have "proxy_there (machine c') = b" by (simp add: proxy_there_def on_machine_def same_outside_def)
  moreover have "trace (machine c') = trace (machine c) @ [[''systemctl'', verb, s]]"
    using run assms
    by (auto simp: on_host_def systemctl_def run_check_def run_proc_def recording_def service_change_def bindIO_run
        split: prod.splits sum.splits if_splits)
  ultimately show "proxy_there (machine c') = b \<and> (\<exists>n. trace (machine c') = trace (machine c) @ take n [[''systemctl'', verb, s]]
      \<and> ((\<exists>x. r = Inr x) \<longrightarrow> length [[''systemctl'', verb, s]] \<le> n))" by (intro conjI exI [of _ 1]) simp_all
qed

lemma issues_if_proxy:
  assumes "issues b cs (on_host m)"
  shows "issues b (if b then cs else []) (on_host (if_proxy_installed m))"
proof -
  have "on_host (if_proxy_installed m) c = (if proxy_there (machine c) then on_host m c else (c, Inr ()))" for c
    by (simp add: on_host_def if_proxy_installed_def rpc_proxy_binary_installed_def path_exists_def proxy_there_def bindIO_run)
  with assms show ?thesis by (auto simp: issues_def)
qed

section \<open>Handlers\<close>

text \<open>The commands of each handler; the boolean tells whether the proxy binary is installed.\<close>

fun service_commands :: "bool \<Rightarrow> event \<Rightarrow> string list list" where
  "service_commands b StartHook =
     [[''systemctl'', ''start'', SERVICE_NAME]] @ [[''systemctl'', ''start'', MONITOR_SERVICE_NAME]]
     @ (if b then [[''systemctl'', ''start'', RPC_PROXY_SERVICE_NAME]] else [])"
| "service_commands b StopHook =
     [[''systemctl'', ''stop'', SERVICE_NAME]] @ [[''systemctl'', ''stop'', MONITOR_SERVICE_NAME]]
     @ [[''systemctl'', ''stop'', RPC_PROXY_SERVICE_NAME]]"
| "service_commands b RestartNode =
     [[''systemctl'', ''stop'', SERVICE_NAME]] @ [[''systemctl'', ''start'', SERVICE_NAME]]
     @ (if b then [[''systemctl'', ''restart'', RPC_PROXY_SERVICE_NAME]] else [])"
| "service_commands b StartNode =
     [[''systemctl'', ''start'', SERVICE_NAME]] @ [[''systemctl'', ''start'', MONITOR_SERVICE_NAME]]
     @ (if b then [[''systemctl'', ''start'', RPC_PROXY_SERVICE_NAME]] else [])"
| "service_commands b StopNode =
     [[''systemctl'', ''stop'', MONITOR_SERVICE_NAME]] @ [[''systemctl'', ''stop'', SERVICE_NAME]]
     @ [[''systemctl'', ''stop'', RPC_PROXY_SERVICE_NAME]]"
| "service_commands b ev = []"

lemma proxy_not_metadata: "RPC_PROXY_BINARY_PATH \<notin> metadata_files"
  by (simp add: inside_def METADATA_DIR_def constant_defs starts_with_iff)

definition collector_quiet :: "('h \<times> string list list) collector \<Rightarrow> bool" where
  "collector_quiet K \<longleftrightarrow> collector_runs same_trace K \<and> collector_runs (same_outside metadata_files) K"

lemma unit_issues:
  assumes env: "set_env X = recording E" and coll: "collector_quiet (set_collector X)"
  shows "issues b [] (record_event (set_env X) name)" "issues b [] (set_status st)"
    "issues b [] (set_action_results C res)" "issues b [] (update_status X m)"
proof -
  note rules = issues_quiet [OF _ _ proxy_not_metadata]
  show "issues b [] (record_event (set_env X) name)" unfolding env by (intro rules mt.up_record mf.up_record quiet frame)
  show "issues b [] (set_status st)" "issues b [] (set_action_results C res)"
    by (intro rules mt.up_status mf.up_status mt.up_results mf.up_results)+
  have t: "collector_runs same_trace (set_collector X)" and f: "collector_runs (same_outside metadata_files) (set_collector X)"
    using coll by (simp_all add: collector_quiet_def)
  have "runs_in (on_machine same_trace) (update_status X m)"
    by (rule mt.up_update_status) (unfold env, (intro quiet t)+)
  then show "issues b [] (update_status X m)" by (rule rules [OF _ touches_update_status [OF f]])
qed

lemma host_issues:
  assumes "runs_in same_trace m" and "touches {} m"
  shows "issues b [] (on_host m)"
  by (rule issues_quiet [OF mt.up_host [OF assms(1)] mf.up_host [OF assms(2)]]) simp

lemma service_issues:
  "issues b [[''systemctl'', ''start'', SERVICE_NAME]] (on_host (start_service (recording E)))"
  "issues b [[''systemctl'', ''stop'', SERVICE_NAME]] (on_host (stop_service (recording E)))"
  "issues b [[''systemctl'', ''start'', MONITOR_SERVICE_NAME]] (on_host (start_monitor (recording E)))"
  "issues b [[''systemctl'', ''stop'', MONITOR_SERVICE_NAME]] (on_host (stop_monitor (recording E)))"
  "issues b [[''systemctl'', ''start'', RPC_PROXY_SERVICE_NAME]] (on_host (start_rpc_proxy (recording E)))"
  "issues b [[''systemctl'', ''stop'', RPC_PROXY_SERVICE_NAME]] (on_host (stop_rpc_proxy (recording E)))"
  "issues b [[''systemctl'', ''restart'', RPC_PROXY_SERVICE_NAME]] (on_host (restart_rpc_proxy (recording E)))"
  unfolding service_defs by (intro issues_systemctl; simp)+

text \<open>Sequencing with what issues nothing.\<close>

lemma issues_then: "issues b [] m \<Longrightarrow> issues b cs k \<Longrightarrow> issues b cs (seqIO m k)"
  using issues_seq [of b "[]" m cs k] by simp

lemma issues_bind_then: "issues b [] m \<Longrightarrow> (\<And>x. issues b cs (k x)) \<Longrightarrow> issues b cs (bindIO m k)"
  using issues_bind [of b "[]" m cs k] by simp

lemma issues_last: "issues b cs m \<Longrightarrow> issues b [] k \<Longrightarrow> issues b cs (seqIO m k)"
  using issues_seq [of b cs m "[]" k] by simp

lemma issues_get: "issues b [] (getIO f)"
  by (rule issues_quiet [OF mt.up.resp_get mf.up.resp_get [of "{}"]]) simp

lemma handler_issues:
  assumes env: "set_env X = recording E" and coll: "collector_quiet (set_collector X)"
    and ev: "ev \<noteq> ConfigChanged" "ev \<noteq> InstallHook"
  shows "issues b (service_commands b ev) (handler X m ev)"
proof -
  note u = unit_issues [OF env coll, unfolded env]
  note s = service_issues
  have q: "issues b [] (handler X m UpdateStatus)" "issues b [] (handler X m UpgradeCharm)" "issues b [] (handler X m GetNodeHelp)"
    "issues b [] (handler X m GetNodeInfo)" "issues b [] (handler X m PrintEventLog)" "issues b [] (handler X m PrintReadme)"
    unfolding handler.simps handler_defs on_upgrade_charm_def on_update_status_def Let_def env
    by (intro issues_then issues_bind_then u issues_get host_issues quiet frame)+
  show ?thesis
  proof (cases ev)
    case StartHook
    show ?thesis unfolding StartHook handler.simps service_commands.simps on_start_def Let_def env
      by (rule issues_then [OF u(1)] issues_seq [OF s(1)] issues_seq [OF s(3)] issues_last [OF issues_if_proxy [OF s(5)] u(4)])+
  next
    case StopHook
    show ?thesis unfolding StopHook handler.simps service_commands.simps on_stop_def Let_def env
      by (rule issues_then [OF u(1)] issues_seq [OF s(2)] issues_seq [OF s(4)] issues_last [OF s(6) u(4)])+
  next
    case RestartNode
    have "issues b [] (on_host (sleep (recording E) 3))" by (intro host_issues quiet frame)
    note p = issues_then [OF this]
    show ?thesis unfolding RestartNode handler.simps service_commands.simps on_restart_node_action_def Let_def env
      by (rule issues_then [OF u(1)] issues_then [OF u(2)] p issues_seq [OF s(2)] issues_seq [OF s(1)]
          issues_last [OF issues_if_proxy [OF s(7)] u(4)])+
  next
    case StartNode
    show ?thesis unfolding StartNode handler.simps service_commands.simps on_start_node_action_def Let_def env
      by (rule issues_then [OF u(1)] issues_then [OF u(2)] issues_seq [OF s(1)] issues_seq [OF s(3)]
          issues_last [OF issues_if_proxy [OF s(5)] u(4)])+
  next
    case StopNode
    show ?thesis unfolding StopNode handler.simps service_commands.simps on_stop_node_action_def Let_def env
      by (rule issues_then [OF u(1)] issues_then [OF u(2)] issues_seq [OF s(4)] issues_seq [OF s(2)] issues_last [OF s(6) u(4)])+
  qed (use ev q in \<open>simp_all only: service_commands.simps simp_thms\<close>)
qed

end
