(* ===== verification/Charm_Spec.thy ===== *)
theory Charm_Spec
  imports Charm_Trace Transaction_Spec
begin

text \<open>
  The properties of the charm's handlers: what they do to the event log, the stored configuration, the
  files and the services, and how the status of the unit is decided. Each is exercised on a unit whose
  machine is the concrete host of \<open>Lab\<close>.
\<close>

section \<open>A concrete unit\<close>

definition lab_codec :: codec where
  "lab_codec = \<lparr>json_loads = \<lambda>_. None, literal_eval = \<lambda>_. None, json_dumps = \<lambda>_. []\<rparr>"

definition lab_collector :: "'h collector" where
  "lab_collector = \<lparr>parse_credentials = \<lambda>m s. ret PNone, collect_and_upload = \<lambda>m d b s k. ret ()\<rparr>"

definition lab_setting :: "'h env \<Rightarrow> 'h setting" where
  "lab_setting E = \<lparr>set_env = E, set_codec = lab_codec, set_float = \<lambda>q. [], set_collector = lab_collector\<rparr>"

definition lab_model :: "(string \<times> pyval) list \<Rightarrow> juju_model" where
  "lab_model cfg = \<lparr>model_name = ''lab'', model_uuid = [], model_config = cfg, model_relations = []\<rparr>"

definition lab_unit :: "'h world \<Rightarrow> 'h charm" where
  "lab_unit w = \<lparr>machine = w, stored = Map.empty, event_log = [], unit_status = UnknownStatus,
     workload_version = [], action_results = []\<rparr>"

text \<open>The charm's unit templates and its monitor script, on a machine with nothing installed.\<close>

definition lab_templates :: "unit world" where
  "lab_templates = \<lparr>files =
     [''templates/bitcoind.service'' \<mapsto> \<lparr>fdata = ''node unit'', st_mode = 33188\<rparr>,
      ''templates/bitcoind-monitor.service'' \<mapsto> \<lparr>fdata = ''monitor unit'', st_mode = 33188\<rparr>,
      ''templates/bitcoind-monitor.py'' \<mapsto> \<lparr>fdata = ''script'', st_mode = 33188\<rparr>,
      ''templates/bitcoin-rpc-proxy.service'' \<mapsto> \<lparr>fdata = ''proxy unit'', st_mode = 33188\<rparr>], host = ()\<rparr>"

lemma lab_setting_simps [simp]:
  "set_env (lab_setting E) = E" "set_collector (lab_setting E) = lab_collector" "set_codec (lab_setting E) = lab_codec"
  by (simp_all add: lab_setting_def)

lemma lab_unit_simps [simp]: "machine (lab_unit w) = w" "stored (lab_unit w) = Map.empty" "event_log (lab_unit w) = []"
  by (simp_all add: lab_unit_def)

lemma lab_collector_files: "collector_runs (same_outside S) lab_collector"
  by (simp add: collector_runs_def lab_collector_def fr.resp_ret)

lemma lab_collector_quiet: "collector_quiet lab_collector"
  unfolding collector_quiet_def using lab_collector_files
  by (simp add: collector_runs_def [of same_trace] lab_collector_def mt.resp_ret)

section \<open>The event log\<close>



section \<open>The life of a unit\<close>

text \<open>
  The states a unit goes through once it is installed: events are dispatched under configurations the
  operator chooses, time passes between them, a handler that raises loses what it stored, as the
  framework commits the stored state only when a dispatch returns. A configuration change that raises
  is followed only when nothing had been committed and the error reports neither a failed roll-back nor a
  status command that could not be spawned.
\<close>

inductive in_service :: "'h setting \<Rightarrow> 'h charm \<Rightarrow> bool" for X :: "'h setting" where
  installed: "stored c = Map.empty \<Longrightarrow> dispatch X m InstallHook c = (c', Inr ()) \<Longrightarrow> in_service X c'"
| returned: "in_service X c \<Longrightarrow> ev \<noteq> InstallHook \<Longrightarrow> dispatch X m ev c = (c', Inr ()) \<Longrightarrow> in_service X c'"
| raised: "in_service X c \<Longrightarrow> ev \<noteq> InstallHook \<Longrightarrow> ev \<noteq> ConfigChanged \<Longrightarrow> dispatch X m ev c = (c', Inl e) \<Longrightarrow>
    in_service X (c'\<lparr>stored := stored c, event_log := event_log c\<rparr>)"
| rolled_back: "in_service X c \<Longrightarrow> regular (machine c) \<Longrightarrow> dispatch X m ConfigChanged c = (c', Inl e) \<Longrightarrow>
    stored c' = stored c \<Longrightarrow> \<not> config_rollback_reported e \<Longrightarrow> \<not> status_spawn_failed (set_env X) e \<Longrightarrow>
    in_service X (c'\<lparr>event_log := event_log c\<rparr>)"
| elapsed: "in_service X c \<Longrightarrow> files w = files (machine c) \<Longrightarrow> in_service X (c\<lparr>machine := w\<rparr>)"

definition all_stored :: "'h charm \<Rightarrow> bool" where
  "all_stored c \<longleftrightarrow> (\<forall>(k, a) \<in> set TRACKED_CONFIG. stored c a \<noteq> None)"

lemma stored_config_cong: "stored c' = stored c \<Longrightarrow> stored_config c' = stored_config c"
  by (simp add: stored_config_def previous_config_def stored_value_def)

lemma init_stored:
  assumes "all_stored c"
  shows "charm_init m c = c"
proof -
  have "(\<And>a k. (a, k) \<in> set ds \<Longrightarrow> st a \<noteq> None) \<Longrightarrow>
      foldl (\<lambda>st (attr, key). if st attr = None then st(attr \<mapsto> cfg_get cfg key) else st) st ds = st" for ds cfg st
  proof (induction ds)
    case (Cons d ds)
    obtain a k where d: "d = (a, k)" by (cases d)
    with Cons.prems [of a k] have "st a \<noteq> None" by simp
    moreover have "foldl (\<lambda>st (attr, key). if st attr = None then st(attr \<mapsto> cfg_get cfg key) else st) st ds = st"
      by (rule Cons.IH) (rule Cons.prems, erule list.set_intros(2))
    ultimately show ?case using d by (simp only: foldl_Cons prod.case if_False simp_thms)
  qed simp
  moreover have "stored c a \<noteq> None" if "(a, k) \<in> set STORED_DEFAULTS" for a k
    using assms that by (auto simp: all_stored_def defaults_are_tracked)
  ultimately have "set_default (charm_config m) (stored c) = stored c" unfolding set_default_def by blast
  then show ?thesis by (simp add: charm_init_def)
qed

lemma fresh_stored:
  assumes "stored c = Map.empty"
  shows "config_stored (charm_config m) (charm_init m c)" and "all_stored (charm_init m c)"
  using assms set_default_fresh [of _ _ Map.empty "charm_config m"]
  by (auto simp: config_stored_def all_stored_def list_all_iff charm_init_def stored_value_def)

lemma commit_all_stored: "all_stored c \<Longrightarrow> all_stored (commit_config cfg K c)"
  by (auto simp: all_stored_def commit_config_stored)

lemma config_changed_all_stored:
  assumes "all_stored c" and "on_config_changed X m c = (c', r)"
  shows "all_stored c'"
  using assms(2)
proof (cases rule: config_changed_cases)
  case (failed c1 w e)
  with assms(1) show ?thesis by (simp add: all_stored_def)
next
  case (applied c1 w)
  have "all_stored (commit_config (charm_config m) (fst ` set (changed_pairs (charm_config m) c)) (c1\<lparr>machine := w\<rparr>))"
    using assms(1) applied(4) by (intro commit_all_stored) (simp add: all_stored_def)
  with runs_inD [OF ss.resp_update_status applied(2)] show ?thesis by (simp add: all_stored_def same_stored_def)
qed

text \<open>A unit whose files are those of its stored configuration.\<close>

definition settled :: "'h charm \<Rightarrow> bool" where
  "settled c \<longleftrightarrow> rendered (stored_config c) (machine c) \<and> all_stored c"

lemma settled_cong:
  assumes "settled c" and "stored c' = stored c" and "\<And>s. files (machine c') (default_file s) = files (machine c) (default_file s)"
  shows "settled c'"
  using assms(1) rendered_files [of "machine c'" "machine c", OF assms(3)] stored_config_cong [OF assms(2)] assms(2)
  by (simp add: settled_def all_stored_def)

lemma settled_install:
  assumes "tempfile_ok (set_env X)" and "stored c = Map.empty" and "dispatch X m InstallHook c = (c', Inr ())"
  shows "settled c'"
proof -
  from assms(3) have run: "on_install X m (charm_init m c) = (c', Inr ())" by (simp add: dispatch_def)
  have "stored c' = stored (charm_init m c)"
    using runs_inD [OF handler_same_stored [of InstallHook X m]] run by (simp add: same_stored_def)
  with fresh_stored [OF assms(2), of m] have "config_stored (charm_config m) c'" "all_stored c'"
    by (simp_all add: config_stored_def all_stored_def stored_value_def)
  with install_renders [OF assms(1) run] rendered_stored [of "charm_config m" c' "machine c'"] show ?thesis
    by (simp add: settled_def)
qed

lemma settled_config_changed:
  assumes "tempfile_ok (set_env X)" and "collector_runs (same_outside metadata_files) (set_collector X)"
    and "settled c" and run: "on_config_changed X m c = (c', Inr ())"
  shows "settled c'"
proof -
  from assms(3) have "rendered (stored_config c) (machine c)" "all_stored c" by (simp_all add: settled_def)
  from config_changed_renders [OF assms(1,2) this(1) run] config_changed_stored [OF run]
    config_changed_all_stored [OF this(2) run] rendered_stored [of "charm_config m" c' "machine c'"]
  show ?thesis by (simp add: settled_def)
qed

lemma settled_other:
  assumes coll: "collector_runs (same_outside metadata_files) (set_collector X)"
    and ev: "ev \<noteq> ConfigChanged" "ev \<noteq> InstallHook" and "settled c" and run: "handler X m ev c = (c', r)"
  shows "settled c'" and "stored c' = stored c"
proof -
  show st: "stored c' = stored c" using runs_inD [OF handler_same_stored [OF ev(1)] run] by (simp add: same_stored_def)
  show "settled c'"
    using runs_inD [OF handler_files [OF coll ev] run] default_not_metadata
    by (intro settled_cong [OF assms(4) st]) (simp add: on_machine_def same_outside_def)
qed

text \<open>
  (C1) The invariant of a unit in service: the environment files of the node, the monitor and the proxy
  on disk are exactly those rendered from the configuration the charm has stored, through any sequence
  of hooks, actions and configuration changes, returning or raising, from installation on. So a later
  change is diffed against what is really on the machine. The metadata collector is trusted to write
  below its own directory only.
\<close>

theorem generation_matches_stored_config:
  assumes "in_service X c" and "tempfile_ok (set_env X)"
    and "collector_runs (same_outside metadata_files) (set_collector X)"
  shows "rendered (stored_config c) (machine c)"
proof -
  have init: "settled c \<Longrightarrow> dispatch X m ev c = handler X m ev c" for m ev and c :: "'a charm"
    by (simp add: dispatch_def settled_def init_stored)
  from assms(1) have "settled c"
  proof induction
    case (installed c m c')
    then show ?case by (rule settled_install [OF assms(2)])
  next
    case (returned c ev m c')
    then have run: "handler X m ev c = (c', Inr ())" using init by simp
    show ?case
    proof (cases "ev = ConfigChanged")
      case True
      with run returned.IH show ?thesis using settled_config_changed [OF assms(2,3)] by simp
    next
      case False
      then show ?thesis using settled_other(1) [OF assms(3) _ returned.hyps(2) returned.IH run] by simp
    qed
  next
    case (raised c ev m c' e)
    then have run: "handler X m ev c = (c', Inl e)" using init by simp
    note keep = settled_other [OF assms(3) raised.hyps(3,2) raised.IH run]
    show ?case by (rule settled_cong [OF keep(1)]) (simp_all add: keep(2))
  next
    case (rolled_back c m c' e)
    then have run: "on_config_changed X m c = (c', Inl e)" using init [of c m ConfigChanged] by simp
    from rolled_back.IH have "rendered (stored_config c) (machine c)" "all_stored c" by (simp_all add: settled_def)
    from config_changed_raised [OF assms(2,3) rolled_back.hyps(2) this(1) run rolled_back.hyps(4-6)]
      config_changed_all_stored [OF this(2) run] have "settled c'" by (simp add: settled_def)
    then show ?case by (rule settled_cong) simp_all
  next
    case (elapsed c w)
    show ?case by (rule settled_cong [OF elapsed.IH]) (simp_all add: elapsed.hyps)
  qed
  then show ?thesis by (simp add: settled_def)
qed

definition lab_in_service :: "unit charm" where
  "lab_in_service = fst (dispatch (lab_setting lab) (lab_model [(''rpc-user'', PStr ''alice''), (''rpc-password'', PStr ''s3cret'')])
     InstallHook (lab_unit lab_templates))"

lemma lab_installs:
  "snd (dispatch (lab_setting lab) (lab_model [(''rpc-user'', PStr ''alice''), (''rpc-password'', PStr ''s3cret'')])
     InstallHook (lab_unit lab_templates)) = Inr ()"
  by code_simp

lemma lab_in_service: "in_service (lab_setting lab) lab_in_service"
proof (rule in_service.installed)
  show "stored (lab_unit lab_templates) = Map.empty" by simp
  show "dispatch (lab_setting lab) (lab_model [(''rpc-user'', PStr ''alice''), (''rpc-password'', PStr ''s3cret'')])
     InstallHook (lab_unit lab_templates) = (lab_in_service, Inr ())"
    unfolding lab_in_service_def using lab_installs by (metis prod.collapse)
qed

theorem generation_matches_stored_config_witness:
  "rendered (stored_config lab_in_service) (machine lab_in_service)"
  by (rule generation_matches_stored_config [OF lab_in_service]) (simp_all add: lab_tempfile_ok lab_collector_files)

section \<open>Configuration\<close>


text \<open>The operator sets the proxy's listen address on an idle machine.\<close>

definition lab_change_model :: juju_model where
  "lab_change_model = lab_model [(''rpc-proxy-listen'', PStr ''127.0.0.1:8331''), (''rpc-proxy-filter'', PBool True),
     (''rpc-password'', PStr ''s3cret''), (''rpc-user'', PStr ''alice'')]"

definition lab_changing :: "unit charm" where
  "lab_changing = (lab_unit lab_managed)\<lparr>stored := [''rpc_user'' \<mapsto> PStr ''alice'', ''rpc_password'' \<mapsto> PStr ''s3cret'',
     ''rpc_proxy_filter'' \<mapsto> PBool True]\<rparr>"

lemma idle_status_returns: "snd (update_status (lab_setting lab_idle) m c) = Inr ()"
proof -
  have run: "run_proc lab_idle cmd w = (w, Inr \<lparr>returncode = 3, stdout = []\<rparr>)" for cmd w
    by (simp add: run_proc_def lab_idle_def idle_run_def)
  have sleep: "sleep lab_idle n w = (w, Inr ())" for n w
    by (simp add: sleep_def lab_idle_def lab_def lab_sleep_def)
  have poll: "poll_service lab_idle s n w = (w, Inr False)" for s n w
    by (induction n) (simp_all add: get_status_def bindIO_run seqIO_run run sleep)
  show ?thesis
    by (simp add: update_status_def Let_def bindIO_run seqIO_run on_host_def get_version_def version_of_binary_def run_check_def
        try_except_run run bitcoind_binary_installed_def rpc_proxy_binary_installed_def path_exists_def service_running_def
        poll set_status_def)
qed

lemma config_changed_returns:
  fixes c :: "unit charm"
  assumes "\<And>previous. snd (apply_config_transaction (set_env X) (charm_config m) previous
      (fst ` set (changed_pairs (charm_config m) c)) (machine c)) = Inr ()"
    and "\<And>d. snd (update_status X m d) = Inr ()"
  shows "snd (on_config_changed X m c) = Inr ()"
proof -
  obtain c' r where run: "on_config_changed X m c = (c', r)" by (cases "on_config_changed X m c")
  from run have "r = Inr ()"
  proof (cases rule: config_changed_cases)
    case (failed c1 w e)
    from failed(4) have "machine c1 = machine c" by (rule unit_world_eqI)
    with failed(1) assms(1) [of "previous_config (charm_config m) c"] show ?thesis by simp
  next
    case (applied c1 w)
    then show ?thesis using assms(2) by (metis snd_conv)
  qed
  with run show ?thesis by simp
qed

lemma lab_change_returns: "snd (on_config_changed (lab_setting lab_idle) lab_change_model lab_changing) = Inr ()"
proof (rule config_changed_returns [OF _ idle_status_returns])
  have "charm_config lab_change_model = lab_config"
    by (simp add: charm_config_def lab_change_model_def lab_model_def lab_config_def)
  moreover have "fst ` set (changed_pairs (charm_config lab_change_model) lab_changing) = {''rpc-proxy-listen''}"
    by code_simp
  ultimately show "snd (apply_config_transaction (set_env (lab_setting lab_idle)) (charm_config lab_change_model) previous
      (fst ` set (changed_pairs (charm_config lab_change_model) lab_changing)) (machine lab_changing)) = Inr ()" for previous
    using lab_transaction_succeeds by (simp add: lab_changing_def)
qed


text \<open>
  The stored configuration moves as a whole: after a configuration change either every tracked option
  has the new value, or the handler raised and none was touched, so the next dispatch sees the same
  difference and tries again.
\<close>

lemma config_changed_all_or_nothing:
  "config_stored (charm_config m) (fst (on_config_changed X m c))
   \<or> (\<exists>e. snd (on_config_changed X m c) = Inl e) \<and> stored (fst (on_config_changed X m c)) = stored c"
proof -
  obtain c' r where "on_config_changed X m c = (c', r)" by (cases "on_config_changed X m c")
  with config_changed_stored [OF this] show ?thesis by auto
qed

text \<open>
  (C24) The summary written to the event log says nothing about the credentials but whether they changed:
  configurations that agree on every other option, and whose credentials changed alike, give the same
  summary, for every codec.
\<close>

theorem config_summary_hides_credentials:
  assumes "\<And>k a. (k, a) \<in> set TRACKED_CONFIG \<Longrightarrow> (stored_value c a = cfg_get cfg k) = (stored_value d a = cfg_get cfg' k)"
    and "\<And>k. k \<noteq> ''rpc-user'' \<Longrightarrow> k \<noteq> ''rpc-password'' \<Longrightarrow> cfg_get cfg k = cfg_get cfg' k"
  shows "config_change_summary C cfg c = config_change_summary C cfg' d"
proof -
  have "changed_pairs cfg c = changed_pairs cfg' d"
    unfolding changed_pairs_def using assms(1) by (intro filter_cong) auto
  moreover have "change_entry C cfg k = change_entry C cfg' k" for k
    using assms(2) [of k] by (auto simp: change_entry_def SENSITIVE_CONFIG_def)
  ultimately show ?thesis by (simp add: config_change_summary_def)
qed

theorem config_summary_hides_credentials_witness:
  "config_change_summary lab_codec [''rpc-password'' \<mapsto> PStr ''s3cret'', ''version'' \<mapsto> PStr ''28.0''] (lab_unit lab_world)
   = config_change_summary lab_codec [''rpc-password'' \<mapsto> PStr ''hunter2'', ''version'' \<mapsto> PStr ''28.0''] (lab_unit lab_world)"
  by (rule config_summary_hides_credentials) (auto simp: stored_value_def cfg_get_def)

section \<open>Services, files and results\<close>

text \<open>
  (C9) The service commands of every hook and action but install and config-changed, in order: start brings
  up the node, the monitor and, when its binary is there, the proxy; the stop action stops the monitor
  first, the stop hook the node first; a restart stops and starts the node and restarts the proxy;
  update-status, upgrade-charm and the informational actions issue none. A handler that raises has
  issued a prefix of its commands. The metadata collector is trusted to leave services alone.
\<close>

theorem handlers_issue_service_commands_in_order:
  assumes "set_env X = recording E" and "collector_quiet (set_collector X)" and "ev \<noteq> ConfigChanged" "ev \<noteq> InstallHook"
  shows "\<exists>n. trace (machine (fst (dispatch X m ev c)))
      = trace (machine c) @ take n (service_commands (proxy_there (machine c)) ev)
    \<and> (snd (dispatch X m ev c) = Inr () \<longrightarrow> length (service_commands (proxy_there (machine c)) ev) \<le> n)"
proof -
  obtain c' r where run: "handler X m ev (charm_init m c) = (c', r)" by (cases "handler X m ev (charm_init m c)")
  have "machine (charm_init m c) = machine c" by (simp add: charm_init_def)
  with issuesD [OF handler_issues [OF assms] _ run, of "proxy_there (machine c)"] run show ?thesis
    by (metis dispatch_def fst_conv snd_conv)
qed

theorem handlers_issue_service_commands_in_order_witness:
  "\<exists>n. trace (machine (fst (dispatch (lab_setting (recording lab)) (lab_model []) StopNode
        (lab_unit \<lparr>files = Map.empty, host = ((), [])\<rparr>))))
      = take n [[''systemctl'', ''stop'', MONITOR_SERVICE_NAME], [''systemctl'', ''stop'', SERVICE_NAME],
          [''systemctl'', ''stop'', RPC_PROXY_SERVICE_NAME]]"
  using handlers_issue_service_commands_in_order [of "lab_setting (recording lab)" lab StopNode "lab_model []"
      "lab_unit \<lparr>files = Map.empty, host = ((), [])\<rparr>"]
  by (auto simp: lab_collector_quiet)

text \<open>
  (C25) Every event but install and config-changed leaves every file outside the metadata directory as it
  is, also when its handler raises; upgrade-charm in particular does not change workload files.
\<close>

theorem handlers_leave_workload_files:
  assumes "collector_runs (same_outside metadata_files) (set_collector X)" and "ev \<noteq> ConfigChanged" "ev \<noteq> InstallHook"
    and "\<not> inside METADATA_DIR p"
  shows "files (machine (fst (dispatch X m ev c))) p = files (machine c) p"
proof -
  obtain c' r where run: "handler X m ev (charm_init m c) = (c', r)" by (cases "handler X m ev (charm_init m c)")
  from runs_inD [OF handler_files [OF assms(1-3)] run] assms(4) run show ?thesis
    by (simp add: on_machine_def same_outside_def dispatch_def charm_init_def)
qed

theorem handlers_leave_workload_files_witness:
  "files (machine (fst (dispatch (lab_setting lab) (lab_model []) UpgradeCharm (lab_unit lab_world)))) BINARY_PATH
   = files lab_world BINARY_PATH"
  using handlers_leave_workload_files [of "lab_setting lab" UpgradeCharm BINARY_PATH "lab_model []" "lab_unit lab_world"]
  by (simp add: lab_collector_files inside_def METADATA_DIR_def constant_defs starts_with_iff)

text \<open>
  (C26) Whatever an event reports through action results has passed the redaction: the results set by a
  handler are redacted outputs, on every path.
\<close>

theorem action_results_are_redacted:
  "\<exists>vs. action_results (fst (dispatch X m ev c)) = action_results c @ map (redact_output (set_codec X)) vs"
proof -
  obtain c' r where run: "handler X m ev (charm_init m c) = (c', r)" by (cases "handler X m ev (charm_init m c)")
  from runs_inD [OF handler_results run] run show ?thesis by (simp add: results_redacted_def dispatch_def charm_init_def)
qed

section \<open>The status of the unit\<close>

text \<open>
  The decision as a table: what was asked, in which order and on which world, and the status it gives.
\<close>

inductive decides :: "'h setting \<Rightarrow> juju_model \<Rightarrow> 'h world \<Rightarrow> string \<Rightarrow> unit_status \<Rightarrow> 'h world \<Rightarrow> bool"
  for X :: "'h setting" and m :: juju_model where
  no_node: "get_version (set_env X) w = (w1, Inr v) \<Longrightarrow> files w BINARY_PATH = None \<Longrightarrow>
    decides X m w v (BlockedStatus ''bitcoind not installed; set version'') w1"
| no_proxy: "get_version (set_env X) w = (w1, Inr v) \<Longrightarrow> files w BINARY_PATH \<noteq> None \<Longrightarrow> files w RPC_PROXY_BINARY_PATH = None \<Longrightarrow>
    decides X m w v (BlockedStatus ''rpc-proxy binary not installed; set rpc-proxy-version'') w1"
| down: "get_version (set_env X) w = (w1, Inr v) \<Longrightarrow> files w BINARY_PATH \<noteq> None \<Longrightarrow> files w RPC_PROXY_BINARY_PATH \<noteq> None \<Longrightarrow>
    service_running (set_env X) SERVICE_NAME w1 = (w2, Inr node) \<Longrightarrow>
    service_running (set_env X) MONITOR_SERVICE_NAME w2 = (w3, Inr monitor) \<Longrightarrow>
    service_running (set_env X) RPC_PROXY_SERVICE_NAME w3 = (w4, Inr proxy) \<Longrightarrow> \<not> (node \<and> monitor \<and> proxy) \<Longrightarrow>
    decides X m w v (WaitingStatus (status_message node monitor proxy)) w4"
| up: "get_version (set_env X) w = (w1, Inr v) \<Longrightarrow> files w BINARY_PATH \<noteq> None \<Longrightarrow> files w RPC_PROXY_BINARY_PATH \<noteq> None \<Longrightarrow>
    service_running (set_env X) SERVICE_NAME w1 = (w2, Inr True) \<Longrightarrow>
    service_running (set_env X) MONITOR_SERVICE_NAME w2 = (w3, Inr True) \<Longrightarrow>
    service_running (set_env X) RPC_PROXY_SERVICE_NAME w3 = (w4, Inr True) \<Longrightarrow>
    wait_for_running_version (set_env X) (charm_config m) w4 = (w5, Inr running) \<Longrightarrow>
    (if running = None then s = BlockedStatus ''Bitcoin Core RPC did not become ready'' \<and> w6 = w5
     else \<exists>err. collect_upload_metadata (set_env X) (set_codec X) (set_float X) (set_collector X) m (charm_config m) w5 = (w6, Inr err)
       \<and> s = (case err of None \<Rightarrow> ActiveStatus ''Node: up, monitor: up, proxy: up'' | Some e \<Rightarrow> BlockedStatus e)) \<Longrightarrow>
    decides X m w v s w6"

lemma metadata_message_nonempty: "metadata_message C b e = Some msg \<Longrightarrow> msg \<noteq> []"
  by (auto simp: metadata_message_def split: if_splits)

lemma collect_error_nonempty: "collect_upload_metadata E C f K m cfg w = (w', Inr (Some e)) \<Longrightarrow> e \<noteq> []"
  unfolding collect_upload_metadata_def Let_def
  by (auto simp: try_except_Inr_iff bindIO_Inr_iff seqIO_Inr_iff dest: metadata_message_nonempty split: option.splits)

lemma all_up_message: "status_message True True True = ''Node: up, monitor: up, proxy: up''"
  by code_simp

lemma version_kept: "get_version E w = (w1, Inr v) \<Longrightarrow> files w1 = files w"
  by (rule touches_noneD [OF touches_versions(1)])

lemmas status_run = update_status_def Let_def bindIO_run seqIO_run on_host_def set_status_def
  bitcoind_binary_installed_def rpc_proxy_binary_installed_def path_exists_def

lemma decides_sound:
  assumes "decides X m (machine c) v s w"
  shows "update_status X m c = (c\<lparr>machine := w, workload_version := v, unit_status := s\<rparr>, Inr ())"
  using assms
proof cases
  case (up w1 w2 w3 w4 w5 running)
  note f = version_kept [OF up(1)]
  show ?thesis
  proof (cases running)
    case None
    with up f show ?thesis by (simp add: status_run)
  next
    case (Some x)
    with up(8) obtain err where "collect_upload_metadata (set_env X) (set_codec X) (set_float X) (set_collector X) m (charm_config m) w5 = (w, Inr err)"
      and "s = (case err of None \<Rightarrow> ActiveStatus ''Node: up, monitor: up, proxy: up'' | Some e \<Rightarrow> BlockedStatus e)" by auto
    with Some up(1-7) f collect_error_nonempty [of "set_env X" "set_codec X" "set_float X" "set_collector X" m "charm_config m" w5 w]
    show ?thesis by (cases err) (simp_all add: status_run all_up_message)
  qed
next
  case (down w1 w2 node w3 monitor proxy)
  with version_kept [OF down(2)] show ?thesis by (auto simp: status_run)
qed (simp_all add: status_run version_kept)

lemma decides_complete:
  assumes run: "update_status X m c = (c', Inr ())"
  shows "\<exists>v s w. decides X m (machine c) v s w"
proof -
  let ?E = "set_env X" and ?cfg = "charm_config m"
  from run obtain w1 v where gv: "get_version ?E (machine c) = (w1, Inr v)"
    by (auto simp: update_status_def Let_def unit_inv)
  note f = version_kept [OF gv]
  show ?thesis
  proof (cases "files (machine c) BINARY_PATH = None \<or> files (machine c) RPC_PROXY_BINARY_PATH = None")
    case True
    with gv show ?thesis using decides.no_node decides.no_proxy by blast
  next
    case False
    then have both: "files (machine c) BINARY_PATH \<noteq> None" "files (machine c) RPC_PROXY_BINARY_PATH \<noteq> None" by simp_all
    with run gv f obtain w2 w3 w4 node monitor proxy where
      svc: "service_running ?E SERVICE_NAME w1 = (w2, Inr node)" "service_running ?E MONITOR_SERVICE_NAME w2 = (w3, Inr monitor)"
        "service_running ?E RPC_PROXY_SERVICE_NAME w3 = (w4, Inr proxy)"
      by (auto simp: status_run split: prod.splits sum.splits)
    show ?thesis
    proof (cases "node \<and> monitor \<and> proxy")
      case False
      with decides.down [OF gv both svc] show ?thesis by blast
    next
      case True
      with svc have svc: "service_running ?E SERVICE_NAME w1 = (w2, Inr True)" "service_running ?E MONITOR_SERVICE_NAME w2 = (w3, Inr True)"
        "service_running ?E RPC_PROXY_SERVICE_NAME w3 = (w4, Inr True)" by simp_all
      with run gv f both obtain w5 running where wait: "wait_for_running_version ?E ?cfg w4 = (w5, Inr running)"
        by (auto simp: status_run split: prod.splits sum.splits)
      note up = decides.up [where X = X and m = m, OF gv both svc wait]
      show ?thesis
      proof (cases running)
        case None
        with up show ?thesis by auto
      next
        case (Some x)
        with run gv f both svc wait obtain w6 err where
          "collect_upload_metadata ?E (set_codec X) (set_float X) (set_collector X) m ?cfg w5 = (w6, Inr err)"
          by (auto simp: status_run split: prod.splits sum.splits)
        with up Some show ?thesis by auto
      qed
    qed
  qed
qed

text \<open>
  (C7) The status handler implements the table: it returns exactly when some row of the table applies,
  and then it has set the workload version and the status that row gives. A unit is active only when
  both binaries are there, the three services were seen running, in this order, the node answered
  with a version and the metadata was collected.
\<close>

theorem update_status_implements_table:
  "update_status X m c = (c', Inr ()) \<longleftrightarrow>
   (\<exists>v s w. decides X m (machine c) v s w \<and> c' = c\<lparr>machine := w, workload_version := v, unit_status := s\<rparr>)"
proof
  assume run: "update_status X m c = (c', Inr ())"
  from decides_complete [OF this] obtain v s w where d: "decides X m (machine c) v s w" by blast
  with decides_sound [OF d] run show "\<exists>v s w. decides X m (machine c) v s w \<and> c' = c\<lparr>machine := w, workload_version := v, unit_status := s\<rparr>"
    by auto
next
  assume "\<exists>v s w. decides X m (machine c) v s w \<and> c' = c\<lparr>machine := w, workload_version := v, unit_status := s\<rparr>"
  then show "update_status X m c = (c', Inr ())" using decides_sound by blast
qed

section \<open>Entries in the compact view\<close>

lemma split_gap_some: "split_gap s = Some (a, b) \<Longrightarrow> s = a @ ''  '' @ b \<and> split_gap (a @ '' '') = None"
proof (induction s arbitrary: a b rule: split_gap.induct)
  case (1 x y s)
  show ?case
  proof (cases "x = CHR '' '' \<and> y = CHR '' ''")
    case True
    with 1 show ?thesis by auto
  next
    case False
    with 1 obtain a' where a: "a = x # a'" and "split_gap (y # s) = Some (a', b)" by auto
    with 1(1) [OF False] have "y # s = a' @ ''  '' @ b" "split_gap (a' @ '' '') = None" by auto
    with a False show ?thesis by (cases a') auto
  qed
qed simp_all

text \<open>
  In the compact view of get-node-info an entry is its time, its name and at most the given number
  of characters of its detail, marked with three dots when it was cut; an entry without a detail is
  shown as it is. The parts are those before, between and after the first two double spaces.
\<close>

lemma truncate_event_detail_cuts_detail:
  "(\<exists>timestamp name detail. line = timestamp @ ''  '' @ name @ ''  '' @ detail
      \<and> split_gap (timestamp @ '' '') = None \<and> split_gap (name @ '' '') = None
      \<and> truncate_event_detail line width = timestamp @ ''  '' @ name @ ''  '' @
          (if width < length detail then take width detail @ ''...'' else detail))
   \<or> (truncate_event_detail line width = line
      \<and> (split_gap line = None \<or> (\<exists>timestamp name. split_gap line = Some (timestamp, name) \<and> split_gap name = None)))"
proof (cases "split_gap line")
  case None
  then show ?thesis by (simp add: truncate_event_detail_def)
next
  case (Some p)
  then obtain timestamp rest where p: "split_gap line = Some (timestamp, rest)" by (cases p) simp
  show ?thesis
  proof (cases "split_gap rest")
    case None
    with p show ?thesis by (simp add: truncate_event_detail_def)
  next
    case (Some q)
    then obtain name detail where q: "split_gap rest = Some (name, detail)" by (cases q) simp
    with p split_gap_some [OF p] split_gap_some [OF q] show ?thesis
      by (intro disjI1 exI [of _ timestamp] exI [of _ name] exI [of _ detail]) (simp add: truncate_event_detail_def)
  qed
qed

end
