(* ===== verification/Charm_Recovery.thy ===== *)
theory Charm_Recovery
  imports Charm_Spec Metadata_Spec
begin

text \<open>
  What happens when the status update at the end of a configuration change raises. The transaction has
  been applied by then, but the framework drops the stored state of a hook that raised: the charm
  forgets the generation it activated.
\<close>

section \<open>A lost commit\<close>

text \<open>
  (C27) A change that was applied but whose hook raised is not undone by setting the options back. After
  the hook the stored values are the old ones again; the operator restores the old configuration, the
  next config-changed finds nothing to do, and the files of the abandoned configuration stay on disk,
  with the services running on them.
\<close>

theorem lost_commit_survives_revert:
  assumes "snd (on_config_changed X m c) = Inl e" and "rendered (charm_config m) (machine (fst (on_config_changed X m c)))"
    and "config_stored (charm_config m_old) c"
    and "collector_runs (same_outside metadata_files) (set_collector X)"
  shows "rendered (charm_config m)
    (machine (fst (on_config_changed X m_old ((fst (on_config_changed X m c))\<lparr>stored := stored c\<rparr>))))"
proof -
  let ?c = "(fst (on_config_changed X m c))\<lparr>stored := stored c\<rparr>"
  have st: "config_stored (charm_config m_old) ?c" using assms(3) by (simp add: config_stored_def stored_value_def)
  obtain d r where d: "on_config_changed X m_old ?c = (d, r)" by (cases "on_config_changed X m_old ?c")
  have "files (machine d) (default_file s) = files (machine ?c) (default_file s)" for s
    using stored_change_is_idle [OF assms(4) st d] default_not_metadata by blast
  with rendered_files [of "machine d" "machine ?c"] d assms(2) show ?thesis by simp
qed

section \<open>Such a change\<close>

text \<open>A running machine on which the systemd limits cannot be shown.\<close>

definition lab_running :: "unit charm" where
  "lab_running = lab_changing\<lparr>machine := lab_managed\<lparr>files := (files lab_managed)
     (BINARY_PATH \<mapsto> \<lparr>fdata = ''node'', st_mode = 33261\<rparr>, RPC_PROXY_BINARY_PATH \<mapsto> \<lparr>fdata = ''proxy'', st_mode = 33261\<rparr>)\<rparr>\<rparr>"

lemma unshown_commands:
  "systemctl lab_unshown verb s w = (w, Inr ())" if "verb \<noteq> ''show''"
  using that by (simp add: systemctl_def run_check_def run_proc_def lab_unshown_def unshown_run_def bindIO_run)

lemma unshown_running: "service_running lab_unshown s w = (w, Inr True)"
  by (simp add: service_running_def eval_nat_numeral get_status_def run_proc_def lab_unshown_def unshown_run_def bindIO_run)

lemma unshown_wait: "\<exists>v. wait_for_running_version lab_unshown cfg w = (w, Inr (Some v))"
proof -
  have "read_version (PDict [(PStr ''error'', PNone), (PStr ''result'', PDict [(PStr ''subversion'', PStr ''/Satoshi:28.0.0/'')])])
      = Some ''28.0.0''" by code_simp
  then have "probe_version lab_unshown cfg w = (w, Inr (Some ''28.0.0''))"
    by (simp add: probe_version_def requests_post_def raise_for_status_def lab_unshown_def lab_def lab_post_def bindIO_run seqIO_run try_except_run)
  then show ?thesis by (simp add: wait_for_running_version_def eval_nat_numeral bindIO_run)
qed

lemma unshown_version: "\<exists>v. get_version lab_unshown w = (w, Inr v)"
proof -
  have "re_search node_version_rx ''1'' = None" by code_simp
  then show ?thesis
    by (simp add: get_version_def version_of_binary_def run_check_def run_proc_def lab_unshown_def unshown_run_def
        bindIO_run try_except_run BINARY_PATH_def)
qed

lemma unshown_status_raises:
  assumes "files (machine c) BINARY_PATH \<noteq> None" "files (machine c) RPC_PROXY_BINARY_PATH \<noteq> None"
    and "\<not> truthy (cfg_get (map_of (model_config m)) ''collector-s3-credentials'')"
  shows "snd (update_status (lab_setting lab_unshown) m c) = Inl (Exn CalledProcessError ''command failed'')"
proof -
  obtain v where v: "get_version lab_unshown (machine c) = (machine c, Inr v)" using unshown_version by blast
  obtain x where x: "wait_for_running_version lab_unshown (charm_config m) (machine c) = (machine c, Inr (Some x))"
    using unshown_wait by blast
  let ?collect = "collect_upload_metadata lab_unshown lab_codec (\<lambda>q. []) lab_collector m (charm_config m) (machine c)"
  have "snd ?collect = Inl (Exn CalledProcessError ''command failed'')" by (rule unshown_collect_raises [OF assms(3)])
  then obtain w where w: "?collect = (w, Inl (Exn CalledProcessError ''command failed''))" by (cases ?collect) simp
  show ?thesis
    using assms(1,2) v x w by (simp add: status_run unshown_running lab_setting_def)
qed

lemma unshown_activates:
  assumes "files w RPC_PROXY_BINARY_PATH \<noteq> None"
  shows "activate_config_generation lab_unshown cfg {''rpc-proxy-listen''} snapshot w = (w, Inr ())"
proof -
  have restart: "restart_rpc_proxy lab_unshown w = (w, Inr ())" unfolding restart_rpc_proxy_def by (rule unshown_commands) simp
  have "\<not> node_changed {''rpc-proxy-listen''}" "\<not> credentials_changed {''rpc-proxy-listen''}"
    by (simp_all add: node_changed_def credentials_changed_def)
  with assms show ?thesis
    by (auto simp: activate_config_generation_def seqIO_run whenIO_run require_def bindIO_run rpc_proxy_binary_installed_def
        path_exists_def restart unshown_running)
qed

lemma lab_running_simps:
  "charm_config lab_change_model = lab_config"
  "fst ` set (changed_pairs (charm_config lab_change_model) lab_running) = {''rpc-proxy-listen''}"
  "files (machine lab_running) RPC_PROXY_BINARY_PATH \<noteq> None" "files (machine lab_running) BINARY_PATH \<noteq> None"
proof -
  show "charm_config lab_change_model = lab_config"
    by (simp add: charm_config_def lab_change_model_def lab_model_def lab_config_def)
qed code_simp+

lemma unshown_tempfile_ok: "tempfile_ok lab_unshown"
  using lab_tempfile_ok by (simp add: tempfile_ok_def lab_unshown_def)

lemma lab_running_rendered: "rendered (stored_config lab_running) (machine lab_running)"
proof -
  have "cfg_get (stored_config lab_running) k = cfg_get lab_previous k" if "(k, a) \<in> set TRACKED_CONFIG" for k a
    unfolding stored_config_def previous_config_get [OF that] using that
    by (auto simp: TRACKED_CONFIG_def stored_value_def lab_running_def lab_changing_def cfg_get_def lab_previous_def lab_config_def)
  moreover have "rendered lab_previous (machine lab_running)"
    using default_files_apart(4) [of SERVICE_NAME] default_files_apart(4) [of MONITOR_SERVICE_NAME] default_files_apart(4) [of RPC_PROXY_SERVICE_NAME]
    by (simp add: rendered_def data_of_def lab_running_def lab_managed_def default_files_apart(1-3) default_files_apart(1-3) [THEN not_sym])
  ultimately show ?thesis using rendered_cong by blast
qed

text \<open>The transaction of the change succeeds and keeps the binaries.\<close>

lemma lab_running_applied:
  assumes "apply_config_transaction lab_unshown lab_config previous {''rpc-proxy-listen''} (machine lab_running) = (w, r)"
  shows "r = Inr ()" and "files w BINARY_PATH \<noteq> None" and "files w RPC_PROXY_BINARY_PATH \<noteq> None"
proof -
  let ?w = "machine lab_running" and ?K = "{''rpc-proxy-listen''}"
  let ?gen = "write_config_generation lab_unshown lab_config ?K ?w"
  have "(case snd (capture_config_transaction lab_unshown ?w) of Inl _ \<Rightarrow> False | Inr _ \<Rightarrow> True)" by code_simp
  then obtain snapshot where snap: "capture_config_transaction lab_unshown ?w = (?w, Inr snapshot)"
    using unit_world_run [OF touches_capture [of "{}"], of lab_unshown ?w] by (auto split: sum.splits)
  have "snd ?gen = Inr ()" by code_simp
  then obtain v where v: "?gen = (v, Inr ())" by (cases ?gen) simp
  have "files (fst ?gen) BINARY_PATH \<noteq> None" "files (fst ?gen) RPC_PROXY_BINARY_PATH \<noteq> None" by code_simp+
  with v have fs: "files v BINARY_PATH \<noteq> None" "files v RPC_PROXY_BINARY_PATH \<noteq> None" by simp_all
  have "apply_config_transaction lab_unshown lab_config previous ?K ?w = (v, Inr ())"
    by (simp add: apply_config_transaction_def bindIO_run snap try_except_run seqIO_run v unshown_activates [OF fs(2)])
  with assms fs show "r = Inr ()" "files w BINARY_PATH \<noteq> None" "files w RPC_PROXY_BINARY_PATH \<noteq> None" by simp_all
qed

lemma lab_running_change:
  "snd (on_config_changed (lab_setting lab_unshown) lab_change_model lab_running) = Inl (Exn CalledProcessError ''command failed'')"
  "rendered (charm_config lab_change_model) (machine (fst (on_config_changed (lab_setting lab_unshown) lab_change_model lab_running)))"
proof -
  let ?X = "lab_setting lab_unshown" and ?m = lab_change_model and ?c = lab_running
  obtain c' r where run: "on_config_changed ?X ?m ?c = (c', r)" by (cases "on_config_changed ?X ?m ?c")
  have "r = Inl (Exn CalledProcessError ''command failed'') \<and> rendered (charm_config ?m) (machine c')"
    using run
  proof (cases rule: config_changed_cases)
    case (failed c1 w e)
    from failed(4) have "machine c1 = machine ?c" by (rule unit_world_eqI)
    with failed(1) lab_running_applied(1) [of "previous_config (charm_config ?m) ?c" w "Inl e"] show ?thesis
      unfolding lab_running_simps(2) by (simp add: lab_running_simps(1))
  next
    case (applied c1 w)
    from applied(3) have c1: "machine c1 = machine ?c" by (rule unit_world_eqI)
    have "rendered (charm_config ?m) w"
      by (rule transaction_applied_renders [OF unshown_tempfile_ok lab_running_rendered applied(3)]) (use applied(1) in simp)
    moreover have "collector_runs (same_outside metadata_files) (set_collector ?X)" by (simp add: lab_collector_files)
    ultimately have "rendered (charm_config ?m) (machine c')"
      using update_status_rendered [OF _ applied(2)] by (simp add: commit_config_def)
    moreover have "r = Inl (Exn CalledProcessError ''command failed'')"
    proof -
      let ?d = "commit_config (charm_config ?m) (fst ` set (changed_pairs (charm_config ?m) ?c)) (c1\<lparr>machine := w\<rparr>)"
      have "files w BINARY_PATH \<noteq> None" "files w RPC_PROXY_BINARY_PATH \<noteq> None"
        using applied(1) lab_running_applied(2,3) [of _ w "Inr ()"] c1
        unfolding lab_running_simps(2) by (simp_all add: lab_running_simps(1))
      then have "snd (update_status ?X ?m ?d) = Inl (Exn CalledProcessError ''command failed'')"
        by (intro unshown_status_raises) (simp_all add: commit_config_def lab_change_model_def lab_model_def cfg_get_def)
      with applied(2) show ?thesis by simp
    qed
    ultimately show ?thesis by blast
  qed
  with run show "snd (on_config_changed ?X ?m ?c) = Inl (Exn CalledProcessError ''command failed'')"
    "rendered (charm_config ?m) (machine (fst (on_config_changed ?X ?m ?c)))" by simp_all
qed

definition lab_old_model :: juju_model where
  "lab_old_model = lab_model [(''rpc-proxy-filter'', PBool True), (''rpc-password'', PStr ''s3cret''), (''rpc-user'', PStr ''alice'')]"

theorem lost_commit_survives_revert_witness:
  "rendered (charm_config lab_change_model) (machine (fst (on_config_changed (lab_setting lab_unshown) lab_old_model
     ((fst (on_config_changed (lab_setting lab_unshown) lab_change_model lab_running))\<lparr>stored := stored lab_running\<rparr>))))"
proof (rule lost_commit_survives_revert [OF lab_running_change])
  show "config_stored (charm_config lab_old_model) lab_running" by code_simp
  show "collector_runs (same_outside metadata_files) (set_collector (lab_setting lab_unshown))" by (simp add: lab_collector_files)
qed

end
