(* ===== verification/Prometheus.thy ===== *)
theory Prometheus
  imports Constants "HOL-Library.AList"
begin

text \<open>
  \<open>src/interface_prometheus.py\<close>: the scrape job each of the charm's three Prometheus relations offers, and
  its publication in the unit's databag when a unit joins. The identifier drawn by \<open>uuid4\<close> when the
  provider is created and the JSON printer are parameters. The databag of the local unit is a map from
  keys to strings.
\<close>

record job =
  job_name :: string
  job_data :: "(string \<times> pyval) list"
  request_id :: string
  job_port :: string

text \<open>\<open>{..., **job_data}\<close>: the keyword arguments replace the defaults.\<close>

definition default_job_data :: "string \<Rightarrow> (string \<times> pyval) list" where
  "default_job_data path =
    [(''honor_timestamps'', PBool True),
     (''scrape_interval'', PStr ''15s''),
     (''scrape_timeout'', PStr ''15s''),
     (''metrics_path'', PStr path),
     (''scheme'', PStr ''http''),
     (''follow_redirects'', PBool True),
     (''enable_http2'', PBool True)]"

definition provider_init :: "string \<Rightarrow> string \<Rightarrow> nat \<Rightarrow> string \<Rightarrow> (string \<times> pyval) list \<Rightarrow> job" where
  "provider_init uuid relation_name port path overrides =
     \<lparr>job_name = relation_name,
      job_data = foldl (\<lambda>d (k, v). AList.update k v d) (default_job_data path) overrides,
      request_id = uuid,
      job_port = str_of_nat port\<rparr>"

definition job_value :: "job \<Rightarrow> pyval" where
  "job_value j = PDict [(PStr ''job_name'', PStr (job_name j)),
     (PStr ''job_data'', PDict (map (\<lambda>kv. (PStr (fst kv), snd kv)) (job_data j))),
     (PStr ''request_id'', PStr (request_id j)), (PStr ''port'', PStr (job_port j))]"

definition with_target :: "string \<Rightarrow> job \<Rightarrow> job" where
  "with_target address j =
     (if map_of (job_data j) ''static_configs'' = None
      then j\<lparr>job_data := job_data j @ [(''static_configs'',
              PList [PDict [(PStr ''targets'', PList [PStr (address @ '':'' @ job_port j)])]])]\<rparr>
      else j)"

definition on_relation_joined :: "(pyval \<Rightarrow> string) \<Rightarrow> job \<Rightarrow> (string \<rightharpoonup> string) \<Rightarrow> exn + job \<times> (string \<rightharpoonup> string)" where
  "on_relation_joined dumps j databag =
     (case databag ''ingress-address'' of
        None \<Rightarrow> Inl (Exn KeyError ''ingress-address'')
      | Some address \<Rightarrow>
          (let j' = with_target address j
           in Inr (j', databag(''request_'' @ request_id j' \<mapsto> dumps (job_value j')))))"

text \<open>The three providers of \<open>BitcoinCharm.__init__\<close>.\<close>

definition charm_providers :: "(nat \<Rightarrow> string) \<Rightarrow> job list" where
  "charm_providers uuid =
    [provider_init (uuid 0) ''node-prometheus'' 9100 ''/metrics'' [],
     provider_init (uuid 1) ''monitor-prometheus'' 9332 ''/metrics'' [],
     provider_init (uuid 2) ''rpc-proxy-prometheus'' RPC_PROXY_ADMIN_PORT ''/metrics'' []]"

section \<open>What a joining unit is offered\<close>

lemma with_target_request [simp]: "request_id (with_target a j) = request_id j" "job_port (with_target a j) = job_port j"
  by (simp_all add: with_target_def)

lemma provider_no_target:
  "''static_configs'' \<notin> fst ` set overrides \<Longrightarrow> map_of (job_data (provider_init u r p path overrides)) ''static_configs'' = None"
proof -
  have "''static_configs'' \<notin> fst ` set overrides \<Longrightarrow> map_of (foldl (\<lambda>d (k, v). AList.update k v d) d overrides) ''static_configs''
      = map_of d ''static_configs''" for d :: "(string \<times> pyval) list"
    by (induction overrides arbitrary: d) (auto simp: update_conv')
  then show "''static_configs'' \<notin> fst ` set overrides \<Longrightarrow> ?thesis"
    by (simp add: provider_init_def default_job_data_def)
qed

text \<open>
  (C30) Joining publishes one scrape job, under a key with the provider's identifier: a fresh provider
  without its own targets offers the unit's ingress address with its port, keeps its other settings, and
  leaves every other entry of the databag alone. Two providers with different identifiers do not
  overwrite each other.
\<close>

theorem relation_joined_publishes_job:
  assumes "databag ''ingress-address'' = Some address" and "''static_configs'' \<notin> fst ` set overrides"
    and "j = provider_init uuid relation_name port path overrides"
  shows "\<exists>j' databag'. on_relation_joined dumps j databag = Inr (j', databag')
    \<and> databag' (''request_'' @ uuid) = Some (dumps (job_value j'))
    \<and> map_of (job_data j') ''static_configs'' = Some (PList [PDict [(PStr ''targets'', PList [PStr (address @ '':'' @ str_of_nat port)])]])
    \<and> (\<forall>k. map_of (job_data j') k = (if k = ''static_configs'' then map_of (job_data j') k else map_of (job_data j) k))
    \<and> (\<forall>k. databag' k = (if k = ''request_'' @ uuid then databag' k else databag k))"
proof -
  have "map_of (job_data j) ''static_configs'' = None" using assms(2,3) provider_no_target by simp
  moreover have "request_id j = uuid" "job_port j = str_of_nat port" using assms(3) by (simp_all add: provider_init_def)
  ultimately show ?thesis using assms(1)
    by (auto simp: on_relation_joined_def with_target_def Let_def map_add_def split: option.splits)
qed

theorem relation_joined_publishes_job_witness:
  "\<exists>j' databag'. on_relation_joined (\<lambda>v. ''{}'') (provider_init ''u1'' ''node-prometheus'' 9100 ''/metrics'' [])
       [''ingress-address'' \<mapsto> ''10.0.0.1''] = Inr (j', databag') \<and> databag' ''request_u1'' = Some ''{}''"
  using relation_joined_publishes_job [of "[''ingress-address'' \<mapsto> ''10.0.0.1'']" "''10.0.0.1''" "[]"
      "provider_init ''u1'' ''node-prometheus'' 9100 ''/metrics'' []" "''u1''" "''node-prometheus''" 9100 "''/metrics''" "\<lambda>v. ''{}''"]
  by auto

end
