(* ===== verification/Py_Object.thy ===== *)
theory Py_Object
  imports Prelude Py_Value
begin

text \<open>
  Operations on Python values that may raise: subscripts, length, iteration, lookup, and the comparisons
  with \<open>==\<close> that the sources make between a JSON value and a number, a text or a dictionary of texts. The keys
  of a dictionary are distinct.
\<close>

text \<open>\<open>d[k]\<close>, \<open>k in d\<close>, \<open>len(v)\<close> and iteration.\<close>

definition item :: "pyval \<Rightarrow> string \<Rightarrow> exn + pyval" where
  "item v k = (case v of
      PDict kvs \<Rightarrow> (case map_of kvs (PStr k) of None \<Rightarrow> Inl (Exn KeyError (repr_str k)) | Some x \<Rightarrow> Inr x)
    | _ \<Rightarrow> Inl (Exn TypeError ''object is not subscriptable by a string''))"

definition has_key :: "pyval \<Rightarrow> string \<Rightarrow> bool" where
  "has_key v k = (case v of PDict kvs \<Rightarrow> map_of kvs (PStr k) \<noteq> None | _ \<Rightarrow> False)"

definition py_len :: "pyval \<Rightarrow> exn + int" where
  "py_len v = (case v of
      PList vs \<Rightarrow> Inr (int (length vs))
    | PTuple vs \<Rightarrow> Inr (int (length vs))
    | PDict kvs \<Rightarrow> Inr (int (length kvs))
    | PStr s \<Rightarrow> Inr (int (length s))
    | _ \<Rightarrow> Inl (Exn TypeError ''object has no len()''))"

definition py_iter :: "pyval \<Rightarrow> exn + pyval list" where
  "py_iter v = (case v of
      PList vs \<Rightarrow> Inr vs
    | PTuple vs \<Rightarrow> Inr vs
    | PDict kvs \<Rightarrow> Inr (map fst kvs)
    | PStr s \<Rightarrow> Inr (map (\<lambda>c. PStr [c]) s)
    | _ \<Rightarrow> Inl (Exn TypeError ''object is not iterable''))"

text \<open>\<open>v.get(k)\<close> and \<open>v.get(k, d)\<close> of a dictionary.\<close>

definition py_get :: "pyval \<Rightarrow> string \<Rightarrow> exn + pyval" where
  "py_get v k = (if is_dict v then Inr (dict_get v k) else Inl (Exn AttributeError ''object has no attribute get''))"

definition dict_get_or :: "pyval \<Rightarrow> string \<Rightarrow> pyval \<Rightarrow> pyval" where
  "dict_get_or v k d = (if has_key v k then dict_get v k else d)"

text \<open>
  \<open>v == i\<close> for an integer: \<open>True\<close> equals 1 and a float equals the integer it denotes; the parameter compares the
  text of a float with an integer.
\<close>

definition eq_int :: "(string \<Rightarrow> int \<Rightarrow> bool) \<Rightarrow> pyval \<Rightarrow> int \<Rightarrow> bool" where
  "eq_int feq v i = (case v of
      PInt j \<Rightarrow> j = i
    | PBool b \<Rightarrow> (if b then 1 else 0) = i
    | PFloat r \<Rightarrow> feq r i
    | _ \<Rightarrow> False)"

text \<open>\<open>v == d\<close> for a dictionary of texts: the same keys with the same values, in any order.\<close>

definition eq_text_dict :: "pyval \<Rightarrow> (string \<times> string) list \<Rightarrow> bool" where
  "eq_text_dict v d = (case v of
      PDict kvs \<Rightarrow> length kvs = length d \<and> list_all (\<lambda>(k, t). map_of kvs (PStr k) = Some (PStr t)) d
    | _ \<Rightarrow> False)"

end
