(* ===== verification/Monitor.thy ===== *)
theory Monitor
  imports Host_Info Py_Object
begin

text \<open>
  \<open>templates/bitcoind-monitor.py\<close>, the Prometheus exporter the charm installs next to the node: its settings
  from the environment, the choice of the RPC client, the retried RPC calls, the one-entry cache of
  block statistics, the gauges that are created on demand, one refresh of all metrics, and the
  rate-limited web application. The RPC client of \<open>python-bitcoinlib\<close>, the retry decorator of \<open>riprova\<close>, the
  clock and Base64 are parameters. A gauge holds the value it was set to; \<open>prometheus_client\<close> converts
  it to a double. Times are microseconds, also in the counter of the processing time; the seconds the
  code compares and adds are these divided by a million.
\<close>

section \<open>Settings\<close>

record settings =
  ban_address_metrics :: bool
  rpc_scheme :: string
  rpc_host :: string
  rpc_port :: string
  rpc_user :: "string option"
  rpc_password :: "string option"
  conf_path :: "string option"
  hashps_blocks :: "int list"
  smart_fees :: "int list"
  metrics_addr :: string
  metrics_port :: int
  rpc_timeout :: int
  rate_limit :: int
  log_level :: string

definition env_get_or :: "(string \<rightharpoonup> string) \<Rightarrow> string \<Rightarrow> string \<Rightarrow> string" where
  "env_get_or environ k d = (case environ k of None \<Rightarrow> d | Some v \<Rightarrow> v)"

definition int_of_text :: "string \<Rightarrow> exn + int" where
  "int_of_text s = (case py_int s of None \<Rightarrow> Inl (invalid_int s) | Some i \<Rightarrow> Inr i)"

text \<open>\<open>[int(b) for b in s.split(",") if b != ""]\<close>\<close>

primrec ints_of_texts :: "string list \<Rightarrow> exn + int list" where
  "ints_of_texts [] = Inr []"
| "ints_of_texts (s # ss) = (case int_of_text s of
      Inl e \<Rightarrow> Inl e
    | Inr i \<Rightarrow> (case ints_of_texts ss of Inl e \<Rightarrow> Inl e | Inr is \<Rightarrow> Inr (i # is)))"

definition int_list :: "string \<Rightarrow> exn + int list" where
  "int_list s = ints_of_texts (filter (\<lambda>b. b \<noteq> []) (split_chr (CHR '','') s))"

text \<open>The module's variables, in the order in which they are evaluated; the first error ends the program.\<close>

definition module_settings :: "(string \<rightharpoonup> string) \<Rightarrow> exn + settings" where
  "module_settings environ =
     (case int_list (env_get_or environ ''HASHPS_BLOCKS'' ''-1,1,120'') of Inl e \<Rightarrow> Inl e | Inr hashps \<Rightarrow>
     (case int_list (env_get_or environ ''SMARTFEE_BLOCKS'' ''2,3,5,20'') of Inl e \<Rightarrow> Inl e | Inr fees \<Rightarrow>
     (case int_of_text (env_get_or environ ''METRICS_PORT'' ''9332'') of Inl e \<Rightarrow> Inl e | Inr port \<Rightarrow>
     (case int_of_text (env_get_or environ ''TIMEOUT'' ''30'') of Inl e \<Rightarrow> Inl e | Inr seconds \<Rightarrow>
     (case int_of_text (env_get_or environ ''RATE_LIMIT'' ''5'') of Inl e \<Rightarrow> Inl e | Inr rate \<Rightarrow>
      Inr \<lparr>ban_address_metrics = (py_lower (env_get_or environ ''BAN_ADDRESS_METRICS'' ''false'') = ''true''),
           rpc_scheme = env_get_or environ ''BITCOIN_RPC_SCHEME'' ''http'',
           rpc_host = env_get_or environ ''BITCOIN_RPC_HOST'' ''localhost'',
           rpc_port = env_get_or environ ''BITCOIN_RPC_PORT'' ''8332'',
           rpc_user = environ ''BITCOIN_RPC_USER'',
           rpc_password = environ ''BITCOIN_RPC_PASSWORD'',
           conf_path = environ ''BITCOIN_CONF_PATH'',
           hashps_blocks = hashps,
           smart_fees = fees,
           metrics_addr = env_get_or environ ''METRICS_ADDR'' [],
           metrics_port = port,
           rpc_timeout = seconds,
           rate_limit = rate,
           log_level = env_get_or environ ''LOG_LEVEL'' ''INFO''\<rparr>)))))"

section \<open>The RPC client\<close>

text \<open>Which client the factory makes: one that reads a configuration file, or one with a user and a password.\<close>

datatype rpc_target =
    FromConfFile "string option" int
  | WithPassword string string string int

definition rpc_client_factory :: "settings \<Rightarrow> rpc_target" where
  "rpc_client_factory S =
     (case (conf_path S, rpc_user S, rpc_password S) of
        (None, Some user, Some password) \<Rightarrow>
          (let host = (if rpc_port S \<noteq> [] then rpc_host S @ '':'' @ rpc_port S else rpc_host S)
           in WithPassword (rpc_scheme S @ ''://'' @ host) user password (rpc_timeout S))
      | _ \<Rightarrow> FromConfFile (conf_path S) (rpc_timeout S))"

text \<open>The header \<open>UsernamePasswordProxy\<close> puts in place of the library's; \<open>None\<close> when it keeps the library's.\<close>

definition auth_header :: "(string \<Rightarrow> string) \<Rightarrow> string \<Rightarrow> string \<Rightarrow> string option" where
  "auth_header b64encode username password =
     (if username \<noteq> [] \<and> password \<noteq> [] then Some (''Basic '' @ b64encode (username @ '':'' @ password)) else None)"

section \<open>State\<close>

text \<open>A time series: the metric's name and its labels.\<close>

type_synonym series = "string \<times> (string \<times> string) list"

datatype gauge_value = Plain pyval | InCoins pyval

record 'h monitor =
  outside :: 'h
  gauges :: "series \<rightharpoonup> gauge_value"
  counters :: "series \<Rightarrow> int"
  registry :: "string list"
  smartfee_gauges :: "int \<rightharpoonup> string"
  hashps_gauges :: "int \<rightharpoonup> string"
  block_cache :: "(string \<times> pyval) option"
  last_refresh :: int

text \<open>
  \<open>rpc_client().call(*args)\<close>; \<open>datetime.now()\<close> in microseconds since the epoch; whether \<open>float\<close> accepts a
  text; \<open>int(d)\<close> of a decimal given by its text; \<open>type(e).__module__ + "." + type(e).__name__\<close> (the kinds of
  exception stand for their subclasses too); and \<open>riprova.retry\<close> with its time limit and back-off, given what to do on a retry, which
  errors to retry, and the call.
\<close>

record 'h monitor_env =
  mon_call :: "pyval list \<Rightarrow> 'h \<Rightarrow> 'h \<times> (exn + pyval)"
  mon_now :: "'h \<Rightarrow> 'h \<times> int"
  mon_float_text :: "string \<Rightarrow> bool"
  mon_truncate :: "string \<Rightarrow> int"
  mon_class_name :: "exn \<Rightarrow> string"
  mon_retry :: "(exn \<Rightarrow> ('h monitor, unit) io) \<Rightarrow> (exn \<Rightarrow> bool) \<Rightarrow> ('h monitor, pyval) io \<Rightarrow> ('h monitor, pyval) io"

definition lift_sum :: "exn + 'a \<Rightarrow> ('s, 'a) io" where
  "lift_sum x = (\<lambda>s. (s, x))"

definition now :: "'h monitor_env \<Rightarrow> ('h monitor, int) io" where
  "now M = (\<lambda>s. case mon_now M (outside s) of (h, t) \<Rightarrow> (s\<lparr>outside := h\<rparr>, Inr t))"

text \<open>\<open>Counter.inc\<close>: an amount below zero is refused.\<close>

definition inc_counter :: "series \<Rightarrow> int \<Rightarrow> ('h monitor, unit) io" where
  "inc_counter c n = (if n < 0 then raise_exn (Exn ValueError ''Counters can only be incremented by non-negative amounts.'')
     else putIO (\<lambda>s. s\<lparr>counters := (counters s)(c := counters s c + n)\<rparr>))"

text \<open>\<open>float(v)\<close> as \<open>Gauge.set\<close> applies it; integers are taken to be in the range of a double.\<close>

fun accepts_float :: "(string \<Rightarrow> bool) \<Rightarrow> pyval \<Rightarrow> exn option" where
  "accepts_float ft (PInt i) = None"
| "accepts_float ft (PBool b) = None"
| "accepts_float ft (PFloat r) = None"
| "accepts_float ft (PStr s) = (if ft s then None else Some (Exn ValueError (''could not convert string to float: '' @ repr_str s)))"
| "accepts_float ft _ = Some (Exn TypeError ''float() argument must be a string or a real number'')"

definition set_series :: "'h monitor_env \<Rightarrow> series \<Rightarrow> pyval \<Rightarrow> ('h monitor, unit) io" where
  "set_series M g v = (case accepts_float (mon_float_text M) v of
      Some e \<Rightarrow> raise_exn e
    | None \<Rightarrow> putIO (\<lambda>s. s\<lparr>gauges := (gauges s)(g \<mapsto> Plain v)\<rparr>))"

definition set_gauge :: "'h monitor_env \<Rightarrow> string \<Rightarrow> pyval \<Rightarrow> ('h monitor, unit) io" where
  "set_gauge M name v = set_series M (name, []) v"

text \<open>\<open>gauge.set(v / SATS_PER_COIN)\<close>: only integers and decimals divide by a \<open>Decimal\<close>.\<close>

definition set_coins :: "string \<Rightarrow> pyval \<Rightarrow> ('h monitor, unit) io" where
  "set_coins name v = (case v of
      PInt _ \<Rightarrow> putIO (\<lambda>s. s\<lparr>gauges := (gauges s)((name, []) \<mapsto> InCoins v)\<rparr>)
    | PBool _ \<Rightarrow> putIO (\<lambda>s. s\<lparr>gauges := (gauges s)((name, []) \<mapsto> InCoins v)\<rparr>)
    | PFloat _ \<Rightarrow> putIO (\<lambda>s. s\<lparr>gauges := (gauges s)((name, []) \<mapsto> InCoins v)\<rparr>)
    | _ \<Rightarrow> raise_exn (Exn TypeError ''unsupported operand type(s) for /''))"

section \<open>Numbers\<close>

text \<open>\<open>int(v)\<close>\<close>

definition int_of_number :: "'h monitor_env \<Rightarrow> pyval \<Rightarrow> exn + int" where
  "int_of_number M v = (case v of
      PInt i \<Rightarrow> Inr i
    | PBool b \<Rightarrow> Inr (if b then 1 else 0)
    | PFloat d \<Rightarrow> Inr (mon_truncate M d)
    | PStr s \<Rightarrow> int_of_text s
    | _ \<Rightarrow> Inl (Exn TypeError ''int() argument must be a string, a bytes-like object or a real number''))"

section \<open>Errors and calls\<close>

definition exception_count :: "'h monitor_env \<Rightarrow> exn \<Rightarrow> ('h monitor, unit) io" where
  "exception_count M e = inc_counter (''bitcoin_exporter_errors'', [(''type'', mon_class_name M e)]) 1"

definition on_retry :: "'h monitor_env \<Rightarrow> exn \<Rightarrow> ('h monitor, unit) io" where
  "on_retry M e = inc_counter (''bitcoin_exporter_errors'', [(''type'', mon_class_name M e)]) 1"

definition error_evaluator :: "exn \<Rightarrow> bool" where
  "error_evaluator e \<longleftrightarrow> exn_kind e \<in> {InWarmupError, ConnectionError, TimeoutError}"

definition call_node :: "'h monitor_env \<Rightarrow> pyval list \<Rightarrow> ('h monitor, pyval) io" where
  "call_node M args = (\<lambda>s. case mon_call M args (outside s) of (h, r) \<Rightarrow> (s\<lparr>outside := h\<rparr>, r))"

definition bitcoinrpc :: "'h monitor_env \<Rightarrow> pyval list \<Rightarrow> ('h monitor, pyval) io" where
  "bitcoinrpc M args = mon_retry M (on_retry M) error_evaluator (call_node M args)"

definition block_fields :: "string list" where
  "block_fields = [''total_size'', ''total_weight'', ''totalfee'', ''txs'', ''height'', ''ins'', ''outs'', ''total_out'']"

text \<open>
  \<open>getblockstats\<close>: every \<open>Exception\<close>, which \<open>SystemExit\<close> is not, becomes \<open>None\<close>. Under \<open>lru_cache(maxsize=1)\<close> the last
  argument and what was returned for it are kept.
\<close>

definition getblockstats_body :: "'h monitor_env \<Rightarrow> string \<Rightarrow> ('h monitor, pyval) io" where
  "getblockstats_body M block_hash = try_except
     (bitcoinrpc M [PStr ''getblockstats'', PStr block_hash, PList (map PStr block_fields)])
     (\<lambda>e. if exn_kind e = SystemExit then raise_exn e else ret PNone)"

definition getblockstats :: "'h monitor_env \<Rightarrow> string \<Rightarrow> ('h monitor, pyval) io" where
  "getblockstats M block_hash = bindIO (getIO block_cache) (\<lambda>cached.
     case cached of
       Some (h, v) \<Rightarrow> if h = block_hash then ret v
         else bindIO (getblockstats_body M block_hash) (\<lambda>v.
           seqIO (putIO (\<lambda>s. s\<lparr>block_cache := Some (block_hash, v)\<rparr>)) (ret v))
     | None \<Rightarrow> bindIO (getblockstats_body M block_hash) (\<lambda>v.
           seqIO (putIO (\<lambda>s. s\<lparr>block_cache := Some (block_hash, v)\<rparr>)) (ret v)))"

section \<open>Gauges on demand\<close>

text \<open>\<open>Gauge(name, ...)\<close>: a name can be registered once; a gauge without labels starts at zero.\<close>

definition new_gauge :: "string \<Rightarrow> ('h monitor, unit) io" where
  "new_gauge name = bindIO (getIO registry) (\<lambda>names.
     if name \<in> set names then raise_exn (Exn ValueError (''Duplicated timeseries in CollectorRegistry: '' @ name))
     else putIO (\<lambda>s. s\<lparr>registry := name # registry s, gauges := (gauges s)((name, []) \<mapsto> Plain (PInt 0))\<rparr>))"

definition smartfee_name :: "int \<Rightarrow> string" where
  "smartfee_name num_blocks = ''bitcoin_est_smart_fee_'' @ str_of_int num_blocks"

definition smartfee_gauge :: "int \<Rightarrow> ('h monitor, string) io" where
  "smartfee_gauge num_blocks = bindIO (getIO (\<lambda>s. smartfee_gauges s num_blocks)) (\<lambda>gauge.
     case gauge of
       Some g \<Rightarrow> ret g
     | None \<Rightarrow> seqIO (new_gauge (smartfee_name num_blocks))
         (seqIO (putIO (\<lambda>s. s\<lparr>smartfee_gauges := (smartfee_gauges s)(num_blocks \<mapsto> smartfee_name num_blocks)\<rparr>))
           (ret (smartfee_name num_blocks))))"

definition do_smartfee :: "'h monitor_env \<Rightarrow> int \<Rightarrow> ('h monitor, unit) io" where
  "do_smartfee M num_blocks = bindIO (bitcoinrpc M [PStr ''estimatesmartfee'', PInt num_blocks]) (\<lambda>answer.
     if \<not> is_dict answer then raise_exn (Exn AttributeError ''object has no attribute get'')
     else whenIO (dict_get answer ''feerate'' \<noteq> PNone)
       (bindIO (smartfee_gauge num_blocks) (\<lambda>g. set_gauge M g (dict_get answer ''feerate''))))"

definition hashps_gauge_suffix :: "int \<Rightarrow> string" where
  "hashps_gauge_suffix nblocks =
     (if nblocks < 0 then ''_neg'' @ str_of_int (- nblocks)
      else if nblocks = 120 then []
      else ''_'' @ str_of_int nblocks)"

definition hashps_name :: "int \<Rightarrow> string" where
  "hashps_name num_blocks = ''bitcoin_hashps'' @ hashps_gauge_suffix num_blocks"

definition hashps_gauge :: "int \<Rightarrow> ('h monitor, string) io" where
  "hashps_gauge num_blocks = bindIO (getIO (\<lambda>s. hashps_gauges s num_blocks)) (\<lambda>gauge.
     case gauge of
       Some g \<Rightarrow> ret g
     | None \<Rightarrow> seqIO (new_gauge (hashps_name num_blocks))
         (seqIO (putIO (\<lambda>s. s\<lparr>hashps_gauges := (hashps_gauges s)(num_blocks \<mapsto> hashps_name num_blocks)\<rparr>))
           (ret (hashps_name num_blocks))))"

definition do_hashps_gauge :: "'h monitor_env \<Rightarrow> int \<Rightarrow> ('h monitor, unit) io" where
  "do_hashps_gauge M num_blocks = bindIO (bitcoinrpc M [PStr ''getnetworkhashps'', PInt num_blocks]) (\<lambda>hps.
     case accepts_float (mon_float_text M) hps of
       Some e \<Rightarrow> raise_exn e
     | None \<Rightarrow> bindIO (hashps_gauge num_blocks) (\<lambda>g. set_gauge M g hps))"

section \<open>The metrics of the module\<close>

text \<open>
  The metrics the module creates when it is loaded, in order. A gauge without labels is exported from
  then on, with the value zero; a labelled one has no series yet. A counter also reserves its
  \<open>_total\<close> and \<open>_created\<close> names.
\<close>

datatype metric = Gauge string | LabelledGauge string | Counter string

definition module_metrics :: "settings \<Rightarrow> metric list" where
  "module_metrics S =
     [Gauge ''bitcoin_blocks'', Gauge ''bitcoin_difficulty'', Gauge ''bitcoin_peers'', Gauge ''bitcoin_conn_in'', Gauge ''bitcoin_conn_out'',
      Counter ''bitcoin_warnings'', Gauge ''bitcoin_uptime'',
      Gauge ''bitcoin_meminfo_used'', Gauge ''bitcoin_meminfo_free'', Gauge ''bitcoin_meminfo_total'', Gauge ''bitcoin_meminfo_locked'',
      Gauge ''bitcoin_meminfo_chunks_used'', Gauge ''bitcoin_meminfo_chunks_free'',
      Gauge ''bitcoin_mempool_bytes'', Gauge ''bitcoin_mempool_size'', Gauge ''bitcoin_mempool_usage'', Gauge ''bitcoin_mempool_minfee'',
      Gauge ''bitcoin_mempool_unbroadcast'',
      Gauge ''bitcoin_latest_block_height'', Gauge ''bitcoin_latest_block_weight'', Gauge ''bitcoin_latest_block_size'', Gauge ''bitcoin_latest_block_txs'',
      Gauge ''bitcoin_txcount'', Gauge ''bitcoin_num_chaintips'', Gauge ''bitcoin_total_bytes_recv'', Gauge ''bitcoin_total_bytes_sent'',
      Gauge ''bitcoin_latest_block_inputs'', Gauge ''bitcoin_latest_block_outputs'', Gauge ''bitcoin_latest_block_value'', Gauge ''bitcoin_latest_block_fee'',
      Gauge ''bitcoin_banned_peers''] @
     (if ban_address_metrics S then [LabelledGauge ''bitcoin_ban_created'', LabelledGauge ''bitcoin_banned_until''] else []) @
     [Gauge ''bitcoin_server_version'', Gauge ''bitcoin_protocol_version'', Gauge ''bitcoin_size_on_disk'', Gauge ''bitcoin_verification_progress'',
      Gauge ''bitcoin_rpc_active'', Counter ''bitcoin_exporter_errors'', Counter ''bitcoin_exporter_process_time'']"

fun reserved_names :: "metric \<Rightarrow> string list" where
  "reserved_names (Gauge n) = [n]"
| "reserved_names (LabelledGauge n) = [n]"
| "reserved_names (Counter n) = [n, n @ ''_total'', n @ ''_created'']"

definition is_gauge :: "metric \<Rightarrow> string \<Rightarrow> bool" where
  "is_gauge m n \<longleftrightarrow> m = Gauge n"

text \<open>The state when the server starts; \<open>datetime.fromtimestamp(0)\<close> is the time of the last refresh.\<close>

definition started :: "settings \<Rightarrow> 'h \<Rightarrow> 'h monitor" where
  "started S h = \<lparr>outside = h,
     gauges = (\<lambda>g. if snd g = [] \<and> list_ex (\<lambda>m. is_gauge m (fst g)) (module_metrics S) then Some (Plain (PInt 0)) else None),
     counters = (\<lambda>_. 0), registry = concat (map reserved_names (module_metrics S)),
     smartfee_gauges = Map.empty, hashps_gauges = Map.empty, block_cache = None, last_refresh = 0\<rparr>"

section \<open>One refresh\<close>

text \<open>What the node answers, asked for in this order before any gauge is set.\<close>

record node_info =
  ni_uptime :: int
  ni_meminfo :: pyval
  ni_chain :: pyval
  ni_network :: pyval
  ni_chaintips :: int
  ni_mempool :: pyval
  ni_nettotals :: pyval
  ni_rpcinfo :: pyval
  ni_txstats :: pyval
  ni_block :: pyval
  ni_banned :: pyval

definition ask :: "'h monitor_env \<Rightarrow> string \<Rightarrow> ('h monitor, pyval) io" where
  "ask M command = bitcoinrpc M [PStr command]"

definition fetch_node_info :: "'h monitor_env \<Rightarrow> ('h monitor, node_info) io" where
  "fetch_node_info M =
     bindIO (ask M ''uptime'') (\<lambda>u. bindIO (lift_sum (int_of_number M u)) (\<lambda>uptime.
     bindIO (bitcoinrpc M [PStr ''getmemoryinfo'', PStr ''stats'']) (\<lambda>m. bindIO (lift_sum (item m ''locked'')) (\<lambda>meminfo.
     bindIO (ask M ''getblockchaininfo'') (\<lambda>chain.
     bindIO (ask M ''getnetworkinfo'') (\<lambda>network.
     bindIO (ask M ''getchaintips'') (\<lambda>tips. bindIO (lift_sum (py_len tips)) (\<lambda>chaintips.
     bindIO (ask M ''getmempoolinfo'') (\<lambda>mempool.
     bindIO (ask M ''getnettotals'') (\<lambda>nettotals.
     bindIO (ask M ''getrpcinfo'') (\<lambda>rpcinfo.
     bindIO (ask M ''getchaintxstats'') (\<lambda>txstats.
     bindIO (lift_sum (item chain ''bestblockhash'')) (\<lambda>best.
     bindIO (getblockstats M (py_str best)) (\<lambda>block.
     bindIO (ask M ''listbanned'') (\<lambda>banned.
       ret \<lparr>ni_uptime = uptime, ni_meminfo = meminfo, ni_chain = chain, ni_network = network, ni_chaintips = chaintips,
            ni_mempool = mempool, ni_nettotals = nettotals, ni_rpcinfo = rpcinfo, ni_txstats = txstats,
            ni_block = block, ni_banned = banned\<rparr>)))))))))))))))"

text \<open>\<open>GAUGE.set(d[k])\<close>, and the same under \<open>if k in d\<close>.\<close>

definition set_item :: "'h monitor_env \<Rightarrow> pyval \<Rightarrow> string \<times> string \<Rightarrow> ('h monitor, unit) io" where
  "set_item M d gk = bindIO (lift_sum (item d (snd gk))) (set_gauge M (fst gk))"

definition set_item_if :: "'h monitor_env \<Rightarrow> pyval \<Rightarrow> string \<times> string \<Rightarrow> ('h monitor, unit) io" where
  "set_item_if M d gk = whenIO (has_key d (snd gk)) (set_item M d gk)"

definition set_item_coins :: "pyval \<Rightarrow> string \<times> string \<Rightarrow> ('h monitor, unit) io" where
  "set_item_coins d gk = bindIO (lift_sum (item d (snd gk))) (set_coins (fst gk))"

definition publish_chain :: "'h monitor_env \<Rightarrow> node_info \<Rightarrow> ('h monitor, unit) io" where
  "publish_chain M I =
     seqIO (set_gauge M ''bitcoin_uptime'' (PInt (ni_uptime I)))
    (seqIO (set_item M (ni_chain I) (''bitcoin_blocks'', ''blocks''))
    (seqIO (set_item M (ni_network I) (''bitcoin_peers'', ''connections''))
    (seqIO (set_item_if M (ni_network I) (''bitcoin_conn_in'', ''connections_in''))
    (seqIO (set_item_if M (ni_network I) (''bitcoin_conn_out'', ''connections_out''))
    (seqIO (set_item M (ni_chain I) (''bitcoin_difficulty'', ''difficulty''))
    (seqIO (set_item M (ni_network I) (''bitcoin_server_version'', ''version''))
    (seqIO (set_item M (ni_network I) (''bitcoin_protocol_version'', ''protocolversion''))
    (seqIO (set_item M (ni_chain I) (''bitcoin_size_on_disk'', ''size_on_disk''))
           (set_item M (ni_chain I) (''bitcoin_verification_progress'', ''verificationprogress''))))))))))"

text \<open>
  \<open>GAUGE.labels(address=ban["address"], reason=ban.get("ban_reason", "manually added")).set(ban[k])\<close>: the series
  exists, with the value zero, once its labels have been named.
\<close>

definition touch_series :: "series \<Rightarrow> ('h monitor, unit) io" where
  "touch_series g = putIO (\<lambda>s. case gauges s g of
      None \<Rightarrow> s\<lparr>gauges := (gauges s)(g \<mapsto> Plain (PInt 0))\<rparr>
    | Some _ \<Rightarrow> s)"

definition set_ban :: "'h monitor_env \<Rightarrow> pyval \<Rightarrow> string \<times> string \<Rightarrow> ('h monitor, unit) io" where
  "set_ban M ban gk = bindIO (lift_sum (item ban ''address'')) (\<lambda>address.
     let reason = (if has_key ban ''ban_reason'' then dict_get ban ''ban_reason'' else PStr ''manually added'');
         g = (fst gk, [(''address'', py_str address), (''reason'', py_str reason)])
     in seqIO (touch_series g) (bindIO (lift_sum (item ban (snd gk))) (set_series M g)))"

definition publish_bans :: "settings \<Rightarrow> 'h monitor_env \<Rightarrow> node_info \<Rightarrow> ('h monitor, unit) io" where
  "publish_bans S M I =
     seqIO (bindIO (lift_sum (py_len (ni_banned I))) (\<lambda>n. set_gauge M ''bitcoin_banned_peers'' (PInt n)))
    (whenIO (ban_address_metrics S)
       (bindIO (lift_sum (py_iter (ni_banned I))) (\<lambda>bans. for_each bans (\<lambda>ban.
          seqIO (set_ban M ban (''bitcoin_ban_created'', ''ban_created''))
                (set_ban M ban (''bitcoin_banned_until'', ''banned_until''))))))"

definition publish_totals :: "'h monitor_env \<Rightarrow> node_info \<Rightarrow> ('h monitor, unit) io" where
  "publish_totals M I =
     seqIO (bindIO (lift_sum (item (ni_network I) ''warnings'')) (\<lambda>v.
       whenIO (truthy v) (inc_counter (''bitcoin_warnings'', []) 1)))
    (seqIO (set_item M (ni_txstats I) (''bitcoin_txcount'', ''txcount''))
    (seqIO (set_gauge M ''bitcoin_num_chaintips'' (PInt (ni_chaintips I)))
    (seqIO (for_each [(''bitcoin_meminfo_used'', ''used''), (''bitcoin_meminfo_free'', ''free''), (''bitcoin_meminfo_total'', ''total''),
        (''bitcoin_meminfo_locked'', ''locked''), (''bitcoin_meminfo_chunks_used'', ''chunks_used''),
        (''bitcoin_meminfo_chunks_free'', ''chunks_free'')] (set_item M (ni_meminfo I)))
    (seqIO (for_each [(''bitcoin_mempool_bytes'', ''bytes''), (''bitcoin_mempool_size'', ''size''), (''bitcoin_mempool_usage'', ''usage''),
        (''bitcoin_mempool_minfee'', ''mempoolminfee'')] (set_item M (ni_mempool I)))
    (seqIO (set_item_if M (ni_mempool I) (''bitcoin_mempool_unbroadcast'', ''unbroadcastcount''))
           (for_each [(''bitcoin_total_bytes_recv'', ''totalbytesrecv''), (''bitcoin_total_bytes_sent'', ''totalbytessent'')]
              (set_item M (ni_nettotals I))))))))"

definition publish_block :: "'h monitor_env \<Rightarrow> node_info \<Rightarrow> ('h monitor, unit) io" where
  "publish_block M I = whenIO (ni_block I \<noteq> PNone)
     (seqIO (for_each [(''bitcoin_latest_block_size'', ''total_size''), (''bitcoin_latest_block_txs'', ''txs''),
        (''bitcoin_latest_block_height'', ''height''), (''bitcoin_latest_block_weight'', ''total_weight''),
        (''bitcoin_latest_block_inputs'', ''ins''), (''bitcoin_latest_block_outputs'', ''outs'')] (set_item M (ni_block I)))
     (for_each [(''bitcoin_latest_block_value'', ''total_out''), (''bitcoin_latest_block_fee'', ''totalfee'')]
        (set_item_coins (ni_block I))))"

definition publish_rpc :: "'h monitor_env \<Rightarrow> node_info \<Rightarrow> ('h monitor, unit) io" where
  "publish_rpc M I = bindIO (lift_sum (item (ni_rpcinfo I) ''active_commands'')) (\<lambda>v.
     bindIO (lift_sum (py_len v)) (\<lambda>n. set_gauge M ''bitcoin_rpc_active'' (PInt (n - 1))))"

definition publish :: "settings \<Rightarrow> 'h monitor_env \<Rightarrow> node_info \<Rightarrow> ('h monitor, unit) io" where
  "publish S M I =
     seqIO (publish_chain M I)
    (seqIO (for_each (smart_fees S) (do_smartfee M))
    (seqIO (for_each (hashps_blocks S) (do_hashps_gauge M))
    (seqIO (publish_bans S M I)
    (seqIO (publish_totals M I)
    (seqIO (publish_block M I)
           (publish_rpc M I))))))"

definition refresh_metrics :: "settings \<Rightarrow> 'h monitor_env \<Rightarrow> ('h monitor, unit) io" where
  "refresh_metrics S M = bindIO (fetch_node_info M) (publish S M)"

section \<open>The web application\<close>

text \<open>\<open>signal_handler\<close>: the code the process exits with.\<close>

definition signal_handler :: "int \<Rightarrow> ('h monitor, unit) io" where
  "signal_handler signum = raise_exn (Exn SystemExit (str_of_int (128 + signum)))"

text \<open>\<open>app(*args)\<close> renders the registered metrics: their values are what a request is answered with.\<close>

type_synonym exposition = "(series \<rightharpoonup> gauge_value) \<times> (series \<Rightarrow> int)"

definition serve :: "('h monitor, exposition) io" where
  "serve = getIO (\<lambda>s. (gauges s, counters s))"

text \<open>The \<open>except\<close> clauses around the refresh, the first that matches; \<open>InWarmupError\<close> is a \<open>JSONRPCError\<close>.\<close>

definition handle_refresh_error :: "'h monitor_env \<Rightarrow> exn \<Rightarrow> ('h monitor, unit) io" where
  "handle_refresh_error M e =
     (if exn_kind e = RetryError then exception_count M e
      else if exn_kind e \<in> {JSONRPCError, InWarmupError} then exception_count M e
      else if exn_kind e = JSONDecodeError then raise_exn (Exn SystemExit ''1'')
      else raise_exn e)"

definition refresh_app :: "settings \<Rightarrow> 'h monitor_env \<Rightarrow> ('h monitor, exposition) io" where
  "refresh_app S M = bindIO (now M) (\<lambda>process_start.
     bindIO (getIO last_refresh) (\<lambda>last.
     if process_start - last < rate_limit S * 1000000 then serve
     else seqIO (try_except (refresh_metrics S M) (handle_refresh_error M))
         (bindIO (now M) (\<lambda>finished.
          seqIO (inc_counter (''bitcoin_exporter_process_time'', []) (finished - process_start))
         (seqIO (putIO (\<lambda>s. s\<lparr>last_refresh := process_start\<rparr>)) serve)))))"

text \<open>
  One request under \<open>wsgiref\<close>, the server of the standard library: its handler catches whatever the application
  raises, \<open>SystemExit\<close> too, answers with an error when it can, and goes on to the next request.
\<close>

datatype reply = Metrics exposition | Failed exn

definition handle_request :: "settings \<Rightarrow> 'h monitor_env \<Rightarrow> 'h monitor \<Rightarrow> 'h monitor \<times> reply" where
  "handle_request S M s = (case refresh_app S M s of
      (s', Inl e) \<Rightarrow> (s', Failed e)
    | (s', Inr x) \<Rightarrow> (s', Metrics x))"

text \<open>\<open>serve_forever\<close>, up to a number of requests.\<close>

primrec serve_requests :: "settings \<Rightarrow> 'h monitor_env \<Rightarrow> nat \<Rightarrow> 'h monitor \<Rightarrow> 'h monitor \<times> reply list" where
  "serve_requests S M 0 s = (s, [])"
| "serve_requests S M (Suc n) s = (case handle_request S M s of (s', r) \<Rightarrow>
     (case serve_requests S M n s' of (s'', rs) \<Rightarrow> (s'', r # rs)))"

end
