(* ===== verification/Monitor_Laws.thy ===== *)
theory Monitor_Laws
  imports Monitor
begin

text \<open>
  What the exporter's operations keep. A relation between monitor states that tolerates what the
  outside does, counted errors and the cache of block statistics passes through every RPC call (locale
  \<open>fetch_relation\<close>); when it also tolerates new gauge values and gauges made on demand, it passes through a
  whole refresh and any number of requests (locale \<open>refresh_relation\<close>). Three relations are instances: the
  metrics a failed fetch leaves alone, the time of the last refresh, and the registration of the gauges.
\<close>

section \<open>Retrying\<close>

text \<open>
  The retry decorator calls the function and the call-back, and waits; it does nothing else to the
  exporter. So a relation that the calls, the call-back and the outside respect is respected by it.
\<close>

definition retry_transparent :: "'h monitor_env \<Rightarrow> bool" where
  "retry_transparent M \<longleftrightarrow> (\<forall>R on ev call. run_relation R \<longrightarrow> (\<forall>s h. R s (s\<lparr>outside := h\<rparr>)) \<longrightarrow>
     (\<forall>e. runs_in R (on e)) \<longrightarrow> runs_in R call \<longrightarrow> runs_in R (mon_retry M on ev call))"

locale fetch_relation = run_relation R for R :: "'h monitor \<Rightarrow> 'h monitor \<Rightarrow> bool" +
  assumes R_outside: "R s (s\<lparr>outside := h\<rparr>)"
    and R_counters: "R s (s\<lparr>counters := c\<rparr>)"
    and R_cache: "R s (s\<lparr>block_cache := b\<rparr>)"
begin

lemma resp_lift: "runs_in R (lift_sum x)"
  by (simp add: runs_in_def lift_sum_def R_refl)

lemma resp_now: "runs_in R (now M)"
  by (simp add: runs_in_def now_def R_outside split: prod.splits)

lemma resp_inc: "runs_in R (inc_counter c n)"
  unfolding inc_counter_def by (intro resp_if resp_raise resp_put R_counters)

lemma resp_call: "runs_in R (call_node M args)"
  by (simp add: runs_in_def call_node_def R_outside split: prod.splits)

lemma resp_rpc: "retry_transparent M \<Longrightarrow> runs_in R (bitcoinrpc M args)"
  using run_relation_axioms R_outside resp_inc resp_call
  by (simp add: retry_transparent_def bitcoinrpc_def on_retry_def)

lemma resp_blockstats: "retry_transparent M \<Longrightarrow> runs_in R (getblockstats M h)"
proof -
  assume M: "retry_transparent M"
  have b: "runs_in R (bindIO (getblockstats_body M h) (\<lambda>v.
      seqIO (putIO (\<lambda>s. s\<lparr>block_cache := Some (h, v)\<rparr>)) (ret v)))"
    unfolding getblockstats_body_def
    by (intro resp_bind resp_seq resp_try resp_if resp_raise resp_ret resp_rpc [OF M] resp_put R_cache)
  show ?thesis unfolding getblockstats_def
    by (intro resp_bind resp_get) (auto split: option.splits intro: b resp_ret)
qed

lemma resp_fetch: "retry_transparent M \<Longrightarrow> runs_in R (fetch_node_info M)"
  unfolding fetch_node_info_def ask_def
  by (intro resp_bind resp_lift resp_ret resp_rpc resp_blockstats)

lemma resp_handler: "runs_in R (handle_refresh_error M e)"
  unfolding handle_refresh_error_def exception_count_def by (intro resp_if resp_inc resp_raise)

lemma resp_serve: "runs_in R serve"
  unfolding serve_def by (rule resp_get)

end

locale refresh_relation = fetch_relation R for R :: "'h monitor \<Rightarrow> 'h monitor \<Rightarrow> bool" +
  assumes R_gauges: "R s (s\<lparr>gauges := g\<rparr>)"
    and resp_smartfee_gauge: "runs_in R (smartfee_gauge n)"
    and resp_hashps_gauge: "runs_in R (hashps_gauge n)"
begin

lemma resp_set_series: "runs_in R (set_series M g v)"
  unfolding set_series_def
  by (cases "accepts_float (mon_float_text M) v") (auto intro: resp_raise resp_put R_gauges)

lemma resp_set_gauge: "runs_in R (set_gauge M g v)"
  unfolding set_gauge_def by (rule resp_set_series)

lemma resp_set_item: "runs_in R (set_item M d gk)" "runs_in R (set_item_if M d gk)"
  unfolding set_item_def set_item_if_def by (intro resp_when resp_bind resp_lift resp_set_gauge)+

lemma resp_set_coins: "runs_in R (set_item_coins d gk)"
proof -
  have "runs_in R (set_coins (fst gk) v)" for v
    unfolding set_coins_def by (cases v) (auto intro: resp_raise resp_put R_gauges)
  then show ?thesis unfolding set_item_coins_def by (intro resp_bind resp_lift)
qed

lemma resp_smartfee: "retry_transparent M \<Longrightarrow> runs_in R (do_smartfee M n)"
  unfolding do_smartfee_def
  by (intro resp_bind resp_rpc resp_if resp_raise resp_when resp_smartfee_gauge resp_set_gauge)

lemma resp_hashps:
  assumes M: "retry_transparent M"
  shows "runs_in R (do_hashps_gauge M n)"
proof -
  have "runs_in R (case accepts_float (mon_float_text M) v of Some e \<Rightarrow> raise_exn e
      | None \<Rightarrow> bindIO (hashps_gauge n) (\<lambda>g. set_gauge M g v))" for v
    by (cases "accepts_float (mon_float_text M) v")
       (auto intro!: resp_raise resp_bind resp_hashps_gauge resp_set_gauge)
  then show ?thesis unfolding do_hashps_gauge_def by (intro resp_bind resp_rpc [OF M])
qed

lemma resp_set_ban: "runs_in R (set_ban M ban gk)"
proof -
  have "runs_in R (touch_series g)" for g
    unfolding touch_series_def by (rule resp_put) (simp add: R_gauges R_refl split: option.split)
  then show ?thesis unfolding set_ban_def Let_def by (intro resp_bind resp_lift resp_seq resp_set_series)
qed

lemma resp_refresh: "retry_transparent M \<Longrightarrow> runs_in R (refresh_metrics S M)"
  unfolding refresh_metrics_def publish_def publish_chain_def publish_bans_def publish_totals_def publish_block_def publish_rpc_def
  by (intro resp_bind resp_seq resp_fetch resp_when resp_for_each resp_lift resp_set_gauge resp_set_item resp_set_coins
      resp_smartfee resp_hashps resp_set_ban resp_inc)

lemma resp_app:
  assumes M: "retry_transparent M" and last: "\<And>s t. R s (s\<lparr>last_refresh := t\<rparr>)"
  shows "runs_in R (refresh_app S M)"
  unfolding refresh_app_def
  by (intro resp_bind resp_now resp_get resp_if resp_serve resp_seq resp_try resp_refresh [OF M] resp_handler resp_inc
      resp_put last)

lemma requests_related:
  assumes step: "\<And>s. R s (fst (handle_request S M s))"
  shows "R s (fst (serve_requests S M n s))"
proof (induction n arbitrary: s)
  case 0
  show ?case by (simp add: R_refl)
next
  case (Suc n)
  obtain v r where v: "handle_request S M s = (v, r)" by fastforce
  with step [of s] have "R s v" by simp
  then have "R s (fst (serve_requests S M n v))" using Suc.IH by (rule R_trans)
  with v show ?case by (simp add: case_prod_beta)
qed

end

section \<open>What a fetch leaves alone\<close>

definition metrics_kept :: "'h monitor \<Rightarrow> 'h monitor \<Rightarrow> bool" where
  "metrics_kept s s' \<longleftrightarrow> gauges s' = gauges s \<and> registry s' = registry s \<and> smartfee_gauges s' = smartfee_gauges s
     \<and> hashps_gauges s' = hashps_gauges s \<and> last_refresh s' = last_refresh s"

interpretation mk: fetch_relation metrics_kept
  by unfold_locales (simp_all add: metrics_kept_def)

section \<open>The time of the last refresh\<close>

definition same_last :: "'h monitor \<Rightarrow> 'h monitor \<Rightarrow> bool" where
  "same_last s s' \<longleftrightarrow> last_refresh s' = last_refresh s"

lemma on_demand_last:
  "runs_in same_last (smartfee_gauge n)" "runs_in same_last (hashps_gauge n)"
  by (auto simp: runs_in_def same_last_def smartfee_gauge_def hashps_gauge_def new_gauge_def bindIO_run seqIO_run
      split: option.splits)

interpretation lk: refresh_relation same_last
  by unfold_locales (simp_all add: same_last_def on_demand_last)

section \<open>Gauges made on demand\<close>

text \<open>Python's \<open>%d\<close> and \<open>int\<close> are inverse, so the number can be read off a name.\<close>

lemma str_of_nat_inj: "str_of_nat m = str_of_nat n \<longleftrightarrow> m = n"
  using str_of_nat_digits by metis

lemma str_of_nat_not_minus: "str_of_nat n \<noteq> CHR ''-'' # t"
  using str_of_nat_digits [of n] by (auto simp: is_digit_def)

lemma str_of_int_inj: "str_of_int i = str_of_int j \<longleftrightarrow> i = j"
  using str_of_nat_not_minus [of "nat i"] str_of_nat_not_minus [of "nat j"]
  by (auto simp: str_of_int_def str_of_nat_inj not_sym [OF str_of_nat_not_minus])

lemma smartfee_name_inj: "smartfee_name i = smartfee_name j \<longleftrightarrow> i = j"
  by (simp add: smartfee_name_def str_of_int_inj)

lemma str_of_nat_not_n: "str_of_nat n \<noteq> CHR ''n'' # t" "str_of_nat n \<noteq> []"
  using str_of_nat_digits [of n] by (auto simp: is_digit_def)

lemma hashps_gauge_suffix_inj: "hashps_gauge_suffix i = hashps_gauge_suffix j \<longleftrightarrow> i = j"
  using str_of_nat_not_n [of "nat i"] str_of_nat_not_n [of "nat j"]
  by (auto simp: hashps_gauge_suffix_def str_of_int_def str_of_nat_inj not_sym [OF str_of_nat_not_n(1)])

lemma hashps_name_inj: "hashps_name i = hashps_name j \<longleftrightarrow> i = j"
  by (simp add: hashps_name_def hashps_gauge_suffix_inj)

lemma smartfee_not_hashps: "smartfee_name i \<noteq> hashps_name j"
  by (simp add: smartfee_name_def hashps_name_def)

definition registry_ok :: "'h monitor \<Rightarrow> bool" where
  "registry_ok s \<longleftrightarrow>
     (\<forall>n g. smartfee_gauges s n = Some g \<longrightarrow> g = smartfee_name n) \<and>
     (\<forall>n. smartfee_name n \<in> set (registry s) \<longrightarrow> smartfee_gauges s n \<noteq> None) \<and>
     (\<forall>n g. hashps_gauges s n = Some g \<longrightarrow> g = hashps_name n) \<and>
     (\<forall>n. hashps_name n \<in> set (registry s) \<longrightarrow> hashps_gauges s n \<noteq> None)"

definition registry_kept :: "'h monitor \<Rightarrow> 'h monitor \<Rightarrow> bool" where
  "registry_kept s s' \<longleftrightarrow> (registry_ok s \<longrightarrow> registry_ok s')"

lemma smartfee_gauge_ok:
  assumes "registry_ok s"
  shows "snd (smartfee_gauge n s) = Inr (smartfee_name n)" and "registry_ok (fst (smartfee_gauge n s))"
  using assms
  by (auto simp: registry_ok_def smartfee_gauge_def new_gauge_def bindIO_run seqIO_run smartfee_name_inj
      smartfee_not_hashps smartfee_not_hashps [symmetric] split: option.splits)

lemma hashps_gauge_ok:
  assumes "registry_ok s"
  shows "snd (hashps_gauge n s) = Inr (hashps_name n)" and "registry_ok (fst (hashps_gauge n s))"
  using assms
  by (auto simp: registry_ok_def hashps_gauge_def new_gauge_def bindIO_run seqIO_run hashps_name_inj
      smartfee_not_hashps smartfee_not_hashps [symmetric] split: option.splits)

lemma registry_ok_updates [simp]:
  "registry_ok (s\<lparr>outside := h\<rparr>) = registry_ok s" "registry_ok (s\<lparr>counters := c\<rparr>) = registry_ok s"
  "registry_ok (s\<lparr>block_cache := b\<rparr>) = registry_ok s" "registry_ok (s\<lparr>gauges := g\<rparr>) = registry_ok s"
  "registry_ok (s\<lparr>last_refresh := t\<rparr>) = registry_ok s"
  by (simp_all add: registry_ok_def)

interpretation rk: refresh_relation registry_kept
  by unfold_locales (simp_all add: registry_kept_def runs_in_def smartfee_gauge_ok hashps_gauge_ok)

end
