(* ===== verification/Monitor_Spec.thy ===== *)
theory Monitor_Spec
  imports Monitor_Laws "HOL-Library.Sublist"
begin

text \<open>
  The properties of the exporter: it reaches the node with what the charm rendered, it publishes what the
  node answered, a failed fetch leaves the last values in place, refreshes are spaced by the rate limit,
  gauges made on demand never collide, and two error paths that do not do what they are meant to.
\<close>

section \<open>A node and a clock to exercise the exporter on\<close>

definition lab_settings :: settings where
  "lab_settings = \<lparr>ban_address_metrics = True, rpc_scheme = ''http'', rpc_host = ''localhost'', rpc_port = ''8332'',
     rpc_user = Some ''alice'', rpc_password = Some ''s3cret'', conf_path = None, hashps_blocks = [-1, 120], smart_fees = [2],
     metrics_addr = [], metrics_port = 9332, rpc_timeout = 30, rate_limit = 5, log_level = ''INFO''\<rparr>"

definition lab_dict :: "(string \<times> pyval) list \<Rightarrow> pyval" where
  "lab_dict kvs = PDict (map (\<lambda>(k, v). (PStr k, v)) kvs)"

fun lab_answer :: "string \<Rightarrow> pyval" where
  "lab_answer command =
    (if command = ''uptime'' then PInt 60
     else if command = ''getmemoryinfo'' then lab_dict [(''locked'', lab_dict [(''used'', PInt 1), (''free'', PInt 2), (''total'', PInt 3),
        (''locked'', PInt 4), (''chunks_used'', PInt 5), (''chunks_free'', PInt 6)])]
     else if command = ''getblockchaininfo'' then lab_dict [(''blocks'', PInt 840000), (''difficulty'', PFloat ''1.5''), (''size_on_disk'', PInt 7),
        (''verificationprogress'', PFloat ''1.0''), (''bestblockhash'', PStr ''00ab'')]
     else if command = ''getnetworkinfo'' then lab_dict [(''connections'', PInt 8), (''version'', PInt 280000), (''protocolversion'', PInt 70016),
        (''warnings'', PList [])]
     else if command = ''getmempoolinfo'' then lab_dict [(''bytes'', PInt 9), (''size'', PInt 10), (''usage'', PInt 11), (''mempoolminfee'', PFloat ''0.1'')]
     else if command = ''getnettotals'' then lab_dict [(''totalbytesrecv'', PInt 12), (''totalbytessent'', PInt 13)]
     else if command = ''getrpcinfo'' then lab_dict [(''active_commands'', PList [PNone])]
     else if command = ''getchaintxstats'' then lab_dict [(''txcount'', PInt 14)]
     else if command = ''getnetworkhashps'' then PFloat ''2.5''
     else if command = ''getblockstats'' then lab_dict [(''total_size'', PInt 15), (''txs'', PInt 16), (''height'', PInt 840000), (''total_weight'', PInt 17),
        (''ins'', PInt 18), (''outs'', PInt 19), (''total_out'', PInt 312500000), (''totalfee'', PInt 5000)]
     else if command = ''estimatesmartfee'' then lab_dict [(''feerate'', PFloat ''0.2'')]
     else PList [])"

text \<open>The outside is the time in microseconds; \<open>fails\<close> says which commands fail, and how; one retry.\<close>

definition lab_monitor :: "(string \<Rightarrow> exn option) \<Rightarrow> int monitor_env" where
  "lab_monitor fails = \<lparr>mon_call = (\<lambda>args t. (t + 1000, case args of
       PStr command # _ \<Rightarrow> (case fails command of Some e \<Rightarrow> Inl e | None \<Rightarrow> Inr (lab_answer command))
     | _ \<Rightarrow> Inl (Exn TypeError []))),
     mon_now = (\<lambda>t. (t, t)), mon_float_text = (\<lambda>_. False), mon_truncate = (\<lambda>_. 0), mon_class_name = exn_str,
     mon_retry = (\<lambda>on ev call. try_except call (\<lambda>e. if ev e then seqIO (on e) call else raise_exn e))\<rparr>"

lemma lab_transparent: "retry_transparent (lab_monitor fails)"
  unfolding retry_transparent_def lab_monitor_def
  by (simp add: run_relation.resp_try run_relation.resp_if run_relation.resp_seq run_relation.resp_raise)

section \<open>Settings\<close>

lemma port_text: "str_of_nat 8332 = ''8332''"
  by (simp add: str_of_nat.simps, code_simp)



section \<open>The rate limit\<close>

lemma request_last:
  assumes M: "retry_transparent M"
  shows "last_refresh (fst (handle_request S M s)) = last_refresh s
    \<or> last_refresh s + rate_limit S * 1000000 \<le> last_refresh (fst (handle_request S M s))"
proof -
  obtain h t where h: "mon_now M (outside s) = (h, t)" by fastforce
  let ?s = "s\<lparr>outside := h\<rparr>"
  let ?m = "try_except (refresh_metrics S M) (handle_refresh_error M)"
  have m: "runs_in same_last ?m" by (intro lk.resp_try lk.resp_refresh M lk.resp_handler)
  show ?thesis
  proof (cases "t - last_refresh s < rate_limit S * 1000000")
    case True
    with h show ?thesis
      by (simp add: handle_request_def refresh_app_def bindIO_run now_def serve_def)
  next
    case False
    obtain v r where v: "?m ?s = (v, r)" by fastforce
    have "last_refresh v = last_refresh s" using runs_inD [OF m v] by (simp add: same_last_def)
    moreover obtain h' t' where "mon_now M (outside v) = (h', t')" by fastforce
    ultimately show ?thesis using h v False
      by (cases r) (auto simp: handle_request_def refresh_app_def bindIO_run seqIO_run now_def serve_def inc_counter_def)
  qed
qed

text \<open>The time of the last completed refresh, after each of a number of requests.\<close>

primrec refresh_times :: "settings \<Rightarrow> 'h monitor_env \<Rightarrow> nat \<Rightarrow> 'h monitor \<Rightarrow> int list" where
  "refresh_times S M 0 s = [last_refresh s]"
| "refresh_times S M (Suc n) s = last_refresh s # refresh_times S M n (fst (handle_request S M s))"

definition spaced :: "int \<Rightarrow> int \<Rightarrow> int \<Rightarrow> bool" where
  "spaced d a b \<longleftrightarrow> a = b \<or> a + d \<le> b"

lemma spaced_trans: "0 \<le> d \<Longrightarrow> spaced d a b \<Longrightarrow> spaced d b c \<Longrightarrow> spaced d a c"
  by (auto simp: spaced_def)

lemma spaced_all:
  assumes "0 \<le> rate_limit S" and "retry_transparent M" and "spaced (rate_limit S * 1000000) t (last_refresh s)"
  shows "list_all (spaced (rate_limit S * 1000000) t) (refresh_times S M n s)"
  using assms(3)
proof (induction n arbitrary: s)
  case 0
  then show ?case by simp
next
  case (Suc n)
  have "spaced (rate_limit S * 1000000) (last_refresh s) (last_refresh (fst (handle_request S M s)))"
    using request_last [OF assms(2), of S s] by (auto simp: spaced_def)
  then have "spaced (rate_limit S * 1000000) t (last_refresh (fst (handle_request S M s)))"
    by (rule spaced_trans [rotated 2]) (use assms(1) Suc.prems in simp_all)
  with Suc show ?case by simp
qed



section \<open>Gauges made on demand\<close>

lemma static_names:
  "list_all (\<lambda>m. list_all (\<lambda>g. take 22 g \<noteq> ''bitcoin_est_smart_fee_'' \<and> take 14 g \<noteq> ''bitcoin_hashps'') (reserved_names m)) (module_metrics S)"
  unfolding module_metrics_def by (simp add: list_all_append)

lemma take_dynamic: "take 22 (smartfee_name n) = ''bitcoin_est_smart_fee_''" "take 14 (hashps_name n) = ''bitcoin_hashps''"
  by (simp_all add: smartfee_name_def hashps_name_def)

lemma dynamic_not_static: "smartfee_name n \<notin> set (registry (started S h))" "hashps_name n \<notin> set (registry (started S h))"
  using static_names [of S] take_dynamic by (auto simp: started_def list_all_iff)

lemma registry_ok_started: "registry_ok (started S h)"
  using dynamic_not_static by (simp add: registry_ok_def) (simp add: started_def)

text \<open>
  (C34) Gauges made on demand never collide: after any number of requests to a freshly started
  exporter, whatever the node answers, asking for the gauge of any number of blocks gives the gauge of
  that name, and never the error of a name registered twice. The names tell any two numbers apart,
  negative ones and the unnumbered default of 120 blocks included.
\<close>

theorem on_demand_gauges_never_collide:
  assumes M: "retry_transparent M" and run: "serve_requests S M k (started S h) = (s, rs)"
  shows "snd (smartfee_gauge n s) = Inr (smartfee_name n) \<and> snd (hashps_gauge n s) = Inr (hashps_name n)
    \<and> inj smartfee_name \<and> inj hashps_name"
proof -
  have "registry_kept u (fst (handle_request S M u))" for u
    using rk.resp_app [OF M, of S] by (auto simp: registry_kept_def runs_in_def handle_request_def split: prod.splits sum.splits)
  then have "registry_kept (started S h) s" using rk.requests_related [of S M "started S h" k] run by simp
  then have "registry_ok s" using registry_ok_started [of S h] by (simp add: registry_kept_def)
  then show ?thesis by (simp add: smartfee_gauge_ok hashps_gauge_ok inj_def smartfee_name_inj hashps_name_inj)
qed

theorem on_demand_gauges_never_collide_witness:
  "snd (hashps_gauge 120 (fst (serve_requests lab_settings (lab_monitor (\<lambda>_. None)) 3 (started lab_settings 9000000)))) = Inr ''bitcoin_hashps''"
proof -
  obtain s rs where "serve_requests lab_settings (lab_monitor (\<lambda>_. None)) 3 (started lab_settings 9000000) = (s, rs)" by fastforce
  moreover have "hashps_name 120 = ''bitcoin_hashps''" by (simp add: hashps_name_def hashps_gauge_suffix_def)
  ultimately show ?thesis
    using on_demand_gauges_never_collide [OF lab_transparent, of lab_settings "\<lambda>_. None" 3 9000000 s rs 120] by simp
qed

section \<open>Failed requests\<close>

definition counted_error :: "exn \<Rightarrow> bool" where
  "counted_error e \<longleftrightarrow> exn_kind e \<in> {RetryError, JSONRPCError, InWarmupError}"

text \<open>
  (C32) A request whose refresh is due and whose fetch fails changes no gauge, and what it is answered
  with depends on the error. A call given up after its retries and an error of the node are counted, the
  last values are served and the rate limit starts anew. Every other error, also the exit meant for an
  answer that is not JSON, reaches the handler of the server: the request fails, the exporter goes
  on, and the next request tries again at once.
\<close>

theorem failed_fetch_keeps_gauges:
  assumes M: "retry_transparent M"
    and start: "mon_now M (outside s) = (h, t)" "rate_limit S * 1000000 \<le> t - last_refresh s"
    and fetch: "fetch_node_info M (s\<lparr>outside := h\<rparr>) = (v, Inl e)"
    and finish: "mon_now M (outside v) = (h', t')" "t \<le> t'"
    and request: "handle_request S M s = (s', r)"
  shows "gauges s' = gauges s
    \<and> (if counted_error e then r = Metrics (gauges s, counters s') \<and> last_refresh s' = t
         \<and> counters s' (''bitcoin_exporter_errors'', [(''type'', mon_class_name M e)])
           = counters v (''bitcoin_exporter_errors'', [(''type'', mon_class_name M e)]) + 1
       else r = Failed (if exn_kind e = JSONDecodeError then Exn SystemExit ''1'' else e)
         \<and> last_refresh s' = last_refresh s)"
proof -
  have k: "gauges v = gauges s" "last_refresh v = last_refresh s"
    using runs_inD [OF mk.resp_fetch [OF M] fetch] by (simp_all add: metrics_kept_def)
  have due: "\<not> t - last_refresh s < rate_limit S * 1000000" using start(2) by simp
  show ?thesis
    using request start(1) due fetch finish k
    by (auto simp: handle_request_def refresh_app_def refresh_metrics_def bindIO_run seqIO_run try_except_run now_def serve_def
        handle_refresh_error_def exception_count_def inc_counter_def counted_error_def split: if_splits)
qed

text \<open>A node that answers with a page instead of JSON: the exit of the exporter is only a failed request.\<close>

theorem failed_fetch_keeps_gauges_witness:
  "snd (handle_request lab_settings (lab_monitor (\<lambda>_. Some (Exn JSONDecodeError ''Expecting value''))) (started lab_settings 9000000))
     = Failed (Exn SystemExit ''1'')"
proof -
  let ?e = "Exn JSONDecodeError ''Expecting value''"
  let ?M = "lab_monitor (\<lambda>_. Some ?e)" and ?s = "started lab_settings (9000000 :: int)"
  obtain s' r where r: "handle_request lab_settings ?M ?s = (s', r)" by fastforce
  have "fetch_node_info ?M (?s\<lparr>outside := 9000000\<rparr>) = (?s\<lparr>outside := 9001000\<rparr>, Inl ?e)"
    by (simp add: fetch_node_info_def ask_def bitcoinrpc_def lab_monitor_def try_except_run bindIO_run call_node_def
        error_evaluator_def started_def)
  from failed_fetch_keeps_gauges [OF lab_transparent _ _ this _ _ r, where t' = 9001000 and h' = 9001000] r show ?thesis
    by (simp add: lab_monitor_def started_def lab_settings_def counted_error_def)
qed

text \<open>
  (C35) A failure to get the statistics of the newest block is remembered: once the call has failed for
  a block, the exporter reports no statistics for it and does not ask again, even of a node that
  would now answer, until another block is the newest.
\<close>

theorem failed_block_stats_are_cached:
  assumes call: "bitcoinrpc M [PStr ''getblockstats'', PStr b, PList (map PStr block_fields)] s = (v, Inl e)"
    and e: "exn_kind e \<noteq> SystemExit" and fresh: "map_option fst (block_cache s) \<noteq> Some b"
  shows "\<exists>s'. getblockstats M b s = (s', Inr PNone)
    \<and> (\<forall>M' u. block_cache u = block_cache s' \<longrightarrow> getblockstats M' b u = (u, Inr PNone))"
  using call e fresh
  by (auto simp: getblockstats_def getblockstats_body_def bindIO_run seqIO_run try_except_run split: option.splits)

text \<open>The node pruned the block: the first request caches the failure, later ones do not call.\<close>

theorem failed_block_stats_are_cached_witness:
  "\<exists>s'. getblockstats (lab_monitor (\<lambda>_. Some (Exn JSONRPCError ''Block not available''))) ''00ab'' (started lab_settings 9000000) = (s', Inr PNone)
    \<and> getblockstats (lab_monitor (\<lambda>_. None)) ''00ab'' s' = (s', Inr PNone)"
proof -
  let ?M = "lab_monitor (\<lambda>_. Some (Exn JSONRPCError ''Block not available''))" and ?s = "started lab_settings (9000000 :: int)"
  have "bitcoinrpc ?M [PStr ''getblockstats'', PStr ''00ab'', PList (map PStr block_fields)] ?s
      = (?s\<lparr>outside := 9001000\<rparr>, Inl (Exn JSONRPCError ''Block not available''))"
    by (simp add: bitcoinrpc_def lab_monitor_def try_except_run call_node_def error_evaluator_def started_def)
  moreover have "map_option fst (block_cache ?s) \<noteq> Some ''00ab''" by (simp add: started_def)
  ultimately show ?thesis
    using failed_block_stats_are_cached [of ?M "''00ab''" ?s "?s\<lparr>outside := 9001000\<rparr>" "Exn JSONRPCError ''Block not available''"]
    by auto
qed

section \<open>What a refresh publishes\<close>

text \<open>
  The gauges that are not made on demand, with what the node answered for them. Statistics of the newest
  block and the counts that older nodes do not report are there when the node gave them.
\<close>

definition plain_fields :: "pyval \<Rightarrow> (string \<times> string) list \<Rightarrow> (string \<times> gauge_value) list" where
  "plain_fields d gks = map (\<lambda>gk. (fst gk, Plain (dict_get d (snd gk)))) gks"

definition report :: "node_info \<Rightarrow> (string \<times> gauge_value) list" where
  "report I =
     [(''bitcoin_uptime'', Plain (PInt (ni_uptime I)))] @
     plain_fields (ni_chain I) [(''bitcoin_blocks'', ''blocks'')] @
     plain_fields (ni_network I) [(''bitcoin_peers'', ''connections'')] @
     (if has_key (ni_network I) ''connections_in'' then plain_fields (ni_network I) [(''bitcoin_conn_in'', ''connections_in'')] else []) @
     (if has_key (ni_network I) ''connections_out'' then plain_fields (ni_network I) [(''bitcoin_conn_out'', ''connections_out'')] else []) @
     plain_fields (ni_chain I) [(''bitcoin_difficulty'', ''difficulty'')] @
     plain_fields (ni_network I) [(''bitcoin_server_version'', ''version'')] @
     plain_fields (ni_network I) [(''bitcoin_protocol_version'', ''protocolversion'')] @
     plain_fields (ni_chain I) [(''bitcoin_size_on_disk'', ''size_on_disk'')] @
     plain_fields (ni_chain I) [(''bitcoin_verification_progress'', ''verificationprogress'')] @
     (case py_len (ni_banned I) of Inr n \<Rightarrow> [(''bitcoin_banned_peers'', Plain (PInt n))] | Inl _ \<Rightarrow> []) @
     plain_fields (ni_txstats I) [(''bitcoin_txcount'', ''txcount'')] @
     [(''bitcoin_num_chaintips'', Plain (PInt (ni_chaintips I)))] @
     plain_fields (ni_meminfo I) [(''bitcoin_meminfo_used'', ''used''), (''bitcoin_meminfo_free'', ''free''), (''bitcoin_meminfo_total'', ''total''),
        (''bitcoin_meminfo_locked'', ''locked''), (''bitcoin_meminfo_chunks_used'', ''chunks_used''), (''bitcoin_meminfo_chunks_free'', ''chunks_free'')] @
     plain_fields (ni_mempool I) [(''bitcoin_mempool_bytes'', ''bytes''), (''bitcoin_mempool_size'', ''size''), (''bitcoin_mempool_usage'', ''usage''),
        (''bitcoin_mempool_minfee'', ''mempoolminfee'')] @
     (if has_key (ni_mempool I) ''unbroadcastcount'' then plain_fields (ni_mempool I) [(''bitcoin_mempool_unbroadcast'', ''unbroadcastcount'')] else []) @
     plain_fields (ni_nettotals I) [(''bitcoin_total_bytes_recv'', ''totalbytesrecv''), (''bitcoin_total_bytes_sent'', ''totalbytessent'')] @
     (if ni_block I \<noteq> PNone then
        plain_fields (ni_block I) [(''bitcoin_latest_block_size'', ''total_size''), (''bitcoin_latest_block_txs'', ''txs''),
          (''bitcoin_latest_block_height'', ''height''), (''bitcoin_latest_block_weight'', ''total_weight''),
          (''bitcoin_latest_block_inputs'', ''ins''), (''bitcoin_latest_block_outputs'', ''outs'')] @
        [(''bitcoin_latest_block_value'', InCoins (dict_get (ni_block I) ''total_out'')),
         (''bitcoin_latest_block_fee'', InCoins (dict_get (ni_block I) ''totalfee''))] else []) @
     (case item (ni_rpcinfo I) ''active_commands'' of Inl _ \<Rightarrow> []
      | Inr v \<Rightarrow> (case py_len v of Inr n \<Rightarrow> [(''bitcoin_rpc_active'', Plain (PInt (n - 1)))] | Inl _ \<Rightarrow> []))"

text \<open>
  \<open>assigns A m\<close>: when \<open>m\<close> returns, the registration is still in order and the gauges without labels that are not made on demand are those before, with
  the assignments \<open>A\<close> done in order.
\<close>

definition on_demand :: "string \<Rightarrow> bool" where
  "on_demand g \<longleftrightarrow> take 22 g = ''bitcoin_est_smart_fee_'' \<or> take 14 g = ''bitcoin_hashps''"

definition assigns :: "(string \<times> gauge_value) list \<Rightarrow> ('h monitor, unit) io \<Rightarrow> bool" where
  "assigns A m \<longleftrightarrow> (\<forall>s s'. m s = (s', Inr ()) \<longrightarrow> registry_ok s \<longrightarrow> registry_ok s' \<and> (\<forall>g. \<not> on_demand g \<longrightarrow>
     gauges s' (g, []) = (case map_of (rev A) g of Some v \<Rightarrow> Some v | None \<Rightarrow> gauges s (g, []))))"

lemma assigns_seq: "assigns A m \<Longrightarrow> assigns B k \<Longrightarrow> assigns (A @ B) (seqIO m k)"
  unfolding assigns_def by (fastforce simp: seqIO_Inr_iff map_add_def split: option.splits)

lemma assigns_when: "assigns A m \<Longrightarrow> assigns (if b then A else []) (whenIO b m)"
  by (cases b) (simp_all add: assigns_def)

lemma assigns_for_each:
  assumes "\<And>x. x \<in> set xs \<Longrightarrow> assigns (A x) (f x)"
  shows "assigns (concat (map A xs)) (for_each xs f)"
  using assms
proof (induction xs)
  case Nil
  show ?case by (simp add: assigns_def)
next
  case (Cons x xs)
  then have "assigns (A x @ concat (map A xs)) (seqIO (f x) (for_each xs f))" by (intro assigns_seq) auto
  then show ?case by simp
qed

lemma concat_map_empty: "concat (map (\<lambda>_. []) xs) = []"
  by (induction xs) simp_all

lemma assigns_nothing_each: "(\<And>x. assigns [] (f x)) \<Longrightarrow> assigns [] (for_each xs f)"
  using assigns_for_each [of xs "\<lambda>_. []" f] by (simp add: concat_map_empty)

definition static_kept :: "'h monitor \<Rightarrow> 'h monitor \<Rightarrow> bool" where
  "static_kept s s' \<longleftrightarrow> (registry_ok s \<longrightarrow> registry_ok s' \<and> (\<forall>g. \<not> on_demand g \<longrightarrow> gauges s' (g, []) = gauges s (g, [])))"

lemma assigns_kept: "runs_in static_kept m \<Longrightarrow> assigns [] m"
  unfolding assigns_def by (auto dest: runs_inD simp: static_kept_def)

lemma set_gauge_assigns: "assigns [(g, Plain v)] (set_gauge M g v)"
  by (auto simp: assigns_def set_gauge_def set_series_def split: option.splits)

lemma item_dict_get: "item d k = Inr v \<Longrightarrow> dict_get d k = v"
  by (cases d) (auto simp: item_def split: option.splits)

lemma assigns_item:
  assumes "\<And>v. assigns [(g, F v)] (k v)"
  shows "assigns [(g, F (dict_get d key))] (bindIO (lift_sum (item d key)) k)"
proof -
  have "assigns [(g, F v)] (k v)" for v by (rule assms)
  then show ?thesis unfolding assigns_def
    by (fastforce simp: bindIO_Inr_iff lift_sum_def dest: item_dict_get)
qed

lemma set_item_assigns: "assigns (plain_fields d [gk]) (set_item M d gk)"
  unfolding set_item_def plain_fields_def list.map by (intro assigns_item set_gauge_assigns)

lemma set_items_assign: "assigns (plain_fields d gks) (for_each gks (set_item M d))"
  using assigns_for_each [of gks "\<lambda>gk. plain_fields d [gk]" "set_item M d"] set_item_assigns [of d _ M]
  by (simp add: plain_fields_def comp_def)

lemma set_item_if_assigns:
  "assigns (if has_key d k then plain_fields d [(g, k)] else []) (set_item_if M d (g, k))"
  using set_item_assigns [of d "(g, k)" M] by (auto simp: set_item_if_def assigns_def)

lemma set_coins_assigns: "assigns [(fst gk, InCoins (dict_get d (snd gk)))] (set_item_coins d gk)"
proof -
  have "assigns [(fst gk, InCoins v)] (set_coins (fst gk) v)" for v
    by (cases v) (auto simp: assigns_def set_coins_def)
  then show ?thesis unfolding set_item_coins_def by (intro assigns_item)
qed

subsection \<open>The parts of a refresh\<close>

interpretation sg: fetch_relation static_kept
  by unfold_locales (simp_all add: static_kept_def)

lemma on_demand_names: "on_demand (smartfee_name n)" "on_demand (hashps_name n)"
  by (simp_all add: on_demand_def take_dynamic)

lemma set_on_demand: "on_demand g \<Longrightarrow> runs_in static_kept (set_gauge M g v)"
  by (auto simp: runs_in_def static_kept_def set_gauge_def set_series_def split: option.splits)

lemma smartfee_gauge_static:
  assumes "registry_ok s"
  shows "\<exists>s'. smartfee_gauge n s = (s', Inr (smartfee_name n)) \<and> static_kept s s'"
  using smartfee_gauge_ok [OF assms, of n] on_demand_names [of n] assms
  by (auto simp: static_kept_def smartfee_gauge_def new_gauge_def bindIO_run seqIO_run split: option.splits if_splits)

lemma hashps_gauge_static:
  assumes "registry_ok s"
  shows "\<exists>s'. hashps_gauge n s = (s', Inr (hashps_name n)) \<and> static_kept s s'"
  using hashps_gauge_ok [OF assms, of n] on_demand_names [of n] assms
  by (auto simp: static_kept_def hashps_gauge_def new_gauge_def bindIO_run seqIO_run split: option.splits if_splits)

lemma set_made_gauge:
  assumes made: "\<And>s. registry_ok s \<Longrightarrow> \<exists>s'. m s = (s', Inr n) \<and> static_kept s s'" and n: "on_demand n"
  shows "runs_in static_kept (bindIO m (\<lambda>g. set_gauge M g v))"
proof
  fix s
  show "static_kept s (fst (bindIO m (\<lambda>g. set_gauge M g v) s))"
  proof (cases "registry_ok s")
    case True
    then obtain s' where s': "m s = (s', Inr n)" "static_kept s s'" using made by blast
    moreover have "static_kept s' (fst (set_gauge M n v s'))" using set_on_demand [OF n, of M v] by (simp add: runs_in_def)
    ultimately show ?thesis using sg.R_trans by (fastforce simp: bindIO_run)
  next
    case False
    then show ?thesis by (simp add: static_kept_def)
  qed
qed

lemma do_smartfee_assigns: "retry_transparent M \<Longrightarrow> assigns [] (do_smartfee M n)"
  unfolding do_smartfee_def
  by (intro assigns_kept sg.resp_bind sg.resp_rpc sg.resp_if sg.resp_raise sg.resp_when set_made_gauge
      [OF smartfee_gauge_static on_demand_names(1)])

lemma do_hashps_assigns: "retry_transparent M \<Longrightarrow> assigns [] (do_hashps_gauge M n)"
proof -
  assume M: "retry_transparent M"
  have "runs_in static_kept (case accepts_float (mon_float_text M) v of Some e \<Rightarrow> raise_exn e
      | None \<Rightarrow> bindIO (hashps_gauge n) (\<lambda>g. set_gauge M g v))" for v
    by (simp add: sg.resp_raise set_made_gauge [OF hashps_gauge_static on_demand_names(2)] split: option.split)
  then show ?thesis unfolding do_hashps_gauge_def by (intro assigns_kept sg.resp_bind sg.resp_rpc M)
qed

lemma set_ban_assigns: "assigns [] (set_ban M ban gk)"
proof -
  have t: "runs_in static_kept (touch_series (g, l # ls))" for g l ls
    by (auto simp: runs_in_def touch_series_def static_kept_def split: option.split)
  have v: "runs_in static_kept (set_series M (g, l # ls) v)" for g l ls v
    by (auto simp: runs_in_def set_series_def static_kept_def split: option.split)
  show ?thesis unfolding set_ban_def Let_def by (intro assigns_kept sg.resp_bind sg.resp_lift sg.resp_seq t v)
qed

lemma publish_chain_assigns:
  "assigns ([(''bitcoin_uptime'', Plain (PInt (ni_uptime I)))] @
     plain_fields (ni_chain I) [(''bitcoin_blocks'', ''blocks'')] @
     plain_fields (ni_network I) [(''bitcoin_peers'', ''connections'')] @
     (if has_key (ni_network I) ''connections_in'' then plain_fields (ni_network I) [(''bitcoin_conn_in'', ''connections_in'')] else []) @
     (if has_key (ni_network I) ''connections_out'' then plain_fields (ni_network I) [(''bitcoin_conn_out'', ''connections_out'')] else []) @
     plain_fields (ni_chain I) [(''bitcoin_difficulty'', ''difficulty'')] @
     plain_fields (ni_network I) [(''bitcoin_server_version'', ''version'')] @
     plain_fields (ni_network I) [(''bitcoin_protocol_version'', ''protocolversion'')] @
     plain_fields (ni_chain I) [(''bitcoin_size_on_disk'', ''size_on_disk'')] @
     plain_fields (ni_chain I) [(''bitcoin_verification_progress'', ''verificationprogress'')]) (publish_chain M I)"
  unfolding publish_chain_def
  by (intro assigns_seq set_gauge_assigns set_item_assigns set_item_if_assigns)

lemma publish_bans_assigns:
  "assigns (case py_len (ni_banned I) of Inr n \<Rightarrow> [(''bitcoin_banned_peers'', Plain (PInt n))] | Inl _ \<Rightarrow> []) (publish_bans S M I)"
proof -
  let ?count = "bindIO (lift_sum (py_len (ni_banned I))) (\<lambda>n. set_gauge M ''bitcoin_banned_peers'' (PInt n))"
  have count: "assigns (case py_len (ni_banned I) of Inr n \<Rightarrow> [(''bitcoin_banned_peers'', Plain (PInt n))] | Inl _ \<Rightarrow> []) ?count"
    using set_gauge_assigns [of "''bitcoin_banned_peers''" _ M]
    by (cases "py_len (ni_banned I)") (simp_all add: assigns_def lift_sum_def bindIO_Inr_iff)
  have "assigns [] (for_each bans (\<lambda>ban. seqIO (set_ban M ban (''bitcoin_ban_created'', ''ban_created''))
      (set_ban M ban (''bitcoin_banned_until'', ''banned_until''))))" for bans
    using assigns_seq [OF set_ban_assigns set_ban_assigns] by (intro assigns_nothing_each) simp
  then have "assigns [] (whenIO (ban_address_metrics S) (bindIO (lift_sum (py_iter (ni_banned I))) (\<lambda>bans. for_each bans (\<lambda>ban.
      seqIO (set_ban M ban (''bitcoin_ban_created'', ''ban_created'')) (set_ban M ban (''bitcoin_banned_until'', ''banned_until''))))))"
    by (auto simp: assigns_def bindIO_Inr_iff lift_sum_def whenIO_Inr_iff)
  from assigns_seq [OF count this] show ?thesis unfolding publish_bans_def by simp
qed

lemma publish_totals_assigns:
  "assigns (plain_fields (ni_txstats I) [(''bitcoin_txcount'', ''txcount'')] @
     [(''bitcoin_num_chaintips'', Plain (PInt (ni_chaintips I)))] @
     plain_fields (ni_meminfo I) [(''bitcoin_meminfo_used'', ''used''), (''bitcoin_meminfo_free'', ''free''), (''bitcoin_meminfo_total'', ''total''),
        (''bitcoin_meminfo_locked'', ''locked''), (''bitcoin_meminfo_chunks_used'', ''chunks_used''), (''bitcoin_meminfo_chunks_free'', ''chunks_free'')] @
     plain_fields (ni_mempool I) [(''bitcoin_mempool_bytes'', ''bytes''), (''bitcoin_mempool_size'', ''size''), (''bitcoin_mempool_usage'', ''usage''),
        (''bitcoin_mempool_minfee'', ''mempoolminfee'')] @
     (if has_key (ni_mempool I) ''unbroadcastcount'' then plain_fields (ni_mempool I) [(''bitcoin_mempool_unbroadcast'', ''unbroadcastcount'')] else []) @
     plain_fields (ni_nettotals I) [(''bitcoin_total_bytes_recv'', ''totalbytesrecv''), (''bitcoin_total_bytes_sent'', ''totalbytessent'')])
   (publish_totals M I)"
proof -
  have "assigns [] (bindIO (lift_sum (item (ni_network I) ''warnings'')) (\<lambda>v. whenIO (truthy v) (inc_counter (''bitcoin_warnings'', []) 1)))"
    by (intro assigns_kept sg.resp_bind sg.resp_lift sg.resp_when sg.resp_inc)
  from assigns_seq [OF this] show ?thesis unfolding publish_totals_def append_Nil
    by this (intro assigns_seq set_item_assigns set_gauge_assigns set_items_assign set_item_if_assigns)
qed

lemma publish_block_assigns:
  "assigns (if ni_block I \<noteq> PNone then
        plain_fields (ni_block I) [(''bitcoin_latest_block_size'', ''total_size''), (''bitcoin_latest_block_txs'', ''txs''),
          (''bitcoin_latest_block_height'', ''height''), (''bitcoin_latest_block_weight'', ''total_weight''),
          (''bitcoin_latest_block_inputs'', ''ins''), (''bitcoin_latest_block_outputs'', ''outs'')] @
        [(''bitcoin_latest_block_value'', InCoins (dict_get (ni_block I) ''total_out'')),
         (''bitcoin_latest_block_fee'', InCoins (dict_get (ni_block I) ''totalfee''))] else []) (publish_block M I)"
proof -
  let ?coins = "[(''bitcoin_latest_block_value'', ''total_out''), (''bitcoin_latest_block_fee'', ''totalfee'')]"
  have "assigns (concat (map (\<lambda>gk. [(fst gk, InCoins (dict_get (ni_block I) (snd gk)))]) ?coins)) (for_each ?coins (set_item_coins (ni_block I)))"
    by (intro assigns_for_each set_coins_assigns)
  then have "assigns [(''bitcoin_latest_block_value'', InCoins (dict_get (ni_block I) ''total_out'')),
      (''bitcoin_latest_block_fee'', InCoins (dict_get (ni_block I) ''totalfee''))] (for_each ?coins (set_item_coins (ni_block I)))"
    by (simp only: list.map fst_conv snd_conv concat.simps append_Cons append_Nil)
  from assigns_when [OF assigns_seq [OF set_items_assign this]] show ?thesis unfolding publish_block_def .
qed

lemma publish_rpc_assigns:
  "assigns (case item (ni_rpcinfo I) ''active_commands'' of Inl _ \<Rightarrow> []
      | Inr v \<Rightarrow> (case py_len v of Inr n \<Rightarrow> [(''bitcoin_rpc_active'', Plain (PInt (n - 1)))] | Inl _ \<Rightarrow> [])) (publish_rpc M I)"
  using set_gauge_assigns [of "''bitcoin_rpc_active''" _ M]
  by (cases "item (ni_rpcinfo I) ''active_commands''"; cases "py_len (projr (item (ni_rpcinfo I) ''active_commands''))")
     (simp_all add: assigns_def publish_rpc_def lift_sum_def bindIO_Inr_iff)

lemma publish_assigns:
  assumes M: "retry_transparent M"
  shows "assigns (report I) (publish S M I)"
proof -
  have fees: "assigns [] (for_each (smart_fees S) (do_smartfee M))" by (intro assigns_nothing_each do_smartfee_assigns M)
  have rates: "assigns [] (for_each (hashps_blocks S) (do_hashps_gauge M))" by (intro assigns_nothing_each do_hashps_assigns M)
  from assigns_seq [OF publish_chain_assigns assigns_seq [OF fees assigns_seq [OF rates assigns_seq [OF publish_bans_assigns
      assigns_seq [OF publish_totals_assigns assigns_seq [OF publish_block_assigns publish_rpc_assigns]]]]]]
  show ?thesis unfolding publish_def report_def append_Nil append_assoc .
qed

text \<open>Every name occurs once; it is enough to look at a report in which nothing is missing.\<close>

definition full_report :: "string list" where
  "full_report = [''bitcoin_uptime''] @ [''bitcoin_blocks''] @ [''bitcoin_peers''] @ [''bitcoin_conn_in''] @ [''bitcoin_conn_out''] @ [''bitcoin_difficulty''] @
     [''bitcoin_server_version''] @ [''bitcoin_protocol_version''] @ [''bitcoin_size_on_disk''] @ [''bitcoin_verification_progress''] @
     [''bitcoin_banned_peers''] @ [''bitcoin_txcount''] @ [''bitcoin_num_chaintips''] @
     [''bitcoin_meminfo_used'', ''bitcoin_meminfo_free'', ''bitcoin_meminfo_total'', ''bitcoin_meminfo_locked'', ''bitcoin_meminfo_chunks_used'',
      ''bitcoin_meminfo_chunks_free''] @
     [''bitcoin_mempool_bytes'', ''bitcoin_mempool_size'', ''bitcoin_mempool_usage'', ''bitcoin_mempool_minfee''] @ [''bitcoin_mempool_unbroadcast''] @
     [''bitcoin_total_bytes_recv'', ''bitcoin_total_bytes_sent''] @
     [''bitcoin_latest_block_size'', ''bitcoin_latest_block_txs'', ''bitcoin_latest_block_height'', ''bitcoin_latest_block_weight'',
      ''bitcoin_latest_block_inputs'', ''bitcoin_latest_block_outputs'', ''bitcoin_latest_block_value'', ''bitcoin_latest_block_fee''] @
     [''bitcoin_rpc_active'']"

lemma full_report_names: "distinct full_report \<and> list_all (\<lambda>g. \<not> on_demand g) full_report"
  by code_simp

lemma plain_fields_names: "map fst (plain_fields d gks) = map fst gks"
  by (simp add: plain_fields_def)

lemma optional_piece: "map fst A = B \<Longrightarrow> subseq (map fst (if b then A else [])) B"
  by auto

lemma report_subseq: "subseq (map fst (report I)) full_report"
  unfolding report_def full_report_def map_append
  by (intro list_emb_append_mono optional_piece)
     (simp_all add: plain_fields_names split: sum.split)

lemma distinct_subseq: "subseq xs ys \<Longrightarrow> distinct ys \<Longrightarrow> distinct xs"
  by (induction rule: list_emb.induct) (auto dest: list_emb_set)

lemma map_of_rev_distinct: "distinct (map fst xs) \<Longrightarrow> map_of (rev xs) = map_of xs"
  by (rule ext, rule option.expand [rotated]) (auto simp: map_of_eq_Some_iff rev_map [symmetric] map_of_eq_None_iff)

lemma report_distinct: "distinct (map fst (report I))"
  using full_report_names distinct_subseq [OF report_subseq] by blast

lemma report_static: "map_of (report I) g = Some v \<Longrightarrow> \<not> on_demand g"
proof -
  assume "map_of (report I) g = Some v"
  then have "g \<in> set (map fst (report I))" by (force dest: map_of_SomeD)
  then have "g \<in> set full_report" using report_subseq [THEN list_emb_set] by blast
  then show ?thesis using full_report_names by (simp add: list_all_iff)
qed

text \<open>
  (C11) A refresh publishes what the node answered: when it returns, every gauge of the report holds the
  value fetched in this refresh, whatever the fee, hash rate and ban metrics set in between; the
  counts a node may leave out and the statistics of the newest block stay as they were when not given.
\<close>

theorem refresh_publishes_answers:
  assumes M: "retry_transparent M" and ok: "registry_ok s"
    and fetch: "fetch_node_info M s = (u, Inr I)" and run: "refresh_metrics S M s = (s', Inr ())"
  shows "registry_ok s'
    \<and> (\<forall>g v. map_of (report I) g = Some v \<longrightarrow> gauges s' (g, []) = Some v)
    \<and> (\<forall>g. map_of (report I) g = None \<and> \<not> on_demand g \<longrightarrow> gauges s' (g, []) = gauges s (g, []))"
proof -
  have "registry_ok u" using runs_inD [OF rk.resp_fetch [OF M] fetch] ok by (simp add: registry_kept_def)
  moreover have "gauges u = gauges s" using runs_inD [OF mk.resp_fetch [OF M] fetch] by (simp add: metrics_kept_def)
  moreover have "publish S M I u = (s', Inr ())" using fetch run by (simp add: refresh_metrics_def bindIO_run)
  moreover note publish_assigns [OF M, of I S]
  moreover have "map_of (rev (report I)) = map_of (report I)" by (rule map_of_rev_distinct) (rule report_distinct)
  ultimately show ?thesis using report_static unfolding assigns_def by fastforce
qed

text \<open>A refresh on the node above, part by part.\<close>

definition lab_info :: node_info where
  "lab_info = \<lparr>ni_uptime = 60, ni_meminfo = dict_get (lab_answer ''getmemoryinfo'') ''locked'', ni_chain = lab_answer ''getblockchaininfo'',
     ni_network = lab_answer ''getnetworkinfo'', ni_chaintips = 0, ni_mempool = lab_answer ''getmempoolinfo'',
     ni_nettotals = lab_answer ''getnettotals'', ni_rpcinfo = lab_answer ''getrpcinfo'', ni_txstats = lab_answer ''getchaintxstats'',
     ni_block = lab_answer ''getblockstats'', ni_banned = PList []\<rparr>"

lemmas lab_run = bindIO_run seqIO_run try_except_run lift_sum_def item_def py_len_def int_of_number_def bitcoinrpc_def call_node_def
  lab_monitor_def lab_dict_def lab_info_def

lemmas lab_set = set_item_def set_item_if_def has_key_def set_gauge_def set_series_def

lemma lab_fetch: "snd (fetch_node_info (lab_monitor (\<lambda>_. None)) (started lab_settings 9000000)) = Inr lab_info"
  by (simp add: fetch_node_info_def ask_def getblockstats_def getblockstats_body_def started_def lab_run)

lemma lab_chain: "\<exists>s'. publish_chain (lab_monitor (\<lambda>_. None)) lab_info s = (s', Inr ())"
  by (simp add: publish_chain_def lab_set lab_run)

lemma lab_totals: "\<exists>s'. publish_totals (lab_monitor (\<lambda>_. None)) lab_info s = (s', Inr ())"
  by (simp add: publish_totals_def lab_set lab_run)

lemma lab_block: "\<exists>s'. publish_block (lab_monitor (\<lambda>_. None)) lab_info s = (s', Inr ())"
  by (simp add: publish_block_def set_item_coins_def set_coins_def lab_set lab_run)

lemma lab_rpc: "\<exists>s'. publish_rpc (lab_monitor (\<lambda>_. None)) lab_info s = (s', Inr ())"
  by (simp add: publish_rpc_def lab_set lab_run)

lemma lab_bans: "\<exists>s'. publish_bans lab_settings (lab_monitor (\<lambda>_. None)) lab_info s = (s', Inr ())"
  by (simp add: publish_bans_def py_iter_def whenIO_run lab_set lab_run)

lemma lab_fees: "registry_ok s \<Longrightarrow> \<exists>s'. do_smartfee (lab_monitor (\<lambda>_. None)) n s = (s', Inr ()) \<and> registry_ok s'"
  using smartfee_gauge_static [of "s\<lparr>outside := outside s + 1000\<rparr>" n]
  by (auto simp: do_smartfee_def static_kept_def lab_set lab_run)

lemma lab_hashps: "registry_ok s \<Longrightarrow> \<exists>s'. do_hashps_gauge (lab_monitor (\<lambda>_. None)) n s = (s', Inr ()) \<and> registry_ok s'"
  using hashps_gauge_static [of "s\<lparr>outside := outside s + 1000\<rparr>" n]
  by (auto simp: do_hashps_gauge_def static_kept_def lab_set lab_run)

lemma lab_publish:
  assumes "registry_ok s"
  shows "\<exists>s'. publish lab_settings (lab_monitor (\<lambda>_. None)) lab_info s = (s', Inr ())"
proof -
  let ?M = "lab_monitor (\<lambda>_. None)"
  obtain a where a: "publish_chain ?M lab_info s = (a, Inr ())" using lab_chain by blast
  then have "registry_ok a" using publish_chain_assigns [of lab_info ?M] assms unfolding assigns_def by blast
  then obtain b where b: "do_smartfee ?M 2 a = (b, Inr ())" "registry_ok b" using lab_fees by blast
  then obtain c where c: "do_hashps_gauge ?M (-1) b = (c, Inr ())" "registry_ok c" using lab_hashps by blast
  then obtain d where d: "do_hashps_gauge ?M 120 c = (d, Inr ())" using lab_hashps by blast
  obtain e where e: "publish_bans lab_settings ?M lab_info d = (e, Inr ())" using lab_bans by blast
  obtain f where f: "publish_totals ?M lab_info e = (f, Inr ())" using lab_totals by blast
  obtain g where g: "publish_block ?M lab_info f = (g, Inr ())" using lab_block by blast
  have l: "smart_fees lab_settings = [2]" "hashps_blocks lab_settings = [-1, 120]" by (simp_all add: lab_settings_def)
  show ?thesis unfolding publish_def l using a b(1) c(1) d e f g lab_rpc [of g] by (simp add: seqIO_run)
qed

theorem refresh_publishes_answers_witness:
  "gauges (fst (refresh_metrics lab_settings (lab_monitor (\<lambda>_. None)) (started lab_settings 9000000))) (''bitcoin_blocks'', [])
     = Some (Plain (PInt 840000))"
proof -
  let ?M = "lab_monitor (\<lambda>_. None)" and ?s = "started lab_settings (9000000 :: int)"
  obtain u where u: "fetch_node_info ?M ?s = (u, Inr lab_info)"
    using lab_fetch by (cases "fetch_node_info ?M ?s") simp
  have ok: "registry_ok ?s" by (rule registry_ok_started)
  then have "registry_ok u" using runs_inD [OF rk.resp_fetch [OF lab_transparent] u] by (simp add: registry_kept_def)
  from lab_publish [OF this] u obtain s' where s': "refresh_metrics lab_settings ?M ?s = (s', Inr ())"
    by (auto simp: refresh_metrics_def bindIO_run)
  have "map_of (report lab_info) ''bitcoin_blocks'' = Some (Plain (PInt 840000))"
    by (simp add: report_def plain_fields_def lab_info_def lab_dict_def)
  with refresh_publishes_answers [OF lab_transparent ok u s'] s' show ?thesis by simp
qed

end
