(* ===== verification/Release_Gate.thy ===== *)
theory Release_Gate
  imports Py_Object Host_Info
begin

text \<open>
  The scripts under \<open>.github/scripts\<close> that guard a publication of the charm: \<open>verify_integration_run.py\<close> (the artifact
  comes from a successful run on the main branch), \<open>verify_unified_release.py\<close> (version file, change log, tag and
  GitHub release agree), \<open>verify_charmhub_release.py\<close> (the revision is open in the channel for the base) and
  \<open>write_charm_provenance.py\<close> (the document that binds artifact, revision, run and commit). The parsed
  arguments are records; what \<open>json.load(sys.stdin)\<close> and \<open>read_text\<close> give, or raise, is an argument.
\<close>

text \<open>How a script ends: its exit code and what it printed on standard output and standard error.\<close>

datatype verdict = Verdict (exit_code: int) (printed: string) (complaint: string)

definition newline :: string where
  "newline = [CHR 0x0A]"

definition accepted :: "exn + verdict \<Rightarrow> bool" where
  "accepted r = (case r of Inr v \<Rightarrow> exit_code v = 0 | Inl _ \<Rightarrow> False)"

section \<open>The release in the store\<close>

record charmhub_args =
  ch_revision :: int
  ch_channel :: string
  ch_base_name :: string
  ch_base_channel :: string
  ch_architecture :: string

definition expected_base :: "charmhub_args \<Rightarrow> (string \<times> string) list" where
  "expected_base args = [(''name'', ch_base_name args), (''channel'', ch_base_channel args), (''architecture'', ch_architecture args)]"

definition release_matches :: "(string \<Rightarrow> int \<Rightarrow> bool) \<Rightarrow> charmhub_args \<Rightarrow> pyval \<Rightarrow> bool" where
  "release_matches feq args release \<longleftrightarrow> is_dict release
     \<and> dict_get release ''status'' = PStr ''open''
     \<and> dict_get release ''channel'' = PStr (ch_channel args)
     \<and> eq_int feq (dict_get release ''revision'') (ch_revision args)"

text \<open>The three nested loops; a value that cannot be iterated raises.\<close>

primrec collect_sum :: "('a \<Rightarrow> exn + 'b list) \<Rightarrow> 'a list \<Rightarrow> exn + 'b list" where
  "collect_sum f [] = Inr []"
| "collect_sum f (x # xs) = (case f x of Inl e \<Rightarrow> Inl e | Inr ys \<Rightarrow>
     (case collect_sum f xs of Inl e \<Rightarrow> Inl e | Inr zs \<Rightarrow> Inr (ys @ zs)))"

definition mapping_matches :: "(string \<Rightarrow> int \<Rightarrow> bool) \<Rightarrow> charmhub_args \<Rightarrow> pyval \<Rightarrow> exn + pyval list" where
  "mapping_matches feq args mapping =
     (if \<not> is_dict mapping \<or> \<not> eq_text_dict (dict_get mapping ''base'') (expected_base args) then Inr []
      else case py_iter (dict_get_or mapping ''releases'' (PList [])) of
        Inl e \<Rightarrow> Inl e
      | Inr releases \<Rightarrow> Inr (filter (release_matches feq args) releases))"

definition track_matches :: "(string \<Rightarrow> int \<Rightarrow> bool) \<Rightarrow> charmhub_args \<Rightarrow> pyval \<Rightarrow> exn + pyval list" where
  "track_matches feq args track =
     (if \<not> is_dict track then Inr []
      else case py_iter (dict_get_or track ''mappings'' (PList [])) of
        Inl e \<Rightarrow> Inl e
      | Inr mappings \<Rightarrow> collect_sum (mapping_matches feq args) mappings)"

definition charmhub_matches :: "(string \<Rightarrow> int \<Rightarrow> bool) \<Rightarrow> pyval \<Rightarrow> charmhub_args \<Rightarrow> exn + pyval list" where
  "charmhub_matches feq status args = (case status of
      PList tracks \<Rightarrow> collect_sum (track_matches feq args) tracks
    | _ \<Rightarrow> Inr [])"

definition verify_charmhub_release :: "(string \<Rightarrow> int \<Rightarrow> bool) \<Rightarrow> charmhub_args \<Rightarrow> exn + pyval \<Rightarrow> exn + verdict" where
  "verify_charmhub_release feq args stdin = (case stdin of
      Inl e \<Rightarrow> if exn_kind e = JSONDecodeError \<or> is_os_error e
        then Inr (Verdict 1 [] (''invalid Charmhub status JSON: '' @ exn_str e @ newline)) else Inl e
    | Inr status \<Rightarrow> (case charmhub_matches feq status args of
        Inl e \<Rightarrow> Inl e
      | Inr matches \<Rightarrow> if length matches \<noteq> 1
          then Inr (Verdict 1 [] (''Charmhub status does not contain exactly one open release for the requested revision, channel, and base'' @ newline))
          else Inr (Verdict 0 [] [])))"

section \<open>The integration run\<close>

record run_args =
  ra_repository :: string
  ra_run_id :: int
  ra_source_sha :: string
  ra_workflow_path :: string

definition full_name :: "pyval \<Rightarrow> pyval" where
  "full_name v = (if is_dict v then dict_get v ''full_name'' else PNone)"

datatype expectation = IsInt int | IsText string

definition expected_run :: "run_args \<Rightarrow> (string \<times> expectation) list" where
  "expected_run args =
     [(''id'', IsInt (ra_run_id args)), (''status'', IsText ''completed''), (''conclusion'', IsText ''success''),
      (''event'', IsText ''workflow_dispatch''), (''head_branch'', IsText ''main''), (''head_sha'', IsText (ra_source_sha args)),
      (''path'', IsText (ra_workflow_path args))]"

fun meets :: "(string \<Rightarrow> int \<Rightarrow> bool) \<Rightarrow> pyval \<Rightarrow> expectation \<Rightarrow> bool" where
  "meets feq v (IsInt i) = eq_int feq v i"
| "meets feq v (IsText t) = (v = PStr t)"

fun expectation_repr :: "expectation \<Rightarrow> string" where
  "expectation_repr (IsInt i) = str_of_int i"
| "expectation_repr (IsText t) = repr_str t"

definition mismatch :: "string \<Rightarrow> string \<Rightarrow> pyval \<Rightarrow> string" where
  "mismatch key wanted actual = key @ '': expected '' @ wanted @ '', got '' @ py_repr actual"

definition run_errors :: "(string \<Rightarrow> int \<Rightarrow> bool) \<Rightarrow> run_args \<Rightarrow> pyval \<Rightarrow> string list" where
  "run_errors feq args run =
     map (\<lambda>(k, x). mismatch k (expectation_repr x) (dict_get run k))
       (filter (\<lambda>(k, x). \<not> meets feq (dict_get run k) x) (expected_run args)) @
     map (\<lambda>k. mismatch k (repr_str (ra_repository args)) (full_name (dict_get run k)))
       (filter (\<lambda>k. full_name (dict_get run k) \<noteq> PStr (ra_repository args)) [''repository'', ''head_repository''])"

definition verify_integration_run :: "(string \<Rightarrow> int \<Rightarrow> bool) \<Rightarrow> run_args \<Rightarrow> exn + pyval \<Rightarrow> exn + verdict" where
  "verify_integration_run feq args stdin = (case stdin of
      Inl e \<Rightarrow> if exn_kind e = JSONDecodeError \<or> is_os_error e
        then Inr (Verdict 1 [] (''invalid GitHub Actions run JSON: '' @ exn_str e @ newline)) else Inl e
    | Inr run \<Rightarrow> (case py_get run ''id'' of
        Inl e \<Rightarrow> Inl e
      | Inr _ \<Rightarrow> let errors = run_errors feq args run in
          if errors \<noteq> [] then Inr (Verdict 1 [] (''integration run provenance mismatch: '' @ py_join ''; '' errors @ newline))
          else Inr (Verdict 0 [] [])))"

section \<open>The unified release\<close>

text \<open>Under \<open>fullmatch\<close> the anchors of the patterns hold at the two ends of the text.\<close>

definition dotted_rx :: rx where
  "dotted_rx = Cat (Lit ''.'') (Plus1 (Cls is_digit))"

definition is_label :: "char \<Rightarrow> bool" where
  "is_label c \<longleftrightarrow> is_digit c \<or> is_upper_ascii c \<or> is_lower_ascii c \<or> c = CHR ''.'' \<or> c = CHR ''-''"

definition SEMVER :: rx where
  "SEMVER = Cat (Plus1 (Cls is_digit)) (Cat (Rep 2 dotted_rx)
     (Opt (Cat (Cls (\<lambda>c. c = CHR ''-'' \<or> c = CHR ''+'')) (Plus1 (Cls is_label)))))"

definition is_lower_hex :: "char \<Rightarrow> bool" where
  "is_lower_hex c \<longleftrightarrow> is_digit c \<or> (97 \<le> code c \<and> code c \<le> 102)"

definition SHA :: rx where
  "SHA = Rep 40 (Cls is_lower_hex)"

definition not_newline :: "char \<Rightarrow> bool" where
  "not_newline c \<longleftrightarrow> c \<noteq> CHR 0x0A"

definition version_heading_rx :: "string \<Rightarrow> rx" where
  "version_heading_rx version = Cat Bol (Cat (Lit ''## ['') (Cat (Lit version) (Cat (Lit '']'')
     (Cat (Opt (Cat (Plus1 (Cls is_space)) (Cat (Lit ''-'') (Star (Cls not_newline))))) (Cat (Star (Cls is_space)) Eol)))))"

definition next_version_rx :: rx where
  "next_version_rx = Cat Bol (Lit ''## ['')"

definition vertical_heading_rx :: "string \<Rightarrow> rx" where
  "vertical_heading_rx vertical = Cat Bol (Cat (Lit ''### '') (Cat (Lit vertical) (Cat (Star (Cls is_space)) Eol)))"

definition next_heading_rx :: rx where
  "next_heading_rx = Cat Bol (Cat (Lit ''#'') (Cat (Opt (Lit ''#'')) (Cat (Opt (Lit ''#'')) (Lit '' ''))))"

text \<open>\<open>s[m.end():]\<close> for the first match, and the text up to the first match or the end.\<close>

definition text_after :: "rx \<Rightarrow> string \<Rightarrow> string option" where
  "text_after r s = map_option (\<lambda>(l, p, g). snd p) (search_from r [] s)"

definition text_before :: "rx \<Rightarrow> string \<Rightarrow> string" where
  "text_before r s = (case search_from r [] s of None \<Rightarrow> s | Some (l, p, g) \<Rightarrow> rev l)"

definition release_section :: "string \<Rightarrow> string \<Rightarrow> string option" where
  "release_section changelog version = map_option (text_before next_version_rx) (text_after (version_heading_rx version) changelog)"

definition vertical_has_body :: "string \<Rightarrow> string \<Rightarrow> bool" where
  "vertical_has_body section vertical = (case text_after (vertical_heading_rx vertical) section of
      None \<Rightarrow> False
    | Some rest \<Rightarrow> py_strip (text_before next_heading_rx rest) \<noteq> [])"

definition load_release :: "exn + pyval \<Rightarrow> exn + pyval" where
  "load_release stdin = (case stdin of
      Inl e \<Rightarrow> Inl e
    | Inr release \<Rightarrow> if is_dict release then Inr release else Inl (Exn ValueError ''GitHub release JSON must be an object''))"

record unified_args =
  ua_source_sha :: string
  ua_tag_commit :: string

definition version_of_file :: "string \<Rightarrow> string" where
  "version_of_file content = remove_prefix ''v'' (py_strip content)"

definition unified_errors :: "unified_args \<Rightarrow> string \<Rightarrow> string \<Rightarrow> pyval \<Rightarrow> string list" where
  "unified_errors args version changelog release =
     (if re_fullmatch SEMVER version = None then [''VERSION is not SemVer: '' @ repr_str version] else []) @
     (if re_fullmatch SHA (ua_source_sha args) = None then [''source SHA must contain 40 lowercase hexadecimal characters''] else []) @
     (if re_fullmatch SHA (ua_tag_commit args) = None then [''tag commit must contain 40 lowercase hexadecimal characters''] else []) @
     (if ua_tag_commit args \<noteq> ua_source_sha args
      then [''unified tag commit '' @ repr_str (ua_tag_commit args) @ '' does not match source '' @ repr_str (ua_source_sha args)] else []) @
     (if dict_get release ''tagName'' \<noteq> PStr (''v'' @ version) then [''GitHub release tag must be '' @ repr_str (''v'' @ version)] else []) @
     (if dict_get release ''isDraft'' \<noteq> PBool False then [''GitHub release must not be a draft''] else []) @
     (if dict_get release ''isPrerelease'' \<noteq> PBool False then [''GitHub release must be final''] else []) @
     (case release_section changelog version of
        None \<Rightarrow> [''CHANGELOG.md has no ['' @ version @ ''] section'']
      | Some section \<Rightarrow> map (\<lambda>vertical. ''CHANGELOG.md ['' @ version @ ''] has no non-empty '' @ vertical @ '' section'')
          (filter (\<lambda>vertical. \<not> vertical_has_body section vertical) [''Charm'', ''Proxy'']))"

definition unified_input :: "exn + string \<Rightarrow> exn + string \<Rightarrow> exn + pyval \<Rightarrow> exn + string \<times> string \<times> pyval" where
  "unified_input version_file changelog_file stdin = (case version_file of
      Inl e \<Rightarrow> Inl e
    | Inr v \<Rightarrow> (case changelog_file of
        Inl e \<Rightarrow> Inl e
      | Inr c \<Rightarrow> (case load_release stdin of Inl e \<Rightarrow> Inl e | Inr r \<Rightarrow> Inr (version_of_file v, c, r))))"

text \<open>\<open>UnicodeError\<close> and \<open>JSONDecodeError\<close> are subclasses of \<open>ValueError\<close>.\<close>

definition verify_unified_release :: "unified_args \<Rightarrow> exn + string \<Rightarrow> exn + string \<Rightarrow> exn + pyval \<Rightarrow> exn + verdict" where
  "verify_unified_release args version_file changelog_file stdin = (case unified_input version_file changelog_file stdin of
      Inl e \<Rightarrow> if is_os_error e \<or> is_value_error e
        then Inr (Verdict 1 [] (''invalid unified release input: '' @ exn_str e @ newline)) else Inl e
    | Inr (version, changelog, release) \<Rightarrow>
        let errors = unified_errors args version changelog release in
        if errors \<noteq> [] then Inr (Verdict 1 [] (''unified release mismatch: '' @ py_join ''; '' errors @ newline))
        else Inr (Verdict 0 (''v'' @ version @ newline) []))"

section \<open>The provenance document\<close>

definition DIGEST :: rx where
  "DIGEST = Rep 64 (Cls is_lower_hex)"

definition TAG :: rx where
  "TAG = Cat (Lit ''v'') SEMVER"

definition positive :: "string \<Rightarrow> exn + int" where
  "positive value_text = (case py_int value_text of
      None \<Rightarrow> Inl (invalid_int value_text)
    | Some parsed \<Rightarrow> if parsed \<le> 0 then Inl (Exn ArgumentError ''value must be positive'') else Inr parsed)"

record provenance_args =
  pa_artifact :: path
  pa_artifact_sha256 :: string
  pa_channel :: string
  pa_revision :: int
  pa_integration_run_id :: int
  pa_release_tag :: string
  pa_source_sha :: string
  pa_output :: path

text \<open>\<open>json.dumps(..., indent=2, sort_keys=True)\<close> of a flat dictionary of texts and numbers whose keys are sorted.\<close>

definition json_char :: "char \<Rightarrow> string" where
  "json_char c =
     (if c = CHR 0x22 \<or> c = CHR 0x5C then [CHR 0x5C, c]
      else if code c = 8 then [CHR 0x5C, CHR ''b'']
      else if code c = 9 then [CHR 0x5C, CHR ''t'']
      else if code c = 10 then [CHR 0x5C, CHR ''n'']
      else if code c = 12 then [CHR 0x5C, CHR ''f'']
      else if code c = 13 then [CHR 0x5C, CHR ''r'']
      else if 32 \<le> code c \<and> code c < 128 then [c]
      else [CHR 0x5C, CHR ''u'', CHR ''0'', CHR ''0'', hex_digit (code c div 16), hex_digit (code c mod 16)])"

definition json_text :: "string \<Rightarrow> string" where
  "json_text s = [CHR 0x22] @ concat (map json_char s) @ [CHR 0x22]"

fun json_scalar :: "expectation \<Rightarrow> string" where
  "json_scalar (IsInt i) = str_of_int i"
| "json_scalar (IsText t) = json_text t"

definition json_flat :: "(string \<times> expectation) list \<Rightarrow> string" where
  "json_flat kvs = ''{'' @ newline @ py_join ('','' @ newline) (map (\<lambda>(k, v). ''  '' @ json_text k @ '': '' @ json_scalar v) kvs) @ newline @ ''}''"

definition provenance :: "provenance_args \<Rightarrow> string \<Rightarrow> (string \<times> expectation) list" where
  "provenance args actual_digest =
     [(''artifact'', IsText (path_name (pa_artifact args))), (''artifact_sha256'', IsText actual_digest), (''channel'', IsText (pa_channel args)),
      (''charm'', IsText ''bitcoin-rpc''), (''charmhub_revision'', IsInt (pa_revision args)),
      (''integration_run_id'', IsInt (pa_integration_run_id args)),
      (''integration_workflow'', IsText ''.github/workflows/charm-integration.yml''),
      (''release_tag'', IsText (pa_release_tag args)), (''source_sha'', IsText (pa_source_sha args))]"

definition write_charm_provenance :: "'h env \<Rightarrow> provenance_args \<Rightarrow> ('h world, int) io" where
  "write_charm_provenance E args =
     (if re_fullmatch DIGEST (pa_artifact_sha256 args) = None
      then raise_exn (Exn SystemExit ''artifact SHA-256 must contain 64 lowercase hexadecimal characters'')
      else if re_fullmatch SHA (pa_source_sha args) = None
      then raise_exn (Exn SystemExit ''source SHA must contain 40 lowercase hexadecimal characters'')
      else if re_fullmatch TAG (pa_release_tag args) = None
      then raise_exn (Exn SystemExit ''release tag must be v<SemVer>'')
      else bindIO (read_file E (pa_artifact args)) (\<lambda>content.
        let actual_digest = env_sha256 E content in
        if actual_digest \<noteq> pa_artifact_sha256 args
        then raise_exn (Exn SystemExit (''artifact SHA-256 mismatch: expected '' @ pa_artifact_sha256 args @ '', got '' @ actual_digest))
        else seqIO (write_file E (pa_output args) (json_flat (provenance args actual_digest) @ newline)) (ret 0)))"

end
