(* ===== verification/Release_Gate_Spec.thy ===== *)
theory Release_Gate_Spec
  imports Release_Gate Lab
begin

text \<open>
  What a publication has passed when the scripts let it through: each script's exit code as a condition on
  its inputs, and the hand-over from the release gate to the provenance document.
\<close>

section \<open>The integration run\<close>

text \<open>
  (C37) The run check accepts exactly the documents of a finished, successful, manually dispatched run
  of the given workflow on the main branch at the given commit, with the given number, in the given
  repository and not in a fork. Everything else, input that is not JSON included, is refused.
\<close>

theorem integration_run_accepted_iff:
  "accepted (verify_integration_run feq args stdin) \<longleftrightarrow>
   (\<exists>run. stdin = Inr run \<and> is_dict run
      \<and> eq_int feq (dict_get run ''id'') (ra_run_id args)
      \<and> dict_get run ''status'' = PStr ''completed'' \<and> dict_get run ''conclusion'' = PStr ''success''
      \<and> dict_get run ''event'' = PStr ''workflow_dispatch'' \<and> dict_get run ''head_branch'' = PStr ''main''
      \<and> dict_get run ''head_sha'' = PStr (ra_source_sha args) \<and> dict_get run ''path'' = PStr (ra_workflow_path args)
      \<and> dict_get (dict_get run ''repository'') ''full_name'' = PStr (ra_repository args)
      \<and> dict_get (dict_get run ''head_repository'') ''full_name'' = PStr (ra_repository args))"
proof (cases stdin)
  case (Inl e)
  then show ?thesis by (simp add: verify_integration_run_def accepted_def)
next
  case (Inr run)
  have name: "full_name v = PStr t \<longleftrightarrow> dict_get v ''full_name'' = PStr t" for v t
    by (cases v) (simp_all add: full_name_def)
  have errors: "run_errors feq args run = [] \<longleftrightarrow>
      list_all (\<lambda>(k, x). meets feq (dict_get run k) x) (expected_run args)
      \<and> list_all (\<lambda>k. full_name (dict_get run k) = PStr (ra_repository args)) [''repository'', ''head_repository'']"
    by (auto simp: run_errors_def filter_empty_conv list_all_iff)
  show ?thesis
    by (auto simp: Inr verify_integration_run_def accepted_def py_get_def Let_def errors expected_run_def name)
qed

section \<open>The release in the store\<close>

text \<open>All releases of a status document with the base they are for, in the order of the document.\<close>

definition elems :: "pyval \<Rightarrow> pyval list" where
  "elems v = (case py_iter v of Inl _ \<Rightarrow> [] | Inr vs \<Rightarrow> vs)"

definition iterates :: "pyval \<Rightarrow> bool" where
  "iterates v = (case py_iter v of Inl _ \<Rightarrow> False | Inr _ \<Rightarrow> True)"

definition mappings_of :: "pyval \<Rightarrow> pyval" where
  "mappings_of track = dict_get_or track ''mappings'' (PList [])"

definition releases_of :: "pyval \<Rightarrow> pyval" where
  "releases_of mapping = dict_get_or mapping ''releases'' (PList [])"

definition offers :: "pyval list \<Rightarrow> (pyval \<times> pyval) list" where
  "offers tracks = concat (map (\<lambda>t. concat (map (\<lambda>m. map (\<lambda>r. (dict_get m ''base'', r)) (elems (releases_of m))) (elems (mappings_of t)))) tracks)"

definition status_document :: "pyval list \<Rightarrow> bool" where
  "status_document tracks \<longleftrightarrow> list_all (\<lambda>t. iterates (mappings_of t) \<and> list_all (\<lambda>m. iterates (releases_of m)) (elems (mappings_of t))) tracks"

definition wanted_offer :: "(string \<Rightarrow> int \<Rightarrow> bool) \<Rightarrow> charmhub_args \<Rightarrow> pyval \<times> pyval \<Rightarrow> bool" where
  "wanted_offer feq args br = (eq_text_dict (fst br) (expected_base args) \<and> release_matches feq args (snd br))"

lemma collect_sum_Inr:
  "(\<And>x. x \<in> set xs \<Longrightarrow> f x = Inr (g x)) \<Longrightarrow> collect_sum f xs = Inr (concat (map g xs))"
  by (induction xs) simp_all

lemma py_iter_elems: "iterates v \<Longrightarrow> py_iter v = Inr (elems v)"
  by (simp add: iterates_def elems_def split: sum.splits)

lemma not_dict: "\<not> is_dict v \<Longrightarrow> dict_get v k = PNone \<and> dict_get_or v k d = d"
  by (cases v) (simp_all add: dict_get_or_def has_key_def)

lemma elems_Nil: "elems (PList []) = []"
  by (simp add: elems_def py_iter_def)

lemma mapping_matches_offers:
  assumes "iterates (releases_of m)"
  shows "mapping_matches feq args m = Inr (map snd (filter (wanted_offer feq args) (map (\<lambda>r. (dict_get m ''base'', r)) (elems (releases_of m)))))"
proof (cases "is_dict m \<and> eq_text_dict (dict_get m ''base'') (expected_base args)")
  case True
  with py_iter_elems [OF assms] show ?thesis
    by (simp add: mapping_matches_def releases_of_def wanted_offer_def filter_map comp_def)
next
  case False
  then show ?thesis
    by (auto simp: mapping_matches_def wanted_offer_def filter_map comp_def not_dict releases_of_def elems_Nil)
qed

lemma track_matches_offers:
  assumes "iterates (mappings_of t)" and "list_all (\<lambda>m. iterates (releases_of m)) (elems (mappings_of t))"
  shows "track_matches feq args t = Inr (map snd (filter (wanted_offer feq args) (offers [t])))"
proof (cases "is_dict t")
  case True
  have "collect_sum (mapping_matches feq args) (elems (mappings_of t)) = Inr (concat (map (\<lambda>m. map snd (filter (wanted_offer feq args)
      (map (\<lambda>r. (dict_get m ''base'', r)) (elems (releases_of m))))) (elems (mappings_of t))))"
    using assms(2) by (intro collect_sum_Inr mapping_matches_offers) (simp add: list_all_iff)
  with True py_iter_elems [OF assms(1)] show ?thesis
    by (simp add: track_matches_def mappings_of_def offers_def filter_concat map_concat comp_def)
next
  case False
  then show ?thesis by (simp add: track_matches_def offers_def mappings_of_def not_dict elems_Nil)
qed

lemma charmhub_matches_offers:
  assumes "status_document tracks"
  shows "charmhub_matches feq (PList tracks) args = Inr (map snd (filter (wanted_offer feq args) (offers tracks)))"
proof -
  have "charmhub_matches feq (PList tracks) args
      = Inr (concat (map (\<lambda>t. map snd (filter (wanted_offer feq args) (offers [t]))) tracks))"
    using assms unfolding charmhub_matches_def status_document_def
    by (auto simp: list_all_iff intro!: collect_sum_Inr track_matches_offers)
  then show ?thesis by (simp add: offers_def filter_concat map_concat comp_def)
qed


definition lab_charmhub_args :: charmhub_args where
  "lab_charmhub_args = \<lparr>ch_revision = 17, ch_channel = ''latest/edge'', ch_base_name = ''ubuntu'', ch_base_channel = ''24.04'', ch_architecture = ''amd64''\<rparr>"

definition lab_release :: pyval where
  "lab_release = PDict [(PStr ''status'', PStr ''open''), (PStr ''channel'', PStr ''latest/edge''), (PStr ''version'', PStr ''0.4.0''), (PStr ''revision'', PInt 17)]"

definition lab_tracks :: "pyval list" where
  "lab_tracks = [PDict [(PStr ''track'', PStr ''latest''), (PStr ''mappings'', PList [PDict [
     (PStr ''base'', PDict [(PStr ''name'', PStr ''ubuntu''), (PStr ''architecture'', PStr ''amd64''), (PStr ''channel'', PStr ''24.04'')]),
     (PStr ''releases'', PList [lab_release])]])]]"


section \<open>The unified release\<close>

definition lower_hex :: "nat \<Rightarrow> string \<Rightarrow> bool" where
  "lower_hex n s \<longleftrightarrow> length s = n \<and> list_all is_lower_hex s"

lemma gate_plain: "plain SEMVER" "plain TAG" "plain SHA" "plain DIGEST"
  by (simp_all add: SEMVER_def TAG_def SHA_def DIGEST_def dotted_rx_def numeral_2_eq_2)

lemma fullmatch_None: "plain r \<Longrightarrow> re_fullmatch r s = None \<longleftrightarrow> \<not> rx_lang r s"
  using re_fullmatch_iff_lang [of r s] by auto

lemma sha_lang: "rx_lang SHA s \<longleftrightarrow> lower_hex 40 s" "rx_lang DIGEST s \<longleftrightarrow> lower_hex 64 s"
  by (simp_all add: SHA_def DIGEST_def rx_lang_Rep_Cls lower_hex_def list_all_iff)

lemma tag_lang: "rx_lang SEMVER s \<Longrightarrow> rx_lang TAG (''v'' @ s)"
  unfolding TAG_def by (rule lang_Cat) (simp_all add: rx_lang_Lit)

lemma unified_errors_Nil:
  "unified_errors args version changelog release = [] \<longleftrightarrow>
   rx_lang SEMVER version \<and> lower_hex 40 (ua_source_sha args) \<and> ua_tag_commit args = ua_source_sha args
   \<and> dict_get release ''tagName'' = PStr (''v'' @ version)
   \<and> dict_get release ''isDraft'' = PBool False \<and> dict_get release ''isPrerelease'' = PBool False
   \<and> (\<exists>section. release_section changelog version = Some section \<and> vertical_has_body section ''Charm'' \<and> vertical_has_body section ''Proxy'')"
  by (auto simp: unified_errors_def fullmatch_None gate_plain sha_lang split: option.splits if_splits)

lemma unified_verdict:
  assumes "verify_unified_release args version_file changelog_file stdin = Inr v" and "exit_code v = 0"
  obtains content changelog release where "version_file = Inr content" "changelog_file = Inr changelog" "stdin = Inr release" "is_dict release"
    "unified_errors args (version_of_file content) changelog release = []" "v = Verdict 0 (''v'' @ version_of_file content @ newline) []"
  using assms
  by (auto simp: verify_unified_release_def unified_input_def load_release_def Let_def split: sum.splits if_splits prod.splits)


section \<open>The provenance document\<close>

lemma read_artifact:
  "read_file E p w = (v, x) \<Longrightarrow> files v = files w \<and> (case x of Inr d \<Rightarrow> map_option fdata (files w p) = Some d | Inl _ \<Rightarrow> True)"
  by (auto simp: read_file_def seqIO_run fs_check_def split: prod.splits option.splits sum.splits)

lemma write_output:
  "write_file E p d v = (w', x) \<Longrightarrow> (\<forall>q. q \<noteq> p \<longrightarrow> files w' q = files v q) \<and> (x = Inr () \<longrightarrow> map_option fdata (files w' p) = Some d)"
  by (auto simp: write_file_def set_file_def with_data_def split: prod.splits option.splits)

text \<open>
  (C39) A provenance document is only written for the announced artifact. However the script ends, it
  changes no file but its output; when the artifact's SHA-256 is not the announced one, it changes
  none and fails; and when it returns, the artifact had the announced digest and the output holds the
  document with that digest and the given channel, revision, run, tag and commit.
\<close>

theorem provenance_binds_artifact:
  assumes run: "write_charm_provenance E args w = (w', r)"
  shows "(\<forall>p. p \<noteq> pa_output args \<longrightarrow> files w' p = files w p)
    \<and> (map_option (\<lambda>f. env_sha256 E (fdata f)) (files w (pa_artifact args)) \<noteq> Some (pa_artifact_sha256 args)
         \<longrightarrow> files w' = files w \<and> (\<exists>e. r = Inl e))
    \<and> (\<forall>c. r = Inr c \<longrightarrow> c = 0 \<and> map_option fdata (files w' (pa_output args))
         = Some (json_flat (provenance args (pa_artifact_sha256 args)) @ newline))"
proof (cases "re_fullmatch DIGEST (pa_artifact_sha256 args) = None \<or> re_fullmatch SHA (pa_source_sha args) = None
    \<or> re_fullmatch TAG (pa_release_tag args) = None")
  case True
  with run show ?thesis by (auto simp: write_charm_provenance_def split: if_splits)
next
  case False
  obtain v x where x: "read_file E (pa_artifact args) w = (v, x)" by fastforce
  note r = read_artifact [OF x]
  show ?thesis
  proof (cases "\<exists>d. x = Inr d \<and> env_sha256 E d = pa_artifact_sha256 args")
    case True
    then obtain d where d: "x = Inr d" "env_sha256 E d = pa_artifact_sha256 args" by blast
    obtain u y where y: "write_file E (pa_output args) (json_flat (provenance args (pa_artifact_sha256 args)) @ newline) v = (u, y)" by fastforce
    from False run x d y have "w' = u" "r = (case y of Inl e \<Rightarrow> Inl e | Inr _ \<Rightarrow> Inr 0)"
      by (auto simp: write_charm_provenance_def bindIO_run seqIO_run split: sum.splits)
    with write_output [OF y] r d show ?thesis by (auto split: sum.splits)
  next
    case bad: False
    with False run x r show ?thesis
      by (auto simp: write_charm_provenance_def bindIO_run Let_def split: sum.splits if_splits)
  qed
qed

definition lab_provenance :: provenance_args where
  "lab_provenance = \<lparr>pa_artifact = CLI_PATH, pa_artifact_sha256 = lab_digest, pa_channel = ''latest/candidate'', pa_revision = 17,
     pa_integration_run_id = 12345, pa_release_tag = ''v0.5.0'', pa_source_sha = replicate 40 (CHR ''1''), pa_output = ''provenance.json''\<rparr>"

lemma lab_provenance_args:
  "re_fullmatch DIGEST (pa_artifact_sha256 lab_provenance) \<noteq> None" "re_fullmatch SHA (pa_source_sha lab_provenance) \<noteq> None"
  "re_fullmatch TAG (pa_release_tag lab_provenance) \<noteq> None"
proof -
  have "is_lower_hex (CHR ''a'')" "is_lower_hex (CHR ''1'')" by code_simp+
  then show "re_fullmatch DIGEST (pa_artifact_sha256 lab_provenance) \<noteq> None" "re_fullmatch SHA (pa_source_sha lab_provenance) \<noteq> None"
    by (simp_all add: fullmatch_None gate_plain sha_lang lower_hex_def lab_provenance_def lab_digest_def list_all_iff)
  show "re_fullmatch TAG (pa_release_tag lab_provenance) \<noteq> None" by code_simp
qed

lemma lab_read_artifact: "read_file lab (pa_artifact lab_provenance) lab_world = (lab_world, Inr ''old cli'')"
  by (simp add: read_file_def seqIO_run fs_check_def lab_def lab_fault_def lab_provenance_def lab_world_def)

theorem provenance_binds_artifact_witness:
  "\<exists>w'. write_charm_provenance lab lab_provenance lab_world = (w', Inr 0)
    \<and> map_option fdata (files w' ''provenance.json'') = Some (json_flat (provenance lab_provenance lab_digest) @ newline)"
proof -
  obtain w' r where run: "write_charm_provenance lab lab_provenance lab_world = (w', r)" by fastforce
  have "env_sha256 lab ''old cli'' = pa_artifact_sha256 lab_provenance" by (simp add: lab_def lab_sha256_def lab_provenance_def)
  with run lab_provenance_args lab_read_artifact have "r = Inr 0"
    by (auto simp: write_charm_provenance_def bindIO_run seqIO_run write_file_def lab_def lab_fault_def)
  with run provenance_binds_artifact [OF run] show ?thesis by (simp add: lab_provenance_def)
qed

text \<open>
  (C40) What the release gate lets through, the provenance script takes: with the tag the gate printed and
  the commit it checked, the script gets as far as the artifact, and the artifact's digest alone
  decides whether the document is written.
\<close>

theorem provenance_follows_gate:
  assumes tag: "verify_unified_release ua version_file changelog_file stdin = Inr (Verdict 0 (pa_release_tag args @ newline) [])"
    and sha: "pa_source_sha args = ua_source_sha ua" and digest: "lower_hex 64 (pa_artifact_sha256 args)"
    and read: "read_file E (pa_artifact args) w = (v, Inr content)"
  shows "write_charm_provenance E args w =
    (if env_sha256 E content = pa_artifact_sha256 args
     then seqIO (write_file E (pa_output args) (json_flat (provenance args (pa_artifact_sha256 args)) @ newline)) (ret 0) v
     else (v, Inl (Exn SystemExit (''artifact SHA-256 mismatch: expected '' @ pa_artifact_sha256 args @ '', got '' @ env_sha256 E content))))"
proof -
  obtain c where c: "rx_lang SEMVER (version_of_file c)" "lower_hex 40 (ua_source_sha ua)" "pa_release_tag args = ''v'' @ version_of_file c"
    by (rule unified_verdict [OF tag]) (auto simp: unified_errors_Nil)
  have "rx_lang TAG (pa_release_tag args)" unfolding c(3) by (rule tag_lang) (rule c(1))
  moreover have "rx_lang SHA (pa_source_sha args)" using c(2) by (simp add: sha_lang sha)
  moreover have "rx_lang DIGEST (pa_artifact_sha256 args)" using digest by (simp add: sha_lang)
  ultimately show ?thesis
    using read by (simp add: write_charm_provenance_def fullmatch_None gate_plain bindIO_run Let_def)
qed

definition lab_changelog :: string where
  "lab_changelog = ''## [0.5.0]'' @ newline @ ''### Charm'' @ newline @ ''- a'' @ newline @ ''### Proxy'' @ newline @ ''- b''"

definition lab_unified :: unified_args where
  "lab_unified = \<lparr>ua_source_sha = replicate 40 (CHR ''1''), ua_tag_commit = replicate 40 (CHR ''1'')\<rparr>"

lemma lab_gate:
  "verify_unified_release lab_unified (Inr (''0.5.0'' @ newline)) (Inr lab_changelog)
     (Inr (PDict [(PStr ''tagName'', PStr ''v0.5.0''), (PStr ''isDraft'', PBool False), (PStr ''isPrerelease'', PBool False)]))
   = Inr (Verdict 0 (pa_release_tag lab_provenance @ newline) [])"
  by code_simp

theorem provenance_follows_gate_witness:
  "\<exists>w'. write_charm_provenance lab lab_provenance lab_world = (w', Inr 0)"
proof -
  have "is_lower_hex (CHR ''a'')" by code_simp
  then have d: "lower_hex 64 (pa_artifact_sha256 lab_provenance)"
    by (simp add: lower_hex_def lab_provenance_def lab_digest_def list_all_iff)
  have s: "env_sha256 lab ''old cli'' = pa_artifact_sha256 lab_provenance" by (simp add: lab_def lab_sha256_def lab_provenance_def)
  have "pa_source_sha lab_provenance = ua_source_sha lab_unified" by (simp add: lab_provenance_def lab_unified_def)
  from provenance_follows_gate [OF lab_gate this d lab_read_artifact] s show ?thesis by (simp add: lab_provenance_def seqIO_run write_file_def lab_def lab_fault_def)
qed

end
