(* ===== verification/Spec2Isabelle.thy ===== *)
theory Spec2Isabelle
  imports Args_Spec Release_Spec Transaction_Spec Redaction_Spec Metadata_Spec Charm_Spec Charm_Recovery Prometheus
    Monitor_Spec Release_Gate_Spec
begin

text \<open>
  A verification development for the Bitcoin RPC operator, a Juju charm in Python that runs a Bitcoin Core
  node, a filtering RPC proxy in front of it and a Prometheus exporter beside it on one machine.

  \<^bold>\<open>The program.\<close> Juju calls the handlers of \<open>src/charm.py\<close> for hooks and actions. They keep a stored state (the
  configuration seen last and an event log) and work through \<open>src/utils.py\<close>, which renders three environment
  files, controls three systemd units and applies a changed configuration as one transaction that is rolled
  back when a step fails. Upgrades of the node go through \<open>src/bitcoin.py\<close>: download, check against the published
  checksum, stage, stop, swap, start, check the version, roll back. What leaves the machine, action results
  and metadata documents, goes through the redaction of \<open>src/bitcoin_metadata.py\<close>. \<open>src/interface_prometheus.py\<close>
  offers scrape jobs, \<open>templates/bitcoind-monitor.py\<close> is the exporter that is installed, and the scripts under
  \<open>.github/scripts\<close> decide whether a build of the charm may be published.

  \<^bold>\<open>How it is modelled.\<close> An effectful function is a function from a world to a world and either an exception or a
  result (\<open>Prelude\<close>); \<open>try\<close>, \<open>with\<close>, \<open>for\<close> and the loops that collect errors are operators on such functions. The
  world (\<open>Host\<close>) is a file system, content and mode per path, and an abstract host; every file operation, command
  and request asks an environment record for its outcome, so all theorems hold for every way in which they
  fail, partial writes included. Strings are lists of characters with code points below 256, Python numbers are \<open>int\<close>,
  JSON values and configuration options the datatype \<open>pyval\<close>.

  \<^bold>\<open>The theories.\<close>
  \<^item> Python: \<open>Py_Text\<close> (\<open>str\<close>, paths), \<open>Py_Value\<close> and \<open>Py_Object\<close> (values), \<open>Py_Regex\<close> (\<open>re\<close> with backtracking, and the language of
    a pattern), \<open>Py_Url\<close> (\<open>urlsplit\<close>).
  \<^item> \<open>src/constants.py\<close>: \<open>Constants\<close>.
  \<^item> \<open>src/bitcoin.py\<close>: \<open>Release\<close>; \<open>Release_Safety\<close> interprets the roll-back contract \<open>restorable\<close> on the swap of the binaries;
    \<open>Release_Spec\<close> shows that an installed binary was verified, that a failed upgrade leaves both binaries old or both new, and
    that nothing is interrupted before verification.
  \<^item> \<open>src/utils.py\<close>: \<open>Services\<close> (units, polls), \<open>Service_Args\<close> (rendered files), \<open>Install\<close>, \<open>Config_Transaction\<close> (which interprets
    \<open>restorable\<close> on the captured files) and \<open>Host_Info\<close>. \<open>Args_Spec\<close> shows what hardening keeps, pins and removes, that the three files
    agree on the credentials, and how long a poll lasts; \<open>Transaction_Spec\<close> that a transaction that raises leaves every
    managed file as it was or says that it could not, and that one that returns leaves one generation.
  \<^item> \<open>src/bitcoin_metadata.py\<close>: \<open>Redaction\<close> and \<open>Redaction_Spec\<close> (nothing below a sensitive key has any influence on what leaves; the mutual
    recursion of text and value redaction terminates), \<open>Metadata\<close> and \<open>Metadata_Spec\<close> (flags, the model view, which errors become messages).
  \<^item> \<open>src/charm.py\<close>: \<open>Charm\<close>. \<open>Charm_Laws\<close>, \<open>Charm_Machine\<close> and \<open>Charm_Trace\<close> lift relations on parts of the state, on the machine and on the commands
    issued to whole handlers. \<open>Charm_Spec\<close> shows that in every reachable state of a unit in service the files on disk are
    those rendered from the stored configuration (an inductive step relation over hooks and actions), that the event log is the
    newest part of the history, that the status follows a decision table, and which commands each handler issues.
    \<open>Charm_Recovery\<close> follows a hook that raises after its transaction.
  \<^item> \<open>src/interface_prometheus.py\<close>: \<open>Prometheus\<close>.
  \<^item> \<open>templates/bitcoind-monitor.py\<close>: \<open>Monitor\<close>, \<open>Monitor_Laws\<close> (locales \<open>fetch_relation\<close> and \<open>refresh_relation\<close>) and \<open>Monitor_Spec\<close> (the exporter
    reaches the node with the rendered settings, publishes what it was answered, keeps its gauges when a fetch fails, and keeps
    to its rate limit).
  \<^item> \<open>.github/scripts\<close>: \<open>Release_Gate\<close> and \<open>Release_Gate_Spec\<close> (what each script accepts, and what a provenance document
    certifies).
  \<^item> \<open>Lab\<close> is a concrete host on which the theorems with hypotheses are exercised.

  \<^bold>\<open>Bounds.\<close> The recursion between the redaction of text and of values found in it carries fuel; one more than the length of
  the text is enough, because every nested value is shorter than its text, and \<open>Redaction_Spec\<close> shows that any larger fuel gives the
  same result. The polls are bounded as in the code (4 for a unit, 30 for the node's version); the event log has 256
  entries; the requests of the exporter are counted by an arbitrary number. Everything else is structural or has a
  termination proof.

  \<^bold>\<open>Parameters.\<close> What is not in the repository is an argument with its documented behaviour as hypothesis, where
  a theorem needs one: the operating system, \<open>systemctl\<close> and \<open>requests\<close> (environment), \<open>json\<close> of arbitrary values (codec), the metadata collector, the
  commit of the stored state at the end of a hook by the \<open>ops\<close> framework, \<open>riprova.retry\<close> (it acts on the exporter only through the
  function and the call-back it is given), \<open>python-bitcoinlib\<close>, the clock and SHA-256. Gauges and counters of
  \<open>prometheus_client\<close> are modelled as the values they hold and the names they register.

  \<^bold>\<open>Not modelled.\<close> Log output, help texts of metrics, the argument parsers of the scripts before their values, the
  start-up of the exporter's server, and character sets beyond Latin-1. The RPC proxy is a Go program; the charm
  installs and configures it, and the model has it as a file and a service. Tests, workflows and documentation were read
  for what the code is meant to do.
\<close>

end
